(* ===== verification/Prelude.thy ===== *)
theory Prelude
  imports Main "HOL-Library.AList" "HOL-Library.Sublist" "HOL-Library.List_Lexorder"
    "HOL-Library.Char_ord" "HOL-Library.Multiset"
begin

text \<open>
  Shared vocabulary of the development: the lemma collections the component theories
  feed, and the generic list, option and sum operations that the Python sources use
  implicitly (\<open>enumerate\<close> with an early \<open>return\<close>, \<open>list.pop(i)\<close>, list
  comprehensions and \<open>any(...)\<close> whose element test may raise).
\<close>

named_theorems model_simps "equations of the model evaluated by witnesses and proofs"
named_theorems store_frame "facts saying which collections an operation leaves alone"

subsection \<open>First index satisfying a test (the \<open>for i, x in enumerate(xs): if ...: return\<close> loop)\<close>

fun find_idx :: "('a \<Rightarrow> bool) \<Rightarrow> 'a list \<Rightarrow> nat option" where
  "find_idx P [] = None"
| "find_idx P (x # xs) = (if P x then Some 0 else map_option Suc (find_idx P xs))"

subsection \<open>\<open>list.pop(i)\<close> for an index in range\<close>

definition remove_nth :: "nat \<Rightarrow> 'a list \<Rightarrow> 'a list" where
  "remove_nth i xs = take i xs @ drop (Suc i) xs"

subsection \<open>Python indexing and slicing of lists\<close>

text \<open>
  \<open>xs[i]\<close> counts a negative index from the end and raises \<open>IndexError\<close> out of
  range; \<open>xs[a:b]\<close> clamps both bounds into \<open>[0, len]\<close> after adding the length
  to a negative bound, and is empty when the bounds cross.
\<close>

definition py_index :: "'a list \<Rightarrow> int \<Rightarrow> 'a option" where
  "py_index xs i =
     (let n = int (length xs); j = (if i < 0 then i + n else i)
      in if 0 \<le> j \<and> j < n then Some (xs ! nat j) else None)"

definition slice_bound :: "int \<Rightarrow> nat \<Rightarrow> nat" where
  "slice_bound i n = (if i < 0 then nat (max 0 (i + int n)) else nat (min i (int n)))"

definition py_slice :: "'a list \<Rightarrow> int \<Rightarrow> int \<Rightarrow> 'a list" where
  "py_slice xs a b =
     (let a' = slice_bound a (length xs); b' = slice_bound b (length xs)
      in take (b' - a') (drop a' xs))"

subsection \<open>Comprehensions whose test may raise\<close>

text \<open>
  \<open>[x for x in xs if t(x)]\<close> where evaluating \<open>t\<close> may raise: the first exception
  aborts the whole comprehension. \<open>any(t(x) for x in xs)\<close> stops at the first true
  test, so a later element that would raise is never evaluated.
\<close>

fun filter_err :: "('a \<Rightarrow> 'e + bool) \<Rightarrow> 'a list \<Rightarrow> 'e + 'a list" where
  "filter_err t [] = Inr []"
| "filter_err t (x # xs) =
     (case t x of
        Inl e \<Rightarrow> Inl e
      | Inr b \<Rightarrow> (case filter_err t xs of
                   Inl e \<Rightarrow> Inl e
                 | Inr ys \<Rightarrow> Inr (if b then x # ys else ys)))"

fun any_err :: "('a \<Rightarrow> 'e + bool) \<Rightarrow> 'a list \<Rightarrow> 'e + bool" where
  "any_err t [] = Inr False"
| "any_err t (x # xs) =
     (case t x of
        Inl e \<Rightarrow> Inl e
      | Inr True \<Rightarrow> Inr True
      | Inr False \<Rightarrow> any_err t xs)"

text \<open>\<open>[f(x) for x in xs]\<close> where \<open>f\<close> may raise: the first exception aborts.\<close>

fun map_err :: "('a \<Rightarrow> 'e + 'b) \<Rightarrow> 'a list \<Rightarrow> 'e + 'b list" where
  "map_err f [] = Inr []"
| "map_err f (x # xs) =
     (case f x of
        Inl e \<Rightarrow> Inl e
      | Inr y \<Rightarrow> (case map_err f xs of Inl e \<Rightarrow> Inl e | Inr ys \<Rightarrow> Inr (y # ys)))"

subsection \<open>Lemmas on \<^const>\<open>find_idx\<close>\<close>

lemma find_idx_None_iff: "find_idx P xs = None \<longleftrightarrow> (\<forall>x\<in>set xs. \<not> P x)"
  by (induction xs) auto

lemma find_idx_SomeD:
  assumes "find_idx P xs = Some i"
  shows "i < length xs \<and> P (xs ! i) \<and> (\<forall>j<i. \<not> P (xs ! j))"
  using assms
proof (induction xs arbitrary: i)
  case Nil
  then show ?case by simp
next
  case (Cons x xs)
  show ?case
  proof (cases "P x")
    case True
    with Cons.prems show ?thesis by simp
  next
    case False
    with Cons.prems obtain i' where i': "find_idx P xs = Some i'" and "i = Suc i'"
      by auto
    with Cons.IH [OF i'] False show ?thesis
      by (auto simp: less_Suc_eq_0_disj)
  qed
qed

lemma find_idx_Some_iff:
  "find_idx P xs = Some i \<longleftrightarrow> i < length xs \<and> P (xs ! i) \<and> (\<forall>j<i. \<not> P (xs ! j))"
proof
  assume "find_idx P xs = Some i"
  then show "i < length xs \<and> P (xs ! i) \<and> (\<forall>j<i. \<not> P (xs ! j))"
    by (rule find_idx_SomeD)
next
  assume r: "i < length xs \<and> P (xs ! i) \<and> (\<forall>j<i. \<not> P (xs ! j))"
  then show "find_idx P xs = Some i"
  proof (induction xs arbitrary: i)
    case Nil
    then show ?case by simp
  next
    case (Cons x xs)
    show ?case
    proof (cases i)
      case 0
      with Cons.prems show ?thesis by simp
    next
      case (Suc k)
      with Cons.prems have "k < length xs \<and> P (xs ! k) \<and> (\<forall>j<k. \<not> P (xs ! j))"
        and "\<not> P x"
        by (auto dest: spec [of _ "Suc _"] spec [of _ 0])
      with Cons.IH Suc show ?thesis by simp
    qed
  qed
qed

lemma find_idx_unique:
  assumes "i < length xs" and "P (xs ! i)"
    and "\<forall>j<length xs. P (xs ! j) \<longrightarrow> j = i"
  shows "find_idx P xs = Some i"
proof -
  have "\<forall>j<i. \<not> P (xs ! j)"
    using assms by (metis less_trans nat_neq_iff)
  with assms(1,2) show ?thesis
    by (simp add: find_idx_Some_iff)
qed

subsection \<open>Lemmas on \<^const>\<open>remove_nth\<close>\<close>

lemma length_remove_nth [simp]:
  "i < length xs \<Longrightarrow> length (remove_nth i xs) = length xs - 1"
  by (simp add: remove_nth_def)

lemma set_remove_nth_subset: "set (remove_nth i xs) \<subseteq> set xs"
  by (auto simp: remove_nth_def dest: in_set_takeD in_set_dropD)

lemma remove_nth_conv_filter:
  assumes "distinct (map f xs)" and "i < length xs"
  shows "remove_nth i xs = filter (\<lambda>x. f x \<noteq> f (xs ! i)) xs"
proof -
  have xs: "xs = take i xs @ xs ! i # drop (Suc i) xs"
    using assms(2) by (simp add: id_take_nth_drop)
  have d: "distinct (map f (take i xs @ xs ! i # drop (Suc i) xs))"
    using assms(1) xs by simp
  then have "\<forall>x\<in>set (take i xs) \<union> set (drop (Suc i) xs). f x \<noteq> f (xs ! i)"
    by (auto simp: image_iff)
  then have "filter (\<lambda>x. f x \<noteq> f (xs ! i)) (take i xs @ xs ! i # drop (Suc i) xs)
        = take i xs @ drop (Suc i) xs"
    by (simp add: filter_True)
  then show ?thesis
    using xs by (simp add: remove_nth_def)
qed

lemma map_remove_nth: "map f (remove_nth i xs) = remove_nth i (map f xs)"
  by (simp add: remove_nth_def take_map drop_map)

lemma distinct_remove_nth: "distinct xs \<Longrightarrow> distinct (remove_nth i xs)"
  by (auto simp: remove_nth_def set_take_disj_set_drop_if_distinct)

lemma map_of_list_update_first:
  assumes "i < length ps" and "fst (ps ! i) = k" and "\<forall>j<i. fst (ps ! j) \<noteq> k"
  shows "map_of (ps[i := (k, v)]) = (map_of ps)(k \<mapsto> v)"
  using assms
proof (induction ps arbitrary: i)
  case Nil
  then show ?case by simp
next
  case (Cons p ps)
  show ?case
  proof (cases i)
    case 0
    with Cons.prems show ?thesis by (cases p) auto
  next
    case (Suc m)
    with Cons.prems have "m < length ps" "fst (ps ! m) = k" "\<forall>j<m. fst (ps ! j) \<noteq> k"
      and "fst p \<noteq> k"
      by (auto dest: spec [of _ "Suc _"] spec [of _ 0])
    with Cons.IH Suc show ?thesis by (cases p) (auto simp: fun_eq_iff)
  qed
qed

lemma map_of_remove_nth_distinct:
  assumes "distinct (map fst ps)" and "i < length ps"
  shows "map_of (remove_nth i ps) = (map_of ps)(fst (ps ! i) := None)"
proof -
  have "remove_nth i ps = filter (\<lambda>p. fst p \<noteq> fst (ps ! i)) ps"
    using assms by (rule remove_nth_conv_filter)
  also have "\<dots> = AList.delete (fst (ps ! i)) ps"
    by (auto simp: AList.delete_eq intro: filter_cong)
  finally show ?thesis by (simp add: delete_conv')
qed

subsection \<open>Lemmas on comprehensions that may raise\<close>

lemma filter_err_total [simp]:
  "filter_err (\<lambda>x. Inr (P x)) xs = Inr (filter P xs)"
  by (induction xs) auto

lemma filter_err_Inr_subseq:
  "filter_err t xs = Inr ys \<Longrightarrow> subseq ys xs"
proof (induction xs arbitrary: ys)
  case Nil
  then show ?case by simp
next
  case (Cons x xs)
  then show ?case
    by (auto split: sum.splits if_splits)
qed

lemma filter_err_cong:
  "(\<And>x. x \<in> set xs \<Longrightarrow> t x = u x) \<Longrightarrow> filter_err t xs = filter_err u xs"
  by (induction xs) (auto split: sum.splits)

lemma filter_err_no_error:
  "\<forall>x\<in>set xs. \<not> isl (t x) \<Longrightarrow> filter_err t xs = Inr (filter (\<lambda>x. t x = Inr True) xs)"
  by (induction xs) (auto split: sum.splits)

lemma filter_err_Inr_no_error:
  "filter_err t xs = Inr ys \<Longrightarrow> \<forall>x\<in>set xs. \<not> isl (t x)"
  by (induction xs arbitrary: ys) (auto split: sum.splits)

lemma filter_err_Inr_eq:
  "filter_err t xs = Inr ys \<Longrightarrow> ys = filter (\<lambda>x. t x = Inr True) xs"
  using filter_err_Inr_no_error filter_err_no_error by fastforce

lemma filter_err_Inl:
  "filter_err t xs = Inl e \<Longrightarrow> \<exists>x\<in>set xs. t x = Inl e"
  by (induction xs) (auto split: sum.splits)

lemma py_slice_nonneg:
  "0 \<le> a \<Longrightarrow> a \<le> b \<Longrightarrow> py_slice xs a b = take (nat (b - a)) (drop (nat a) xs)"
  by (auto simp: py_slice_def slice_bound_def Let_def min_def take_all nat_diff_distrib' drop_take
           intro: arg_cong2 [where f = take])

lemma map_err_total:
  "(\<And>x. x \<in> set xs \<Longrightarrow> f x = Inr (g x)) \<Longrightarrow> map_err f xs = Inr (map g xs)"
  by (induction xs) auto

lemma map_err_Inr_length: "map_err f xs = Inr ys \<Longrightarrow> length ys = length xs"
  by (induction xs arbitrary: ys) (auto split: sum.splits)

lemma any_err_total [simp]:
  "any_err (\<lambda>x. Inr (P x)) xs = Inr (\<exists>x\<in>set xs. P x)"
  by (induction xs) (auto split: bool.split)

lemma find_idx_list_update_same:
  "find_idx P xs = Some i \<Longrightarrow> P v \<Longrightarrow> find_idx P (xs[i := v]) = Some i"
  by (simp add: find_idx_Some_iff)

lemma map_of_rev_distinct: "distinct (map fst xs) \<Longrightarrow> map_of (rev xs) = map_of xs"
proof
  fix k assume d: "distinct (map fst xs)"
  show "map_of (rev xs) k = map_of xs k"
  proof (cases "map_of xs k")
    case None
    then have "k \<notin> fst ` set xs" by (simp add: map_of_eq_None_iff)
    then have "map_of (rev xs) k = None" by (simp add: map_of_eq_None_iff)
    then show ?thesis using None by simp
  next
    case (Some v)
    then have "(k, v) \<in> set (rev xs)" by (simp add: map_of_SomeD)
    moreover have "distinct (map fst (rev xs))" using d by (simp add: rev_map [symmetric])
    ultimately show ?thesis using Some by (simp add: map_of_is_SomeI)
  qed
qed

lemma map_add_dom_subset: "dom m \<subseteq> dom m' \<Longrightarrow> m ++ m' = m'"
  by (auto simp: map_add_def fun_eq_iff split: option.split)

lemma distinct_map_filter_eq_le1:
  "distinct (map f xs) \<Longrightarrow> length (filter (\<lambda>x. f x = k) xs) \<le> 1"
  by (induction xs) (auto simp: filter_empty_conv image_iff)

lemma find_conv_filter: "find P xs = (case filter P xs of [] \<Rightarrow> None | x # _ \<Rightarrow> Some x)"
  by (induction xs) auto

lemma map_err_Inr_set:
  "map_err f xs = Inr ys \<Longrightarrow> y \<in> set ys \<Longrightarrow> \<exists>x\<in>set xs. f x = Inr y"
  by (induction xs arbitrary: ys) (auto split: sum.splits)

end
