(* ===== verification/PyValue.thy ===== *)
theory PyValue
  imports Prelude
begin

text \<open>
  The Python values that the JSON collections hold and the few built-in operations the
  store applies to them: \<open>==\<close>, truthiness, \<open>str()\<close>, \<open>str.lower()\<close>, the
  \<open>in\<close> operator, \<open>str.split('__')\<close>, and the dictionary operations
  \<open>k in d\<close>, \<open>d[k]\<close>, \<open>d.get(k, default)\<close>, \<open>d[k] = v\<close> and \<open>d.update(e)\<close>.
  A document (a JSON object, a Python \<open>dict\<close>) is an association list: Python
  dictionaries keep insertion order, \<open>d[k] = v\<close> replaces a value in place or appends
  a new key at the end, which is exactly \<^const>\<open>AList.update\<close>.
  JSON numbers are modelled as integers; floating-point fields are not modelled.
\<close>

datatype py_error =
    KeyError | TypeError | ValueError | AttributeError | IndexError
  | DoesNotExist | MultipleObjectsReturned | Http404 | NoReverseMatch | IntegrityError

datatype pyval =
    PStr string
  | PInt int
  | PBool bool
  | PNone
  | PList "pyval list"

type_synonym doc = "(string \<times> pyval) list"

subsection \<open>Equality \<open>==\<close>\<close>

text \<open>\<open>bool\<close> is a subclass of \<open>int\<close>: \<open>True == 1\<close> and \<open>False == 0\<close>.\<close>

fun py_num :: "pyval \<Rightarrow> int option" where
  "py_num (PInt i) = Some i"
| "py_num (PBool b) = Some (if b then 1 else 0)"
| "py_num _ = None"

fun py_eq :: "pyval \<Rightarrow> pyval \<Rightarrow> bool"
  and py_eq_list :: "pyval list \<Rightarrow> pyval list \<Rightarrow> bool" where
  "py_eq (PStr a) (PStr b) = (a = b)"
| "py_eq (PList xs) (PList ys) = py_eq_list xs ys"
| "py_eq PNone PNone = True"
| "py_eq a b = (case (py_num a, py_num b) of (Some m, Some n) \<Rightarrow> m = n | _ \<Rightarrow> False)"
| "py_eq_list [] [] = True"
| "py_eq_list (x # xs) (y # ys) = (py_eq x y \<and> py_eq_list xs ys)"
| "py_eq_list _ _ = False"

text \<open>
  \<open>==\<close> identifies exactly the values with the same normal form, where a boolean is
  read as the integer it equals; this makes \<open>==\<close> an equivalence relation.
\<close>

fun py_norm :: "pyval \<Rightarrow> pyval" where
  "py_norm (PBool b) = PInt (if b then 1 else 0)"
| "py_norm (PList xs) = PList (map py_norm xs)"
| "py_norm v = v"

subsection \<open>Truthiness (\<open>if x:\<close>)\<close>

fun py_truthy :: "pyval \<Rightarrow> bool" where
  "py_truthy (PStr s) = (s \<noteq> [])"
| "py_truthy (PInt i) = (i \<noteq> 0)"
| "py_truthy (PBool b) = b"
| "py_truthy PNone = False"
| "py_truthy (PList xs) = (xs \<noteq> [])"

subsection \<open>Dictionaries\<close>

definition has_key :: "doc \<Rightarrow> string \<Rightarrow> bool" where
  "has_key d k = (map_of d k \<noteq> None)"

definition getitem :: "doc \<Rightarrow> string \<Rightarrow> py_error + pyval" where
  "getitem d k = (case map_of d k of None \<Rightarrow> Inl KeyError | Some v \<Rightarrow> Inr v)"

definition dget :: "doc \<Rightarrow> string \<Rightarrow> pyval \<Rightarrow> pyval" where
  "dget d k dflt = (case map_of d k of None \<Rightarrow> dflt | Some v \<Rightarrow> v)"

definition setitem :: "doc \<Rightarrow> string \<Rightarrow> pyval \<Rightarrow> doc" where
  "setitem d k v = AList.update k v d"

text \<open>\<open>d.update(e)\<close>: the keys of \<open>e\<close> in their order, each set in \<open>d\<close>.\<close>

definition dict_update :: "doc \<Rightarrow> doc \<Rightarrow> doc" where
  "dict_update d e = fold (\<lambda>(k, v) acc. AList.update k v acc) e d"

definition wf_doc :: "doc \<Rightarrow> bool" where
  "wf_doc d = distinct (map fst d)"

subsection \<open>\<open>str()\<close>, \<open>repr()\<close> and \<open>lower()\<close>\<close>

definition digit_char :: "nat \<Rightarrow> char" where
  "digit_char n = ''0123456789abcdef'' ! n"

fun nat_str :: "nat \<Rightarrow> string" where
  "nat_str n = (if n < 10 then [digit_char n] else nat_str (n div 10) @ [digit_char (n mod 10)])"

definition int_str :: "int \<Rightarrow> string" where
  "int_str i = (if i < 0 then CHR ''-'' # nat_str (nat (- i)) else nat_str (nat i))"

text \<open>
  \<open>repr\<close> of a string: single quotes unless the string holds a single quote and no
  double quote; backslash, the chosen quote, newline, carriage return and tab are escaped,
  other control characters are written \<open>\xhh\<close>. Bytes above 127 are copied, which is
  what Python does for printable non-ASCII text.
\<close>

definition repr_char :: "char \<Rightarrow> char \<Rightarrow> string" where
  "repr_char q c =
     (let n = (of_char c :: nat) in
      if c = CHR 0x5C then [CHR 0x5C, CHR 0x5C]
      else if c = q then [CHR 0x5C, q]
      else if c = CHR 0x0A then [CHR 0x5C, CHR ''n'']
      else if c = CHR 0x0D then [CHR 0x5C, CHR ''r'']
      else if c = CHR 0x09 then [CHR 0x5C, CHR ''t'']
      else if n < 32 \<or> n = 127 then [CHR 0x5C, CHR ''x'', digit_char (n div 16), digit_char (n mod 16)]
      else [c])"

definition repr_str :: "string \<Rightarrow> string" where
  "repr_str s =
     (let q = (if CHR 0x27 \<in> set s \<and> CHR 0x22 \<notin> set s then CHR 0x22 else CHR 0x27)
      in q # concat (map (repr_char q) s) @ [q])"

fun join_str :: "string \<Rightarrow> string list \<Rightarrow> string" where
  "join_str sep [] = []"
| "join_str sep [x] = x"
| "join_str sep (x # xs) = x @ sep @ join_str sep xs"

fun py_repr :: "pyval \<Rightarrow> string" where
  "py_repr (PStr s) = repr_str s"
| "py_repr (PInt i) = int_str i"
| "py_repr (PBool b) = (if b then ''True'' else ''False'')"
| "py_repr PNone = ''None''"
| "py_repr (PList xs) = CHR ''['' # join_str '', '' (map py_repr xs) @ '']''"

fun py_str :: "pyval \<Rightarrow> string" where
  "py_str (PStr s) = s"
| "py_str v = py_repr v"

definition lower_char :: "char \<Rightarrow> char" where
  "lower_char c =
     (case map_of (zip ''ABCDEFGHIJKLMNOPQRSTUVWXYZ'' ''abcdefghijklmnopqrstuvwxyz'') c of
        Some l \<Rightarrow> l
      | None \<Rightarrow> c)"

definition py_lower :: "string \<Rightarrow> string" where
  "py_lower s = map lower_char s"

subsection \<open>The \<open>in\<close> operator\<close>

text \<open>
  \<open>x in c\<close>: membership by \<open>==\<close> for a list, substring test for a string (which
  needs a string on the left), \<open>TypeError\<close> for anything else.
\<close>

fun py_in :: "pyval \<Rightarrow> pyval \<Rightarrow> py_error + bool" where
  "py_in x (PList ys) = Inr (list_ex (py_eq x) ys)"
| "py_in x (PStr s) = (case x of PStr t \<Rightarrow> Inr (sublist t s) | _ \<Rightarrow> Inl TypeError)"
| "py_in x _ = Inl TypeError"

subsection \<open>\<open>str.split('__')\<close>\<close>

fun split_dunder_from :: "string \<Rightarrow> string \<Rightarrow> string list" where
  "split_dunder_from cur [] = [cur]"
| "split_dunder_from cur [c] = [cur @ [c]]"
| "split_dunder_from cur (c # d # cs) =
     (if c = CHR ''_'' \<and> d = CHR ''_'' then cur # split_dunder_from [] cs
      else split_dunder_from (cur @ [c]) (d # cs))"

definition split_dunder :: "string \<Rightarrow> string list" where
  "split_dunder s = split_dunder_from [] s"

subsection \<open>Lemmas\<close>

subsection \<open>\<open>str.strip()\<close>\<close>

text \<open>The ASCII characters \<open>str.isspace\<close> accepts.\<close>

definition py_space :: "char \<Rightarrow> bool" where
  "py_space c = (c \<in> set [CHR 0x20, CHR 0x09, CHR 0x0A, CHR 0x0B, CHR 0x0C, CHR 0x0D,
                            CHR 0x1C, CHR 0x1D, CHR 0x1E, CHR 0x1F])"

definition py_strip :: "string \<Rightarrow> string" where
  "py_strip s = rev (dropWhile py_space (rev (dropWhile py_space s)))"

lemmas strip_defs [model_simps] = py_space_def py_strip_def

subsection \<open>Django's \<open>QueryDict.get\<close>\<close>

text \<open>\<open>request.POST.get(k)\<close> and \<open>request.GET.get(k)\<close>: a query string or form
  may repeat a key, and \<open>QueryDict.__getitem__\<close> returns the last value given for it.\<close>

definition querydict_get :: "(string \<times> string) list \<Rightarrow> string \<Rightarrow> string option" where
  "querydict_get q k = map_of (rev q) k"

text \<open>\<open>QueryDict.getlist(k)\<close>: every value of the key, in order.\<close>

definition querydict_getlist :: "(string \<times> string) list \<Rightarrow> string \<Rightarrow> string list" where
  "querydict_getlist q k = map snd (filter (\<lambda>(k', v). k' = k) q)"

lemmas sublist_eval [model_simps] = sublist_code prefix_code
lemmas value_defs [model_simps] = py_lower_def lower_char_def int_str_def digit_char_def
  repr_str_def repr_char_def split_dunder_def has_key_def getitem_def dget_def setitem_def
  querydict_get_def querydict_getlist_def

lemma py_eq_list_conv: "py_eq_list xs ys \<longleftrightarrow> list_all2 py_eq xs ys"
proof (induction xs arbitrary: ys)
  case Nil
  then show ?case by (cases ys) auto
next
  case (Cons x xs)
  then show ?case by (cases ys) auto
qed

lemma list_all2_conv_map_eq:
  "\<forall>x\<in>set xs. \<forall>y. P x y \<longleftrightarrow> f x = g y \<Longrightarrow> list_all2 P xs ys \<longleftrightarrow> map f xs = map g ys"
proof (induction xs arbitrary: ys)
  case Nil
  then show ?case by (cases ys) auto
next
  case (Cons x xs)
  then show ?case by (cases ys) auto
qed

lemma py_eq_iff_norm: "py_eq a b \<longleftrightarrow> py_norm a = py_norm b"
proof (induction a arbitrary: b)
  case (PList xs)
  then have "list_all2 py_eq xs ys \<longleftrightarrow> map py_norm xs = map py_norm ys" for ys
    by (intro list_all2_conv_map_eq) simp
  then show ?case
    by (cases b) (auto simp: py_eq_list_conv)
next
  case (PInt i)
  then show ?case by (cases b) auto
next
  case (PBool x)
  then show ?case by (cases b) auto
next
  case (PStr x)
  then show ?case by (cases b) auto
next
  case PNone
  then show ?case by (cases b) auto
qed

lemma py_eq_refl [simp]: "py_eq v v"
  by (simp add: py_eq_iff_norm)

lemma py_eq_sym: "py_eq a b \<longleftrightarrow> py_eq b a"
  by (auto simp: py_eq_iff_norm)

lemma py_eq_PStr_iff [simp]: "py_eq (PStr a) v \<longleftrightarrow> v = PStr a"
  by (cases v) auto

lemma py_eq_PNone_iff [simp]: "py_eq PNone v \<longleftrightarrow> v = PNone"
  by (cases v) auto

lemma has_key_setitem [simp]: "has_key (setitem d k v) k' \<longleftrightarrow> k' = k \<or> has_key d k'"
  by (auto simp: has_key_def setitem_def update_conv')

lemma map_of_setitem [simp]: "map_of (setitem d k v) = (map_of d)(k \<mapsto> v)"
  by (simp add: setitem_def update_conv')

lemma dget_setitem [simp]: "dget (setitem d k v) k' dflt = (if k' = k then v else dget d k' dflt)"
  by (simp add: dget_def)

lemma getitem_has_key: "has_key d k \<Longrightarrow> getitem d k = Inr (dget d k PNone)"
  by (auto simp: has_key_def getitem_def dget_def)

lemma wf_doc_setitem [simp]: "wf_doc d \<Longrightarrow> wf_doc (setitem d k v)"
  by (simp add: wf_doc_def setitem_def distinct_update)

lemma map_of_dict_update: "map_of (dict_update d e) = map_of d ++ map_of (rev e)"
proof (induction e arbitrary: d)
  case Nil
  then show ?case by (simp add: dict_update_def)
next
  case (Cons p e)
  obtain k v where p: "p = (k, v)" by fastforce
  have "map_of (dict_update d (p # e)) = map_of (AList.update k v d) ++ map_of (rev e)"
    using Cons.IH by (simp add: dict_update_def p)
  then show ?case
    by (simp add: p update_conv')
qed

lemma split_dunder_from_single:
  "\<not> sublist ''__'' s \<Longrightarrow> split_dunder_from cur s = [cur @ s]"
proof (induction cur s rule: split_dunder_from.induct)
  case (3 cur c d cs)
  then show ?case by (auto simp: sublist_Cons_right)
qed simp_all

lemma split_dunder_no_sep: "\<not> sublist ''__'' s \<Longrightarrow> split_dunder s = [s]"
  by (simp add: split_dunder_def split_dunder_from_single)

lemma map_of_dict_update_extends:
  assumes "wf_doc e" and "dom (map_of d) \<subseteq> dom (map_of e)"
  shows "map_of (dict_update d e) = map_of e"
  using assms by (simp add: map_of_dict_update wf_doc_def map_of_rev_distinct map_add_dom_subset)

lemma wf_doc_dict_update: "wf_doc d \<Longrightarrow> wf_doc (dict_update d e)"
proof (induction e arbitrary: d)
  case (Cons p e)
  then show ?case by (cases p) (simp add: dict_update_def wf_doc_def distinct_update)
qed (simp add: dict_update_def)

lemma list_ex_key_iff: "list_ex (\<lambda>(k, v). k = K) d \<longleftrightarrow> has_key d K"
  by (induction d) (auto simp: has_key_def)

end
