(* ===== verification/Store.thy ===== *)
theory Store
  imports PyValue
begin

text \<open>
  The collection store of \<open>src/main_app/data/json_manager.py\<close>. Each collection is one
  JSON file \<open>BASE_DIR/<name>.json\<close>; the file system is a function from collection
  name to the state of that file: absent, unparsable, or holding a JSON list of objects.
  Every operation reads the whole file (\<open>load_data\<close>, which resets a missing or
  unparsable file to \<open>[]\<close>), works on the list, and writes the whole list back
  (\<open>save_data\<close>). The two sources of nondeterminism of the code,
  \<open>datetime.now().isoformat()\<close> and \<open>str(uuid.uuid4())\<close>, are parameters
  \<open>now\<close> and \<open>uuid\<close> of the operations that call them.
\<close>

datatype file_state = NoFile | Corrupt | Json "doc list"

type_synonym store = "string \<Rightarrow> file_state"

definition data_files :: "string list" where
  "data_files = [''recycling_centers'', ''categories'', ''marketplace_items'',
                 ''user_preferences'', ''item_recommendations'']"

definition ensure_data_files :: "store \<Rightarrow> store" where
  "ensure_data_files fs =
     fold (\<lambda>n fs'. if fs' n = NoFile then fs'(n := Json []) else fs') data_files fs"

definition load_data :: "store \<Rightarrow> string \<Rightarrow> doc list \<times> store" where
  "load_data fs n = (case fs n of Json ds \<Rightarrow> (ds, fs) | _ \<Rightarrow> ([], fs(n := Json [])))"

definition save_data :: "store \<Rightarrow> string \<Rightarrow> doc list \<Rightarrow> store" where
  "save_data fs n ds = fs(n := Json ds)"

text \<open>The id test of the scans: \<open>item.get('id') == item_id\<close>.\<close>

definition doc_id :: "doc \<Rightarrow> pyval" where
  "doc_id d = dget d ''id'' PNone"

definition id_match :: "pyval \<Rightarrow> doc \<Rightarrow> bool" where
  "id_match iid d = py_eq (doc_id d) iid"

text \<open>Lines 52--59 of \<open>create_item\<close>: the id (if absent) and both timestamps.\<close>

definition stamp_new :: "doc \<Rightarrow> string \<Rightarrow> string \<Rightarrow> doc" where
  "stamp_new item now uuid =
     (let item1 = (if has_key item ''id'' then item else setitem item ''id'' (PStr uuid))
      in setitem (setitem item1 ''created_at'' (PStr now)) ''updated_at'' (PStr now))"

definition create_item :: "store \<Rightarrow> string \<Rightarrow> doc \<Rightarrow> string \<Rightarrow> string \<Rightarrow> doc \<times> store" where
  "create_item fs n item now uuid =
     (let (data, fs1) = load_data fs n;
          item2 = stamp_new item now uuid
      in (item2, save_data fs1 n (data @ [item2])))"

definition get_item_by_id :: "store \<Rightarrow> string \<Rightarrow> pyval \<Rightarrow> doc option \<times> store" where
  "get_item_by_id fs n iid = (let (data, fs1) = load_data fs n in (find (id_match iid) data, fs1))"

text \<open>Lines 102--105 of \<open>update_item\<close>: the replacement keeps id and creation time.\<close>

definition stamp_update :: "doc \<Rightarrow> doc \<Rightarrow> pyval \<Rightarrow> string \<Rightarrow> doc" where
  "stamp_update item upd iid now =
     (let u1 = setitem upd ''id'' iid;
          u2 = (if has_key item ''created_at''
                then setitem u1 ''created_at'' (dget item ''created_at'' PNone) else u1)
      in setitem u2 ''updated_at'' (PStr now))"

definition update_item ::
  "store \<Rightarrow> string \<Rightarrow> pyval \<Rightarrow> doc \<Rightarrow> string \<Rightarrow> doc option \<times> store" where
  "update_item fs n iid upd now =
     (let (data, fs1) = load_data fs n in
      case find_idx (id_match iid) data of
        None \<Rightarrow> (None, fs1)
      | Some i \<Rightarrow>
          (let u = stamp_update (data ! i) upd iid now
           in (Some u, save_data fs1 n (data[i := u]))))"

definition delete_item :: "store \<Rightarrow> string \<Rightarrow> pyval \<Rightarrow> doc option \<times> store" where
  "delete_item fs n iid =
     (let (data, fs1) = load_data fs n in
      case find_idx (id_match iid) data of
        None \<Rightarrow> (None, fs1)
      | Some i \<Rightarrow> (Some (data ! i), save_data fs1 n (remove_nth i data)))"

definition get_related_items :: "store \<Rightarrow> string \<Rightarrow> string \<Rightarrow> pyval \<Rightarrow> doc list \<times> store" where
  "get_related_items fs n field rid =
     (let (data, fs1) = load_data fs n
      in (filter (\<lambda>d. has_key d field \<and> py_eq (dget d field PNone) rid) data, fs1))"

definition get_many_to_many_related_items ::
  "store \<Rightarrow> string \<Rightarrow> string \<Rightarrow> pyval list \<Rightarrow> (py_error + doc list) \<times> store" where
  "get_many_to_many_related_items fs n field ids =
     (let (data, fs1) = load_data fs n
      in (filter_err (\<lambda>d. if has_key d field then any_err (\<lambda>r. py_in r (dget d field PNone)) ids
                          else Inr False) data, fs1))"

subsection \<open>The collection invariant and its abstraction\<close>

text \<open>
  The store promises (spec section 3) that every document has an \<open>id\<close> and that ids
  are unique within a collection; uniqueness is up to Python's \<open>==\<close>, that is, of the
  normal forms. Abstractly a collection is then a finite map from (normalised) id to
  document, the first document with that id, as \<open>get_item_by_id\<close> finds it.
\<close>

definition coll_ids :: "doc list \<Rightarrow> pyval list" where
  "coll_ids ds = map (\<lambda>d. py_norm (doc_id d)) ds"

definition coll_inv :: "doc list \<Rightarrow> bool" where
  "coll_inv ds = ((\<forall>d\<in>set ds. has_key d ''id'' \<and> wf_doc d) \<and> distinct (coll_ids ds))"

definition coll_abs :: "doc list \<Rightarrow> pyval \<rightharpoonup> doc" where
  "coll_abs ds = map_of (map (\<lambda>d. (py_norm (doc_id d), d)) ds)"

definition fresh_id :: "doc list \<Rightarrow> pyval \<Rightarrow> bool" where
  "fresh_id ds v = (\<forall>d\<in>set ds. \<not> py_eq (doc_id d) v)"

definition contents :: "store \<Rightarrow> string \<Rightarrow> doc list" where
  "contents fs n = fst (load_data fs n)"

subsection \<open>An example collection\<close>

abbreviation ex_chair :: doc where
  "ex_chair \<equiv> [(''id'', PStr ''a1''), (''title'', PStr ''Blue Chair''), (''status'', PStr ''available''),
                (''created_at'', PStr ''2024-01-01T10:00:00''), (''updated_at'', PStr ''2024-01-01T10:00:00'')]"

abbreviation ex_table :: doc where
  "ex_table \<equiv> [(''id'', PStr ''b2''), (''title'', PStr ''Red Table''), (''status'', PStr ''pending''),
                (''created_at'', PStr ''2024-01-02T09:00:00''), (''updated_at'', PStr ''2024-01-02T09:00:00'')]"

abbreviation ex_fs :: store where
  "ex_fs \<equiv> (\<lambda>_. NoFile)(''marketplace_items'' := Json [ex_chair, ex_table])"

subsection \<open>Basic lemmas\<close>

lemma load_data_Json [simp]: "fs n = Json ds \<Longrightarrow> load_data fs n = (ds, fs)"
  by (simp add: load_data_def)

lemma load_data_snd_frame [store_frame]: "n' \<noteq> n \<Longrightarrow> snd (load_data fs n) n' = fs n'"
  by (simp add: load_data_def split: file_state.split)

lemma load_data_snd_self: "snd (load_data fs n) n = Json (fst (load_data fs n))"
  by (simp add: load_data_def split: file_state.split)

lemma save_data_frame [store_frame]: "n' \<noteq> n \<Longrightarrow> save_data fs n ds n' = fs n'"
  by (simp add: save_data_def)

lemma save_data_self [simp]: "save_data fs n ds n = Json ds"
  by (simp add: save_data_def)

lemma contents_save_data [simp]: "contents (save_data fs n ds) n = ds"
  by (simp add: contents_def save_data_def load_data_def)

lemma load_data_split: "load_data fs n = (contents fs n, snd (load_data fs n))"
  by (simp add: contents_def)

lemma id_match_iff_norm: "id_match iid d \<longleftrightarrow> py_norm (doc_id d) = py_norm iid"
  by (simp add: id_match_def py_eq_iff_norm)

lemma find_id_match_coll_abs:
  "find (id_match iid) ds = coll_abs ds (py_norm iid)"
  by (induction ds) (auto simp: coll_abs_def id_match_iff_norm)

lemma doc_id_setitem_other [simp]: "k \<noteq> ''id'' \<Longrightarrow> doc_id (setitem d k v) = doc_id d"
  by (simp add: doc_id_def)

lemma doc_id_setitem_id [simp]: "doc_id (setitem d ''id'' v) = v"
  by (simp add: doc_id_def)

lemma has_key_doc_id: "has_key d ''id'' \<Longrightarrow> map_of d ''id'' = Some (doc_id d)"
  by (auto simp: has_key_def doc_id_def dget_def)

subsection \<open>The stamping steps\<close>

lemma doc_id_stamp_new:
  "doc_id (stamp_new item now uuid) = (if has_key item ''id'' then doc_id item else PStr uuid)"
  by (simp add: stamp_new_def Let_def)

lemma has_key_stamp_new [simp]: "has_key (stamp_new item now uuid) k \<longleftrightarrow>
    k \<in> {''id'', ''created_at'', ''updated_at''} \<or> has_key item k"
  by (auto simp: stamp_new_def Let_def)

lemma dget_stamp_new_created [simp]: "dget (stamp_new item now uuid) ''created_at'' dflt = PStr now"
  by (simp add: stamp_new_def Let_def)

lemma dget_stamp_new_updated [simp]: "dget (stamp_new item now uuid) ''updated_at'' dflt = PStr now"
  by (simp add: stamp_new_def Let_def)

lemma map_of_stamp_new_other:
  "k \<notin> {''id'', ''created_at'', ''updated_at''} \<Longrightarrow> map_of (stamp_new item now uuid) k = map_of item k"
  by (simp add: stamp_new_def Let_def)

lemma wf_doc_stamp_new [simp]: "wf_doc item \<Longrightarrow> wf_doc (stamp_new item now uuid)"
  by (simp add: stamp_new_def Let_def)

lemma doc_id_stamp_update [simp]: "doc_id (stamp_update item upd iid now) = iid"
  by (simp add: stamp_update_def Let_def)

lemma dget_stamp_update_updated [simp]:
  "dget (stamp_update item upd iid now) ''updated_at'' dflt = PStr now"
  by (simp add: stamp_update_def Let_def)

lemma dget_stamp_update_created:
  "has_key item ''created_at'' \<Longrightarrow>
   dget (stamp_update item upd iid now) ''created_at'' dflt = dget item ''created_at'' PNone"
  by (simp add: stamp_update_def Let_def)

lemma map_of_stamp_update_other:
  "k \<notin> {''id'', ''created_at'', ''updated_at''} \<Longrightarrow> map_of (stamp_update item upd iid now) k = map_of upd k"
  by (simp add: stamp_update_def Let_def)

lemma has_key_stamp_update_id [simp]: "has_key (stamp_update item upd iid now) ''id''"
  by (simp add: stamp_update_def Let_def)

lemma wf_doc_stamp_update [simp]: "wf_doc upd \<Longrightarrow> wf_doc (stamp_update item upd iid now)"
  by (simp add: stamp_update_def Let_def)

subsection \<open>The operations as equations over the loaded contents\<close>

lemma dom_stamp_update: "dom (map_of upd) \<subseteq> dom (map_of (stamp_update item upd iid now))"
  by (auto simp: stamp_update_def Let_def)

lemma stamp_update_same:
  assumes "map_of upd = map_of item" and "map_of item ''id'' = Some iid"
  shows "map_of (stamp_update item upd iid now) = (map_of item)(''updated_at'' \<mapsto> PStr now)"
  using assms by (auto simp: stamp_update_def Let_def has_key_def dget_def fun_eq_iff split: option.split)

lemma map_of_stamp_new_id:
  "has_key item ''id'' \<Longrightarrow> map_of (stamp_new item now uuid) ''id'' = map_of item ''id''"
  by (simp add: stamp_new_def Let_def)

lemma map_of_save_create:
  "wf_doc a \<Longrightarrow> map_of (dict_update a (stamp_new a now uuid)) = map_of (stamp_new a now uuid)"
  using has_key_stamp_new [of a now uuid]
  by (intro map_of_dict_update_extends) (auto simp: has_key_def)

lemma map_of_save_update:
  assumes "wf_doc a"
  shows "map_of (dict_update a (stamp_update item a iid now)) = map_of (stamp_update item a iid now)"
  using assms dom_stamp_update by (intro map_of_dict_update_extends) simp_all

lemma contents_cong: "fs n = fs' n \<Longrightarrow> contents fs n = contents fs' n"
  by (simp add: contents_def load_data_def split: file_state.split)

lemma contents_load_data [simp]: "contents (snd (load_data fs n')) n = contents fs n"
proof (cases "n = n'")
  case False
  then show ?thesis by (intro contents_cong) (simp add: load_data_snd_frame)
qed (simp add: contents_def load_data_def split: file_state.split)

lemma create_item_eq:
  "create_item fs n item now uuid =
     (stamp_new item now uuid,
      save_data (snd (load_data fs n)) n (contents fs n @ [stamp_new item now uuid]))"
proof -
  obtain ds fs1 where l: "load_data fs n = (ds, fs1)" by fastforce
  then show ?thesis by (simp add: create_item_def contents_def Let_def l split: option.split)
qed

lemma update_item_eq:
  "update_item fs n iid upd now =
     (case find_idx (id_match iid) (contents fs n) of
        None \<Rightarrow> (None, snd (load_data fs n))
      | Some i \<Rightarrow> (Some (stamp_update (contents fs n ! i) upd iid now),
                   save_data (snd (load_data fs n)) n
                     ((contents fs n)[i := stamp_update (contents fs n ! i) upd iid now])))"
proof -
  obtain ds fs1 where l: "load_data fs n = (ds, fs1)" by fastforce
  then show ?thesis
    by (cases "find_idx (id_match iid) ds") (simp_all add: update_item_def contents_def Let_def l)
qed

lemma delete_item_eq:
  "delete_item fs n iid =
     (case find_idx (id_match iid) (contents fs n) of
        None \<Rightarrow> (None, snd (load_data fs n))
      | Some i \<Rightarrow> (Some (contents fs n ! i),
                   save_data (snd (load_data fs n)) n (remove_nth i (contents fs n))))"
proof -
  obtain ds fs1 where l: "load_data fs n = (ds, fs1)" by fastforce
  then show ?thesis
    by (cases "find_idx (id_match iid) ds") (simp_all add: delete_item_def contents_def Let_def l)
qed

lemma get_item_by_id_eq:
  "get_item_by_id fs n iid = (find (id_match iid) (contents fs n), snd (load_data fs n))"
proof -
  obtain ds fs1 where l: "load_data fs n = (ds, fs1)" by fastforce
  then show ?thesis by (simp add: get_item_by_id_def contents_def Let_def l split: option.split)
qed

lemma contents_snd_load_data [simp]: "contents (snd (load_data fs n)) n = contents fs n"
  by (simp add: contents_def load_data_def split: file_state.split)

lemma contents_frame [store_frame]: "n' \<noteq> n \<Longrightarrow> contents (save_data fs n ds) n' = contents fs n'"
  by (simp add: contents_def save_data_def load_data_def split: file_state.split)

lemmas coll_defs [model_simps] = coll_inv_def coll_ids_def coll_abs_def fresh_id_def wf_doc_def

lemmas store_defs [model_simps] = load_data_def save_data_def create_item_def get_item_by_id_def
  update_item_def delete_item_def stamp_new_def stamp_update_def get_related_items_def get_many_to_many_related_items_def
  doc_id_def id_match_def ensure_data_files_def data_files_def contents_def remove_nth_def

subsection \<open>Lemmas on the operations\<close>

lemma contents_create_item [simp]:
  "contents (snd (create_item fs n item now uuid)) n = contents fs n @ [stamp_new item now uuid]"
  by (simp add: create_item_eq)

lemma fst_create_item [simp]: "fst (create_item fs n item now uuid) = stamp_new item now uuid"
  by (simp add: create_item_eq)

lemma create_item_frame [store_frame]:
  "n' \<noteq> n \<Longrightarrow> snd (create_item fs n item now uuid) n' = fs n'"
  by (simp add: create_item_eq store_frame)

lemma fresh_id_iff_norm: "fresh_id ds v \<longleftrightarrow> py_norm v \<notin> set (coll_ids ds)"
  by (force simp: fresh_id_def coll_ids_def py_eq_iff_norm)

lemma coll_abs_append_fresh:
  assumes "fresh_id ds (doc_id d)"
  shows "coll_abs (ds @ [d]) = (coll_abs ds)(py_norm (doc_id d) \<mapsto> d)"
proof -
  have "map_of (map (\<lambda>d. (py_norm (doc_id d), d)) ds) (py_norm (doc_id d)) = None"
    using assms by (auto simp: map_of_eq_None_iff fresh_id_def py_eq_iff_norm)
  then show ?thesis
    by (auto simp: coll_abs_def map_add_def fun_eq_iff split: option.split)
qed

lemma coll_inv_append:
  "coll_inv (ds @ [d]) \<longleftrightarrow> coll_inv ds \<and> has_key d ''id'' \<and> wf_doc d \<and> fresh_id ds (doc_id d)"
  by (auto simp: coll_inv_def coll_ids_def fresh_id_iff_norm)

lemma fresh_stamp_new:
  "fresh_id ds (doc_id (stamp_new item now uuid)) \<longleftrightarrow>
   (if has_key item ''id'' then fresh_id ds (doc_id item) else fresh_id ds (PStr uuid))"
  by (simp add: doc_id_stamp_new)

lemma contents_update_item:
  "contents (snd (update_item fs n iid upd now)) n =
     (case find_idx (id_match iid) (contents fs n) of
        None \<Rightarrow> contents fs n
      | Some i \<Rightarrow> (contents fs n)[i := stamp_update (contents fs n ! i) upd iid now])"
  by (simp add: update_item_eq split: option.split)

lemma contents_delete_item:
  "contents (snd (delete_item fs n iid)) n =
     (case find_idx (id_match iid) (contents fs n) of
        None \<Rightarrow> contents fs n
      | Some i \<Rightarrow> remove_nth i (contents fs n))"
  by (simp add: delete_item_eq split: option.split)

lemma update_item_frame [store_frame]:
  "n' \<noteq> n \<Longrightarrow> snd (update_item fs n iid upd now) n' = fs n'"
  by (simp add: update_item_eq store_frame split: option.split)

lemma delete_item_frame [store_frame]:
  "n' \<noteq> n \<Longrightarrow> snd (delete_item fs n iid) n' = fs n'"
  by (simp add: delete_item_eq store_frame split: option.split)

lemma find_idx_id_match_None: "find_idx (id_match iid) ds = None \<longleftrightarrow> fresh_id ds iid"
  by (simp add: find_idx_None_iff fresh_id_def id_match_def)

lemma find_idx_id_match_SomeD:
  assumes "find_idx (id_match iid) ds = Some i"
  shows "i < length ds \<and> py_norm (doc_id (ds ! i)) = py_norm iid \<and>
         (\<forall>j<i. py_norm (doc_id (ds ! j)) \<noteq> py_norm iid)"
  using find_idx_SomeD [OF assms] by (simp add: id_match_iff_norm)

lemma coll_abs_list_update_first:
  assumes "find_idx (id_match iid) ds = Some i" and "py_norm (doc_id u) = py_norm iid"
  shows "coll_abs (ds[i := u]) = (coll_abs ds)(py_norm iid \<mapsto> u)"
proof -
  let ?ps = "map (\<lambda>d. (py_norm (doc_id d), d)) ds"
  from find_idx_id_match_SomeD [OF assms(1)]
  have "i < length ?ps" "fst (?ps ! i) = py_norm iid" "\<forall>j<i. fst (?ps ! j) \<noteq> py_norm iid"
    by (simp_all add: coll_ids_def)
  then have "map_of (?ps[i := (py_norm iid, u)]) = (map_of ?ps)(py_norm iid \<mapsto> u)"
    by (rule map_of_list_update_first)
  then show ?thesis
    using assms(2) by (simp add: coll_abs_def map_update)
qed

lemma coll_ids_list_update:
  "i < length ds \<Longrightarrow> py_norm (doc_id u) = coll_ids ds ! i \<Longrightarrow> coll_ids (ds[i := u]) = coll_ids ds"
  by (simp add: coll_ids_def map_update list_update_same_conv)

lemma coll_inv_list_update:
  assumes "coll_inv ds" and "i < length ds" and "py_norm (doc_id u) = coll_ids ds ! i"
    and "has_key u ''id''" and "wf_doc u"
  shows "coll_inv (ds[i := u])"
  using assms set_update_subset_insert [of ds i u]
  by (auto simp: coll_inv_def coll_ids_list_update)

lemma coll_inv_remove_nth: "coll_inv ds \<Longrightarrow> coll_inv (remove_nth i ds)"
  using set_remove_nth_subset [of i ds]
  by (auto simp: coll_inv_def coll_ids_def map_remove_nth distinct_remove_nth)

lemma remove_nth_id_filter:
  assumes "coll_inv ds" and "find_idx (id_match iid) ds = Some i"
  shows "remove_nth i ds = filter (\<lambda>d. \<not> id_match iid d) ds"
proof -
  from find_idx_id_match_SomeD [OF assms(2)]
  have i: "i < length ds" and k: "py_norm (doc_id (ds ! i)) = py_norm iid"
    by (simp_all add: coll_ids_def)
  have "distinct (map (\<lambda>d. py_norm (doc_id d)) ds)"
    using assms(1) by (simp add: coll_inv_def coll_ids_def)
  then have "remove_nth i ds = filter (\<lambda>d. py_norm (doc_id d) \<noteq> py_norm (doc_id (ds ! i))) ds"
    using i by (rule remove_nth_conv_filter)
  then show ?thesis
    by (simp add: k id_match_iff_norm)
qed

subsection \<open>Properties of the store\<close>

text \<open>C1: Creating a document appends it to the collection file: it gets a generated id exactly when the caller gave none, both timestamps are the creation time, every other field is the caller's, and no other collection changes.\<close>

theorem create_item_spec:
  "let (d, fs') = create_item fs n item now uuid in
     contents fs' n = contents fs n @ [d] \<and>
     doc_id d = (if has_key item ''id'' then doc_id item else PStr uuid) \<and>
     dget d ''created_at'' PNone = PStr now \<and> dget d ''updated_at'' PNone = PStr now \<and>
     (\<forall>k. k \<notin> {''id'', ''created_at'', ''updated_at''} \<longrightarrow> map_of d k = map_of item k) \<and>
     (\<forall>n'. n' \<noteq> n \<longrightarrow> fs' n' = fs n')"
  by (simp add: create_item_eq doc_id_stamp_new map_of_stamp_new_other store_frame)

text \<open>C2: Creation keeps the collection invariant (every document has an id, is a well-formed dict, and ids are pairwise distinct under Python equality) provided the new id, the caller's or the generated one, is not already used.\<close>

theorem create_item_preserves_inv:
  assumes "coll_inv (contents fs n)" and "wf_doc item"
    and "if has_key item ''id'' then fresh_id (contents fs n) (doc_id item)
         else fresh_id (contents fs n) (PStr uuid)"
  shows "coll_inv (contents (snd (create_item fs n item now uuid)) n)"
  using assms by (simp add: coll_inv_append fresh_stamp_new)

text \<open>C3: Updating the first document whose id equals the given id replaces it in place by the caller's fields with the id forced to the given id, the stored creation time kept when the stored document has one, and the update time set to the current time; other collections are untouched.\<close>

theorem update_item_spec:
  assumes "find_idx (id_match iid) (contents fs n) = Some i"
  shows "let (r, fs') = update_item fs n iid upd now; old = contents fs n ! i in
     \<exists>u. r = Some u \<and> contents fs' n = (contents fs n)[i := u] \<and>
       doc_id u = iid \<and> dget u ''updated_at'' PNone = PStr now \<and>
       (has_key old ''created_at'' \<longrightarrow> dget u ''created_at'' PNone = dget old ''created_at'' PNone) \<and>
       (\<forall>k. k \<notin> {''id'', ''created_at'', ''updated_at''} \<longrightarrow> map_of u k = map_of upd k) \<and>
       (\<forall>n'. n' \<noteq> n \<longrightarrow> fs' n' = fs n')"
  using assms
  by (simp add: update_item_eq dget_stamp_update_created map_of_stamp_update_other store_frame)

text \<open>C4: An update keeps the collection invariant whenever the replacement fields form a well-formed dict.\<close>

theorem update_item_preserves_inv:
  assumes "coll_inv (contents fs n)" and "wf_doc upd"
  shows "coll_inv (contents (snd (update_item fs n iid upd now)) n)"
proof (cases "find_idx (id_match iid) (contents fs n)")
  case None
  with assms show ?thesis by (simp add: contents_update_item)
next
  case (Some i)
  from find_idx_id_match_SomeD [OF Some] assms show ?thesis
    by (simp add: contents_update_item Some coll_inv_list_update coll_ids_def)
qed

text \<open>C5: Deleting an id that occurs in a collection satisfying the invariant returns a document with that id and leaves exactly the other documents, one fewer, none of them with that id, and the invariant holds afterwards.\<close>

theorem delete_item_spec:
  assumes "coll_inv (contents fs n)" and "\<not> fresh_id (contents fs n) iid"
  shows "let (r, fs') = delete_item fs n iid in
     (\<exists>d. r = Some d \<and> d \<in> set (contents fs n) \<and> id_match iid d) \<and>
     contents fs' n = filter (\<lambda>d. \<not> id_match iid d) (contents fs n) \<and>
     length (contents fs' n) = length (contents fs n) - 1 \<and>
     fresh_id (contents fs' n) iid \<and> coll_inv (contents fs' n)"
proof -
  obtain i where i: "find_idx (id_match iid) (contents fs n) = Some i"
    using assms(2) find_idx_id_match_None by fastforce
  note fi = find_idx_SomeD [OF i]
  have rm: "remove_nth i (contents fs n) = filter (\<lambda>d. \<not> id_match iid d) (contents fs n)"
    using assms(1) i by (rule remove_nth_id_filter)
  have "coll_inv (remove_nth i (contents fs n))"
    using assms(1) by (rule coll_inv_remove_nth)
  moreover have "length (remove_nth i (contents fs n)) = length (contents fs n) - 1"
    using fi by simp
  ultimately show ?thesis
    using fi rm
    by (auto simp: delete_item_eq i fresh_id_def id_match_def)
qed

text \<open>C6: Lookup by id implements the abstract finite map from ids to documents.\<close>

theorem get_item_by_id_refines: "fst (get_item_by_id fs n iid) = coll_abs (contents fs n) (py_norm iid)"
  by (simp add: get_item_by_id_eq find_id_match_coll_abs)

text \<open>Creation with a fresh id implements insertion into the abstract map.\<close>

theorem create_item_refines:
  assumes "fresh_id (contents fs n) (doc_id (stamp_new item now uuid))"
  shows "coll_abs (contents (snd (create_item fs n item now uuid)) n) =
         (coll_abs (contents fs n))(py_norm (doc_id (stamp_new item now uuid)) \<mapsto> stamp_new item now uuid)"
  using assms by (simp add: coll_abs_append_fresh)

text \<open>C8: A successful update implements overwriting the entry of that id in the abstract map with the returned document.\<close>

theorem update_item_refines:
  assumes "fst (update_item fs n iid upd now) = Some u"
  shows "coll_abs (contents (snd (update_item fs n iid upd now)) n) =
         (coll_abs (contents fs n))(py_norm iid \<mapsto> u)"
proof (cases "find_idx (id_match iid) (contents fs n)")
  case None
  with assms show ?thesis by (simp add: update_item_eq)
next
  case (Some i)
  with assms have u: "u = stamp_update (contents fs n ! i) upd iid now"
    by (simp add: update_item_eq)
  from Some show ?thesis
    by (simp add: contents_update_item u coll_abs_list_update_first)
qed

text \<open>On a collection satisfying the invariant, deletion implements removal of that id from the abstract map, whether or not the id is present.\<close>

theorem delete_item_refines:
  assumes "coll_inv (contents fs n)"
  shows "coll_abs (contents (snd (delete_item fs n iid)) n) = (coll_abs (contents fs n))(py_norm iid := None)"
proof (cases "find_idx (id_match iid) (contents fs n)")
  case None
  then have "coll_abs (contents fs n) (py_norm iid) = None"
    by (simp add: find_id_match_coll_abs [symmetric] find_idx_None_iff find_None_iff)
  with None show ?thesis
    by (simp add: contents_delete_item fun_upd_idem)
next
  case (Some i)
  from find_idx_id_match_SomeD [OF Some]
  have i: "i < length (contents fs n)" and k: "py_norm (doc_id (contents fs n ! i)) = py_norm iid"
    by simp_all
  have "distinct (map fst (map (\<lambda>d. (py_norm (doc_id d), d)) (contents fs n)))"
    using assms by (simp add: coll_inv_def coll_ids_def comp_def)
  from map_of_remove_nth_distinct [OF this] i k show ?thesis
    by (simp add: contents_delete_item Some coll_abs_def map_remove_nth coll_ids_def)
qed

text \<open>Updating an id that no document has returns not-found and leaves the collection unchanged.\<close>

theorem update_item_absent:
  assumes "fresh_id (contents fs n) iid"
  shows "fst (update_item fs n iid upd now) = None \<and>
         contents (snd (update_item fs n iid upd now)) n = contents fs n"
  using assms by (simp add: update_item_eq find_idx_id_match_None [symmetric])

text \<open>Deleting an id that no document has returns not-found and leaves the collection unchanged.\<close>

theorem delete_item_absent:
  assumes "fresh_id (contents fs n) iid"
  shows "fst (delete_item fs n iid) = None \<and> contents (snd (delete_item fs n iid)) n = contents fs n"
  using assms by (simp add: delete_item_eq find_idx_id_match_None [symmetric])

text \<open>The store does not enforce id uniqueness: creating a document whose caller-supplied id is already used breaks the collection invariant.\<close>

theorem create_item_duplicate_id:
  assumes "has_key item ''id''" and "\<not> fresh_id (contents fs n) (doc_id item)"
  shows "\<not> coll_inv (contents (snd (create_item fs n item now uuid)) n)"
  using assms by (simp add: coll_inv_append fresh_stamp_new)


subsection \<open>Witnesses at the example collection\<close>

theorem create_item_spec_witness:
  "let (d, fs') = create_item ex_fs ''marketplace_items'' [(''title'', PStr ''Lamp'')] ''2024-03-01T12:00:00'' ''u-1'' in
     contents fs' ''marketplace_items'' = contents ex_fs ''marketplace_items'' @ [d] \<and>
     doc_id d = (if has_key [(''title'', PStr ''Lamp'')] ''id'' then doc_id [(''title'', PStr ''Lamp'')] else PStr ''u-1'') \<and>
     dget d ''created_at'' PNone = PStr ''2024-03-01T12:00:00'' \<and> dget d ''updated_at'' PNone = PStr ''2024-03-01T12:00:00'' \<and>
     (\<forall>k. k \<notin> {''id'', ''created_at'', ''updated_at''} \<longrightarrow> map_of d k = map_of [(''title'', PStr ''Lamp'')] k) \<and>
     (\<forall>n'. n' \<noteq> ''marketplace_items'' \<longrightarrow> fs' n' = ex_fs n')"
  by (rule create_item_spec)

theorem create_item_preserves_inv_witness:
  "coll_inv (contents ex_fs ''marketplace_items'') \<and> wf_doc [(''title'', PStr ''Lamp'')] \<and>
   (if has_key [(''title'', PStr ''Lamp'')] ''id'' then fresh_id (contents ex_fs ''marketplace_items'') (doc_id [(''title'', PStr ''Lamp'')])
    else fresh_id (contents ex_fs ''marketplace_items'') (PStr ''u-1'')) \<and>
   coll_inv (contents (snd (create_item ex_fs ''marketplace_items'' [(''title'', PStr ''Lamp'')] ''2024-03-01T12:00:00'' ''u-1'')) ''marketplace_items'')"
proof -
  have h1: "coll_inv (contents ex_fs ''marketplace_items'')" by (simp add: model_simps)
  have h2: "wf_doc [(''title'', PStr ''Lamp'')]" by (simp add: model_simps)
  have h3: "if has_key [(''title'', PStr ''Lamp'')] ''id'' then fresh_id (contents ex_fs ''marketplace_items'') (doc_id [(''title'', PStr ''Lamp'')])
            else fresh_id (contents ex_fs ''marketplace_items'') (PStr ''u-1'')" by (simp add: model_simps)
  show ?thesis using h1 h2 h3 create_item_preserves_inv [OF h1 h2 h3] by simp
qed

theorem update_item_spec_witness:
  "find_idx (id_match (PStr ''b2'')) (contents ex_fs ''marketplace_items'') = Some 1 \<and>
   (let (r, fs') = update_item ex_fs ''marketplace_items'' (PStr ''b2'') [(''title'', PStr ''New'')] ''2024-03-01T12:00:00''; old = contents ex_fs ''marketplace_items'' ! 1 in
     \<exists>u. r = Some u \<and> contents fs' ''marketplace_items'' = (contents ex_fs ''marketplace_items'')[1 := u] \<and>
       doc_id u = PStr ''b2'' \<and> dget u ''updated_at'' PNone = PStr ''2024-03-01T12:00:00'' \<and>
       (has_key old ''created_at'' \<longrightarrow> dget u ''created_at'' PNone = dget old ''created_at'' PNone) \<and>
       (\<forall>k. k \<notin> {''id'', ''created_at'', ''updated_at''} \<longrightarrow> map_of u k = map_of [(''title'', PStr ''New'')] k) \<and>
       (\<forall>n'. n' \<noteq> ''marketplace_items'' \<longrightarrow> fs' n' = ex_fs n'))"
proof -
  have h: "find_idx (id_match (PStr ''b2'')) (contents ex_fs ''marketplace_items'') = Some 1" by (simp add: model_simps)
  show ?thesis using h update_item_spec [OF h, of "[(''title'', PStr ''New'')]" "''2024-03-01T12:00:00''"] by simp
qed

theorem update_item_preserves_inv_witness:
  "coll_inv (contents ex_fs ''marketplace_items'') \<and> wf_doc [(''title'', PStr ''New'')] \<and>
   coll_inv (contents (snd (update_item ex_fs ''marketplace_items'' (PStr ''a1'') [(''title'', PStr ''New'')] ''2024-03-01T12:00:00'')) ''marketplace_items'')"
proof -
  have h1: "coll_inv (contents ex_fs ''marketplace_items'')" by (simp add: model_simps)
  have h2: "wf_doc [(''title'', PStr ''New'')]" by (simp add: model_simps)
  show ?thesis using h1 h2 update_item_preserves_inv [OF h1 h2] by simp
qed

theorem delete_item_spec_witness:
  "coll_inv (contents ex_fs ''marketplace_items'') \<and> \<not> fresh_id (contents ex_fs ''marketplace_items'') (PStr ''a1'') \<and>
   (let (r, fs') = delete_item ex_fs ''marketplace_items'' (PStr ''a1'') in
     (\<exists>d. r = Some d \<and> d \<in> set (contents ex_fs ''marketplace_items'') \<and> id_match (PStr ''a1'') d) \<and>
     contents fs' ''marketplace_items'' = filter (\<lambda>d. \<not> id_match (PStr ''a1'') d) (contents ex_fs ''marketplace_items'') \<and>
     length (contents fs' ''marketplace_items'') = length (contents ex_fs ''marketplace_items'') - 1 \<and>
     fresh_id (contents fs' ''marketplace_items'') (PStr ''a1'') \<and> coll_inv (contents fs' ''marketplace_items''))"
proof -
  have h1: "coll_inv (contents ex_fs ''marketplace_items'')" by (simp add: model_simps)
  have h2: "\<not> fresh_id (contents ex_fs ''marketplace_items'') (PStr ''a1'')" by (simp add: model_simps)
  show ?thesis using h1 h2 delete_item_spec [OF h1 h2] by simp
qed

theorem get_item_by_id_refines_witness:
  "fst (get_item_by_id ex_fs ''marketplace_items'' (PStr ''b2'')) = coll_abs (contents ex_fs ''marketplace_items'') (py_norm (PStr ''b2'')) \<and>
   fst (get_item_by_id ex_fs ''marketplace_items'' (PStr ''b2'')) = Some ex_table"
  using get_item_by_id_refines [of ex_fs "''marketplace_items''" "PStr ''b2''"] by (simp add: model_simps)

theorem create_item_refines_witness:
  "fresh_id (contents ex_fs ''marketplace_items'') (doc_id (stamp_new [(''title'', PStr ''Lamp'')] ''2024-03-01T12:00:00'' ''u-1'')) \<and>
   coll_abs (contents (snd (create_item ex_fs ''marketplace_items'' [(''title'', PStr ''Lamp'')] ''2024-03-01T12:00:00'' ''u-1'')) ''marketplace_items'') =
   (coll_abs (contents ex_fs ''marketplace_items''))(py_norm (doc_id (stamp_new [(''title'', PStr ''Lamp'')] ''2024-03-01T12:00:00'' ''u-1'')) \<mapsto> stamp_new [(''title'', PStr ''Lamp'')] ''2024-03-01T12:00:00'' ''u-1'')"
proof -
  have h: "fresh_id (contents ex_fs ''marketplace_items'') (doc_id (stamp_new [(''title'', PStr ''Lamp'')] ''2024-03-01T12:00:00'' ''u-1''))" by (simp add: model_simps Let_def)
  show ?thesis using h create_item_refines [OF h] by simp
qed

theorem update_item_refines_witness:
  "fst (update_item ex_fs ''marketplace_items'' (PStr ''a1'') [(''title'', PStr ''New'')] ''2024-03-01T12:00:00'') =
     Some [(''title'', PStr ''New''), (''id'', PStr ''a1''), (''created_at'', PStr ''2024-01-01T10:00:00''),
           (''updated_at'', PStr ''2024-03-01T12:00:00'')] \<and>
   coll_abs (contents (snd (update_item ex_fs ''marketplace_items'' (PStr ''a1'') [(''title'', PStr ''New'')] ''2024-03-01T12:00:00'')) ''marketplace_items'') =
   (coll_abs (contents ex_fs ''marketplace_items''))(py_norm (PStr ''a1'') \<mapsto>
     [(''title'', PStr ''New''), (''id'', PStr ''a1''), (''created_at'', PStr ''2024-01-01T10:00:00''),
      (''updated_at'', PStr ''2024-03-01T12:00:00'')])"
proof -
  have h: "fst (update_item ex_fs ''marketplace_items'' (PStr ''a1'') [(''title'', PStr ''New'')] ''2024-03-01T12:00:00'') =
     Some [(''title'', PStr ''New''), (''id'', PStr ''a1''), (''created_at'', PStr ''2024-01-01T10:00:00''),
           (''updated_at'', PStr ''2024-03-01T12:00:00'')]" by (simp add: model_simps Let_def)
  show ?thesis using h update_item_refines [OF h] by simp
qed

theorem delete_item_refines_witness:
  "coll_inv (contents ex_fs ''marketplace_items'') \<and>
   coll_abs (contents (snd (delete_item ex_fs ''marketplace_items'' (PStr ''a1''))) ''marketplace_items'') =
   (coll_abs (contents ex_fs ''marketplace_items''))(py_norm (PStr ''a1'') := None)"
proof -
  have h: "coll_inv (contents ex_fs ''marketplace_items'')" by (simp add: model_simps)
  show ?thesis using h delete_item_refines [OF h] by simp
qed

theorem update_item_absent_witness:
  "fresh_id (contents ex_fs ''marketplace_items'') (PStr ''zz'') \<and>
   fst (update_item ex_fs ''marketplace_items'' (PStr ''zz'') [(''title'', PStr ''New'')] ''2024-03-01T12:00:00'') = None \<and>
   contents (snd (update_item ex_fs ''marketplace_items'' (PStr ''zz'') [(''title'', PStr ''New'')] ''2024-03-01T12:00:00'')) ''marketplace_items'' = contents ex_fs ''marketplace_items''"
proof -
  have h: "fresh_id (contents ex_fs ''marketplace_items'') (PStr ''zz'')" by (simp add: model_simps)
  show ?thesis using h update_item_absent [OF h] by simp
qed

theorem delete_item_absent_witness:
  "fresh_id (contents ex_fs ''marketplace_items'') (PStr ''zz'') \<and>
   fst (delete_item ex_fs ''marketplace_items'' (PStr ''zz'')) = None \<and>
   contents (snd (delete_item ex_fs ''marketplace_items'' (PStr ''zz''))) ''marketplace_items'' = contents ex_fs ''marketplace_items''"
proof -
  have h: "fresh_id (contents ex_fs ''marketplace_items'') (PStr ''zz'')" by (simp add: model_simps)
  show ?thesis using h delete_item_absent [OF h] by simp
qed

theorem create_item_duplicate_id_witness:
  "has_key [(''id'', PStr ''a1''), (''title'', PStr ''Copy'')] ''id'' \<and>
   \<not> fresh_id (contents ex_fs ''marketplace_items'') (doc_id [(''id'', PStr ''a1''), (''title'', PStr ''Copy'')]) \<and>
   \<not> coll_inv (contents (snd (create_item ex_fs ''marketplace_items'' [(''id'', PStr ''a1''), (''title'', PStr ''Copy'')] ''2024-03-01T12:00:00'' ''u-1'')) ''marketplace_items'')"
proof -
  have h1: "has_key [(''id'', PStr ''a1''), (''title'', PStr ''Copy'')] ''id''" by (simp add: model_simps)
  have h2: "\<not> fresh_id (contents ex_fs ''marketplace_items'') (doc_id [(''id'', PStr ''a1''), (''title'', PStr ''Copy'')])"
    by (simp add: model_simps)
  show ?thesis using h1 h2 create_item_duplicate_id [OF h1 h2] by simp
qed

end
