(* ===== verification/Filtering.thy ===== *)
theory Filtering
  imports Store
begin

text \<open>
  \<open>get_all_items\<close> of \<open>json_manager.py\<close> (lines 65--86): the scan primitive under every
  query. The filters are a Python dict, an association list in insertion order; each entry
  narrows the list once. A key containing \<open>__\<close> is split into field and operator
  (unpacking raises \<open>ValueError\<close> unless the split gives exactly two parts); the
  operators \<open>contains\<close>, \<open>exact\<close> and \<open>in\<close> select, any other operator leaves the
  list as it is. A key without \<open>__\<close> is an equality test. Every test requires the
  field to be present. The element tests of \<open>contains\<close> and \<open>in\<close> may raise,
  which aborts the whole call.
\<close>

type_synonym filters = "(string \<times> pyval) list"

definition eq_test :: "string \<Rightarrow> pyval \<Rightarrow> doc \<Rightarrow> bool" where
  "eq_test field value item = (has_key item field \<and> py_eq (dget item field PNone) value)"

definition contains_test :: "string \<Rightarrow> pyval \<Rightarrow> doc \<Rightarrow> py_error + bool" where
  "contains_test field value item =
     (if has_key item field then
        (case value of
           PStr v \<Rightarrow> Inr (sublist (py_lower v) (py_lower (py_str (dget item field PNone))))
         | _ \<Rightarrow> Inl AttributeError)
      else Inr False)"

definition in_test :: "string \<Rightarrow> pyval \<Rightarrow> doc \<Rightarrow> py_error + bool" where
  "in_test field value item =
     (if has_key item field then py_in (dget item field PNone) value else Inr False)"

definition apply_filter :: "string \<Rightarrow> pyval \<Rightarrow> doc list \<Rightarrow> py_error + doc list" where
  "apply_filter key value data =
     (if sublist ''__'' key then
        (case split_dunder key of
           [field, operator] \<Rightarrow>
             (if operator = ''contains'' then filter_err (contains_test field value) data
              else if operator = ''exact'' then Inr (filter (eq_test field value) data)
              else if operator = ''in'' then filter_err (in_test field value) data
              else Inr data)
         | _ \<Rightarrow> Inl ValueError)
      else Inr (filter (eq_test key value) data))"

fun apply_filters :: "filters \<Rightarrow> doc list \<Rightarrow> py_error + doc list" where
  "apply_filters [] data = Inr data"
| "apply_filters ((k, v) # flt) data =
     (case apply_filter k v data of Inl e \<Rightarrow> Inl e | Inr data' \<Rightarrow> apply_filters flt data')"

definition get_all_items :: "store \<Rightarrow> string \<Rightarrow> filters \<Rightarrow> (py_error + doc list) \<times> store" where
  "get_all_items fs n flt =
     (let (data, fs1) = load_data fs n
      in (if flt = [] then Inr data else apply_filters flt data, fs1))"

definition simple_filters :: "filters \<Rightarrow> bool" where
  "simple_filters flt = (\<forall>(k, v)\<in>set flt. \<not> sublist ''__'' k)"

definition matches_all :: "filters \<Rightarrow> doc \<Rightarrow> bool" where
  "matches_all flt d = (\<forall>(k, v)\<in>set flt. eq_test k v d)"

lemmas filter_defs [model_simps] = eq_test_def contains_test_def in_test_def apply_filter_def
  get_all_items_def simple_filters_def matches_all_def

subsection \<open>Lemmas\<close>

lemma split_dunder_from_two_sep:
  "Suc 0 < length (split_dunder_from cur s) \<Longrightarrow> sublist ''__'' s"
proof (induction cur s rule: split_dunder_from.induct)
  case (3 cur c d cs)
  show ?case
  proof (cases "c = CHR ''_'' \<and> d = CHR ''_''")
    case True
    then show ?thesis by (auto simp: sublist_Cons_right)
  next
    case False
    with "3.prems" have "Suc 0 < length (split_dunder_from (cur @ [c]) (d # cs))" by simp
    with "3.IH" False have "sublist ''__'' (d # cs)" by blast
    then show ?thesis by (auto simp: sublist_Cons_right)
  qed
qed simp_all

lemma split_dunder_pair_sep: "split_dunder key = [f, op] \<Longrightarrow> sublist ''__'' key"
  using split_dunder_from_two_sep [of "[]" key] by (simp add: split_dunder_def)

lemma apply_filter_simple:
  "\<not> sublist ''__'' k \<Longrightarrow> apply_filter k v data = Inr (filter (eq_test k v) data)"
  by (simp add: apply_filter_def)

lemma apply_filter_op:
  "split_dunder key = [f, op] \<Longrightarrow>
   apply_filter key value data =
     (if op = ''contains'' then filter_err (contains_test f value) data
      else if op = ''exact'' then Inr (filter (eq_test f value) data)
      else if op = ''in'' then filter_err (in_test f value) data
      else Inr data)"
  by (simp add: apply_filter_def split_dunder_pair_sep)

lemma apply_filters_simple:
  "simple_filters flt \<Longrightarrow> apply_filters flt data = Inr (filter (matches_all flt) data)"
proof (induction flt arbitrary: data)
  case Nil
  then show ?case by (simp add: matches_all_def)
next
  case (Cons p flt)
  obtain k v where p: "p = (k, v)" by fastforce
  from Cons.prems have "\<not> sublist ''__'' k" and "simple_filters flt"
    by (simp_all add: simple_filters_def p)
  with Cons.IH show ?case
    by (simp add: p apply_filter_simple filter_filter matches_all_def conj_commute)
qed

lemma apply_filter_subseq: "apply_filter k v data = Inr r \<Longrightarrow> subseq r data"
  by (auto simp: apply_filter_def split: if_splits list.splits
           dest: filter_err_Inr_subseq)

lemma apply_filters_subseq: "apply_filters flt data = Inr r \<Longrightarrow> subseq r data"
proof (induction flt arbitrary: data)
  case Nil
  then show ?case by simp
next
  case (Cons p flt)
  obtain k v where p: "p = (k, v)" by fastforce
  with Cons.prems obtain data' where a: "apply_filter k v data = Inr data'"
    and r: "apply_filters flt data' = Inr r"
    by (auto split: sum.splits)
  from Cons.IH [OF r] apply_filter_subseq [OF a] show ?case
    by (rule subseq_order.trans)
qed

lemma get_all_items_eq:
  "get_all_items fs n flt =
     ((if flt = [] then Inr (contents fs n) else apply_filters flt (contents fs n)),
      snd (load_data fs n))"
proof -
  obtain ds fs1 where l: "load_data fs n = (ds, fs1)" by fastforce
  then show ?thesis by (simp add: get_all_items_def contents_def l)
qed

lemma get_all_items_simple:
  "simple_filters flt \<Longrightarrow> fst (get_all_items fs n flt) = Inr (filter (matches_all flt) (contents fs n))"
  by (simp add: get_all_items_eq apply_filters_simple matches_all_def)

lemma filter_err_cong_total:
  "(\<And>d. t d = Inr (P d)) \<Longrightarrow> filter_err t data = Inr (filter P data)"
proof -
  assume "\<And>d. t d = Inr (P d)"
  then have "t = (\<lambda>d. Inr (P d))" by (rule ext)
  then show ?thesis by simp
qed

lemma filter_err_error_or_false:
  "(\<And>d. t d = (if Q d then Inl e else Inr False)) \<Longrightarrow>
   filter_err t data = (if \<exists>d\<in>set data. Q d then Inl e else Inr [])"
  by (induction data) auto

lemma split_dunder_other_sep:
  "sublist ''__'' key \<Longrightarrow> length (split_dunder key) \<noteq> 2 \<Longrightarrow>
   apply_filter key value data = Inl ValueError"
  by (auto simp: apply_filter_def numeral_2_eq_2 split: list.split)

subsection \<open>Properties of the scan\<close>

text \<open>C13: With filter keys that name plain fields, the scan never raises and returns, in
  file order, exactly the documents that have every named field with a value equal (Python
  \<open>==\<close>) to the given one: the filters combine by conjunction and a missing field excludes.\<close>

theorem get_all_items_conjunction:
  assumes "simple_filters flt"
  shows "fst (get_all_items fs n flt) =
    Inr [d \<leftarrow> contents fs n. \<forall>(k, v)\<in>set flt. has_key d k \<and> py_eq (dget d k PNone) v]"
proof -
  have "matches_all flt = (\<lambda>d. \<forall>(k, v)\<in>set flt. has_key d k \<and> py_eq (dget d k PNone) v)"
    unfolding matches_all_def eq_test_def by simp
  with get_all_items_simple [OF assms] show ?thesis by simp
qed

text \<open>C14: \<open>field__contains\<close> with a string keeps exactly the documents that have the field
  and whose \<open>str()\<close> of it contains the string, ignoring (ASCII) case.\<close>

theorem filter_contains_spec:
  assumes "split_dunder key = [f, ''contains'']"
  shows "apply_filter key (PStr v) data =
    Inr [d \<leftarrow> data. has_key d f \<and> sublist (py_lower v) (py_lower (py_str (dget d f PNone)))]"
  using assms by (simp add: apply_filter_op filter_err_cong_total contains_test_def)

text \<open>\<open>field__in\<close> with a list keeps exactly the documents that have the field with a
  value equal to one of the candidates.\<close>

theorem filter_in_spec:
  assumes "split_dunder key = [f, ''in'']"
  shows "apply_filter key (PList cands) data =
    Inr [d \<leftarrow> data. has_key d f \<and> (\<exists>c\<in>set cands. py_eq (dget d f PNone) c)]"
  using assms by (simp add: apply_filter_op filter_err_cong_total in_test_def list_ex_iff)

text \<open>The spec's example: over \<open>Blue Chair\<close> and \<open>Red Table\<close>,
  \<open>title__contains="CHAIR"\<close> returns exactly the first and
  \<open>title__in=["Red Table"]\<close> exactly the second.\<close>

theorem filter_operator_example:
  "fst (get_all_items ex_fs ''marketplace_items'' [(''title__contains'', PStr ''CHAIR'')]) = Inr [ex_chair] \<and>
   fst (get_all_items ex_fs ''marketplace_items'' [(''title__in'', PList [PStr ''Red Table''])]) = Inr [ex_table]"
  by (simp add: model_simps)

text \<open>An operator other than \<open>contains\<close>, \<open>exact\<close> and \<open>in\<close> is silently ignored:
  the filter keeps every document.\<close>

theorem filter_unknown_operator_ignored:
  assumes "split_dunder key = [f, op]" and "op \<notin> {''contains'', ''exact'', ''in''}"
  shows "apply_filter key value data = Inr data"
  using assms by (simp add: apply_filter_op)

text \<open>A key with \<open>__\<close> that does not split into exactly field and operator makes
  the scan raise \<open>ValueError\<close>, whatever the documents.\<close>

theorem filter_malformed_key_error:
  assumes "sublist ''__'' key" and "length (split_dunder key) \<noteq> 2"
  shows "fst (get_all_items fs n ((key, value) # flt)) = Inl ValueError"
  using assms by (simp add: get_all_items_eq split_dunder_other_sep)

text \<open>\<open>field__contains\<close> with a value that is not a string raises
  \<open>AttributeError\<close> exactly when some document has the field, and returns nothing
  otherwise.\<close>

theorem filter_contains_nonstring:
  assumes "split_dunder key = [f, ''contains'']" and "\<forall>s. value \<noteq> PStr s"
  shows "apply_filter key value data =
    (if \<exists>d\<in>set data. has_key d f then Inl AttributeError else Inr [])"
proof -
  have "contains_test f value d = (if has_key d f then Inl AttributeError else Inr False)" for d
    using assms(2) by (cases "value") (auto simp: contains_test_def)
  then show ?thesis
    using assms(1) by (simp add: apply_filter_op filter_err_error_or_false)
qed

text \<open>Whatever the filters, a successful scan returns a subsequence of the collection:
  documents in file order, none invented or repeated.\<close>

theorem get_all_items_subseq:
  assumes "fst (get_all_items fs n flt) = Inr r"
  shows "subseq r (contents fs n)"
  using assms by (auto simp: get_all_items_eq split: if_splits dest: apply_filters_subseq)

subsection \<open>Witnesses\<close>

theorem get_all_items_conjunction_witness:
  "simple_filters [(''status'', PStr ''available'')] \<and>
   fst (get_all_items ex_fs ''marketplace_items'' [(''status'', PStr ''available'')]) =
    Inr [d \<leftarrow> contents ex_fs ''marketplace_items''.
         \<forall>(k, v)\<in>set [(''status'', PStr ''available'')]. has_key d k \<and> py_eq (dget d k PNone) v]"
proof -
  have h: "simple_filters [(''status'', PStr ''available'')]" by (simp add: model_simps)
  show ?thesis using h get_all_items_conjunction [OF h] by simp
qed

theorem filter_contains_spec_witness:
  "split_dunder ''title__contains'' = [''title'', ''contains''] \<and>
   apply_filter ''title__contains'' (PStr ''chair'') [ex_chair, ex_table] =
    Inr [d \<leftarrow> [ex_chair, ex_table]. has_key d ''title'' \<and>
          sublist (py_lower ''chair'') (py_lower (py_str (dget d ''title'' PNone)))]"
proof -
  have h: "split_dunder ''title__contains'' = [''title'', ''contains'']" by (simp add: model_simps)
  show ?thesis using h filter_contains_spec [OF h] by simp
qed

theorem filter_in_spec_witness:
  "split_dunder ''title__in'' = [''title'', ''in''] \<and>
   apply_filter ''title__in'' (PList [PStr ''Red Table'']) [ex_chair, ex_table] =
    Inr [d \<leftarrow> [ex_chair, ex_table]. has_key d ''title'' \<and>
          (\<exists>c\<in>set [PStr ''Red Table'']. py_eq (dget d ''title'' PNone) c)]"
proof -
  have h: "split_dunder ''title__in'' = [''title'', ''in'']" by (simp add: model_simps)
  show ?thesis using h filter_in_spec [OF h] by simp
qed

theorem filter_unknown_operator_ignored_witness:
  "split_dunder ''created_at__gte'' = [''created_at'', ''gte''] \<and>
   ''gte'' \<notin> {''contains'', ''exact'', ''in''} \<and>
   apply_filter ''created_at__gte'' (PStr ''2025'') [ex_chair, ex_table] = Inr [ex_chair, ex_table]"
proof -
  have h1: "split_dunder ''created_at__gte'' = [''created_at'', ''gte'']" by (simp add: model_simps)
  have h2: "''gte'' \<notin> {''contains'', ''exact'', ''in''}" by simp
  show ?thesis using h1 h2 filter_unknown_operator_ignored [OF h1 h2] by simp
qed

theorem filter_malformed_key_error_witness:
  "sublist ''__'' ''a__b__c'' \<and> length (split_dunder ''a__b__c'') \<noteq> 2 \<and>
   fst (get_all_items ex_fs ''marketplace_items'' [(''a__b__c'', PNone)]) = Inl ValueError"
proof -
  have h1: "sublist ''__'' ''a__b__c''" by (simp add: model_simps)
  have h2: "length (split_dunder ''a__b__c'') \<noteq> 2" by (simp add: model_simps)
  show ?thesis using h1 h2 filter_malformed_key_error [OF h1 h2, of ex_fs] by simp
qed

theorem filter_contains_nonstring_witness:
  "split_dunder ''title__contains'' = [''title'', ''contains''] \<and> (\<forall>s. PInt 3 \<noteq> PStr s) \<and>
   apply_filter ''title__contains'' (PInt 3) [ex_chair, ex_table] = Inl AttributeError"
proof -
  have h1: "split_dunder ''title__contains'' = [''title'', ''contains'']" by (simp add: model_simps)
  have h2: "\<forall>s. PInt 3 \<noteq> PStr s" by simp
  show ?thesis using h1 h2 filter_contains_nonstring [OF h1 h2, of "[ex_chair, ex_table]"]
    by (simp add: model_simps)
qed

end
