(* ===== verification/Sort_Page.thy ===== *)
theory Sort_Page
  imports Store
begin

text \<open>
  \<open>sort_items\<close> and \<open>paginate_items\<close> of \<open>json_manager.py\<close> (lines 134--146).
  \<open>sorted(items, key=lambda x: x.get(sort_by, ''), reverse=...)\<close> compares keys with
  Python's \<open><\<close>: numbers (booleans included) with numbers, strings by code point, lists
  lexicographically, and raises \<open>TypeError\<close> for any other pair (a string and a number,
  \<open>None\<close> with anything). The sort is stable, and \<open>reverse=True\<close> reverses the list,
  sorts stably and reverses the result, so equal keys keep their order.

  Which comparisons Timsort makes depends on the input, but not whether it raises: two keys
  that are incomparable have no key strictly between them, so they would be neighbours in
  any sorted result, and every comparison sort compares each pair of neighbours of its
  result. Hence \<open>sorted\<close> raises exactly when two items at different positions have
  incomparable keys, and otherwise returns the stable sort, here written as insertion sort.
\<close>

fun py_lt :: "pyval \<Rightarrow> pyval \<Rightarrow> py_error + bool"
  and py_lt_list :: "pyval list \<Rightarrow> pyval list \<Rightarrow> py_error + bool" where
  "py_lt (PStr a) (PStr b) = Inr (a < b)"
| "py_lt (PList xs) (PList ys) = py_lt_list xs ys"
| "py_lt a b = (case (py_num a, py_num b) of (Some m, Some n) \<Rightarrow> Inr (m < n) | _ \<Rightarrow> Inl TypeError)"
| "py_lt_list [] [] = Inr False"
| "py_lt_list [] (y # ys) = Inr True"
| "py_lt_list (x # xs) [] = Inr False"
| "py_lt_list (x # xs) (y # ys) = (if py_eq x y then py_lt_list xs ys else py_lt x y)"

fun comparable :: "(doc \<Rightarrow> pyval) \<Rightarrow> doc list \<Rightarrow> bool" where
  "comparable key [] = True"
| "comparable key (x # xs) = ((\<forall>y\<in>set xs. \<not> isl (py_lt (key x) (key y))) \<and> comparable key xs)"

fun insort_py :: "(doc \<Rightarrow> pyval) \<Rightarrow> doc \<Rightarrow> doc list \<Rightarrow> doc list" where
  "insort_py key x [] = [x]"
| "insort_py key x (y # ys) =
     (if py_lt (key y) (key x) = Inr True then y # insort_py key x ys else x # y # ys)"

fun sort_py :: "(doc \<Rightarrow> pyval) \<Rightarrow> doc list \<Rightarrow> doc list" where
  "sort_py key [] = []"
| "sort_py key (x # xs) = insort_py key x (sort_py key xs)"

definition py_sorted :: "(doc \<Rightarrow> pyval) \<Rightarrow> bool \<Rightarrow> doc list \<Rightarrow> py_error + doc list" where
  "py_sorted key reverse xs =
     (if comparable key xs
      then Inr (if reverse then rev (sort_py key (rev xs)) else sort_py key xs)
      else Inl TypeError)"

definition strip_minus :: "string \<Rightarrow> bool \<Rightarrow> string \<times> bool" where
  "strip_minus s reverse = (if prefix ''-'' s then (drop 1 s, True) else (s, reverse))"

definition sort_items :: "doc list \<Rightarrow> string \<Rightarrow> bool \<Rightarrow> py_error + doc list" where
  "sort_items items sort_by reverse =
     (let (f, r) = strip_minus sort_by reverse
      in py_sorted (\<lambda>x. dget x f (PStr [])) r items)"

definition paginate_items :: "'a list \<Rightarrow> int \<Rightarrow> int \<Rightarrow> 'a list" where
  "paginate_items items page per_page =
     (let start = (page - 1) * per_page; stop = start + per_page in py_slice items start stop)"

fun str_val :: "pyval \<Rightarrow> string" where
  "str_val (PStr s) = s"
| "str_val _ = []"

definition sort_key_of :: "string \<Rightarrow> doc \<Rightarrow> pyval" where
  "sort_key_of f d = dget d f (PStr [])"

abbreviation ex_a :: doc where "ex_a \<equiv> [(''id'', PStr ''A''), (''created_at'', PStr ''2024-01-01T10:00:00'')]"
abbreviation ex_b :: doc where "ex_b \<equiv> [(''id'', PStr ''B''), (''created_at'', PStr ''2024-01-02T10:00:00'')]"
abbreviation ex_c :: doc where "ex_c \<equiv> [(''id'', PStr ''C''), (''created_at'', PStr ''2024-01-03T10:00:00'')]"

lemmas sort_defs [model_simps] = py_sorted_def strip_minus_def sort_items_def paginate_items_def
  py_slice_def slice_bound_def py_index_def sort_key_of_def

subsection \<open>Insertion sort agrees with the library's stable sort\<close>

lemma set_insort_py [simp]: "set (insort_py key x ys) = insert x (set ys)"
  by (induction ys) auto

lemma set_sort_py [simp]: "set (sort_py key xs) = set xs"
  by (induction xs) auto

lemma py_sorted_set: "py_sorted key r xs = Inr ys \<Longrightarrow> set ys = set xs"
  by (auto simp: py_sorted_def split: if_splits)

lemma insort_py_eq_insort_key:
  assumes "\<forall>a\<in>insert x (set ys). \<forall>b\<in>insert x (set ys). py_lt (key a) (key b) = Inr (f a < f b)"
  shows "insort_py key x ys = insort_key f x ys"
  using assms
proof (induction ys)
  case Nil
  then show ?case by simp
next
  case (Cons y ys)
  then have "py_lt (key y) (key x) = Inr (f y < f x)" by simp
  with Cons show ?case by (auto simp: not_less)
qed

lemma sort_py_eq_sort_key:
  assumes "\<forall>a\<in>set xs. \<forall>b\<in>set xs. py_lt (key a) (key b) = Inr (f a < f b)"
  shows "sort_py key xs = sort_key f xs"
  using assms
proof (induction xs)
  case Nil
  then show ?case by simp
next
  case (Cons x xs)
  then have "sort_py key xs = sort_key f xs" by simp
  moreover have "insort_py key x (sort_key f xs) = insort_key f x (sort_key f xs)"
    using Cons.prems by (intro insort_py_eq_insort_key) simp
  ultimately show ?case by simp
qed

lemma comparable_if_total:
  "\<forall>a\<in>set xs. \<forall>b\<in>set xs. \<not> isl (py_lt (key a) (key b)) \<Longrightarrow> comparable key xs"
  by (induction xs) auto

lemma py_lt_PStr [simp]: "py_lt (PStr a) (PStr b) = Inr (a < b)"
  by simp

lemma string_keys_lt:
  assumes "\<forall>d\<in>set xs. \<exists>s. key d = PStr s"
  shows "\<forall>a\<in>set xs. \<forall>b\<in>set xs. py_lt (key a) (key b) = Inr (str_val (key a) < str_val (key b))"
proof (intro ballI)
  fix a b
  assume "a \<in> set xs" and "b \<in> set xs"
  with assms obtain s t where "key a = PStr s" and "key b = PStr t" by blast
  then show "py_lt (key a) (key b) = Inr (str_val (key a) < str_val (key b))" by simp
qed

lemma string_keys_comparable:
  assumes "\<forall>d\<in>set xs. \<exists>s. key d = PStr s"
  shows "comparable key xs"
  using string_keys_lt [OF assms] by (intro comparable_if_total) simp

lemma py_sorted_strings:
  assumes "\<forall>d\<in>set xs. \<exists>s. key d = PStr s"
  shows "py_sorted key r xs =
    Inr (if r then rev (sort_key (\<lambda>d. str_val (key d)) (rev xs)) else sort_key (\<lambda>d. str_val (key d)) xs)"
proof -
  have "sort_py key xs = sort_key (\<lambda>d. str_val (key d)) xs"
    using string_keys_lt [OF assms] by (rule sort_py_eq_sort_key)
  moreover have "sort_py key (rev xs) = sort_key (\<lambda>d. str_val (key d)) (rev xs)"
    using string_keys_lt [of "rev xs"] assms by (intro sort_py_eq_sort_key) simp
  ultimately show ?thesis
    using string_keys_comparable [OF assms] by (simp add: py_sorted_def)
qed

lemma py_sorted_incomparable:
  assumes "\<not> comparable key xs"
  shows "py_sorted key r xs = Inl TypeError"
  using assms by (simp add: py_sorted_def)

lemma comparable_pair:
  "i < length xs \<Longrightarrow> j < length xs \<Longrightarrow> i < j \<Longrightarrow> comparable key xs \<Longrightarrow>
   \<not> isl (py_lt (key (xs ! i)) (key (xs ! j)))"
proof (induction xs arbitrary: i j)
  case Nil
  then show ?case by simp
next
  case (Cons x xs)
  show ?case
  proof (cases i)
    case 0
    with Cons.prems obtain j' where "j = Suc j'" "j' < length xs"
      by (cases j) auto
    with Cons.prems 0 show ?thesis by auto
  next
    case (Suc i')
    with Cons.prems obtain j' where "j = Suc j'"
      by (cases j) auto
    with Cons Suc show ?thesis by auto
  qed
qed


subsection \<open>Helper lemmas on the key order\<close>

lemma py_lt_isl_sym: "isl (py_lt a b) \<longleftrightarrow> isl (py_lt b a)"
  and py_lt_list_isl_sym: "isl (py_lt_list xs ys) \<longleftrightarrow> isl (py_lt_list ys xs)"
proof (induction a b and xs ys rule: py_lt_py_lt_list.induct)
  case (7 x xs y ys)
  then show ?case by (auto simp: py_eq_sym)
qed (auto split: option.split)

lemma strip_minus_plain: "\<not> prefix ''-'' f \<Longrightarrow> strip_minus f r = (f, r)"
  by (simp add: strip_minus_def)

lemma strip_minus_minus: "strip_minus (CHR ''-'' # f) r = (f, True)"
  by (simp add: strip_minus_def)

lemma sort_items_eq: "strip_minus s r = (f, r') \<Longrightarrow> sort_items xs s r = py_sorted (sort_key_of f) r' xs"
  by (simp add: sort_items_def sort_key_of_def [abs_def])


subsection \<open>Properties of ordering and pagination\<close>

text \<open>C21: When every document has a string under the sort field (or lacks it, which reads as the empty string), sort_items by that field is the library's stable sort by key, and by the field with a leading minus it is the reverse of the stable sort of the reversed list.\<close>

theorem sort_items_string_keys:
  assumes "\<forall>d\<in>set xs. \<exists>s. sort_key_of f d = PStr s" and "\<not> prefix ''-'' f"
  shows "sort_items xs f False = Inr (sort_key (\<lambda>d. str_val (sort_key_of f d)) xs) \<and>
         sort_items xs (''-'' @ f) False = Inr (rev (sort_key (\<lambda>d. str_val (sort_key_of f d)) (rev xs)))"
  using py_sorted_strings [OF assms(1)]
  by (simp add: sort_items_eq [OF strip_minus_plain [OF assms(2)]] sort_items_eq [OF strip_minus_minus])

text \<open>The spec's example: ordering by -created_at three documents created in the order A, B, C gives C, B, A.\<close>

theorem sort_items_desc_example:
  "sort_items [ex_a, ex_b, ex_c] ''-created_at'' False = Inr [ex_c, ex_b, ex_a]"
  by (simp add: model_simps)

text \<open>Descending order on string keys returns a permutation of the documents with non-increasing keys in which documents with equal keys keep their original order.\<close>

theorem sort_items_desc_sorted_stable:
  assumes "\<forall>d\<in>set xs. \<exists>s. sort_key_of f d = PStr s" and "sort_items xs (''-'' @ f) False = Inr r"
  shows "mset r = mset xs \<and> sorted (rev (map (\<lambda>d. str_val (sort_key_of f d)) r)) \<and>
         (\<forall>k. filter (\<lambda>d. str_val (sort_key_of f d) = k) r = filter (\<lambda>d. str_val (sort_key_of f d) = k) xs)"
proof -
  let ?g = "\<lambda>d. str_val (sort_key_of f d)"
  have r: "r = rev (sort_key ?g (rev xs))"
    using assms py_sorted_strings [OF assms(1)] by (simp add: sort_items_eq [OF strip_minus_minus])
  have "filter (\<lambda>d. ?g d = k) r = filter (\<lambda>d. ?g d = k) xs" for k
    by (simp add: r rev_filter [symmetric] sort_key_stable)
  then show ?thesis
    by (simp add: r rev_map [symmetric])
qed

text \<open>If two documents have sort keys that Python cannot compare (a number and a string, for instance a numeric field that another document lacks), sort_items raises TypeError.\<close>

theorem sort_items_incomparable:
  assumes "i < j" and "j < length xs" and "isl (py_lt (sort_key_of f (xs ! i)) (sort_key_of f (xs ! j)))"
    and "\<not> prefix ''-'' f"
  shows "sort_items xs f False = Inl TypeError"
proof -
  have "\<not> comparable (sort_key_of f) xs"
    using assms(1-3) comparable_pair [of i xs j "sort_key_of f"] by auto
  then show ?thesis
    by (simp add: sort_items_eq [OF strip_minus_plain [OF assms(4)]] py_sorted_incomparable)
qed

text \<open>C25: For a page number of at least 1 and a non-negative page size, pagination returns the contiguous slice of per_page items starting after (page - 1) * per_page items.\<close>

theorem paginate_items_spec:
  assumes "1 \<le> page" and "0 \<le> per_page"
  shows "paginate_items xs page per_page = take (nat per_page) (drop (nat ((page - 1) * per_page)) xs)"
proof -
  have "0 \<le> (page - 1) * per_page" using assms by simp
  then show ?thesis
    using assms(2) by (simp add: paginate_items_def py_slice_nonneg)
qed

text \<open>C26: A negative page number does not give an empty page or an error: Python's negative slice bounds make paginate_items return per_page items counted from the end of the list.\<close>

theorem paginate_negative_page:
  assumes "page < 0" and "0 < per_page" and "(1 - page) * per_page \<le> int (length xs)"
  shows "paginate_items xs page per_page =
           take (nat per_page) (drop (nat (int (length xs) + (page - 1) * per_page)) xs) \<and>
         paginate_items xs page per_page \<noteq> []"
proof -
  let ?n = "int (length xs)"
  let ?a = "(page - 1) * per_page" and ?b = "(page - 1) * per_page + per_page"
  have a_neg: "?a < 0" using assms(1,2) by (simp add: mult_neg_pos)
  have b_neg: "?b < 0" using assms(1,2) by (simp add: algebra_simps mult_neg_pos)
  have a_lo: "0 \<le> ?a + ?n" using assms(3) by (simp add: algebra_simps)
  have a_hi: "?a + ?n < ?n" using a_neg by simp
  have sa: "slice_bound ?a (length xs) = nat (?n + ?a)" using a_neg a_lo by (simp add: slice_bound_def)
  have sb: "slice_bound ?b (length xs) = nat (?n + ?b)" using b_neg a_lo assms(2)
    by (simp add: slice_bound_def)
  have d: "nat (?n + ?b) - nat (?n + ?a) = nat per_page" using a_lo assms(2) by simp
  have eq: "paginate_items xs page per_page = take (nat per_page) (drop (nat (?n + ?a)) xs)"
    by (simp add: paginate_items_def py_slice_def Let_def sa sb d)
  have "nat (?n + ?a) < length xs" using a_hi a_lo by simp
  then have "drop (nat (?n + ?a)) xs \<noteq> []" by simp
  with assms(2) eq show ?thesis by simp
qed

subsection \<open>Witnesses\<close>

theorem sort_items_string_keys_witness:
  "list_all (\<lambda>d. \<exists>s. sort_key_of ''created_at'' d = PStr s) [ex_a, ex_b, ex_c] \<and> \<not> prefix ''-'' ''created_at'' \<and>
   sort_items [ex_a, ex_b, ex_c] ''created_at'' False =
     Inr (sort_key (\<lambda>d. str_val (sort_key_of ''created_at'' d)) [ex_a, ex_b, ex_c]) \<and>
   sort_items [ex_a, ex_b, ex_c] (''-'' @ ''created_at'') False =
     Inr (rev (sort_key (\<lambda>d. str_val (sort_key_of ''created_at'' d)) (rev [ex_a, ex_b, ex_c])))"
proof -
  have h1: "\<forall>d\<in>set [ex_a, ex_b, ex_c]. \<exists>s. sort_key_of ''created_at'' d = PStr s" by (simp add: model_simps)
  have h2: "\<not> prefix ''-'' ''created_at''" by simp
  show ?thesis using h1 h2 sort_items_string_keys [OF h1 h2] by simp
qed

theorem sort_items_desc_sorted_stable_witness:
  "list_all (\<lambda>d. \<exists>s. sort_key_of ''created_at'' d = PStr s) [ex_a, ex_b, ex_c] \<and>
   sort_items [ex_a, ex_b, ex_c] (''-'' @ ''created_at'') False = Inr [ex_c, ex_b, ex_a] \<and>
   mset [ex_c, ex_b, ex_a] = mset [ex_a, ex_b, ex_c] \<and>
   sorted (rev (map (\<lambda>d. str_val (sort_key_of ''created_at'' d)) [ex_c, ex_b, ex_a])) \<and>
   (\<forall>k. filter (\<lambda>d. str_val (sort_key_of ''created_at'' d) = k) [ex_c, ex_b, ex_a] =
        filter (\<lambda>d. str_val (sort_key_of ''created_at'' d) = k) [ex_a, ex_b, ex_c])"
proof -
  have h1: "\<forall>d\<in>set [ex_a, ex_b, ex_c]. \<exists>s. sort_key_of ''created_at'' d = PStr s" by (simp add: model_simps)
  have h2: "sort_items [ex_a, ex_b, ex_c] (''-'' @ ''created_at'') False = Inr [ex_c, ex_b, ex_a]"
    by (simp add: model_simps)
  show ?thesis using h1 h2 sort_items_desc_sorted_stable [OF h1 h2] by simp
qed

theorem sort_items_incomparable_witness:
  "(0::nat) < 1 \<and> 1 < length [[(''score'', PInt 3)], [(''id'', PStr ''x'')]] \<and>
   isl (py_lt (sort_key_of ''score'' ([[(''score'', PInt 3)], [(''id'', PStr ''x'')]] ! 0))
              (sort_key_of ''score'' ([[(''score'', PInt 3)], [(''id'', PStr ''x'')]] ! 1))) \<and>
   \<not> prefix ''-'' ''score'' \<and>
   sort_items [[(''score'', PInt 3)], [(''id'', PStr ''x'')]] ''score'' False = Inl TypeError"
proof -
  have h1: "(0::nat) < 1" by simp
  have h2: "1 < length [[(''score'', PInt 3)], [(''id'', PStr ''x'')]]" by simp
  have h3: "isl (py_lt (sort_key_of ''score'' ([[(''score'', PInt 3)], [(''id'', PStr ''x'')]] ! 0))
              (sort_key_of ''score'' ([[(''score'', PInt 3)], [(''id'', PStr ''x'')]] ! 1)))"
    by (simp add: model_simps)
  have h4: "\<not> prefix ''-'' ''score''" by simp
  show ?thesis using h1 h2 h3 h4 sort_items_incomparable [OF h1 h2 h3 h4] by simp
qed

theorem paginate_items_spec_witness:
  "1 \<le> (2::int) \<and> 0 \<le> (2::int) \<and>
   paginate_items [1, 2, 3, 4, 5::nat] 2 2 = take (nat 2) (drop (nat ((2 - 1) * 2)) [1, 2, 3, 4, 5::nat]) \<and>
   paginate_items [1, 2, 3, 4, 5::nat] 2 2 = [3, 4]"
proof -
  have h1: "1 \<le> (2::int)" and h2: "0 \<le> (2::int)" by simp_all
  show ?thesis using h1 h2 paginate_items_spec [OF h1 h2, of "[1, 2, 3, 4, 5::nat]"] by simp
qed

theorem paginate_negative_page_witness:
  "- 1 < (0::int) \<and> 0 < (2::int) \<and> (1 - (- 1)) * 2 \<le> int (length [1, 2, 3, 4, 5::nat]) \<and>
   paginate_items [1, 2, 3, 4, 5::nat] (- 1) 2 =
     take (nat 2) (drop (nat (int (length [1, 2, 3, 4, 5::nat]) + (- 1 - 1) * 2)) [1, 2, 3, 4, 5::nat]) \<and>
   paginate_items [1, 2, 3, 4, 5::nat] (- 1) 2 = [2, 3]"
proof -
  have h1: "- 1 < (0::int)" and h2: "0 < (2::int)" by simp_all
  have h3: "(1 - (- 1)) * 2 \<le> int (length [1, 2, 3, 4, 5::nat])" by simp
  show ?thesis using h1 h2 h3 paginate_negative_page [OF h1 h2 h3] by simp
qed

end
