(* ===== verification/QuerySet.thy ===== *)
theory QuerySet
  imports Filtering Sort_Page
begin

text \<open>
  \<open>QuerySetAdapter\<close> of \<open>src/main_app/data/model_adapter.py\<close> (lines 65--165) and the
  model classes it instantiates (lines 177--389). A query set holds its model class, a
  filter dict, an optional ordering field and a result cache. Building operations
  (\<open>filter\<close>, \<open>order_by\<close>) return a fresh query set with an empty cache;
  evaluating ones go through \<open>_fetch_results\<close>, which scans the collection once and
  stores the result in the cache of the query set it is called on. That mutation of
  \<open>self\<close> is modelled by returning the updated query set beside the result and the
  file system. An entity (an adapter instance) is its class and its attribute dict.
\<close>

datatype model_kind =
    RecyclingCenter | Category | MarketplaceItem | UserPreference | ItemRecommendation | User

primrec file_name :: "model_kind \<Rightarrow> string" where
  "file_name RecyclingCenter = ''recycling_centers''"
| "file_name Category = ''categories''"
| "file_name MarketplaceItem = ''marketplace_items''"
| "file_name UserPreference = ''user_preferences''"
| "file_name ItemRecommendation = ''item_recommendations''"
| "file_name User = ''users''"

record entity =
  ent_model :: model_kind
  ent_attrs :: doc

text \<open>\<open>cls(**item)\<close>: every key becomes an attribute by \<open>setattr\<close>, which raises
  \<open>AttributeError\<close> for a key naming one of the class's read-only properties (lines 198--201,
  220--238, 262--309, 339--357, 372--389); \<open>UserPreferenceAdapter\<close> then adds
  \<open>preferred_category_ids = []\<close> when the document has none (lines 248--250).\<close>

primrec reserved_attrs :: "model_kind \<Rightarrow> string list" where
  "reserved_attrs RecyclingCenter = []"
| "reserved_attrs Category = [''items'']"
| "reserved_attrs MarketplaceItem = [''category'', ''owner'']"
| "reserved_attrs UserPreference = [''user'', ''preferred_categories'']"
| "reserved_attrs ItemRecommendation = [''user'', ''item'']"
| "reserved_attrs User = [''items'', ''preference'', ''recommendations'']"

definition init_attrs :: "model_kind \<Rightarrow> doc \<Rightarrow> doc" where
  "init_attrs m d =
     (if m = UserPreference \<and> \<not> has_key d ''preferred_category_ids''
      then setitem d ''preferred_category_ids'' (PList []) else d)"

definition make_entity :: "model_kind \<Rightarrow> doc \<Rightarrow> py_error + entity" where
  "make_entity m d =
     (if list_ex (\<lambda>(k, v). k \<in> set (reserved_attrs m)) d then Inl AttributeError
      else Inr \<lparr>ent_model = m, ent_attrs = init_attrs m d\<rparr>)"

record queryset =
  qs_model :: model_kind
  qs_filters :: filters
  qs_order :: "string option"
  qs_cache :: "doc list option"

definition qs_new :: "model_kind \<Rightarrow> filters \<Rightarrow> string option \<Rightarrow> queryset" where
  "qs_new m flt order = \<lparr>qs_model = m, qs_filters = flt, qs_order = order, qs_cache = None\<rparr>"

definition qs_filter :: "queryset \<Rightarrow> filters \<Rightarrow> queryset" where
  "qs_filter qs kw = qs_new (qs_model qs) (dict_update (qs_filters qs) kw) (qs_order qs)"

definition qs_order_by :: "queryset \<Rightarrow> string \<Rightarrow> queryset" where
  "qs_order_by qs f = qs_new (qs_model qs) (qs_filters qs) (Some f)"

text \<open>Lines 139--145: sort only when the ordering field is truthy (not \<open>None\<close>, not empty).\<close>

definition order_results :: "string option \<Rightarrow> doc list \<Rightarrow> py_error + doc list" where
  "order_results order results =
     (case order of
        Some f \<Rightarrow> if f = [] then Inr results
                  else (let (field, r) = strip_minus f False in sort_items results field r)
      | None \<Rightarrow> Inr results)"

definition fetch_results :: "queryset \<Rightarrow> store \<Rightarrow> (py_error + doc list) \<times> queryset \<times> store" where
  "fetch_results qs fs =
     (case qs_cache qs of
        Some r \<Rightarrow> (Inr r, qs, fs)
      | None \<Rightarrow>
          (let (res, fs1) = get_all_items fs (file_name (qs_model qs)) (qs_filters qs)
           in case res of
                Inl e \<Rightarrow> (Inl e, qs, fs1)
              | Inr results \<Rightarrow>
                  (case order_results (qs_order qs) results of
                     Inl e \<Rightarrow> (Inl e, qs, fs1)
                   | Inr r \<Rightarrow> (Inr r, qs\<lparr>qs_cache := Some r\<rparr>, fs1))))"

text \<open>Lines 79--96: \<open>exclude\<close> drops an item as soon as one of the given key/value pairs
  matches it, and returns a new query set whose cache is the remaining items.\<close>

definition excluded_by :: "filters \<Rightarrow> doc \<Rightarrow> bool" where
  "excluded_by kw item = (\<exists>(k, v)\<in>set kw. has_key item k \<and> py_eq (dget item k PNone) v)"

definition qs_exclude :: "queryset \<Rightarrow> filters \<Rightarrow> store \<Rightarrow> (py_error + queryset) \<times> queryset \<times> store" where
  "qs_exclude qs kw fs =
     (let (res, qs1, fs1) = fetch_results qs fs
      in case res of
           Inl e \<Rightarrow> (Inl e, qs1, fs1)
         | Inr results \<Rightarrow>
             (Inr ((qs_new (qs_model qs) (qs_filters qs) (qs_order qs))
                     \<lparr>qs_cache := Some (filter (\<lambda>item. \<not> excluded_by kw item) results)\<rparr>),
              qs1, fs1))"

text \<open>Lines 98--107: \<open>get\<close> scans afresh with the merged filters (neither the cache nor
  the ordering is used) and insists on exactly one match.\<close>

definition qs_get :: "queryset \<Rightarrow> filters \<Rightarrow> store \<Rightarrow> (py_error + entity) \<times> store" where
  "qs_get qs kw fs =
     (let (res, fs1) = get_all_items fs (file_name (qs_model qs)) (dict_update (qs_filters qs) kw)
      in (case res of
            Inl e \<Rightarrow> Inl e
          | Inr [] \<Rightarrow> Inl DoesNotExist
          | Inr [x] \<Rightarrow> make_entity (qs_model qs) x
          | Inr _ \<Rightarrow> Inl MultipleObjectsReturned, fs1))"

text \<open>The evaluating methods (lines 113--165) all fetch and then look at the results.\<close>

definition qs_eval ::
  "(doc list \<Rightarrow> py_error + 'a) \<Rightarrow> queryset \<Rightarrow> store \<Rightarrow> (py_error + 'a) \<times> queryset \<times> store" where
  "qs_eval f qs fs =
     (let (res, qs1, fs1) = fetch_results qs fs
      in (case res of Inl e \<Rightarrow> Inl e | Inr r \<Rightarrow> f r, qs1, fs1))"

definition qs_first :: "queryset \<Rightarrow> store \<Rightarrow> (py_error + entity option) \<times> queryset \<times> store" where
  "qs_first qs =
     qs_eval (\<lambda>r. case r of [] \<Rightarrow> Inr None | x # _ \<Rightarrow> map_sum id Some (make_entity (qs_model qs) x)) qs"

definition qs_last :: "queryset \<Rightarrow> store \<Rightarrow> (py_error + entity option) \<times> queryset \<times> store" where
  "qs_last qs =
     qs_eval (\<lambda>r. if r = [] then Inr None else map_sum id Some (make_entity (qs_model qs) (last r))) qs"

definition qs_count :: "queryset \<Rightarrow> store \<Rightarrow> (py_error + nat) \<times> queryset \<times> store" where
  "qs_count = qs_eval (\<lambda>r. Inr (length r))"

definition qs_exists :: "queryset \<Rightarrow> store \<Rightarrow> (py_error + bool) \<times> queryset \<times> store" where
  "qs_exists = qs_eval (\<lambda>r. Inr (r \<noteq> []))"

definition qs_iter :: "queryset \<Rightarrow> store \<Rightarrow> (py_error + entity list) \<times> queryset \<times> store" where
  "qs_iter qs = qs_eval (map_err (make_entity (qs_model qs))) qs"

definition qs_getitem_index :: "queryset \<Rightarrow> int \<Rightarrow> store \<Rightarrow> (py_error + entity) \<times> queryset \<times> store" where
  "qs_getitem_index qs k =
     qs_eval (\<lambda>r. case py_index r k of None \<Rightarrow> Inl IndexError
                                     | Some d \<Rightarrow> make_entity (qs_model qs) d) qs"

definition qs_getitem_slice ::
  "queryset \<Rightarrow> int option \<Rightarrow> int option \<Rightarrow> store \<Rightarrow> (py_error + entity list) \<times> queryset \<times> store" where
  "qs_getitem_slice qs a b =
     qs_eval (\<lambda>r. map_err (make_entity (qs_model qs))
                     (py_slice r (case a of None \<Rightarrow> 0 | Some i \<Rightarrow> i)
                                 (case b of None \<Rightarrow> int (length r) | Some j \<Rightarrow> j))) qs"

lemmas queryset_defs [model_simps] = make_entity_def init_attrs_def qs_new_def qs_filter_def qs_order_by_def
  order_results_def fetch_results_def excluded_by_def qs_exclude_def qs_get_def qs_eval_def
  qs_first_def qs_last_def qs_count_def qs_exists_def qs_iter_def qs_getitem_index_def
  qs_getitem_slice_def


subsection \<open>Lemmas on evaluation\<close>

lemma fetch_results_cached: "qs_cache qs = Some r \<Longrightarrow> fetch_results qs fs = (Inr r, qs, fs)"
  by (simp add: fetch_results_def)

lemma fetch_results_Inr_cache:
  assumes "fetch_results qs fs = (Inr r, qs', fs')"
  shows "qs_cache qs' = Some r \<and> qs_model qs' = qs_model qs \<and> qs_filters qs' = qs_filters qs \<and>
         qs_order qs' = qs_order qs"
  using assms
  by (auto simp: fetch_results_def Let_def split: option.splits prod.splits sum.splits)

lemma fetch_results_uncached:
  assumes "qs_cache qs = None"
  shows "fst (fetch_results qs fs) =
    (case fst (get_all_items fs (file_name (qs_model qs)) (qs_filters qs)) of
       Inl e \<Rightarrow> Inl e
     | Inr results \<Rightarrow> order_results (qs_order qs) results)"
  using assms
  by (auto simp: fetch_results_def Let_def split: prod.splits sum.splits)

lemma fetch_results_simple:
  assumes "qs_cache qs = None" and "qs_order qs = None" and "simple_filters (qs_filters qs)"
    and "qs_filters qs \<noteq> []"
  shows "fst (fetch_results qs fs) =
    Inr (filter (matches_all (qs_filters qs)) (contents fs (file_name (qs_model qs))))"
  using assms by (simp add: fetch_results_uncached get_all_items_simple order_results_def)

lemma excluded_by_single: "excluded_by [(k, v)] d = matches_all [(k, v)] d"
  by (simp add: excluded_by_def matches_all_def eq_test_def)

lemma qs_exclude_fst:
  "fst (qs_exclude qs kw fs) =
     (case fst (fetch_results qs fs) of
        Inl e \<Rightarrow> Inl e
      | Inr r \<Rightarrow> Inr ((qs_new (qs_model qs) (qs_filters qs) (qs_order qs))
                      \<lparr>qs_cache := Some (filter (\<lambda>item. \<not> excluded_by kw item) r)\<rparr>))"
  by (simp add: qs_exclude_def split: prod.splits sum.splits)

lemma fetch_results_fresh_simple:
  "simple_filters f \<Longrightarrow>
   fst (fetch_results (qs_new m f None) fs) = Inr (filter (matches_all f) (contents fs (file_name m)))"
  by (simp add: fetch_results_uncached qs_new_def get_all_items_simple order_results_def)

lemma qs_eval_Inr:
  "fetch_results qs fs = (Inr r, qs', fs') \<Longrightarrow> qs_eval f qs fs = (f r, qs', fs')"
  by (simp add: qs_eval_def)

lemma update_notin_append: "k \<notin> fst ` set d \<Longrightarrow> AList.update k v d = d @ [(k, v)]"
  by (induction d) auto

lemma dict_update_disjoint:
  assumes "distinct (map fst e)" and "fst ` set d \<inter> fst ` set e = {}"
  shows "dict_update d e = d @ e"
  using assms
proof (induction e arbitrary: d)
  case Nil
  then show ?case by (simp add: dict_update_def)
next
  case (Cons p e)
  obtain k v where p: "p = (k, v)" by fastforce
  from Cons.prems have k: "k \<notin> fst ` set d" by (auto simp: p)
  have "dict_update d (p # e) = dict_update (d @ [(k, v)]) e"
    by (simp add: dict_update_def p update_notin_append [OF k])
  also have "\<dots> = (d @ [(k, v)]) @ e"
    using Cons.prems by (intro Cons.IH) (auto simp: p)
  finally show ?case by (simp add: p)
qed

lemma matches_all_append: "matches_all (f1 @ f2) = (\<lambda>d. matches_all f1 d \<and> matches_all f2 d)"
  by (auto simp: matches_all_def fun_eq_iff)

lemma simple_filters_append: "simple_filters (f1 @ f2) \<longleftrightarrow> simple_filters f1 \<and> simple_filters f2"
  by (auto simp: simple_filters_def)


lemma qs_get_simple:
  assumes "simple_filters (dict_update (qs_filters qs) kw)"
  shows "fst (qs_get qs kw fs) =
     (case filter (matches_all (dict_update (qs_filters qs) kw)) (contents fs (file_name (qs_model qs))) of
        [] \<Rightarrow> Inl DoesNotExist | [x] \<Rightarrow> make_entity (qs_model qs) x | _ \<Rightarrow> Inl MultipleObjectsReturned)"
proof -
  obtain res fs1 where g: "get_all_items fs (file_name (qs_model qs)) (dict_update (qs_filters qs) kw) = (res, fs1)"
    by fastforce
  moreover have "fst (get_all_items fs (file_name (qs_model qs)) (dict_update (qs_filters qs) kw)) =
      Inr (filter (matches_all (dict_update (qs_filters qs) kw)) (contents fs (file_name (qs_model qs))))"
    by (rule get_all_items_simple [OF assms])
  ultimately show ?thesis by (simp add: qs_get_def split: list.split)
qed

lemma make_entity_Category:
  "\<not> has_key d ''items'' \<Longrightarrow> make_entity Category d = Inr \<lparr>ent_model = Category, ent_attrs = d\<rparr>"
  by (simp add: make_entity_def init_attrs_def list_ex_key_iff)

lemma make_entity_attrs_MarketplaceItem:
  "make_entity MarketplaceItem d = Inr e \<Longrightarrow> ent_attrs e = d"
  by (auto simp: make_entity_def init_attrs_def split: if_splits)

subsection \<open>Properties of the query builder\<close>

text \<open>With plain-field filters, QuerySetAdapter.get raises DoesNotExist when no document matches the merged filters, MultipleObjectsReturned when several do, and otherwise returns the one match as an entity.\<close>

theorem qs_get_cardinality:
  assumes "simple_filters (dict_update (qs_filters qs) kw)" and "dict_update (qs_filters qs) kw \<noteq> []"
  shows "let ms = [d \<leftarrow> contents fs (file_name (qs_model qs)). matches_all (dict_update (qs_filters qs) kw) d]
         in fst (qs_get qs kw fs) =
            (if ms = [] then Inl DoesNotExist
             else if length ms = 1 then make_entity (qs_model qs) (hd ms)
             else Inl MultipleObjectsReturned)"
proof -
  obtain res fs1 where g: "get_all_items fs (file_name (qs_model qs)) (dict_update (qs_filters qs) kw) = (res, fs1)"
    by fastforce
  have "fst (get_all_items fs (file_name (qs_model qs)) (dict_update (qs_filters qs) kw)) =
      Inr [d \<leftarrow> contents fs (file_name (qs_model qs)). matches_all (dict_update (qs_filters qs) kw) d]"
    by (rule get_all_items_simple [OF assms(1)])
  then have "res = Inr [d \<leftarrow> contents fs (file_name (qs_model qs)). matches_all (dict_update (qs_filters qs) kw) d]"
    by (simp add: g)
  then show ?thesis
    by (auto simp: qs_get_def g Let_def split: list.split)
qed

text \<open>C28: On a fresh, unordered query set with plain-field filters, filter(k=v) and exclude(k=v) on a key the query set does not already filter on split its results: each is a subsequence of them, they share no document, and their lengths add up to the number of results. Both tests are \<open>key in item and item[key] == value\<close>, so a document without the key is kept by exclude.\<close>

theorem qs_filter_exclude_partition:
  assumes "simple_filters (f @ [(k, v)])" and "k \<notin> fst ` set f"
  shows "case (fst (fetch_results (qs_filter (qs_new m f None) [(k, v)]) fs),
               fst (qs_exclude (qs_new m f None) [(k, v)] fs)) of
           (Inr rf, Inr qx) \<Rightarrow>
             (case qs_cache qx of
                Some rx \<Rightarrow>
                  (let base = filter (matches_all f) (contents fs (file_name m))
                   in subseq rf base \<and> subseq rx base \<and> length rf + length rx = length base \<and>
                      set rf \<union> set rx = set base \<and> set rf \<inter> set rx = {})
              | None \<Rightarrow> False)
         | _ \<Rightarrow> False"
proof -
  define base where "base = filter (matches_all f) (contents fs (file_name m))"
  have sf: "simple_filters f" using assms(1) by (simp add: simple_filters_append)
  have du: "dict_update f [(k, v)] = f @ [(k, v)]"
    using assms(2) by (intro dict_update_disjoint) auto
  have rf: "fst (fetch_results (qs_filter (qs_new m f None) [(k, v)]) fs) =
      Inr (filter (matches_all [(k, v)]) base)"
  proof -
    have "qs_filter (qs_new m f None) [(k, v)] = qs_new m (f @ [(k, v)]) None"
      by (simp add: qs_filter_def qs_new_def du)
    then show ?thesis using assms(1)
      by (simp add: fetch_results_fresh_simple matches_all_append base_def filter_filter conj_commute)
  qed
  have rx: "fst (qs_exclude (qs_new m f None) [(k, v)] fs) =
      Inr ((qs_new m f None)\<lparr>qs_cache := Some (filter (\<lambda>d. \<not> matches_all [(k, v)] d) base)\<rparr>)"
    by (simp add: qs_exclude_fst fetch_results_fresh_simple [OF sf] excluded_by_single base_def)
      (simp add: qs_new_def)
  have len: "length (filter (matches_all [(k, v)]) base) + length (filter (\<lambda>d. \<not> matches_all [(k, v)] d) base) = length base"
    by (rule sum_length_filter_compl)
  show ?thesis
    unfolding rf rx using len by (auto simp: base_def [symmetric])
qed

text \<open>A query set returned by exclude forgets the exclusion as soon as it is refined: filter and order_by on it give the same query set as on the original.\<close>

theorem qs_filter_after_exclude:
  assumes "fst (qs_exclude qs kw fs) = Inr qs'"
  shows "qs_filter qs' kw2 = qs_filter qs kw2 \<and> qs_order_by qs' f = qs_order_by qs f"
  using assms
  by (auto simp: qs_exclude_def qs_filter_def qs_order_by_def qs_new_def Let_def
           split: prod.splits sum.splits)

text \<open>After one successful evaluation the query set answers from its cache: evaluating it again returns the same results and leaves any store, changed or not, untouched.\<close>

theorem fetch_results_cache_reused:
  assumes "fetch_results qs fs = (Inr r, qs', fs')"
  shows "fetch_results qs' fs2 = (Inr r, qs', fs2)"
  using fetch_results_Inr_cache [OF assms] by (simp add: fetch_results_cached)

text \<open>Chaining filter calls with plain fields on distinct keys composes them by conjunction over the collection.\<close>

theorem qs_filter_chain_conjunction:
  assumes "simple_filters f1" and "simple_filters f2" and "f1 \<noteq> []"
    and "distinct (map fst f2)" and "fst ` set f1 \<inter> fst ` set f2 = {}"
  shows "fst (fetch_results (qs_filter (qs_new m f1 None) f2) fs) =
    Inr [d \<leftarrow> contents fs (file_name m). matches_all f1 d \<and> matches_all f2 d]"
proof -
  have du: "dict_update f1 f2 = f1 @ f2" using assms(4,5) by (rule dict_update_disjoint)
  have "simple_filters (f1 @ f2)" using assms(1,2) by (simp add: simple_filters_append)
  moreover have "f1 @ f2 \<noteq> []" using assms(3) by simp
  ultimately show ?thesis
    by (simp add: qs_filter_def qs_new_def du fetch_results_simple matches_all_append)
qed

text \<open>Once the results are fetched, count is their length, exists their non-emptiness, first and last the first and last result (None when there is none), and iteration yields one entity per result in order.\<close>

theorem qs_evaluators:
  assumes "fetch_results qs fs = (Inr r, qs', fs')"
  shows "fst (qs_count qs fs) = Inr (length r) \<and> fst (qs_exists qs fs) = Inr (r \<noteq> []) \<and>
    fst (qs_first qs fs) = (if r = [] then Inr None else map_sum id Some (make_entity (qs_model qs) (hd r))) \<and>
    fst (qs_last qs fs) = (if r = [] then Inr None else map_sum id Some (make_entity (qs_model qs) (last r))) \<and>
    fst (qs_iter qs fs) = map_err (make_entity (qs_model qs)) r"
  by (simp add: qs_eval_Inr [OF assms] qs_count_def qs_exists_def qs_first_def qs_last_def qs_iter_def split: list.split)

subsection \<open>Witnesses\<close>

abbreviation ex_qs :: queryset where
  "ex_qs \<equiv> qs_new MarketplaceItem [] None"

lemma ex_qs_fetch:
  "fetch_results ex_qs ex_fs = (Inr [ex_chair, ex_table], ex_qs\<lparr>qs_cache := Some [ex_chair, ex_table]\<rparr>, ex_fs)"
  by (simp add: model_simps)

theorem qs_get_cardinality_witness:
  "simple_filters (dict_update (qs_filters ex_qs) [(''status'', PStr ''available'')]) \<and>
   dict_update (qs_filters ex_qs) [(''status'', PStr ''available'')] \<noteq> [] \<and>
   (let ms = [d \<leftarrow> contents ex_fs (file_name (qs_model ex_qs)).
               matches_all (dict_update (qs_filters ex_qs) [(''status'', PStr ''available'')]) d]
    in fst (qs_get ex_qs [(''status'', PStr ''available'')] ex_fs) =
       (if ms = [] then Inl DoesNotExist
        else if length ms = 1 then make_entity (qs_model ex_qs) (hd ms)
        else Inl MultipleObjectsReturned))"
proof -
  have h1: "simple_filters (dict_update (qs_filters ex_qs) [(''status'', PStr ''available'')])"
    by (simp add: model_simps dict_update_def)
  have h2: "dict_update (qs_filters ex_qs) [(''status'', PStr ''available'')] \<noteq> []"
    by (simp add: model_simps dict_update_def)
  show ?thesis using h1 h2 qs_get_cardinality [OF h1 h2, of ex_fs] by simp
qed

theorem qs_filter_exclude_partition_witness:
  "simple_filters ([] @ [(''status'', PStr ''available'')]) \<and> ''status'' \<notin> fst ` set ([] :: filters) \<and>
   (case (fst (fetch_results (qs_filter (qs_new MarketplaceItem [] None) [(''status'', PStr ''available'')]) ex_fs),
          fst (qs_exclude (qs_new MarketplaceItem [] None) [(''status'', PStr ''available'')] ex_fs)) of
      (Inr rf, Inr qx) \<Rightarrow>
        (case qs_cache qx of
           Some rx \<Rightarrow>
             (let base = filter (matches_all []) (contents ex_fs (file_name MarketplaceItem))
              in subseq rf base \<and> subseq rx base \<and> length rf + length rx = length base \<and>
                 set rf \<union> set rx = set base \<and> set rf \<inter> set rx = {})
         | None \<Rightarrow> False)
    | _ \<Rightarrow> False) \<and>
   fst (fetch_results (qs_filter (qs_new MarketplaceItem [] None) [(''status'', PStr ''available'')]) ex_fs) =
     Inr [ex_chair] \<and>
   map_sum id qs_cache (fst (qs_exclude (qs_new MarketplaceItem [] None) [(''status'', PStr ''available'')] ex_fs)) =
     Inr (Some [ex_table])"
proof -
  have h: "simple_filters ([] @ [(''status'', PStr ''available'')])" "''status'' \<notin> fst ` set ([] :: filters)"
    by (simp_all add: simple_filters_def sublist_code)
  show ?thesis
    using qs_filter_exclude_partition [OF h, where m = MarketplaceItem and fs = ex_fs] h
    by (simp add: model_simps dict_update_def)
qed


theorem qs_filter_after_exclude_witness:
  "fst (qs_exclude ex_qs [(''status'', PStr ''pending'')] ex_fs) =
     Inr (ex_qs\<lparr>qs_cache := Some [ex_chair]\<rparr>) \<and>
   qs_filter (ex_qs\<lparr>qs_cache := Some [ex_chair]\<rparr>) [(''title'', PStr ''Red Table'')] =
     qs_filter ex_qs [(''title'', PStr ''Red Table'')] \<and>
   qs_order_by (ex_qs\<lparr>qs_cache := Some [ex_chair]\<rparr>) ''title'' = qs_order_by ex_qs ''title''"
proof -
  have h: "fst (qs_exclude ex_qs [(''status'', PStr ''pending'')] ex_fs) =
     Inr (ex_qs\<lparr>qs_cache := Some [ex_chair]\<rparr>)" by (simp add: model_simps)
  show ?thesis using h qs_filter_after_exclude [OF h] by simp
qed

theorem fetch_results_cache_reused_witness:
  "fetch_results ex_qs ex_fs = (Inr [ex_chair, ex_table], ex_qs\<lparr>qs_cache := Some [ex_chair, ex_table]\<rparr>, ex_fs) \<and>
   fetch_results (ex_qs\<lparr>qs_cache := Some [ex_chair, ex_table]\<rparr>) (ex_fs(''marketplace_items'' := Json [])) =
     (Inr [ex_chair, ex_table], ex_qs\<lparr>qs_cache := Some [ex_chair, ex_table]\<rparr>, ex_fs(''marketplace_items'' := Json []))"
  using ex_qs_fetch fetch_results_cache_reused [OF ex_qs_fetch] by simp

end
