(* ===== verification/Entity.thy ===== *)
theory Entity
  imports QuerySet
begin

text \<open>
  The entity layer of \<open>src/main_app/data/model_adapter.py\<close>: the class-level operations
  of \<open>ModelAdapter\<close> (\<open>get\<close>, \<open>filter\<close>, \<open>all\<close>, \<open>create\<close>, lines 14--41), the instance
  operations \<open>save\<close> and \<open>delete\<close> (lines 43--62), and the relationship properties of
  the adapter classes: foreign keys resolved by \<open>get(id=...)\<close> with \<open>DoesNotExist\<close>
  read as \<open>None\<close> (lines 220--238, 262--270, 339--357), reverse relations as live query
  sets (lines 198--201, 372--389) and \<open>User.preference\<close>, which creates the preference
  document on first use (lines 377--384). An instance method that mutates \<open>self\<close>
  returns the updated entity beside its result and the store.
\<close>

text \<open>Attribute access on an adapter instance: \<open>hasattr\<close> and \<open>self.k\<close>.\<close>

definition hasattr :: "entity \<Rightarrow> string \<Rightarrow> bool" where
  "hasattr e k = has_key (ent_attrs e) k"

definition getattr :: "entity \<Rightarrow> string \<Rightarrow> py_error + pyval" where
  "getattr e k = (case map_of (ent_attrs e) k of None \<Rightarrow> Inl AttributeError | Some v \<Rightarrow> Inr v)"

text \<open>\<open>hasattr(self, 'id') and self.id\<close>, the test of \<open>save\<close> and \<open>delete\<close>.\<close>

definition has_true_id :: "entity \<Rightarrow> bool" where
  "has_true_id e = (hasattr e ''id'' \<and> py_truthy (dget (ent_attrs e) ''id'' PNone))"

subsection \<open>Class-level operations\<close>

text \<open>Lines 19--25: unlike \<open>QuerySetAdapter.get\<close>, the class-level \<open>get\<close> returns the
  first match when several documents match.\<close>

definition ma_get :: "store \<Rightarrow> model_kind \<Rightarrow> filters \<Rightarrow> (py_error + entity) \<times> store" where
  "ma_get fs m kw =
     (let (res, fs1) = get_all_items fs (file_name m) kw
      in (case res of
            Inl e \<Rightarrow> Inl e
          | Inr [] \<Rightarrow> Inl DoesNotExist
          | Inr (x # _) \<Rightarrow> make_entity m x, fs1))"

definition ma_filter :: "model_kind \<Rightarrow> filters \<Rightarrow> queryset" where
  "ma_filter m kw = qs_new m kw None"

definition ma_all :: "model_kind \<Rightarrow> queryset" where
  "ma_all m = qs_new m [] None"

definition ma_create ::
  "store \<Rightarrow> model_kind \<Rightarrow> doc \<Rightarrow> string \<Rightarrow> string \<Rightarrow> (py_error + entity) \<times> store" where
  "ma_create fs m kw now uuid =
     (let (item, fs1) = create_item fs (file_name m) kw now uuid in (make_entity m item, fs1))"

subsection \<open>Instance operations\<close>

text \<open>Lines 43--56: a copy of the attribute dict is sent to \<open>update_item\<close> when the
  entity has a truthy id, to \<open>create_item\<close> otherwise; the returned document is merged
  into the attributes (\<open>self.__dict__.update\<close>). A failed update (no stored document
  with that id) leaves the entity as it was.\<close>

definition ma_save :: "store \<Rightarrow> entity \<Rightarrow> string \<Rightarrow> string \<Rightarrow> entity \<times> store" where
  "ma_save fs e now uuid =
     (let attrs = ent_attrs e; n = file_name (ent_model e)
      in if has_true_id e then
           (let (u, fs1) = update_item fs n (dget attrs ''id'' PNone) attrs now
            in case u of
                 Some ud \<Rightarrow> (if ud \<noteq> [] then e\<lparr>ent_attrs := dict_update attrs ud\<rparr> else e, fs1)
               | None \<Rightarrow> (e, fs1))
         else
           (let (c, fs1) = create_item fs n attrs now uuid
            in (e\<lparr>ent_attrs := dict_update attrs c\<rparr>, fs1)))"

definition ma_delete :: "store \<Rightarrow> entity \<Rightarrow> doc option \<times> store" where
  "ma_delete fs e =
     (if has_true_id e then delete_item fs (file_name (ent_model e)) (dget (ent_attrs e) ''id'' PNone)
      else (None, fs))"

subsection \<open>Relationships\<close>

text \<open>A foreign key \<open>attr\<close> is resolved by \<open>Target.get(id=self.attr)\<close>; a missing
  attribute and \<open>DoesNotExist\<close> give \<open>None\<close>, any other exception propagates.\<close>

definition resolve_fk ::
  "store \<Rightarrow> entity \<Rightarrow> string \<Rightarrow> model_kind \<Rightarrow> (py_error + entity option) \<times> store" where
  "resolve_fk fs e attr target =
     (if hasattr e attr then
        (let (r, fs1) = ma_get fs target [(''id'', dget (ent_attrs e) attr PNone)]
         in (case r of
               Inl DoesNotExist \<Rightarrow> Inr None
             | Inl err \<Rightarrow> Inl err
             | Inr x \<Rightarrow> Inr (Some x), fs1))
      else (Inr None, fs))"

definition item_category :: "store \<Rightarrow> entity \<Rightarrow> (py_error + entity option) \<times> store" where
  "item_category fs e = resolve_fk fs e ''category_id'' Category"

definition item_owner :: "store \<Rightarrow> entity \<Rightarrow> (py_error + entity option) \<times> store" where
  "item_owner fs e = resolve_fk fs e ''owner_id'' User"

definition pref_user :: "store \<Rightarrow> entity \<Rightarrow> (py_error + entity option) \<times> store" where
  "pref_user fs e = resolve_fk fs e ''user_id'' User"

definition rec_user :: "store \<Rightarrow> entity \<Rightarrow> (py_error + entity option) \<times> store" where
  "rec_user fs e = resolve_fk fs e ''user_id'' User"

definition rec_item :: "store \<Rightarrow> entity \<Rightarrow> (py_error + entity option) \<times> store" where
  "rec_item fs e = resolve_fk fs e ''item_id'' MarketplaceItem"

text \<open>A reverse relation is \<open>Child.filter(fk=self.id)\<close>: a fresh, unevaluated query set.\<close>

definition reverse_rel :: "entity \<Rightarrow> model_kind \<Rightarrow> string \<Rightarrow> py_error + queryset" where
  "reverse_rel e child fk =
     (case getattr e ''id'' of Inl err \<Rightarrow> Inl err | Inr i \<Rightarrow> Inr (ma_filter child [(fk, i)]))"

definition category_items :: "entity \<Rightarrow> py_error + queryset" where
  "category_items e = reverse_rel e MarketplaceItem ''category_id''"

definition user_items :: "entity \<Rightarrow> py_error + queryset" where
  "user_items e = reverse_rel e MarketplaceItem ''owner_id''"

definition user_recommendations :: "entity \<Rightarrow> py_error + queryset" where
  "user_recommendations e = reverse_rel e ItemRecommendation ''user_id''"

text \<open>Lines 377--384: get the user's preference, creating it when there is none.\<close>

definition user_adapter_preference ::
  "store \<Rightarrow> entity \<Rightarrow> string \<Rightarrow> string \<Rightarrow> (py_error + entity) \<times> store" where
  "user_adapter_preference fs e now uuid =
     (case getattr e ''id'' of
        Inl err \<Rightarrow> (Inl err, fs)
      | Inr i \<Rightarrow>
          (let (r, fs1) = ma_get fs UserPreference [(''user_id'', i)]
           in case r of
                Inl DoesNotExist \<Rightarrow>
                  ma_create fs1 UserPreference [(''user_id'', i), (''preferred_category_ids'', PList [])] now uuid
              | _ \<Rightarrow> (r, fs1)))"

abbreviation new_pref :: "pyval \<Rightarrow> string \<Rightarrow> string \<Rightarrow> doc" where
  "new_pref i now uuid \<equiv> stamp_new [(''user_id'', i), (''preferred_category_ids'', PList [])] now uuid"

subsection \<open>Example entities and stores\<close>

abbreviation ex_lamp :: entity where
  "ex_lamp \<equiv> \<lparr>ent_model = MarketplaceItem, ent_attrs = [(''title'', PStr ''Lamp'')]\<rparr>"

abbreviation ex_noid :: entity where
  "ex_noid \<equiv> \<lparr>ent_model = MarketplaceItem, ent_attrs = [(''id'', PNone), (''title'', PStr ''Lamp'')]\<rparr>"

abbreviation ex_green :: entity where
  "ex_green \<equiv> \<lparr>ent_model = MarketplaceItem, ent_attrs = [(''id'', PStr ''a1''), (''title'', PStr ''Green Chair'')]\<rparr>"

abbreviation ex_gone :: entity where
  "ex_gone \<equiv> \<lparr>ent_model = MarketplaceItem, ent_attrs = [(''id'', PStr ''zz''), (''title'', PStr ''Ghost'')]\<rparr>"

abbreviation ex_stool :: doc where
  "ex_stool \<equiv> [(''id'', PStr ''c3''), (''title'', PStr ''Stool''), (''status'', PStr ''available'')]"

abbreviation ex_bench :: doc where
  "ex_bench \<equiv> [(''id'', PStr ''d4''), (''title'', PStr ''Bench''), (''category_id'', PStr ''gone'')]"

abbreviation ex_user :: entity where
  "ex_user \<equiv> \<lparr>ent_model = User, ent_attrs = [(''id'', PInt 7), (''username'', PStr ''ann'')]\<rparr>"

abbreviation ex_fs2 :: store where
  "ex_fs2 \<equiv> ex_fs(''marketplace_items'' := Json [ex_chair, ex_table, ex_stool])"

abbreviation ex_fs3 :: store where
  "ex_fs3 \<equiv> ex_fs(''marketplace_items'' := Json [ex_bench],
                   ''categories'' := Json [[(''id'', PStr ''k1''), (''name'', PStr ''Furniture'')]])"

lemmas entity_defs [model_simps] = hasattr_def getattr_def has_true_id_def ma_get_def ma_filter_def
  ma_all_def ma_create_def ma_save_def ma_delete_def resolve_fk_def item_category_def item_owner_def
  pref_user_def rec_user_def rec_item_def reverse_rel_def category_items_def user_items_def
  user_recommendations_def user_adapter_preference_def

subsection \<open>Lemmas\<close>

lemma ma_save_create:
  "\<not> has_true_id e \<Longrightarrow> ma_save fs e now uuid =
     (e\<lparr>ent_attrs := dict_update (ent_attrs e) (stamp_new (ent_attrs e) now uuid)\<rparr>,
      snd (create_item fs (file_name (ent_model e)) (ent_attrs e) now uuid))"
  by (simp add: ma_save_def create_item_eq Let_def)

lemma ma_save_update_found:
  assumes "has_true_id e"
    and "find_idx (id_match (dget (ent_attrs e) ''id'' PNone)) (contents fs (file_name (ent_model e))) = Some i"
  shows "ma_save fs e now uuid =
     (let n = file_name (ent_model e); iid = dget (ent_attrs e) ''id'' PNone;
          u = stamp_update (contents fs n ! i) (ent_attrs e) iid now
      in (e\<lparr>ent_attrs := dict_update (ent_attrs e) u\<rparr>, save_data (snd (load_data fs n)) n ((contents fs n)[i := u])))"
proof -
  have "stamp_update (contents fs (file_name (ent_model e)) ! i) (ent_attrs e) (dget (ent_attrs e) ''id'' PNone) now \<noteq> []"
    using has_key_stamp_update_id by (metis has_key_def map_of.simps(1))
  then show ?thesis using assms by (simp add: ma_save_def update_item_eq Let_def)
qed

lemma ma_save_update_absent:
  assumes "has_true_id e"
    and "fresh_id (contents fs (file_name (ent_model e))) (dget (ent_attrs e) ''id'' PNone)"
  shows "ma_save fs e now uuid = (e, snd (load_data fs (file_name (ent_model e))))"
  using assms by (simp add: ma_save_def update_item_eq Let_def find_idx_id_match_None [symmetric])

lemma ma_get_store: "snd (ma_get fs m kw) = snd (load_data fs (file_name m))"
  by (simp add: ma_get_def get_all_items_eq)

lemma contents_ma_get [simp]: "contents (snd (ma_get fs m kw)) n = contents fs n"
  by (simp add: ma_get_store)

lemma simple_filters_id [simp]: "simple_filters [(''id'', v)]"
  by (simp add: simple_filters_def sublist_code)

lemma ma_get_simple:
  "simple_filters kw \<Longrightarrow> kw \<noteq> [] \<Longrightarrow>
   fst (ma_get fs m kw) =
     (case filter (matches_all kw) (contents fs (file_name m)) of
        [] \<Rightarrow> Inl DoesNotExist | x # _ \<Rightarrow> make_entity m x)"
  using get_all_items_simple [of kw fs "file_name m"]
  by (auto simp: ma_get_def split: prod.split)

lemma ma_get_first_found:
  assumes "simple_filters kw" and "kw \<noteq> []"
    and "filter (matches_all kw) (contents fs (file_name m)) = x # xs"
  shows "ma_get fs m kw = (make_entity m x, snd (load_data fs (file_name m)))"
  using ma_get_simple [OF assms(1,2), of fs m] ma_get_store [of fs m kw] assms(3)
  by (metis list.simps(5) prod.collapse)

lemma resolve_fk_dangling:
  assumes "\<forall>c\<in>set (contents fs (file_name target)). \<not> eq_test ''id'' (dget (ent_attrs e) attr PNone) c"
  shows "fst (resolve_fk fs e attr target) = Inr None"
proof -
  have "filter (matches_all [(''id'', dget (ent_attrs e) attr PNone)]) (contents fs (file_name target)) = []"
    using assms by (simp add: matches_all_def filter_empty_conv)
  then show ?thesis
    using ma_get_simple [of "[(''id'', dget (ent_attrs e) attr PNone)]" fs target]
    by (auto simp: resolve_fk_def split: prod.split)
qed

lemma make_entity_new_pref:
  "make_entity UserPreference (new_pref i now uuid) = Inr \<lparr>ent_model = UserPreference, ent_attrs = new_pref i now uuid\<rparr>"
  by (simp add: make_entity_def init_attrs_def stamp_new_def has_key_def setitem_def)

lemma matches_user_id_new_pref: "matches_all [(''user_id'', i)] (new_pref i now uuid)"
  by (simp add: matches_all_def eq_test_def stamp_new_def has_key_def dget_def)

subsection \<open>Properties of the entity layer\<close>

text \<open>Saving an entity that has no id creates its document: the entity adopts the generated id and equal creation and update times, the collection gains exactly that document, the entity's attributes equal it as a dict, and the collection invariant is kept when the generated id is fresh.\<close>

theorem ma_save_new:
  assumes "\<not> hasattr e ''id''" and "wf_doc (ent_attrs e)"
    and "coll_inv (contents fs (file_name (ent_model e)))"
    and "fresh_id (contents fs (file_name (ent_model e))) (PStr uuid)"
  shows "let n = file_name (ent_model e); (e', fs') = ma_save fs e now uuid
         in getattr e' ''id'' = Inr (PStr uuid) \<and>
            dget (ent_attrs e') ''created_at'' PNone = PStr now \<and>
            dget (ent_attrs e') ''updated_at'' PNone = PStr now \<and>
            contents fs' n = contents fs n @ [stamp_new (ent_attrs e) now uuid] \<and>
            map_of (ent_attrs e') = map_of (stamp_new (ent_attrs e) now uuid) \<and>
            coll_inv (contents fs' n)"
proof -
  let ?n = "file_name (ent_model e)" and ?s = "stamp_new (ent_attrs e) now uuid"
  have nt: "\<not> has_true_id e" using assms(1) by (simp add: has_true_id_def)
  have dom: "dom (map_of (ent_attrs e)) \<subseteq> dom (map_of ?s)"
    using has_key_stamp_new [of "ent_attrs e" now uuid] by (auto simp: has_key_def)
  have m: "map_of (dict_update (ent_attrs e) ?s) = map_of ?s"
    using map_of_dict_update_extends [OF wf_doc_stamp_new [OF assms(2)] dom] .
  have nid: "\<not> has_key (ent_attrs e) ''id''" using assms(1) by (simp add: hasattr_def)
  have ms: "map_of ?s ''id'' = Some (PStr uuid)"
    using nid by (simp add: stamp_new_def Let_def)
  have inv: "coll_inv (contents fs ?n @ [?s])"
    using assms(2-4) nid by (simp add: coll_inv_append fresh_stamp_new)
  have dg: "dget (dict_update (ent_attrs e) ?s) k PNone = dget ?s k PNone" for k
    using m by (simp add: dget_def)
  show ?thesis
    using m ms inv
    by (simp add: ma_save_create [OF nt] getattr_def dg)
qed

text \<open>C34: An entity whose id attribute is present but falsy (None, '' or 0) is saved by create, which keeps that id: saving it twice adds two documents with the same id, breaking id uniqueness, and the entity never acquires a real id.\<close>

theorem ma_save_falsy_id:
  assumes "hasattr e ''id''" and "\<not> py_truthy (dget (ent_attrs e) ''id'' PNone)"
    and "wf_doc (ent_attrs e)"
  shows "let n = file_name (ent_model e); (e1, fs1) = ma_save fs e now uuid; (e2, fs2) = ma_save fs1 e1 now' uuid'
         in contents fs2 n = contents fs n @ [stamp_new (ent_attrs e) now uuid, stamp_new (ent_attrs e1) now' uuid'] \<and>
            getattr e2 ''id'' = getattr e ''id'' \<and> \<not> coll_inv (contents fs2 n)"
proof -
  let ?n = "file_name (ent_model e)" and ?a = "ent_attrs e"
  let ?s = "stamp_new ?a now uuid"
  let ?e1 = "e\<lparr>ent_attrs := dict_update ?a ?s\<rparr>"
  let ?s2 = "stamp_new (ent_attrs ?e1) now' uuid'"
  have hk: "has_key ?a ''id''" using assms(1) by (simp add: hasattr_def)
  have nt: "\<not> has_true_id e" using assms(2) by (simp add: has_true_id_def)
  have m1: "map_of (ent_attrs ?e1) = map_of ?s" using map_of_save_create [OF assms(3)] by simp
  have id1: "map_of (ent_attrs ?e1) ''id'' = map_of ?a ''id''" using m1 hk by (simp add: map_of_stamp_new_id)
  have hk1: "has_key (ent_attrs ?e1) ''id''" using id1 hk by (simp add: has_key_def)
  have nt1: "\<not> has_true_id ?e1" using assms(2) id1 by (simp add: has_true_id_def dget_def)
  have wf1: "wf_doc (ent_attrs ?e1)" using assms(3) by (simp add: wf_doc_dict_update)
  have "doc_id ?s2 = doc_id (ent_attrs ?e1)" using hk1 by (simp only: doc_id_stamp_new if_True)
  also have "\<dots> = doc_id ?a" using id1 by (simp add: doc_id_def dget_def)
  also have "\<dots> = doc_id ?s" using hk by (simp only: doc_id_stamp_new if_True)
  finally have same: "doc_id ?s2 = doc_id ?s" .
  have id2: "map_of (dict_update (ent_attrs ?e1) ?s2) ''id'' = map_of ?a ''id''"
    using map_of_save_create [OF wf1] hk1 id1 by (simp add: map_of_stamp_new_id)
  have dup: "\<not> distinct (coll_ids (ds @ [?s, ?s2]))" for ds
    using same by (simp add: coll_ids_def)
  show ?thesis
    using id2 dup
    by (simp add: ma_save_create [OF nt] ma_save_create [OF nt1] getattr_def coll_inv_def)
qed

text \<open>Saving an already stored entity twice with no change in between leaves the same stored document up to a refreshed updated_at, touches no other document, and the entity holds the stored document.\<close>

theorem ma_save_twice:
  assumes "has_true_id e" and "wf_doc (ent_attrs e)"
    and "find_idx (id_match (dget (ent_attrs e) ''id'' PNone)) (contents fs (file_name (ent_model e))) = Some i"
  shows "let n = file_name (ent_model e); (e1, fs1) = ma_save fs e now uuid; (e2, fs2) = ma_save fs1 e1 now' uuid'
         in \<exists>u. contents fs2 n = (contents fs1 n)[i := u] \<and>
                map_of u = (map_of (contents fs1 n ! i))(''updated_at'' \<mapsto> PStr now') \<and>
                map_of (ent_attrs e2) = map_of u"
proof -
  let ?n = "file_name (ent_model e)" and ?a = "ent_attrs e"
  let ?iid = "dget ?a ''id'' PNone" and ?ds = "contents fs ?n"
  let ?u1 = "stamp_update (?ds ! i) ?a ?iid now"
  let ?e1 = "e\<lparr>ent_attrs := dict_update ?a ?u1\<rparr>"
  let ?fs1 = "save_data (snd (load_data fs ?n)) ?n (?ds[i := ?u1])"
  have s1: "ma_save fs e now uuid = (?e1, ?fs1)"
    using ma_save_update_found [OF assms(1,3)] by (simp add: Let_def)
  have i: "i < length ?ds" using find_idx_SomeD [OF assms(3)] by simp
  have m1: "map_of (ent_attrs ?e1) = map_of ?u1" using map_of_save_update [OF assms(2)] by simp
  have u1id: "map_of ?u1 ''id'' = Some ?iid"
    using has_key_stamp_update_id [of "?ds ! i" ?a ?iid now] doc_id_stamp_update [of "?ds ! i" ?a ?iid now]
    by (auto simp: has_key_def doc_id_def dget_def)
  have iid1: "dget (ent_attrs ?e1) ''id'' PNone = ?iid" using m1 u1id by (simp add: dget_def)
  have t1: "has_true_id ?e1"
    using assms(1) m1 u1id iid1 by (simp add: has_true_id_def hasattr_def has_key_def)
  have f1: "find_idx (id_match (dget (ent_attrs ?e1) ''id'' PNone)) (contents ?fs1 (file_name (ent_model ?e1))) = Some i"
    using find_idx_list_update_same [OF assms(3)] iid1 by (simp add: id_match_def)
  let ?u2 = "stamp_update ?u1 (ent_attrs ?e1) ?iid now'"
  have s2: "ma_save ?fs1 ?e1 now' uuid' =
      (?e1\<lparr>ent_attrs := dict_update (ent_attrs ?e1) ?u2\<rparr>,
       save_data (snd (load_data ?fs1 ?n)) ?n ((?ds[i := ?u1])[i := ?u2]))"
    using ma_save_update_found [OF t1 f1] i iid1 by (simp add: Let_def)
  have wf1: "wf_doc (ent_attrs ?e1)" using assms(2) by (simp add: wf_doc_dict_update)
  have m2: "map_of ?u2 = (map_of ?u1)(''updated_at'' \<mapsto> PStr now')"
    using stamp_update_same [OF m1 u1id] .
  have m3: "map_of (dict_update (ent_attrs ?e1) ?u2) = map_of ?u2"
    using map_of_save_update [OF wf1] by simp
  show ?thesis
    unfolding Let_def s1 prod.case s2
    by (rule exI [of _ ?u2]) (simp add: m2 [simplified] m3 [simplified] i)
qed

text \<open>Saving an entity whose document is no longer in its collection neither fails nor recreates it: the entity and the collection stay as they were.\<close>

theorem ma_save_deleted_noop:
  assumes "has_true_id e"
    and "fresh_id (contents fs (file_name (ent_model e))) (dget (ent_attrs e) ''id'' PNone)"
  shows "fst (ma_save fs e now uuid) = e \<and>
         contents (snd (ma_save fs e now uuid)) (file_name (ent_model e)) = contents fs (file_name (ent_model e))"
  by (simp add: ma_save_update_absent [OF assms])

text \<open>The class-level ModelAdapter.get returns the first match when several documents match, where QuerySetAdapter.get with the same filters raises MultipleObjectsReturned.\<close>

theorem ma_get_first:
  assumes "simple_filters kw" and "kw \<noteq> []" and "distinct (map fst kw)"
    and "[d \<leftarrow> contents fs (file_name m). matches_all kw d] = x # y # rest"
  shows "fst (ma_get fs m kw) = make_entity m x \<and>
         fst (qs_get (ma_all m) kw fs) = Inl MultipleObjectsReturned"
proof -
  have du: "dict_update [] kw = kw" using dict_update_disjoint [OF assms(3), of "[]"] by simp
  have "simple_filters (dict_update (qs_filters (ma_all m)) kw)"
    using assms(1) by (simp add: ma_all_def qs_new_def du)
  from qs_get_simple [OF this, of fs] assms(4)
  have "fst (qs_get (ma_all m) kw fs) = Inl MultipleObjectsReturned"
    by (simp add: ma_all_def qs_new_def du)
  then show ?thesis using ma_get_simple [OF assms(1,2)] assms(4) by simp
qed

text \<open>A marketplace item whose category_id resolves to no category yields None from its category property instead of raising, and still appears in the collection-wide listing.\<close>

theorem dangling_category_tolerated:
  assumes "d \<in> set (contents fs ''marketplace_items'')" and "make_entity MarketplaceItem d = Inr e"
    and "\<forall>c\<in>set (contents fs ''categories''). \<not> eq_test ''id'' (dget d ''category_id'' PNone) c"
  shows "fst (item_category fs e) = Inr None \<and>
         (\<exists>r. fst (fetch_results (ma_all MarketplaceItem) fs) = Inr r \<and> d \<in> set r)"
proof -
  have "ent_attrs e = d" using assms(2) by (auto simp: make_entity_def init_attrs_def split: if_splits)
  then have "fst (item_category fs e) = Inr None"
    using resolve_fk_dangling [of fs Category e "''category_id''"] assms(3) by (simp add: item_category_def)
  moreover have "fst (fetch_results (ma_all MarketplaceItem) fs) = Inr (contents fs ''marketplace_items'')"
    by (simp add: ma_all_def qs_new_def fetch_results_uncached get_all_items_eq order_results_def)
  ultimately show ?thesis using assms(1) by simp
qed

text \<open>C39: User.preference creates the preference document with an empty category list on first use and returns that same document on the next call without writing again.\<close>

theorem user_preference_get_or_create:
  assumes "getattr u ''id'' = Inr i"
    and "\<forall>d\<in>set (contents fs ''user_preferences''). \<not> eq_test ''user_id'' i d"
  shows "let (r1, fs1) = user_adapter_preference fs u now uuid; (r2, fs2) = user_adapter_preference fs1 u now' uuid'
         in r1 = Inr \<lparr>ent_model = UserPreference, ent_attrs = new_pref i now uuid\<rparr> \<and> r2 = r1 \<and>
            contents fs1 ''user_preferences'' = contents fs ''user_preferences'' @ [new_pref i now uuid] \<and>
            contents fs2 ''user_preferences'' = contents fs1 ''user_preferences''"
proof -
  let ?kw = "[(''user_id'', i)]" and ?ds = "contents fs ''user_preferences''"
  have sf: "simple_filters ?kw" by (simp add: simple_filters_def sublist_code)
  have none: "filter (matches_all ?kw) ?ds = []"
    using assms(2) by (simp add: matches_all_def filter_empty_conv)
  obtain r0 fs0 where g0: "ma_get fs UserPreference ?kw = (r0, fs0)" by fastforce
  have r0: "r0 = Inl DoesNotExist" using ma_get_simple [OF sf, of fs UserPreference] none g0 by simp
  have c0: "contents fs0 ''user_preferences'' = ?ds"
    using ma_get_store [of _ UserPreference ?kw] g0 by (metis contents_snd_load_data file_name.simps(4) snd_conv)
  let ?fs1 = "snd (create_item fs0 ''user_preferences'' [(''user_id'', i), (''preferred_category_ids'', PList [])] now uuid)"
  have s1: "user_adapter_preference fs u now uuid =
      (Inr \<lparr>ent_model = UserPreference, ent_attrs = new_pref i now uuid\<rparr>, ?fs1)"
    using assms(1) g0 r0 by (simp add: user_adapter_preference_def ma_create_def create_item_eq make_entity_new_pref)
  have c1: "contents ?fs1 ''user_preferences'' = ?ds @ [new_pref i now uuid]" using c0 by simp
  have one: "filter (matches_all ?kw) (contents ?fs1 ''user_preferences'') = [new_pref i now uuid]"
    using c1 none matches_user_id_new_pref [of i now uuid] by simp
  obtain r2 fs2 where g2: "ma_get ?fs1 UserPreference ?kw = (r2, fs2)" by fastforce
  have r2: "r2 = Inr \<lparr>ent_model = UserPreference, ent_attrs = new_pref i now uuid\<rparr>"
    using ma_get_simple [OF sf, of ?fs1 UserPreference] one g2 by (simp add: make_entity_new_pref)
  have c2: "contents fs2 ''user_preferences'' = contents ?fs1 ''user_preferences''"
    using ma_get_store [of _ UserPreference ?kw] g2 by (metis contents_snd_load_data file_name.simps(4) snd_conv)
  have s2: "user_adapter_preference ?fs1 u now' uuid' = (r2, fs2)"
    using assms(1) g2 r2 by (simp add: user_adapter_preference_def)
  show ?thesis using s1 s2 r2 c1 c2 by simp
qed

subsection \<open>Witnesses\<close>

theorem ma_save_new_witness:
  "let n = file_name (ent_model ex_lamp); (e', fs') = ma_save ex_fs ex_lamp ''2024-03-01T12:00:00'' ''u1''
   in getattr e' ''id'' = Inr (PStr ''u1'') \<and>
      dget (ent_attrs e') ''created_at'' PNone = PStr ''2024-03-01T12:00:00'' \<and>
      dget (ent_attrs e') ''updated_at'' PNone = PStr ''2024-03-01T12:00:00'' \<and>
      contents fs' n = contents ex_fs n @ [stamp_new (ent_attrs ex_lamp) ''2024-03-01T12:00:00'' ''u1''] \<and>
      map_of (ent_attrs e') = map_of (stamp_new (ent_attrs ex_lamp) ''2024-03-01T12:00:00'' ''u1'') \<and>
      coll_inv (contents fs' n)"
  by (rule ma_save_new) (simp_all add: model_simps)

theorem ma_save_falsy_id_witness:
  "let n = file_name (ent_model ex_noid); (e1, fs1) = ma_save ex_fs ex_noid ''2024-03-01T12:00:00'' ''u1'';
       (e2, fs2) = ma_save fs1 e1 ''2024-03-02T12:00:00'' ''u2''
   in contents fs2 n = contents ex_fs n @ [stamp_new (ent_attrs ex_noid) ''2024-03-01T12:00:00'' ''u1'', stamp_new (ent_attrs e1) ''2024-03-02T12:00:00'' ''u2''] \<and>
      getattr e2 ''id'' = getattr ex_noid ''id'' \<and> \<not> coll_inv (contents fs2 n)"
  by (rule ma_save_falsy_id) (simp_all add: model_simps)

theorem ma_save_twice_witness:
  "let n = file_name (ent_model ex_green); (e1, fs1) = ma_save ex_fs ex_green ''2024-03-01T12:00:00'' ''u1'';
       (e2, fs2) = ma_save fs1 e1 ''2024-03-02T12:00:00'' ''u2''
   in \<exists>u. contents fs2 n = (contents fs1 n)[0 := u] \<and>
          map_of u = (map_of (contents fs1 n ! 0))(''updated_at'' \<mapsto> PStr ''2024-03-02T12:00:00'') \<and>
          map_of (ent_attrs e2) = map_of u"
  by (rule ma_save_twice) (simp_all add: model_simps)

theorem ma_save_deleted_noop_witness:
  "fst (ma_save ex_fs ex_gone ''2024-03-01T12:00:00'' ''u1'') = ex_gone \<and>
   contents (snd (ma_save ex_fs ex_gone ''2024-03-01T12:00:00'' ''u1'')) (file_name (ent_model ex_gone)) =
     contents ex_fs (file_name (ent_model ex_gone))"
  by (rule ma_save_deleted_noop) (simp_all add: model_simps)

theorem ma_get_first_witness:
  "fst (ma_get ex_fs2 MarketplaceItem [(''status'', PStr ''available'')]) = make_entity MarketplaceItem ex_chair \<and>
   fst (qs_get (ma_all MarketplaceItem) [(''status'', PStr ''available'')] ex_fs2) = Inl MultipleObjectsReturned"
  by (rule ma_get_first [where y = ex_stool and rest = "[]"]) (simp_all add: model_simps)

theorem dangling_category_tolerated_witness:
  "fst (item_category ex_fs3 \<lparr>ent_model = MarketplaceItem, ent_attrs = ex_bench\<rparr>) = Inr None \<and>
   (\<exists>r. fst (fetch_results (ma_all MarketplaceItem) ex_fs3) = Inr r \<and> ex_bench \<in> set r)"
  by (rule dangling_category_tolerated) (simp_all add: model_simps)

theorem user_preference_get_or_create_witness:
  "let (r1, fs1) = user_adapter_preference ex_fs ex_user ''2024-03-01T12:00:00'' ''u1''; (r2, fs2) = user_adapter_preference fs1 ex_user ''2024-03-02T12:00:00'' ''u2''
   in r1 = Inr \<lparr>ent_model = UserPreference, ent_attrs = new_pref (PInt 7) ''2024-03-01T12:00:00'' ''u1''\<rparr> \<and> r2 = r1 \<and>
      contents fs1 ''user_preferences'' = contents ex_fs ''user_preferences'' @ [new_pref (PInt 7) ''2024-03-01T12:00:00'' ''u1''] \<and>
      contents fs2 ''user_preferences'' = contents fs1 ''user_preferences''"
  by (rule user_preference_get_or_create) (simp_all add: model_simps)

end
