(* ===== verification/Relation_Manager.thy ===== *)
theory Relation_Manager
  imports Entity
begin

text \<open>
  The relation manager of \<open>src/main_app/data/model_adapter.py\<close>: the \<open>CategoryManager\<close>
  returned by \<open>UserPreferenceAdapter.preferred_categories\<close> (lines 272--309). It wraps
  the owning preference entity and treats its \<open>preferred_category_ids\<close> attribute as a
  many-to-many relation to categories: \<open>all\<close> resolves each id by \<open>CategoryAdapter.get\<close>
  and drops ids that no longer resolve; \<open>add\<close>, \<open>remove\<close> and \<open>clear\<close> change the list
  in place and save the owner. The attribute is whatever the stored document holds, so
  the list operations are modelled on every value: iterating a string yields its
  characters, iterating another non-list raises \<open>TypeError\<close>, and \<open>append\<close> or
  \<open>remove\<close> on a non-list raise \<open>AttributeError\<close>. Every operation returns the owner
  entity it leaves behind, since the manager mutates it.
\<close>

subsection \<open>List operations on a value\<close>

fun py_iter :: "pyval \<Rightarrow> py_error + pyval list" where
  "py_iter (PList xs) = Inr xs"
| "py_iter (PStr s) = Inr (map (\<lambda>c. PStr [c]) s)"
| "py_iter _ = Inl TypeError"

fun py_append :: "pyval \<Rightarrow> pyval \<Rightarrow> py_error + pyval" where
  "py_append (PList xs) x = Inr (PList (xs @ [x]))"
| "py_append _ x = Inl AttributeError"

text \<open>\<open>lst.remove(x)\<close> drops the first element equal to \<open>x\<close> and raises \<open>ValueError\<close>
  when there is none.\<close>

fun py_remove :: "pyval \<Rightarrow> pyval \<Rightarrow> py_error + pyval" where
  "py_remove (PList xs) x =
     (case find_idx (\<lambda>y. py_eq y x) xs of
        None \<Rightarrow> Inl ValueError
      | Some i \<Rightarrow> Inr (PList (remove_nth i xs)))"
| "py_remove _ x = Inl AttributeError"

subsection \<open>The manager's operations\<close>

text \<open>Lines 279--288: \<open>DoesNotExist\<close> skips an id; any other exception propagates.\<close>

fun resolve_ids :: "store \<Rightarrow> pyval list \<Rightarrow> (py_error + entity list) \<times> store" where
  "resolve_ids fs [] = (Inr [], fs)"
| "resolve_ids fs (c # cs) =
     (let (r, fs1) = ma_get fs Category [(''id'', c)]
      in case r of
           Inl DoesNotExist \<Rightarrow> resolve_ids fs1 cs
         | Inl err \<Rightarrow> (Inl err, fs1)
         | Inr x \<Rightarrow> (let (rs, fs2) = resolve_ids fs1 cs in (map_sum id (Cons x) rs, fs2)))"

definition cm_all :: "store \<Rightarrow> entity \<Rightarrow> (py_error + entity list) \<times> store" where
  "cm_all fs e =
     (if hasattr e ''preferred_category_ids'' then
        (case py_iter (dget (ent_attrs e) ''preferred_category_ids'' PNone) of
           Inl err \<Rightarrow> (Inl err, fs)
         | Inr ids \<Rightarrow> resolve_ids fs ids)
      else (Inr [], fs))"

definition set_pref_ids :: "entity \<Rightarrow> pyval \<Rightarrow> entity" where
  "set_pref_ids e v = e\<lparr>ent_attrs := setitem (ent_attrs e) ''preferred_category_ids'' v\<rparr>"

text \<open>Lines 290--297.\<close>

definition cm_add ::
  "store \<Rightarrow> entity \<Rightarrow> entity \<Rightarrow> string \<Rightarrow> string \<Rightarrow> (py_error + unit) \<times> entity \<times> store" where
  "cm_add fs e cat now uuid =
     (let e1 = (if hasattr e ''preferred_category_ids'' then e else set_pref_ids e (PList []))
      in if hasattr cat ''id'' then
           (let cid = dget (ent_attrs cat) ''id'' PNone;
                ids = dget (ent_attrs e1) ''preferred_category_ids'' PNone
            in case py_in cid ids of
                 Inl err \<Rightarrow> (Inl err, e1, fs)
               | Inr True \<Rightarrow> (Inr (), e1, fs)
               | Inr False \<Rightarrow>
                   (case py_append ids cid of
                      Inl err \<Rightarrow> (Inl err, e1, fs)
                    | Inr ids' \<Rightarrow>
                        (let (e2, fs1) = ma_save fs (set_pref_ids e1 ids') now uuid in (Inr (), e2, fs1))))
         else (Inr (), e1, fs))"

text \<open>Lines 299--303.\<close>

definition cm_remove ::
  "store \<Rightarrow> entity \<Rightarrow> entity \<Rightarrow> string \<Rightarrow> string \<Rightarrow> (py_error + unit) \<times> entity \<times> store" where
  "cm_remove fs e cat now uuid =
     (if hasattr e ''preferred_category_ids'' \<and> hasattr cat ''id'' then
        (let cid = dget (ent_attrs cat) ''id'' PNone;
             ids = dget (ent_attrs e) ''preferred_category_ids'' PNone
         in case py_in cid ids of
              Inl err \<Rightarrow> (Inl err, e, fs)
            | Inr False \<Rightarrow> (Inr (), e, fs)
            | Inr True \<Rightarrow>
                (case py_remove ids cid of
                   Inl err \<Rightarrow> (Inl err, e, fs)
                 | Inr ids' \<Rightarrow>
                     (let (e2, fs1) = ma_save fs (set_pref_ids e ids') now uuid in (Inr (), e2, fs1))))
      else (Inr (), e, fs))"

text \<open>Lines 305--307.\<close>

definition cm_clear :: "store \<Rightarrow> entity \<Rightarrow> string \<Rightarrow> string \<Rightarrow> entity \<times> store" where
  "cm_clear fs e now uuid = ma_save fs (set_pref_ids e (PList [])) now uuid"

subsection \<open>Example\<close>

abbreviation ex_furniture :: doc where
  "ex_furniture \<equiv> [(''id'', PStr ''k1''), (''name'', PStr ''Furniture'')]"

abbreviation ex_pref :: entity where
  "ex_pref \<equiv> \<lparr>ent_model = UserPreference,
               ent_attrs = [(''id'', PStr ''p1''), (''user_id'', PInt 7), (''preferred_category_ids'', PList [])]\<rparr>"

abbreviation ex_fs4 :: store where
  "ex_fs4 \<equiv> ex_fs(''user_preferences'' := Json [ent_attrs ex_pref], ''categories'' := Json [ex_furniture])"

lemmas relation_defs [model_simps] = cm_all_def set_pref_ids_def cm_add_def cm_remove_def cm_clear_def

subsection \<open>Lemmas\<close>

lemma resolve_ids_Cons_found:
  "ma_get fs Category [(''id'', c)] = (Inr x, fs1) \<Longrightarrow>
   fst (resolve_ids fs (c # cs)) = map_sum id (Cons x) (fst (resolve_ids fs1 cs))"
  by (simp split: prod.split)

lemma resolve_ids_Cons_missing:
  "ma_get fs Category [(''id'', c)] = (Inl DoesNotExist, fs1) \<Longrightarrow> resolve_ids fs (c # cs) = resolve_ids fs1 cs"
  by simp

lemma resolve_ids_total:
  assumes "\<forall>d\<in>set (contents fs ''categories''). \<not> has_key d ''items''"
  shows "fst (resolve_ids fs xs) =
    Inr (map (\<lambda>d. \<lparr>ent_model = Category, ent_attrs = d\<rparr>)
           (List.map_filter (\<lambda>x. find (matches_all [(''id'', x)]) (contents fs ''categories'')) xs))"
  using assms
proof (induction xs arbitrary: fs)
  case Nil then show ?case by simp
next
  case (Cons c cs)
  obtain r fs1 where g: "ma_get fs Category [(''id'', c)] = (r, fs1)" by fastforce
  have c1: "contents fs1 ''categories'' = contents fs ''categories''"
    using contents_ma_get [of fs Category "[(''id'', c)]" "''categories''"] g by simp
  have IH: "fst (resolve_ids fs1 cs) =
    Inr (map (\<lambda>d. \<lparr>ent_model = Category, ent_attrs = d\<rparr>)
           (List.map_filter (\<lambda>x. find (matches_all [(''id'', x)]) (contents fs ''categories'')) cs))"
    using Cons.IH [of fs1] Cons.prems c1 by simp
  have r: "r = (case filter (matches_all [(''id'', c)]) (contents fs ''categories'') of
                  [] \<Rightarrow> Inl DoesNotExist | x # _ \<Rightarrow> make_entity Category x)"
    using ma_get_simple [of "[(''id'', c)]" fs Category] g by simp
  show ?case
  proof (cases "filter (matches_all [(''id'', c)]) (contents fs ''categories'')")
    case Nil
    then have "r = Inl DoesNotExist" using r by simp
    then have g': "ma_get fs Category [(''id'', c)] = (Inl DoesNotExist, fs1)" using g by simp
    have f: "find (matches_all [(''id'', c)]) (contents fs ''categories'') = None"
      using Nil by (simp only: find_conv_filter list.case)
    show ?thesis unfolding resolve_ids_Cons_missing [OF g'] IH by (simp add: f)
  next
    case (Cons d ds)
    then have "d \<in> set (filter (matches_all [(''id'', c)]) (contents fs ''categories''))" by simp
    then have "d \<in> set (contents fs ''categories'')" by simp
    then have "make_entity Category d = Inr \<lparr>ent_model = Category, ent_attrs = d\<rparr>"
      using Cons.prems by (simp add: make_entity_Category)
    then have "r = Inr \<lparr>ent_model = Category, ent_attrs = d\<rparr>" using r Cons by simp
    then have g': "ma_get fs Category [(''id'', c)] = (Inr \<lparr>ent_model = Category, ent_attrs = d\<rparr>, fs1)"
      using g by simp
    have f: "find (matches_all [(''id'', c)]) (contents fs ''categories'') = Some d"
      using Cons by (simp only: find_conv_filter list.case)
    have m: "List.map_filter (\<lambda>x. find (matches_all [(''id'', x)]) (contents fs ''categories'')) (c # cs) =
        d # List.map_filter (\<lambda>x. find (matches_all [(''id'', x)]) (contents fs ''categories'')) cs"
      using f by (simp add: List.map_filter_def)
    have s: "fst (resolve_ids fs (c # cs)) = map_sum id (Cons \<lparr>ent_model = Category, ent_attrs = d\<rparr>) (fst (resolve_ids fs1 cs))"
      by (rule resolve_ids_Cons_found [OF g'])
    show ?thesis unfolding s IH m by simp
  qed
qed

lemma count_resolved_once:
  assumes "\<not> list_ex (py_eq cid) ids"
    and "find (matches_all [(''id'', cid)]) cats = Some dc"
  shows "length (filter (\<lambda>c. id_match cid (ent_attrs c))
           (map (\<lambda>d. \<lparr>ent_model = Category, ent_attrs = d\<rparr>)
              (List.map_filter (\<lambda>x. find (matches_all [(''id'', x)]) cats) (ids @ [cid])))) = 1"
proof -
  let ?F = "\<lambda>x. find (matches_all [(''id'', x)]) cats"
  have dc: "id_match cid dc"
    using assms(2) by (auto simp: find_Some_iff matches_all_def eq_test_def id_match_def doc_id_def)
  have none: "\<not> id_match cid d" if "d \<in> set (List.map_filter ?F ids)" for d
  proof
    assume im: "id_match cid d"
    from that obtain x where x: "x \<in> set ids" "?F x = Some d"
      by (auto simp: List.map_filter_def)
    then have "py_eq (dget d ''id'' PNone) x"
      by (auto simp: find_Some_iff matches_all_def eq_test_def)
    then have "py_eq cid x" using im by (simp add: id_match_def doc_id_def py_eq_iff_norm)
    then show False using assms(1) x(1) by (auto simp: list_ex_iff)
  qed
  have "List.map_filter ?F (ids @ [cid]) = List.map_filter ?F ids @ [dc]"
    using assms(2) by (simp add: List.map_filter_def)
  then show ?thesis using dc none by (simp add: filter_empty_conv o_def)
qed

subsection \<open>Properties of the relation manager\<close>

text \<open>C40: Adding the same category twice to a preference stores its id once and saves once (the second add changes nothing), and all() then yields that category exactly once.\<close>

theorem cm_add_twice_all:
  assumes "ent_model e = UserPreference" and "has_true_id e" and "wf_doc (ent_attrs e)"
    and "find_idx (id_match (dget (ent_attrs e) ''id'' PNone)) (contents fs ''user_preferences'') = Some i"
    and "hasattr e ''preferred_category_ids''"
    and "dget (ent_attrs e) ''preferred_category_ids'' PNone = PList ids"
    and "getattr cat ''id'' = Inr cid" and "\<not> list_ex (py_eq cid) ids"
    and "\<forall>d\<in>set (contents fs ''categories''). \<not> has_key d ''items''"
    and "find (matches_all [(''id'', cid)]) (contents fs ''categories'') = Some dc"
  shows "let (r1, e1, fs1) = cm_add fs e cat now uuid; (r2, e2, fs2) = cm_add fs1 e1 cat now' uuid'
         in r1 = Inr () \<and> r2 = Inr () \<and> fs2 = fs1 \<and>
            dget (contents fs1 ''user_preferences'' ! i) ''preferred_category_ids'' PNone = PList (ids @ [cid]) \<and>
            (\<exists>cs. fst (cm_all fs2 e2) = Inr cs \<and> length (filter (\<lambda>c. id_match cid (ent_attrs c)) cs) = 1)"
proof -
  let ?e' = "set_pref_ids e (PList (ids @ [cid]))"
  have hc: "hasattr cat ''id''" and cd: "dget (ent_attrs cat) ''id'' PNone = cid"
    using assms(7) by (auto simp: getattr_def hasattr_def has_key_def dget_def split: option.splits)
  have n: "file_name (ent_model ?e') = ''user_preferences''" using assms(1) by (simp add: set_pref_ids_def)
  have t': "has_true_id ?e'" using assms(2) by (simp add: has_true_id_def hasattr_def set_pref_ids_def)
  have id': "dget (ent_attrs ?e') ''id'' PNone = dget (ent_attrs e) ''id'' PNone"
    by (simp add: set_pref_ids_def)
  have wf': "wf_doc (ent_attrs ?e')" using assms(3) by (simp add: set_pref_ids_def)
  have f': "find_idx (id_match (dget (ent_attrs ?e') ''id'' PNone)) (contents fs (file_name (ent_model ?e'))) = Some i"
    using assms(4) n id' by simp
  let ?u = "stamp_update (contents fs ''user_preferences'' ! i) (ent_attrs ?e') (dget (ent_attrs e) ''id'' PNone) now"
  let ?e2 = "?e'\<lparr>ent_attrs := dict_update (ent_attrs ?e') ?u\<rparr>"
  let ?fs1 = "save_data (snd (load_data fs ''user_preferences'')) ''user_preferences'' ((contents fs ''user_preferences'')[i := ?u])"
  have sv: "ma_save fs ?e' now uuid = (?e2, ?fs1)"
    using ma_save_update_found [OF t' f'] n id' by (simp add: Let_def)
  have add1: "cm_add fs e cat now uuid = (Inr (), ?e2, ?fs1)"
    using assms(5,6,8) hc cd sv by (simp add: cm_add_def Let_def)
  have i: "i < length (contents fs ''user_preferences'')" using find_idx_SomeD [OF assms(4)] by simp
  have pu: "dget ?u ''preferred_category_ids'' PNone = PList (ids @ [cid])"
    by (simp add: dget_def map_of_stamp_update_other set_pref_ids_def)
  have m2: "map_of (ent_attrs ?e2) = map_of ?u" using map_of_save_update [OF wf'] by simp
  have p2: "dget (ent_attrs ?e2) ''preferred_category_ids'' PNone = PList (ids @ [cid])"
    using m2 pu by (simp add: dget_def)
  have h2: "hasattr ?e2 ''preferred_category_ids''"
    using m2 pu by (simp add: hasattr_def has_key_def dget_def split: option.splits)
  have add2: "cm_add ?fs1 ?e2 cat now' uuid' = (Inr (), ?e2, ?fs1)"
    using h2 p2 hc cd by (simp add: cm_add_def list_ex_iff Let_def)
  have cats: "contents ?fs1 ''categories'' = contents fs ''categories''"
    by (simp add: contents_frame)
  have all: "fst (cm_all ?fs1 ?e2) =
      Inr (map (\<lambda>d. \<lparr>ent_model = Category, ent_attrs = d\<rparr>)
             (List.map_filter (\<lambda>x. find (matches_all [(''id'', x)]) (contents fs ''categories'')) (ids @ [cid])))"
    using h2 p2 resolve_ids_total [of ?fs1 "ids @ [cid]"] assms(9) cats by (simp add: cm_all_def)
  show ?thesis
    using add1 add2 all count_resolved_once [OF assms(8,10)] i pu by simp
qed

subsection \<open>Witnesses\<close>

theorem cm_add_twice_all_witness:
  "let (r1, e1, fs1) = cm_add ex_fs4 ex_pref \<lparr>ent_model = Category, ent_attrs = ex_furniture\<rparr> ''2024-03-01T12:00:00'' ''u1'';
       (r2, e2, fs2) = cm_add fs1 e1 \<lparr>ent_model = Category, ent_attrs = ex_furniture\<rparr> ''2024-03-02T12:00:00'' ''u2''
   in r1 = Inr () \<and> r2 = Inr () \<and> fs2 = fs1 \<and>
      dget (contents fs1 ''user_preferences'' ! 0) ''preferred_category_ids'' PNone = PList ([] @ [PStr ''k1'']) \<and>
      (\<exists>cs. fst (cm_all fs2 e2) = Inr cs \<and> length (filter (\<lambda>c. id_match (PStr ''k1'') (ent_attrs c)) cs) = 1)"
  by (rule cm_add_twice_all [where dc = ex_furniture]) (simp_all add: model_simps)

end
