(* ===== verification/Concurrency.thy ===== *)
theory Concurrency
  imports Store
begin

text \<open>
  Concurrent requests against the collection store. Every operation of
  \<open>src/main_app/data/json_manager.py\<close> is a read of the whole collection
  (\<open>load_data\<close>) followed by a write of the whole collection (\<open>save_data\<close>), with no
  lock in between (spec section 5 asks for a per-collection lock). Two requests served
  at the same time can therefore interleave their reads and writes. \<open>update_item\<close>
  (lines 96--110) is split here into its read step and its write step; the split is
  shown to compose back to \<open>update_item\<close>, and the interleaving read, read, write, write
  of two updates is an explicit sequence of these steps.
\<close>

definition update_read :: "store \<Rightarrow> string \<Rightarrow> doc list \<times> store" where
  "update_read fs n = load_data fs n"

definition update_write ::
  "store \<Rightarrow> string \<Rightarrow> doc list \<Rightarrow> pyval \<Rightarrow> doc \<Rightarrow> string \<Rightarrow> doc option \<times> store" where
  "update_write fs n data iid upd now =
     (case find_idx (id_match iid) data of
        None \<Rightarrow> (None, fs)
      | Some i \<Rightarrow>
          (let u = stamp_update (data ! i) upd iid now
           in (Some u, save_data fs n (data[i := u]))))"

text \<open>Two updates of the same collection whose reads both happen before either write.\<close>

definition interleaved_updates ::
  "store \<Rightarrow> string \<Rightarrow> pyval \<Rightarrow> doc \<Rightarrow> string \<Rightarrow> pyval \<Rightarrow> doc \<Rightarrow> string \<Rightarrow> store" where
  "interleaved_updates fs n iid1 upd1 now1 iid2 upd2 now2 =
     (let (d1, fs1) = update_read fs n;
          (d2, fs2) = update_read fs1 n;
          (_, fs3) = update_write fs2 n d1 iid1 upd1 now1;
          (_, fs4) = update_write fs3 n d2 iid2 upd2 now2
      in fs4)"

lemmas concurrency_defs [model_simps] = update_read_def update_write_def interleaved_updates_def

subsection \<open>Lemmas\<close>

lemma update_item_split:
  "update_item fs n iid upd now = (let (data, fs1) = update_read fs n in update_write fs1 n data iid upd now)"
  by (simp add: update_item_def update_read_def update_write_def)

lemma update_read_eq: "update_read fs n = (contents fs n, snd (load_data fs n))"
  by (simp add: update_read_def load_data_split [symmetric])

lemma load_data_idem [simp]: "load_data (snd (load_data fs n)) n = (contents fs n, snd (load_data fs n))"
  by (simp add: load_data_def contents_def split: file_state.split)

lemma contents_update_write:
  "contents (snd (update_write fs n data iid upd now)) n =
     (case find_idx (id_match iid) data of
        None \<Rightarrow> contents fs n
      | Some i \<Rightarrow> data[i := stamp_update (data ! i) upd iid now])"
  by (simp add: update_write_def Let_def split: option.split)

subsection \<open>Lost update\<close>

text \<open>C20: When two updates of different documents of one collection both read before either writes, the collection ends as if only the second update had run: the first update is lost (spec section 8 requires both to persist).\<close>

theorem interleaved_update_lost:
  assumes "find_idx (id_match iid1) (contents fs n) = Some i"
    and "find_idx (id_match iid2) (contents fs n) = Some j" and "i \<noteq> j"
  shows "contents (interleaved_updates fs n iid1 upd1 now1 iid2 upd2 now2) n =
           contents (snd (update_item fs n iid2 upd2 now2)) n \<and>
         contents (interleaved_updates fs n iid1 upd1 now1 iid2 upd2 now2) n ! i = contents fs n ! i"
proof -
  let ?fs1 = "snd (load_data fs n)"
  obtain r3 fs3 where w3: "update_write ?fs1 n (contents fs n) iid1 upd1 now1 = (r3, fs3)" by fastforce
  have "interleaved_updates fs n iid1 upd1 now1 iid2 upd2 now2 =
          snd (update_write fs3 n (contents fs n) iid2 upd2 now2)"
    by (simp add: interleaved_updates_def update_read_eq w3 split: prod.split)
  moreover have "contents (snd (update_item fs n iid2 upd2 now2)) n =
      (contents fs n)[j := stamp_update (contents fs n ! j) upd2 iid2 now2]"
    using assms(2) by (simp add: contents_update_item)
  ultimately show ?thesis
    using assms contents_update_write [of fs3 n "contents fs n" iid2 upd2 now2] by simp
qed

subsection \<open>Witnesses\<close>

theorem interleaved_update_lost_witness:
  "contents (interleaved_updates ex_fs ''marketplace_items'' (PStr ''a1'') [(''title'', PStr ''Green Chair'')]
               ''2024-03-01T12:00:00'' (PStr ''b2'') [(''title'', PStr ''Oak Table'')] ''2024-03-01T12:00:01'')
            ''marketplace_items'' =
     contents (snd (update_item ex_fs ''marketplace_items'' (PStr ''b2'') [(''title'', PStr ''Oak Table'')]
                      ''2024-03-01T12:00:01'')) ''marketplace_items'' \<and>
   contents (interleaved_updates ex_fs ''marketplace_items'' (PStr ''a1'') [(''title'', PStr ''Green Chair'')]
               ''2024-03-01T12:00:00'' (PStr ''b2'') [(''title'', PStr ''Oak Table'')] ''2024-03-01T12:00:01'')
            ''marketplace_items'' ! 0 = contents ex_fs ''marketplace_items'' ! 0"
  by (rule interleaved_update_lost [where j = 1]) (simp_all add: model_simps)

end
