(* ===== verification/Web_Views.thy ===== *)
theory Web_Views
  imports Entity Sort_Page
begin

text \<open>
  The marketplace request handlers of \<open>src/main_app/views_json.py\<close>, as far as they
  read and write the store: \<open>get_json_object_or_404\<close> (lines 10--14), \<open>item_detail\<close>
  for an anonymous request (lines 95--111), \<open>add_item\<close> (lines 129--186),
  \<open>my_items\<close> (lines 189--204), \<open>update_item\<close> (lines 206--268), \<open>delete_item\<close>
  (lines 270--286) and \<open>search_items\<close> (lines 288--326). A request carries the
  authenticated user's id (an integer, as Django's auth user has), whether it is a POST,
  its form fields and the name of an uploaded image. A handler returns the response, or
  the exception that escapes it, and the store. Templates and flash messages are not
  modelled; the rest of \<open>item_detail\<close> (the authenticated branch, which calls
  \<open>update_recommendations\<close>) is in theory \<open>Json_Recommendations\<close>; \<open>Category.all()\<close> only builds a lazy query set and touches no file.
\<close>

record request =
  req_post :: bool
  req_form :: "(string \<times> string) list"
  req_image :: "string option"

datatype response = Render string | Redirect string

definition form_get :: "request \<Rightarrow> string \<Rightarrow> string option" where
  "form_get req k = querydict_get (req_form req) k"

definition form_get_default :: "request \<Rightarrow> string \<Rightarrow> string" where
  "form_get_default req k = (case form_get req k of None \<Rightarrow> [] | Some s \<Rightarrow> s)"

text \<open>Truthiness of \<open>request.POST.get(k)\<close>: \<open>None\<close> and the empty string are false.\<close>

definition form_truthy :: "string option \<Rightarrow> bool" where
  "form_truthy v = (case v of None \<Rightarrow> False | Some s \<Rightarrow> s \<noteq> [])"

definition form_val :: "string option \<Rightarrow> pyval" where
  "form_val v = (case v of None \<Rightarrow> PNone | Some s \<Rightarrow> PStr s)"

text \<open>\<open>redirect('item_detail', item_id=v)\<close> reverses the route
  \<open>marketplace/item/<int:item_id>/\<close> (\<open>urls.py\<close>, line 12): the int converter writes
  \<open>str(v)\<close>, which must match \<open>[0-9]+\<close>, or Django raises \<open>NoReverseMatch\<close>.\<close>

definition digits :: "string \<Rightarrow> bool" where
  "digits s = (s \<noteq> [] \<and> list_all (\<lambda>c. c \<in> set ''0123456789'') s)"

definition reverse_item_detail :: "pyval \<Rightarrow> py_error + response" where
  "reverse_item_detail v =
     (if digits (py_str v) then Inr (Redirect (''/marketplace/item/'' @ py_str v @ ''/''))
      else Inl NoReverseMatch)"

text \<open>\<open>except Model.DoesNotExist\<close>: the clause's expression is evaluated when an exception
  arrives, and of the adapter classes only \<open>UserAdapter\<close> has a \<open>DoesNotExist\<close> attribute
  (\<open>model_adapter.py\<close>, line 363); for the others the lookup raises \<open>AttributeError\<close>
  in place of the exception that arrived, whichever it was.\<close>

definition catch_does_not_exist :: "model_kind \<Rightarrow> py_error + 'a \<Rightarrow> (py_error + 'a) + unit" where
  "catch_does_not_exist m r =
     (case r of
        Inr x \<Rightarrow> Inl (Inr x)
      | Inl e \<Rightarrow> if m \<noteq> User then Inl (Inl AttributeError)
                else if e = DoesNotExist then Inr () else Inl (Inl e))"

definition get_json_object_or_404 :: "store \<Rightarrow> model_kind \<Rightarrow> filters \<Rightarrow> (py_error + entity) \<times> store" where
  "get_json_object_or_404 fs m kw =
     (let (r, fs1) = ma_get fs m kw
      in (case catch_does_not_exist m r of Inr _ \<Rightarrow> Inl Http404 | Inl r' \<Rightarrow> r', fs1))"

text \<open>\<open>if image:\<close>: an uploaded file is true when its name is not empty.\<close>

definition image_field :: "request \<Rightarrow> string option" where
  "image_field req = (case req_image req of Some nm \<Rightarrow> if nm = [] then None else Some nm | None \<Rightarrow> None)"

subsection \<open>\<open>item_detail\<close>\<close>

text \<open>\<open>getattr(item, 'views_count', 0) + 1\<close>: an integer (a boolean counts as one)
  increments, anything else raises \<open>TypeError\<close>.\<close>

fun py_incr :: "pyval \<Rightarrow> py_error + pyval" where
  "py_incr (PInt i) = Inr (PInt (i + 1))"
| "py_incr (PBool b) = Inr (PInt ((if b then 1 else 0) + 1))"
| "py_incr _ = Inl TypeError"

definition similar_to :: "entity \<Rightarrow> entity \<Rightarrow> py_error + bool" where
  "similar_to item i =
     (if hasattr i ''category_id'' \<and> py_eq (dget (ent_attrs i) ''category_id'' PNone)
                                          (dget (ent_attrs item) ''category_id'' PNone)
      then (case (getattr i ''id'', getattr item ''id'') of
              (Inr a, Inr b) \<Rightarrow> Inr (\<not> py_eq a b)
            | (Inl err, _) \<Rightarrow> Inl err
            | (_, Inl err) \<Rightarrow> Inl err)
      else Inr False)"

definition item_detail_view ::
  "store \<Rightarrow> int \<Rightarrow> string \<Rightarrow> string \<Rightarrow> (py_error + entity \<times> entity list) \<times> store" where
  "item_detail_view fs item_id now uuid =
     (let (r, fs1) = get_json_object_or_404 fs MarketplaceItem [(''id'', PStr (int_str item_id))]
      in case r of
           Inl err \<Rightarrow> (Inl err, fs1)
         | Inr item \<Rightarrow>
             (case py_incr (dget (ent_attrs item) ''views_count'' (PInt 0)) of
                Inl err \<Rightarrow> (Inl err, fs1)
              | Inr vc \<Rightarrow>
                  (let (item1, fs2) = ma_save fs1 (item\<lparr>ent_attrs := setitem (ent_attrs item) ''views_count'' vc\<rparr>) now uuid
                   in if hasattr item1 ''category_id'' then
                        (let (res, _, fs3) = qs_iter (ma_filter MarketplaceItem [(''status'', PStr ''available'')]) fs2
                         in case res of
                              Inl err \<Rightarrow> (Inl err, fs3)
                            | Inr all_items \<Rightarrow>
                                (case filter_err (similar_to item1) all_items of
                                   Inl err \<Rightarrow> (Inl err, fs3)
                                 | Inr sim \<Rightarrow> (Inr (item1, take 4 sim), fs3)))
                      else (Inr (item1, []), fs2))))"

subsection \<open>\<open>add_item\<close>\<close>

definition add_item_fields :: "string list" where
  "add_item_fields = [''title'', ''description'', ''category'', ''condition'', ''location'']"

text \<open>Lines 159--176: the new item's fields.\<close>

definition add_item_data :: "request \<Rightarrow> pyval \<Rightarrow> int \<Rightarrow> doc" where
  "add_item_data req cid uid =
     [(''title'', form_val (form_get req ''title'')),
      (''description'', form_val (form_get req ''description'')),
      (''category_id'', cid),
      (''condition'', form_val (form_get req ''condition'')),
      (''owner_id'', PInt uid),
      (''location'', form_val (form_get req ''location'')),
      (''status'', PStr ''available''),
      (''is_featured'', PBool False),
      (''views_count'', PInt 0)] @
     (case image_field req of
        None \<Rightarrow> []
      | Some nm \<Rightarrow> [(''image'', PStr (''marketplace_items/'' @ nm))])"

definition add_item_view ::
  "store \<Rightarrow> int \<Rightarrow> request \<Rightarrow> string \<Rightarrow> string \<Rightarrow> (py_error + response) \<times> store" where
  "add_item_view fs uid req now uuid =
     (if \<not> req_post req then (Inr (Render ''main_app/add_item.html''), fs)
      else if \<not> list_all (\<lambda>k. form_truthy (form_get req k)) add_item_fields
      then (Inr (Render ''main_app/add_item.html''), fs)
      else
        (let (r, fs1) = ma_get fs Category [(''id'', form_val (form_get req ''category''))]
         in case catch_does_not_exist Category r of
              Inr _ \<Rightarrow> (Inr (Render ''main_app/add_item.html''), fs1)
            | Inl (Inl err) \<Rightarrow> (Inl err, fs1)
            | Inl (Inr category) \<Rightarrow>
                (case getattr category ''id'' of
                   Inl err \<Rightarrow> (Inl err, fs1)
                 | Inr cid \<Rightarrow>
                     (let item_data = add_item_data req cid uid;
                          (r2, fs2) = ma_create fs1 MarketplaceItem item_data now uuid
                      in case r2 of
                           Inl err \<Rightarrow> (Inl err, fs2)
                         | Inr item \<Rightarrow>
                             (case getattr item ''id'' of
                                Inl err \<Rightarrow> (Inl err, fs2)
                              | Inr iid \<Rightarrow> (reverse_item_detail iid, fs2))))))"

subsection \<open>\<open>my_items\<close>\<close>

definition sort_entities_desc :: "model_kind \<Rightarrow> entity list \<Rightarrow> py_error + entity list" where
  "sort_entities_desc m es =
     (case py_sorted (\<lambda>d. dget d ''created_at'' (PStr [])) True (map ent_attrs es) of
        Inl err \<Rightarrow> Inl err
      | Inr ds \<Rightarrow> Inr (map (\<lambda>d. \<lparr>ent_model = m, ent_attrs = d\<rparr>) ds))"

definition my_items_view :: "store \<Rightarrow> int \<Rightarrow> (py_error + entity list) \<times> store" where
  "my_items_view fs uid =
     (let (res, _, fs1) = qs_iter (ma_filter MarketplaceItem [(''owner_id'', PStr (int_str uid))]) fs
      in (case res of Inl err \<Rightarrow> Inl err | Inr es \<Rightarrow> sort_entities_desc MarketplaceItem es, fs1))"

subsection \<open>\<open>update_item\<close> and \<open>delete_item\<close>\<close>

text \<open>The ownership test \<open>str(request.user.id) != getattr(item, 'owner_id', None)\<close>.\<close>

definition not_owner :: "int \<Rightarrow> entity \<Rightarrow> bool" where
  "not_owner uid item = (\<not> py_eq (PStr (int_str uid)) (dget (ent_attrs item) ''owner_id'' PNone))"

definition update_item_fields :: "string list" where
  "update_item_fields = [''title'', ''description'', ''category'', ''condition'', ''location'', ''status'']"

definition edit_item :: "entity \<Rightarrow> request \<Rightarrow> pyval \<Rightarrow> entity" where
  "edit_item item req cid =
     (let a = ent_attrs item;
          a1 = setitem a ''title'' (form_val (form_get req ''title''));
          a2 = setitem a1 ''description'' (form_val (form_get req ''description''));
          a3 = setitem a2 ''category_id'' cid;
          a4 = setitem a3 ''condition'' (form_val (form_get req ''condition''));
          a5 = setitem a4 ''location'' (form_val (form_get req ''location''));
          a6 = setitem a5 ''status'' (form_val (form_get req ''status''));
          a7 = (case image_field req of None \<Rightarrow> a6
                | Some nm \<Rightarrow> setitem a6 ''image'' (PStr (''marketplace_items/'' @ nm)))
      in item\<lparr>ent_attrs := a7\<rparr>)"

definition update_item_view ::
  "store \<Rightarrow> int \<Rightarrow> request \<Rightarrow> int \<Rightarrow> string \<Rightarrow> string \<Rightarrow> (py_error + response) \<times> store" where
  "update_item_view fs uid req item_id now uuid =
     (let (r, fs1) = get_json_object_or_404 fs MarketplaceItem [(''id'', PStr (int_str item_id))]
      in case r of
           Inl err \<Rightarrow> (Inl err, fs1)
         | Inr item \<Rightarrow>
             if not_owner uid item then (Inr (Redirect ''marketplace''), fs1)
             else if \<not> req_post req then (Inr (Render ''main_app/update_item.html''), fs1)
             else if \<not> list_all (\<lambda>k. form_truthy (form_get req k)) update_item_fields
             then (Inr (Render ''main_app/update_item.html''), fs1)
             else
               (let (rc, fs2) = ma_get fs1 Category [(''id'', form_val (form_get req ''category''))]
                in case catch_does_not_exist Category rc of
                     Inr _ \<Rightarrow> (Inr (Render ''main_app/update_item.html''), fs2)
                   | Inl (Inl err) \<Rightarrow> (Inl err, fs2)
                   | Inl (Inr category) \<Rightarrow>
                       (case getattr category ''id'' of
                          Inl err \<Rightarrow> (Inl err, fs2)
                        | Inr cid \<Rightarrow>
                            (let (item1, fs3) = ma_save fs2 (edit_item item req cid) now uuid
                             in case getattr item1 ''id'' of
                                  Inl err \<Rightarrow> (Inl err, fs3)
                                | Inr iid \<Rightarrow> (reverse_item_detail iid, fs3)))))"

definition delete_item_view ::
  "store \<Rightarrow> int \<Rightarrow> request \<Rightarrow> int \<Rightarrow> (py_error + response) \<times> store" where
  "delete_item_view fs uid req item_id =
     (let (r, fs1) = get_json_object_or_404 fs MarketplaceItem [(''id'', PStr (int_str item_id))]
      in case r of
           Inl err \<Rightarrow> (Inl err, fs1)
         | Inr item \<Rightarrow>
             if not_owner uid item then (Inr (Redirect ''marketplace''), fs1)
             else if req_post req then (Inr (Redirect ''my_items''), snd (ma_delete fs1 item))
             else (Inr (Render ''main_app/delete_item.html''), fs1))"

subsection \<open>\<open>search_items\<close>\<close>

text \<open>\<open>getattr(item, k, '').lower()\<close> raises on a non-string attribute.\<close>

definition attr_lower :: "entity \<Rightarrow> string \<Rightarrow> py_error + string" where
  "attr_lower item k =
     (case dget (ent_attrs item) k (PStr []) of PStr s \<Rightarrow> Inr (py_lower s) | _ \<Rightarrow> Inl AttributeError)"

definition query_match :: "string \<Rightarrow> entity \<Rightarrow> py_error + bool" where
  "query_match q item =
     (case attr_lower item ''title'' of
        Inl err \<Rightarrow> Inl err
      | Inr t \<Rightarrow>
          if sublist (py_lower q) t then Inr True
          else (case attr_lower item ''description'' of
                  Inl err \<Rightarrow> Inl err
                | Inr d \<Rightarrow> Inr (sublist (py_lower q) d)))"

definition location_match :: "string \<Rightarrow> entity \<Rightarrow> py_error + bool" where
  "location_match loc item =
     (case attr_lower item ''location'' of Inl err \<Rightarrow> Inl err | Inr l \<Rightarrow> Inr (sublist (py_lower loc) l))"

definition attr_is :: "string \<Rightarrow> string \<Rightarrow> entity \<Rightarrow> bool" where
  "attr_is k v item = py_eq (dget (ent_attrs item) k (PStr [])) (PStr v)"

definition search_filters :: "request \<Rightarrow> entity list \<Rightarrow> py_error + entity list" where
  "search_filters req items =
     (let q = form_get_default req ''q''; c = form_get_default req ''category'';
          cond = form_get_default req ''condition''; loc = form_get_default req ''location''
      in case (if q \<noteq> [] then filter_err (query_match q) items else Inr items) of
           Inl err \<Rightarrow> Inl err
         | Inr items1 \<Rightarrow>
             (let items2 = (if c \<noteq> [] then filter (attr_is ''category_id'' c) items1 else items1);
                  items3 = (if cond \<noteq> [] then filter (attr_is ''condition'' cond) items2 else items2)
              in if loc \<noteq> [] then filter_err (location_match loc) items3 else Inr items3))"

definition search_items_view :: "store \<Rightarrow> request \<Rightarrow> (py_error + entity list) \<times> store" where
  "search_items_view fs req =
     (let (res, _, fs1) = qs_iter (ma_filter MarketplaceItem [(''status'', PStr ''available'')]) fs
      in (case res of Inl err \<Rightarrow> Inl err | Inr items \<Rightarrow> search_filters req items, fs1))"

subsection \<open>Example\<close>

abbreviation ex_cat :: doc where
  "ex_cat \<equiv> [(''id'', PStr ''k1''), (''name'', PStr ''Furniture'')]"

abbreviation ex_fs5 :: store where
  "ex_fs5 \<equiv> ex_fs(''categories'' := Json [ex_cat])"

abbreviation ex_req :: request where
  "ex_req \<equiv> \<lparr>req_post = True,
             req_form = [(''title'', ''Lamp''), (''description'', ''Desk lamp''), (''category'', ''k1''),
                         (''condition'', ''good''), (''location'', ''Dhaka'')],
             req_image = None\<rparr>"

lemmas view_defs [model_simps] = catch_does_not_exist_def image_field_def form_get_def form_get_default_def form_truthy_def form_val_def
  digits_def reverse_item_detail_def get_json_object_or_404_def similar_to_def item_detail_view_def
  add_item_fields_def add_item_data_def add_item_view_def sort_entities_desc_def my_items_view_def not_owner_def
  update_item_fields_def edit_item_def update_item_view_def delete_item_view_def attr_lower_def
  query_match_def location_match_def attr_is_def search_filters_def search_items_view_def

subsection \<open>Lemmas\<close>

lemma my_items_attrs:
  assumes "fst (my_items_view fs uid) = Inr es"
  shows "ent_attrs ` set es \<subseteq>
           set (filter (matches_all [(''owner_id'', PStr (int_str uid))]) (contents fs ''marketplace_items''))"
proof
  fix d assume "d \<in> ent_attrs ` set es"
  have sf: "simple_filters [(''owner_id'', PStr (int_str uid))]" by (simp add: simple_filters_def sublist_code)
  let ?q = "ma_filter MarketplaceItem [(''owner_id'', PStr (int_str uid))]"
  have fr: "fst (fetch_results ?q fs) =
      Inr (filter (matches_all [(''owner_id'', PStr (int_str uid))]) (contents fs ''marketplace_items''))"
    using fetch_results_simple [of ?q fs] sf by (simp add: ma_filter_def qs_new_def)
  obtain its where it: "fst (qs_iter ?q fs) = Inr its"
    and es: "sort_entities_desc MarketplaceItem its = Inr es"
    using assms by (auto simp: my_items_view_def split: prod.splits sum.splits)
  have "map_err (make_entity MarketplaceItem)
          (filter (matches_all [(''owner_id'', PStr (int_str uid))]) (contents fs ''marketplace_items'')) = Inr its"
    using it fr by (auto simp: qs_iter_def qs_eval_def ma_filter_def qs_new_def split: prod.splits sum.splits)
  then have its_sub: "ent_attrs ` set its \<subseteq>
      set (filter (matches_all [(''owner_id'', PStr (int_str uid))]) (contents fs ''marketplace_items''))"
    by (auto dest!: map_err_Inr_set simp: make_entity_attrs_MarketplaceItem)
  obtain ds where ds: "py_sorted (\<lambda>d. dget d ''created_at'' (PStr [])) True (map ent_attrs its) = Inr ds"
    and esd: "es = map (\<lambda>d. \<lparr>ent_model = MarketplaceItem, ent_attrs = d\<rparr>) ds"
    using es by (auto simp: sort_entities_desc_def split: sum.splits)
  have "ent_attrs ` set es = ent_attrs ` set its"
    using py_sorted_set [OF ds] esd by (simp add: image_image)
  then show "d \<in> set (filter (matches_all [(''owner_id'', PStr (int_str uid))]) (contents fs ''marketplace_items''))"
    using its_sub \<open>d \<in> ent_attrs ` set es\<close> by blast
qed

lemma make_entity_add_item:
  "make_entity MarketplaceItem (stamp_new (add_item_data req cid uid) now uuid) =
     Inr \<lparr>ent_model = MarketplaceItem, ent_attrs = stamp_new (add_item_data req cid uid) now uuid\<rparr>"
  by (cases "image_field req")
     (simp_all add: add_item_data_def make_entity_def init_attrs_def stamp_new_def has_key_def setitem_def)

lemma id_add_item:
  "map_of (stamp_new (add_item_data req cid uid) now uuid) ''id'' = Some (PStr uuid)"
  by (cases "image_field req") (simp_all add: add_item_data_def stamp_new_def has_key_def)

lemma owner_add_item:
  "dget (stamp_new (add_item_data req cid uid) now uuid) ''owner_id'' PNone = PInt uid"
  by (cases "image_field req") (simp_all add: add_item_data_def stamp_new_def dget_def)

lemma add_item_view_created:
  assumes "req_post req" and "list_all (\<lambda>k. form_truthy (form_get req k)) add_item_fields"
    and "filter (matches_all [(''id'', form_val (form_get req ''category''))]) (contents fs ''categories'') = c # cs"
    and "\<not> has_key c ''items''" and "has_key c ''id''"
  shows "add_item_view fs uid req now uuid =
    (reverse_item_detail (PStr uuid),
     snd (create_item (snd (load_data fs ''categories'')) ''marketplace_items''
            (add_item_data req (dget c ''id'' PNone) uid) now uuid))"
proof -
  have sf: "simple_filters [(''id'', form_val (form_get req ''category''))]"
    by (simp add: simple_filters_def sublist_code)
  have g: "ma_get fs Category [(''id'', form_val (form_get req ''category''))] =
      (Inr \<lparr>ent_model = Category, ent_attrs = c\<rparr>, snd (load_data fs ''categories''))"
  proof -
    have "filter (matches_all [(''id'', form_val (form_get req ''category''))]) (contents fs (file_name Category)) = c # cs"
      using assms(3) by simp
    then show ?thesis using ma_get_first_found [OF sf] make_entity_Category [OF assms(4)] by simp
  qed
  have cid: "getattr \<lparr>ent_model = Category, ent_attrs = c\<rparr> ''id'' = Inr (dget c ''id'' PNone)"
    using assms(5) by (auto simp: getattr_def has_key_def dget_def)
  show ?thesis
    using assms(1,2) g cid
    by (simp add: add_item_view_def catch_does_not_exist_def ma_create_def make_entity_add_item
                  getattr_def id_add_item create_item_eq split: prod.split)
qed

lemma get_404_missing:
  assumes "simple_filters kw" and "kw \<noteq> []" and "filter (matches_all kw) (contents fs (file_name m)) = []"
  shows "get_json_object_or_404 fs m kw =
           (if m = User then Inl Http404 else Inl AttributeError, snd (load_data fs (file_name m)))"
proof -
  have "ma_get fs m kw = (Inl DoesNotExist, snd (load_data fs (file_name m)))"
    using ma_get_simple [OF assms(1,2), of fs m] ma_get_store [of fs m kw] assms(3)
    by (metis list.simps(4) prod.collapse)
  then show ?thesis by (simp add: get_json_object_or_404_def catch_does_not_exist_def)
qed

subsection \<open>Properties of the handlers\<close>

text \<open>C22: An item added through add_item is stored with the integer user id as owner_id, while my_items filters on the id as a string, so my_items never lists it; and the redirect to the new item's page fails with NoReverseMatch, because the route takes an integer and the generated id is not one.\<close>

theorem add_item_not_in_my_items:
  assumes "req_post req" and "list_all (\<lambda>k. form_truthy (form_get req k)) add_item_fields"
    and "filter (matches_all [(''id'', form_val (form_get req ''category''))]) (contents fs ''categories'') = c # cs"
    and "\<not> has_key c ''items''" and "has_key c ''id''" and "\<not> digits uuid"
  shows "let (r, fs1) = add_item_view fs uid req now uuid;
             d = stamp_new (add_item_data req (dget c ''id'' PNone) uid) now uuid
         in r = Inl NoReverseMatch \<and>
            contents fs1 ''marketplace_items'' = contents fs ''marketplace_items'' @ [d] \<and>
            dget d ''owner_id'' PNone = PInt uid \<and>
            (case fst (my_items_view fs1 uid) of Inl _ \<Rightarrow> True | Inr es \<Rightarrow> d \<notin> ent_attrs ` set es)"
proof -
  let ?d = "stamp_new (add_item_data req (dget c ''id'' PNone) uid) now uuid"
  let ?fs1 = "snd (create_item (snd (load_data fs ''categories'')) ''marketplace_items''
                 (add_item_data req (dget c ''id'' PNone) uid) now uuid)"
  have c1: "contents ?fs1 ''marketplace_items'' = contents fs ''marketplace_items'' @ [?d]" by simp
  have nm: "\<not> matches_all [(''owner_id'', PStr (int_str uid))] ?d"
    using owner_add_item [of req "dget c ''id'' PNone" uid now uuid]
    by (simp add: matches_all_def eq_test_def)
  have "case fst (my_items_view ?fs1 uid) of Inl _ \<Rightarrow> True | Inr es \<Rightarrow> ?d \<notin> ent_attrs ` set es"
  proof (cases "fst (my_items_view ?fs1 uid)")
    case (Inr es)
    then show ?thesis using my_items_attrs [OF Inr] nm by auto
  qed simp
  then show ?thesis
    using add_item_view_created [OF assms(1-5)] c1 owner_add_item assms(6)
    by (simp add: reverse_item_detail_def)
qed

text \<open>C31: Opening, editing or deleting an item id that no document has raises AttributeError instead of answering 404: the handler's except clause names MarketplaceItem.DoesNotExist, which the adapter class does not define.\<close>

theorem missing_item_views_raise:
  assumes "\<forall>d\<in>set (contents fs ''marketplace_items''). \<not> eq_test ''id'' (PStr (int_str k)) d"
  shows "fst (item_detail_view fs k now uuid) = Inl AttributeError \<and>
         fst (update_item_view fs uid req k now uuid) = Inl AttributeError \<and>
         fst (delete_item_view fs uid req k) = Inl AttributeError"
proof -
  have "filter (matches_all [(''id'', PStr (int_str k))]) (contents fs (file_name MarketplaceItem)) = []"
    using assms by (simp add: matches_all_def filter_empty_conv)
  then have g: "get_json_object_or_404 fs MarketplaceItem [(''id'', PStr (int_str k))] =
      (Inl AttributeError, snd (load_data fs ''marketplace_items''))"
    using get_404_missing [of "[(''id'', PStr (int_str k))]" fs MarketplaceItem]
    by (simp add: simple_filters_def sublist_code)
  show ?thesis
    by (simp add: item_detail_view_def update_item_view_def delete_item_view_def g)
qed

subsection \<open>Witnesses\<close>

theorem add_item_not_in_my_items_witness:
  "let (r, fs1) = add_item_view ex_fs5 7 ex_req ''2024-03-01T12:00:00'' ''3f2a-9c'';
       d = stamp_new (add_item_data ex_req (dget ex_cat ''id'' PNone) 7) ''2024-03-01T12:00:00'' ''3f2a-9c''
   in r = Inl NoReverseMatch \<and>
      contents fs1 ''marketplace_items'' = contents ex_fs5 ''marketplace_items'' @ [d] \<and>
      dget d ''owner_id'' PNone = PInt 7 \<and>
      (case fst (my_items_view fs1 7) of Inl _ \<Rightarrow> True | Inr es \<Rightarrow> d \<notin> ent_attrs ` set es)"
  by (rule add_item_not_in_my_items [where cs = "[]"]) (simp_all add: model_simps)

theorem missing_item_views_raise_witness:
  "fst (item_detail_view ex_fs 42 ''2024-03-01T12:00:00'' ''u1'') = Inl AttributeError \<and>
   fst (update_item_view ex_fs 7 ex_req 42 ''2024-03-01T12:00:00'' ''u1'') = Inl AttributeError \<and>
   fst (delete_item_view ex_fs 7 ex_req 42) = Inl AttributeError"
  by (rule missing_item_views_raise) (simp add: model_simps)

end
