(* ===== verification/Web_Pages.thy ===== *)
theory Web_Pages
  imports Web_Views
begin

text \<open>
  The remaining handlers of \<open>src/main_app/views_json.py\<close> that do not store
  recommendation scores: \<open>home\<close> (lines 17--18), \<open>register\<close> (lines 21--39),
  \<open>map_view\<close> (lines 41--43), \<open>marketplace\<close> (lines 46--93) and \<open>user_preferences\<close>
  (lines 327--362). The authenticated user is \<open>Some\<close> of Django's integer user id.
  \<open>UserCreationForm\<close> (its validation and the row it saves in Django's own user
  table) is a parameter: \<open>None\<close> for an invalid form, otherwise the saved user.
  Query sets put in a template context unevaluated are returned as query sets.
\<close>

definition json_home :: response where
  "json_home = Render ''main_app/home.html''"

record reg_user =
  ru_id :: int
  ru_username :: string
  ru_email :: string
  ru_first_name :: string
  ru_last_name :: string

text \<open>Lines 21--39: the user saved by the form is copied into the JSON \<open>users\<close>
  collection with its integer id.\<close>

definition json_register ::
  "store \<Rightarrow> request \<Rightarrow> reg_user option \<Rightarrow> string \<Rightarrow> string \<Rightarrow> (py_error + response) \<times> store" where
  "json_register fs req form now uuid =
     (if req_post req then
        (case form of
           None \<Rightarrow> (Inr (Render ''main_app/register.html''), fs)
         | Some u \<Rightarrow>
             (let (r, fs1) = ma_create fs User
                    [(''id'', PInt (ru_id u)), (''username'', PStr (ru_username u)), (''email'', PStr (ru_email u)),
                     (''first_name'', PStr (ru_first_name u)), (''last_name'', PStr (ru_last_name u))] now uuid
              in (case r of Inl e \<Rightarrow> Inl e | Inr _ \<Rightarrow> Inr (Redirect ''login''), fs1)))
      else (Inr (Render ''main_app/register.html''), fs))"

definition json_map_view :: queryset where
  "json_map_view = ma_filter RecyclingCenter [(''is_active'', PBool True)]"

subsection \<open>\<open>except (A.DoesNotExist, B.DoesNotExist)\<close>\<close>

text \<open>The tuple of an \<open>except\<close> clause is evaluated left to right when an exception
  arrives; \<open>X.DoesNotExist\<close> raises \<open>AttributeError\<close> for every adapter class but
  \<open>UserAdapter\<close>, so the clause matches only if all its classes are \<open>User\<close>.\<close>

definition catch_does_not_exist_any :: "model_kind list \<Rightarrow> py_error + 'a \<Rightarrow> (py_error + 'a) + unit" where
  "catch_does_not_exist_any ms r =
     (case r of
        Inr x \<Rightarrow> Inl (Inr x)
      | Inl e \<Rightarrow> if \<not> list_all (\<lambda>m. m = User) ms then Inl (Inl AttributeError)
                else if e = DoesNotExist then Inr () else Inl (Inl e))"

subsection \<open>\<open>marketplace\<close>\<close>

record json_market =
  jm_categories :: queryset
  jm_featured :: "entity list"
  jm_recent :: "entity list"
  jm_recommended :: "entity list"

text \<open>\<open>if item.is_featured\<close>.\<close>

definition is_featured_test :: "entity \<Rightarrow> py_error + bool" where
  "is_featured_test item = map_sum id py_truthy (getattr item ''is_featured'')"

text \<open>Lines 68--72: \<open>sorted(recommendations, key=lambda x: getattr(x, 'score', 0),
  reverse=True)\<close>.\<close>

definition sort_by_score :: "entity list \<Rightarrow> py_error + entity list" where
  "sort_by_score es =
     (case py_sorted (\<lambda>d. dget d ''score'' (PInt 0)) True (map ent_attrs es) of
        Inl err \<Rightarrow> Inl err
      | Inr ds \<Rightarrow> Inr (map (\<lambda>d. \<lparr>ent_model = ItemRecommendation, ent_attrs = d\<rparr>) ds))"

text \<open>Lines 77--80, the body of the inner \<open>try\<close>: the item, if it is available.\<close>

definition rec_body :: "store \<Rightarrow> entity \<Rightarrow> (py_error + entity option) \<times> store" where
  "rec_body fs rec =
     (case getattr rec ''item_id'' of
        Inl e \<Rightarrow> (Inl e, fs)
      | Inr iid \<Rightarrow>
          (let (r, fs1) = ma_get fs MarketplaceItem [(''id'', iid)]
           in (case r of
                 Inl e \<Rightarrow> Inl e
               | Inr item \<Rightarrow>
                   (case getattr item ''status'' of
                      Inl e \<Rightarrow> Inl e
                    | Inr st \<Rightarrow> Inr (if py_eq st (PStr ''available'') then Some item else None)), fs1)))"

text \<open>Lines 76--82: \<open>except MarketplaceItem.DoesNotExist: continue\<close>.\<close>

fun collect_recommended :: "store \<Rightarrow> entity list \<Rightarrow> (py_error + entity list) \<times> store" where
  "collect_recommended fs [] = (Inr [], fs)"
| "collect_recommended fs (rec # recs) =
     (let (r, fs1) = rec_body fs rec
      in case catch_does_not_exist MarketplaceItem r of
           Inl (Inl e) \<Rightarrow> (Inl e, fs1)
         | Inl (Inr x) \<Rightarrow>
             (let (rest, fs2) = collect_recommended fs1 recs
              in (map_sum id (\<lambda>ys. case x of None \<Rightarrow> ys | Some it \<Rightarrow> it # ys) rest, fs2))
         | Inr () \<Rightarrow> collect_recommended fs1 recs)"

text \<open>Lines 64--84: the outer \<open>try ... except User.DoesNotExist: pass\<close>.\<close>

definition user_recommended :: "store \<Rightarrow> int \<Rightarrow> (py_error + entity list) \<times> store" where
  "user_recommended fs uid =
     (let (r, fs') =
        (let (r1, fs1) = ma_get fs User [(''id'', PInt uid)]
         in case r1 of
              Inl e \<Rightarrow> (Inl e, fs1)
            | Inr ju \<Rightarrow>
                (case getattr ju ''id'' of
                   Inl e \<Rightarrow> (Inl e, fs1)
                 | Inr jid \<Rightarrow>
                     (let (res, _, fs2) = qs_iter (ma_filter ItemRecommendation [(''user_id'', jid)]) fs1
                      in case res of
                           Inl e \<Rightarrow> (Inl e, fs2)
                         | Inr recs \<Rightarrow>
                             (case sort_by_score recs of
                                Inl e \<Rightarrow> (Inl e, fs2)
                              | Inr srt \<Rightarrow> collect_recommended fs2 (take 4 srt)))))
      in (case catch_does_not_exist User r of Inr () \<Rightarrow> Inr [] | Inl r' \<Rightarrow> r', fs'))"

text \<open>Lines 46--93. \<open>all_items\<close> is one query set, iterated twice: the second
  iteration reads its cache.\<close>

definition json_marketplace :: "store \<Rightarrow> int option \<Rightarrow> (py_error + json_market) \<times> store" where
  "json_marketplace fs user =
     (let (r1, q1, fs1) = qs_iter (ma_filter MarketplaceItem [(''status'', PStr ''available'')]) fs
      in case r1 of
           Inl e \<Rightarrow> (Inl e, fs1)
         | Inr items \<Rightarrow>
             (case filter_err is_featured_test items of
                Inl e \<Rightarrow> (Inl e, fs1)
              | Inr feat \<Rightarrow>
                  (let (r2, _, fs2) = qs_iter q1 fs1
                   in case r2 of
                        Inl e \<Rightarrow> (Inl e, fs2)
                      | Inr items2 \<Rightarrow>
                          (case sort_entities_desc MarketplaceItem items2 of
                             Inl e \<Rightarrow> (Inl e, fs2)
                           | Inr srt \<Rightarrow>
                               (let (r3, fs3) = (case user of None \<Rightarrow> (Inr [], fs2) | Some uid \<Rightarrow> user_recommended fs2 uid)
                                in case r3 of
                                     Inl e \<Rightarrow> (Inl e, fs3)
                                   | Inr recd \<Rightarrow>
                                       (Inr \<lparr>jm_categories = ma_all Category, jm_featured = take 4 feat,
                                             jm_recent = take 8 srt, jm_recommended = recd\<rparr>, fs3))))))"

subsection \<open>\<open>user_preferences\<close>\<close>

text \<open>Lines 330--340: the user and the user's preference; the default preference of the
  \<open>except\<close> branch.\<close>

definition find_preferences :: "store \<Rightarrow> int \<Rightarrow> (py_error + entity) \<times> store" where
  "find_preferences fs uid =
     (let (r1, fs1) = ma_get fs User [(''id'', PInt uid)]
      in case r1 of
           Inl e \<Rightarrow> (Inl e, fs1)
         | Inr ju \<Rightarrow>
             (case getattr ju ''id'' of
                Inl e \<Rightarrow> (Inl e, fs1)
              | Inr jid \<Rightarrow> ma_get fs1 UserPreference [(''user_id'', jid)]))"

definition default_preferences :: "int \<Rightarrow> doc" where
  "default_preferences uid =
     [(''user_id'', PStr (int_str uid)), (''preferred_category_ids'', PList []),
      (''preferred_conditions'', PStr []), (''preferred_locations'', PStr [])]"

text \<open>Lines 349--353: the submitted values set as attributes, then \<open>save()\<close>.\<close>

definition set_preferences :: "entity \<Rightarrow> request \<Rightarrow> entity" where
  "set_preferences prefs req =
     prefs\<lparr>ent_attrs :=
       setitem (setitem (setitem (ent_attrs prefs)
         ''preferred_category_ids'' (PList (map PStr (querydict_getlist (req_form req) ''preferred_categories''))))
         ''preferred_conditions'' (form_val (form_get req ''preferred_conditions'')))
         ''preferred_locations'' (form_val (form_get req ''preferred_locations''))\<rparr>"

definition json_user_preferences ::
  "store \<Rightarrow> int \<Rightarrow> request \<Rightarrow> string \<Rightarrow> string \<Rightarrow> (py_error + response) \<times> store" where
  "json_user_preferences fs uid req now uuid =
     (let (r, fs1) = find_preferences fs uid;
          (r2, fs2) = (case catch_does_not_exist_any [User, UserPreference] r of
                         Inl r' \<Rightarrow> (r', fs1)
                       | Inr () \<Rightarrow> ma_create fs1 UserPreference (default_preferences uid) now uuid)
      in case r2 of
           Inl e \<Rightarrow> (Inl e, fs2)
         | Inr prefs \<Rightarrow>
             if \<not> req_post req then (Inr (Render ''main_app/user_preferences.html''), fs2)
             else (Inr (Redirect ''marketplace''), snd (ma_save fs2 (set_preferences prefs req) now uuid)))"

lemmas page_defs [model_simps] = json_home_def json_register_def json_map_view_def catch_does_not_exist_any_def
  is_featured_test_def sort_by_score_def rec_body_def user_recommended_def json_marketplace_def
  find_preferences_def default_preferences_def set_preferences_def json_user_preferences_def

subsection \<open>Example\<close>

text \<open>User 7 is in the JSON store; the only preference belongs to user 8; a
  recommendation refers to an item that was deleted.\<close>

abbreviation ex_pfs :: store where
  "ex_pfs \<equiv> ex_fs(''users'' := Json [[(''id'', PInt 7), (''username'', PStr ''ana'')]],
                    ''user_preferences'' := Json [[(''id'', PStr ''p1''), (''user_id'', PInt 8)]])"

abbreviation ex_rec :: entity where
  "ex_rec \<equiv> \<lparr>ent_model = ItemRecommendation,
     ent_attrs = [(''id'', PStr ''r1''), (''user_id'', PInt 7), (''item_id'', PStr ''gone'')]\<rparr>"

subsection \<open>Lemmas\<close>

lemma simple_filters_user_id [simp]: "simple_filters [(''user_id'', v)]"
  by (simp add: simple_filters_def sublist_code)

lemma matches_single: "matches_all [(k, v)] d \<longleftrightarrow> has_key d k \<and> py_eq (dget d k PNone) v"
  by (simp add: matches_all_def eq_test_def)

lemma py_eq_trans: "py_eq a b \<Longrightarrow> py_eq b c \<Longrightarrow> py_eq a c"
  by (simp add: py_eq_iff_norm)

lemma find_preferences_fails:
  assumes "\<forall>p\<in>set (contents fs ''user_preferences''). \<not> (has_key p ''user_id'' \<and> py_eq (dget p ''user_id'' PNone) (PInt uid))"
  shows "\<exists>e. fst (find_preferences fs uid) = Inl e"
    "contents (snd (find_preferences fs uid)) = contents fs"
proof -
  obtain r1 fs1 where u: "ma_get fs User [(''id'', PInt uid)] = (r1, fs1)" by fastforce
  have c1: "contents fs1 = contents fs" using contents_ma_get [of fs User "[(''id'', PInt uid)]"] u by auto
  have "(\<exists>e. fst (find_preferences fs uid) = Inl e) \<and> contents (snd (find_preferences fs uid)) = contents fs"
  proof (cases r1)
    case (Inl e)
    then show ?thesis using u c1 by (simp add: find_preferences_def)
  next
    case (Inr ju)
    obtain x xs where fx: "filter (matches_all [(''id'', PInt uid)]) (contents fs ''users'') = x # xs"
      and mk: "make_entity User x = Inr ju"
      using ma_get_simple [of "[(''id'', PInt uid)]" fs User] u Inr by (auto split: list.splits)
    have xa: "ent_attrs ju = x" using mk by (auto simp: make_entity_def init_attrs_def split: if_splits)
    have xm: "matches_all [(''id'', PInt uid)] x" using fx by (metis filter_eq_ConsD)
    show ?thesis
    proof (cases "getattr ju ''id''")
      case (Inl e)
      then show ?thesis using u Inr c1 by (simp add: find_preferences_def)
    next
      case (Inr jid)
      then have "py_eq jid (PInt uid)" using xm xa by (simp add: getattr_def matches_single dget_def split: option.splits)
      then have "\<forall>p\<in>set (contents fs1 ''user_preferences''). \<not> matches_all [(''user_id'', jid)] p"
        using assms c1 py_eq_trans by (fastforce simp: matches_single)
      then have "filter (matches_all [(''user_id'', jid)]) (contents fs1 (file_name UserPreference)) = []"
        by (simp add: filter_empty_conv)
      then have "fst (ma_get fs1 UserPreference [(''user_id'', jid)]) = Inl DoesNotExist"
        using ma_get_simple [of "[(''user_id'', jid)]" fs1 UserPreference] by simp
      then show ?thesis using u \<open>r1 = Inr ju\<close> Inr c1 contents_ma_get [of fs1 UserPreference]
        by (auto simp: find_preferences_def fun_eq_iff)
    qed
  qed
  then show "\<exists>e. fst (find_preferences fs uid) = Inl e" "contents (snd (find_preferences fs uid)) = contents fs" by simp_all
qed

text \<open>C17: the preferences page of views_json raises AttributeError for every user without a
  stored preference (or without a JSON user record): the except clause names
  UserPreference.DoesNotExist, which the adapter class does not have, so the default
  preference is never created, and nothing is written.\<close>

theorem json_user_preferences_missing_crashes:
  assumes "\<forall>p\<in>set (contents fs ''user_preferences''). \<not> (has_key p ''user_id'' \<and> py_eq (dget p ''user_id'' PNone) (PInt uid))"
  shows "fst (json_user_preferences fs uid req now uuid) = Inl AttributeError \<and>
         contents (snd (json_user_preferences fs uid req now uuid)) = contents fs"
proof -
  obtain r fs1 where fp: "find_preferences fs uid = (r, fs1)" by fastforce
  obtain e where "r = Inl e" using find_preferences_fails(1) [OF assms] fp by auto
  moreover have "contents fs1 = contents fs" using find_preferences_fails(2) [OF assms] fp by simp
  ultimately show ?thesis using fp by (simp add: json_user_preferences_def catch_does_not_exist_any_def)
qed

text \<open>C30: in the marketplace page, when the next recommendation the loop reaches names an
  item that no longer exists, the page raises AttributeError instead of skipping it: the clause except MarketplaceItem.DoesNotExist
  itself raises, as the adapter class has no DoesNotExist.\<close>

theorem recommendation_of_missing_item_crashes:
  assumes "getattr rec ''item_id'' = Inr iid"
    "\<forall>d\<in>set (contents fs ''marketplace_items''). \<not> (has_key d ''id'' \<and> py_eq (dget d ''id'' PNone) iid)"
  shows "fst (collect_recommended fs (rec # recs)) = Inl AttributeError"
proof -
  have "filter (matches_all [(''id'', iid)]) (contents fs (file_name MarketplaceItem)) = []"
    using assms(2) by (simp add: filter_empty_conv matches_single)
  then have "fst (ma_get fs MarketplaceItem [(''id'', iid)]) = Inl DoesNotExist"
    using ma_get_simple [of "[(''id'', iid)]" fs MarketplaceItem] by simp
  moreover obtain fs1 where "ma_get fs MarketplaceItem [(''id'', iid)] = (fst (ma_get fs MarketplaceItem [(''id'', iid)]), fs1)"
    by (metis prod.collapse)
  ultimately have "fst (rec_body fs rec) = Inl DoesNotExist"
    using assms(1) by (simp add: rec_body_def)
  then obtain fs2 where "rec_body fs rec = (Inl DoesNotExist, fs2)" by (metis prod.collapse)
  then show ?thesis by (simp add: catch_does_not_exist_def)
qed

subsection \<open>Witnesses\<close>

theorem json_user_preferences_missing_crashes_witness:
  "fst (json_user_preferences ex_pfs 7 ex_req ''2024-01-01'' ''u1'') = Inl AttributeError"
  using json_user_preferences_missing_crashes [of ex_pfs 7 ex_req "''2024-01-01''" "''u1''"]
  by (simp add: contents_def has_key_def dget_def)

theorem recommendation_of_missing_item_crashes_witness:
  "fst (collect_recommended ex_pfs [ex_rec]) = Inl AttributeError"
  using recommendation_of_missing_item_crashes [of ex_rec "PStr ''gone''" ex_pfs "[]"]
  by (simp add: getattr_def contents_def has_key_def dget_def)

end
