(* ===== verification/Recommendation.thy ===== *)
theory Recommendation
  imports Complex_Main Entity
begin

text \<open>
  The recommendation score of \<open>src/main_app/views_json.py\<close>
  (\<open>calculate_recommendation_score\<close>, lines 402--446): a sum of weights for a preferred
  category (0.4), a preferred condition (0.2), a preferred location (0.2) and the
  similarity to the item just viewed (0.1, 0.05, 0.05), plus a random term drawn by
  \<open>np.random.uniform(0, 0.1)\<close>, capped at 1.0. Scores are exact rationals here, not
  IEEE doubles, and the random draw is a parameter \<open>rnd\<close>. The attribute tests raise as
  the code does: \<open>in\<close> on a non-container, \<open>split\<close> or \<open>lower\<close> on a non-string.
  The \<open>user\<close> argument of the source is unused by its body and is omitted.
\<close>

subsection \<open>\<open>str.split(',')\<close>\<close>

fun py_split :: "char \<Rightarrow> string \<Rightarrow> string list" where
  "py_split c [] = [[]]"
| "py_split c (x # xs) =
     (if x = c then [] # py_split c xs
      else (case py_split c xs of w # ws \<Rightarrow> (x # w) # ws | [] \<Rightarrow> [[x]]))"

subsection \<open>The score\<close>

definition attr :: "entity \<Rightarrow> string \<Rightarrow> pyval" where
  "attr e k = dget (ent_attrs e) k PNone"

text \<open>Lines 407--409.\<close>

definition category_score :: "entity \<Rightarrow> entity \<Rightarrow> py_error + rat" where
  "category_score prefs item =
     (if hasattr prefs ''preferred_category_ids'' \<and> hasattr item ''category_id'' then
        (case py_in (attr item ''category_id'') (attr prefs ''preferred_category_ids'') of
           Inl err \<Rightarrow> Inl err
         | Inr b \<Rightarrow> Inr (if b then 0.4 else 0))
      else Inr 0)"

text \<open>Lines 412--415.\<close>

definition condition_score :: "entity \<Rightarrow> entity \<Rightarrow> py_error + rat" where
  "condition_score prefs item =
     (if hasattr prefs ''preferred_conditions'' \<and> py_truthy (attr prefs ''preferred_conditions'') then
        (case attr prefs ''preferred_conditions'' of
           PStr s \<Rightarrow>
             (let conds = map py_strip (py_split CHR '','' s)
              in if hasattr item ''condition'' \<and>
                    list_ex (py_eq (attr item ''condition'')) (map PStr conds)
                 then Inr 0.2 else Inr 0)
         | _ \<Rightarrow> Inl AttributeError)
      else Inr 0)"

text \<open>Lines 418--424: the loop stops at the first preferred location contained in the
  item's location; \<open>item.location.lower()\<close> raises on a non-string.\<close>

definition location_score :: "entity \<Rightarrow> entity \<Rightarrow> py_error + rat" where
  "location_score prefs item =
     (if hasattr prefs ''preferred_locations'' \<and> py_truthy (attr prefs ''preferred_locations'') then
        (case attr prefs ''preferred_locations'' of
           PStr s \<Rightarrow>
             (let locs = map py_strip (py_split CHR '','' s)
              in if hasattr item ''location'' then
                   (case attr item ''location'' of
                      PStr il \<Rightarrow>
                        Inr (if list_ex (\<lambda>l. sublist (py_lower l) (py_lower il)) locs then 0.2 else 0)
                    | _ \<Rightarrow> if locs = [] then Inr 0 else Inl AttributeError)
                 else Inr 0)
         | _ \<Rightarrow> Inl AttributeError)
      else Inr 0)"

text \<open>Lines 427--442: an adapter instance is always truthy, so \<open>if viewed_item\<close> only
  tells \<open>None\<close> apart.\<close>

definition same_attr :: "entity \<Rightarrow> entity \<Rightarrow> string \<Rightarrow> bool" where
  "same_attr item v k = (hasattr item k \<and> hasattr v k \<and> py_eq (attr item k) (attr v k))"

definition viewed_score :: "entity \<Rightarrow> entity option \<Rightarrow> rat" where
  "viewed_score item viewed =
     (case viewed of
        None \<Rightarrow> 0
      | Some v \<Rightarrow> (if same_attr item v ''category_id'' then 0.1 else 0) +
                  (if same_attr item v ''condition'' then 0.05 else 0) +
                  (if same_attr item v ''location'' then 0.05 else 0))"

definition calculate_recommendation_score ::
  "entity \<Rightarrow> entity \<Rightarrow> entity option \<Rightarrow> rat \<Rightarrow> py_error + rat" where
  "calculate_recommendation_score item prefs viewed rnd =
     (case category_score prefs item of
        Inl err \<Rightarrow> Inl err
      | Inr a \<Rightarrow>
          (case condition_score prefs item of
             Inl err \<Rightarrow> Inl err
           | Inr b \<Rightarrow>
               (case location_score prefs item of
                  Inl err \<Rightarrow> Inl err
                | Inr c \<Rightarrow> Inr (min (a + b + c + viewed_score item viewed + rnd) 1))))"

subsection \<open>Example\<close>

abbreviation ex_prefs :: entity where
  "ex_prefs \<equiv> \<lparr>ent_model = UserPreference,
     ent_attrs = [(''user_id'', PInt 7), (''preferred_category_ids'', PList [PStr ''k1'']),
                  (''preferred_conditions'', PStr ''good, like new''), (''preferred_locations'', PStr ''Dhaka'')]\<rparr>"

abbreviation ex_sofa :: entity where
  "ex_sofa \<equiv> \<lparr>ent_model = MarketplaceItem,
     ent_attrs = [(''id'', PStr ''s1''), (''category_id'', PStr ''k1''), (''condition'', PStr ''like new''),
                  (''location'', PStr ''Gulshan, dhaka'')]\<rparr>"

lemmas recommendation_defs [model_simps] = attr_def category_score_def
  condition_score_def location_score_def same_attr_def viewed_score_def calculate_recommendation_score_def

subsection \<open>Lemmas\<close>

lemma category_score_nonneg: "category_score prefs item = Inr a \<Longrightarrow> 0 \<le> a"
  by (auto simp: category_score_def split: if_splits sum.splits)

lemma condition_score_nonneg: "condition_score prefs item = Inr b \<Longrightarrow> 0 \<le> b"
  by (auto simp: condition_score_def Let_def split: if_splits pyval.splits)

lemma location_score_nonneg: "location_score prefs item = Inr c \<Longrightarrow> 0 \<le> c"
  by (auto simp: location_score_def Let_def split: if_splits pyval.splits)

lemma viewed_score_nonneg: "0 \<le> viewed_score item viewed"
  by (simp add: viewed_score_def split: option.split)

subsection \<open>Properties\<close>

text \<open>C32: For a random draw in [0, 0.1), a recommendation score that is computed lies between the draw and 1.0: the weights are never negative and the cap at 1.0 holds.\<close>

theorem recommendation_score_bounds:
  assumes "0 \<le> rnd" and "rnd < 0.1"
    and "calculate_recommendation_score item prefs viewed rnd = Inr s"
  shows "rnd \<le> s \<and> s \<le> 1"
proof -
  obtain a b c where a: "category_score prefs item = Inr a" and b: "condition_score prefs item = Inr b"
    and c: "location_score prefs item = Inr c"
    and s: "s = min (a + b + c + viewed_score item viewed + rnd) 1"
    using assms(3) by (auto simp: calculate_recommendation_score_def split: sum.splits)
  have "0 \<le> a + b + c + viewed_score item viewed"
    using category_score_nonneg [OF a] condition_score_nonneg [OF b] location_score_nonneg [OF c]
      viewed_score_nonneg [of item viewed] by simp
  then show ?thesis using s assms(2) by (simp add: min_def)
qed

subsection \<open>Witnesses\<close>

theorem recommendation_score_bounds_witness:
  "calculate_recommendation_score ex_sofa ex_prefs (Some ex_sofa) 0.05 = Inr 1 \<and> (0.05::rat) \<le> 1 \<and> (1::rat) \<le> 1"
proof -
  have h: "calculate_recommendation_score ex_sofa ex_prefs (Some ex_sofa) 0.05 = Inr 1"
    by (simp add: model_simps)
  show ?thesis using h recommendation_score_bounds [OF _ _ h] by simp
qed

end
