(* ===== verification/Json_Recommendations.thy ===== *)
theory Json_Recommendations
  imports Web_Pages Recommendation
begin

text \<open>
  \<open>update_recommendations\<close> of \<open>src/main_app/views_json.py\<close> (lines 365--400) and the
  whole \<open>item_detail\<close> handler (lines 95--126), whose authenticated branch calls it.
  The score of \<open>calculate_recommendation_score\<close> is an exact rational (theory
  \<open>Recommendation\<close>); what the store does with it is Python float arithmetic, which the
  JSON value model does not have, so it is a parameter: \<open>fo_avg old s\<close> is
  \<open>(recommendation.score + score) / 2\<close> (it may raise, e.g. \<open>TypeError\<close> for a stored
  string) and \<open>fo_val s\<close> the value \<open>score\<close> stored by \<open>create\<close>. The draws of
  \<open>np.random.uniform\<close> are a stream, one per scored item. The point of the model is the
  control flow: the \<open>except UserPreference.DoesNotExist\<close> and
  \<open>except ItemRecommendation.DoesNotExist\<close> clauses raise \<open>AttributeError\<close> (the
  adapter classes have no such attribute), so neither \<open>create\<close> branch can run.
\<close>

record float_ops =
  fo_avg :: "pyval \<Rightarrow> rat \<Rightarrow> py_error + pyval"
  fo_val :: "rat \<Rightarrow> pyval"

subsection \<open>\<open>update_recommendations\<close>\<close>

text \<open>Lines 388--392, the body of the inner \<open>try\<close>: look the recommendation up, average
  its score with the new one and save it.\<close>

definition rec_update_body ::
  "store \<Rightarrow> entity \<Rightarrow> entity \<Rightarrow> float_ops \<Rightarrow> rat \<Rightarrow> string \<Rightarrow> string \<Rightarrow> (py_error + unit) \<times> store" where
  "rec_update_body fs user item fo s now uuid =
     (case getattr user ''id'' of
        Inl e \<Rightarrow> (Inl e, fs)
      | Inr uid \<Rightarrow>
          (case getattr item ''id'' of
             Inl e \<Rightarrow> (Inl e, fs)
           | Inr iid \<Rightarrow>
               (let (r, fs1) = ma_get fs ItemRecommendation [(''user_id'', uid), (''item_id'', iid)]
                in case r of
                     Inl e \<Rightarrow> (Inl e, fs1)
                   | Inr rec \<Rightarrow>
                       (case getattr rec ''score'' of
                          Inl e \<Rightarrow> (Inl e, fs1)
                        | Inr old \<Rightarrow>
                            (case fo_avg fo old s of
                               Inl e \<Rightarrow> (Inl e, fs1)
                             | Inr v \<Rightarrow>
                                 (Inr (), snd (ma_save fs1 (rec\<lparr>ent_attrs := setitem (ent_attrs rec) ''score'' v\<rparr>) now uuid)))))))"

text \<open>Lines 393--400, the \<open>except\<close> branch: a new recommendation.\<close>

definition rec_create ::
  "store \<Rightarrow> entity \<Rightarrow> entity \<Rightarrow> float_ops \<Rightarrow> rat \<Rightarrow> string \<Rightarrow> string \<Rightarrow> (py_error + unit) \<times> store" where
  "rec_create fs user item fo s now uuid =
     (case getattr user ''id'' of
        Inl e \<Rightarrow> (Inl e, fs)
      | Inr uid \<Rightarrow>
          (case getattr item ''id'' of
             Inl e \<Rightarrow> (Inl e, fs)
           | Inr iid \<Rightarrow>
               (let (r, fs1) = ma_create fs ItemRecommendation
                                 [(''user_id'', uid), (''item_id'', iid), (''score'', fo_val fo s),
                                  (''is_viewed'', PBool False)] now uuid
                in (map_sum id (\<lambda>_. ()) r, fs1))))"

text \<open>Lines 383--400: score each candidate, then update or create its recommendation.\<close>

fun json_rec_loop ::
  "store \<Rightarrow> entity \<Rightarrow> entity \<Rightarrow> entity \<Rightarrow> float_ops \<Rightarrow> string \<Rightarrow> string \<Rightarrow> (nat \<Rightarrow> rat) \<Rightarrow> entity list
     \<Rightarrow> (py_error + unit) \<times> store" where
  "json_rec_loop fs user prefs viewed fo now uuid rnd [] = (Inr (), fs)"
| "json_rec_loop fs user prefs viewed fo now uuid rnd (item # items) =
     (case calculate_recommendation_score item prefs (Some viewed) (rnd 0) of
        Inl e \<Rightarrow> (Inl e, fs)
      | Inr s \<Rightarrow>
          (let (r, fs1) = rec_update_body fs user item fo s now uuid
           in case catch_does_not_exist ItemRecommendation r of
                Inl (Inl e) \<Rightarrow> (Inl e, fs1)
              | Inl (Inr _) \<Rightarrow> json_rec_loop fs1 user prefs viewed fo now uuid (\<lambda>n. rnd (Suc n)) items
              | Inr () \<Rightarrow>
                  (let (r2, fs2) = rec_create fs1 user item fo s now uuid
                   in case r2 of
                        Inl e \<Rightarrow> (Inl e, fs2)
                      | Inr _ \<Rightarrow> json_rec_loop fs2 user prefs viewed fo now uuid (\<lambda>n. rnd (Suc n)) items)))"

text \<open>Lines 371--377: the default preference of the \<open>except\<close> branch.\<close>

definition default_pref_doc :: "pyval \<Rightarrow> entity \<Rightarrow> doc" where
  "default_pref_doc uid viewed =
     [(''user_id'', uid),
      (''preferred_category_ids'',
         if hasattr viewed ''category_id'' then PList [dget (ent_attrs viewed) ''category_id'' PNone] else PList []),
      (''preferred_conditions'', PStr []), (''preferred_locations'', PStr [])]"

text \<open>Lines 368--377: the user's preference, or the default one.\<close>

definition rec_preferences ::
  "store \<Rightarrow> entity \<Rightarrow> entity \<Rightarrow> string \<Rightarrow> string \<Rightarrow> (py_error + entity) \<times> store" where
  "rec_preferences fs user viewed now uuid =
     (let (r, fs1) = (case getattr user ''id'' of
                        Inl e \<Rightarrow> (Inl e, fs)
                      | Inr uid \<Rightarrow> ma_get fs UserPreference [(''user_id'', uid)])
      in case catch_does_not_exist UserPreference r of
           Inl r' \<Rightarrow> (r', fs1)
         | Inr () \<Rightarrow>
             (case getattr user ''id'' of
                Inl e \<Rightarrow> (Inl e, fs1)
              | Inr uid \<Rightarrow> ma_create fs1 UserPreference (default_pref_doc uid viewed) now uuid))"

text \<open>Line 381: \<open>getattr(item, 'owner_id', None) != user.id\<close>, with \<open>user.id\<close> read for
  every item.\<close>

definition not_owned_by :: "entity \<Rightarrow> entity \<Rightarrow> py_error + bool" where
  "not_owned_by user item =
     (case getattr user ''id'' of
        Inl e \<Rightarrow> Inl e
      | Inr uid \<Rightarrow> Inr (\<not> py_eq (dget (ent_attrs item) ''owner_id'' PNone) uid))"

definition json_update_recommendations ::
  "store \<Rightarrow> entity \<Rightarrow> entity \<Rightarrow> float_ops \<Rightarrow> string \<Rightarrow> string \<Rightarrow> (nat \<Rightarrow> rat) \<Rightarrow> (py_error + unit) \<times> store" where
  "json_update_recommendations fs user viewed fo now uuid rnd =
     (let (rp, fs1) = rec_preferences fs user viewed now uuid
      in case rp of
           Inl e \<Rightarrow> (Inl e, fs1)
         | Inr prefs \<Rightarrow>
             (let (ri, _, fs2) = qs_iter (ma_filter MarketplaceItem [(''status'', PStr ''available'')]) fs1
              in case ri of
                   Inl e \<Rightarrow> (Inl e, fs2)
                 | Inr items \<Rightarrow>
                     (case filter_err (not_owned_by user) items of
                        Inl e \<Rightarrow> (Inl e, fs2)
                      | Inr cands \<Rightarrow> json_rec_loop fs2 user prefs viewed fo now uuid rnd cands)))"

subsection \<open>\<open>item_detail\<close>\<close>

text \<open>Lines 119--122, the body of the \<open>try\<close>.\<close>

definition detail_try_body ::
  "store \<Rightarrow> int \<Rightarrow> entity \<Rightarrow> float_ops \<Rightarrow> string \<Rightarrow> string \<Rightarrow> (nat \<Rightarrow> rat) \<Rightarrow> (py_error + unit) \<times> store" where
  "detail_try_body fs uid item fo now uuid rnd =
     (let (r, fs1) = ma_get fs User [(''id'', PInt uid)]
      in case r of
           Inl e \<Rightarrow> (Inl e, fs1)
         | Inr ju \<Rightarrow>
             (case getattr ju ''id'' of
                Inl e \<Rightarrow> (Inl e, fs1)
              | Inr jid \<Rightarrow>
                  if \<not> py_eq jid (dget (ent_attrs item) ''owner_id'' PNone)
                  then json_update_recommendations fs1 ju item fo now uuid rnd
                  else (Inr (), fs1)))"

text \<open>Lines 95--126: the anonymous part (\<open>item_detail_view\<close>), \<open>item.title\<close> read
  for the context, then for a logged-in user the \<open>try\<close> with
  \<open>except User.DoesNotExist: pass\<close>.\<close>

definition json_item_detail ::
  "store \<Rightarrow> int option \<Rightarrow> int \<Rightarrow> float_ops \<Rightarrow> string \<Rightarrow> string \<Rightarrow> (nat \<Rightarrow> rat)
     \<Rightarrow> (py_error + entity \<times> entity list) \<times> store" where
  "json_item_detail fs user item_id fo now uuid rnd =
     (let (r, fs1) = item_detail_view fs item_id now uuid
      in case r of
           Inl e \<Rightarrow> (Inl e, fs1)
         | Inr (item, sim) \<Rightarrow>
             (case getattr item ''title'' of
                Inl e \<Rightarrow> (Inl e, fs1)
              | Inr _ \<Rightarrow>
                  (case user of
                     None \<Rightarrow> (Inr (item, sim), fs1)
                   | Some uid \<Rightarrow>
                       (let (t, fs2) = detail_try_body fs1 uid item fo now uuid rnd
                        in (case catch_does_not_exist User t of
                              Inl (Inl e) \<Rightarrow> Inl e
                            | _ \<Rightarrow> Inr (item, sim), fs2)))))"

subsection \<open>Collections whose ids are kept\<close>

text \<open>Every document has a truthy id, so that \<open>save()\<close> of a loaded document updates it.\<close>

definition ids_truthy :: "doc list \<Rightarrow> bool" where
  "ids_truthy ds = list_all (\<lambda>d. has_key d ''id'' \<and> py_truthy (doc_id d)) ds"

definition recs_kept :: "string \<Rightarrow> store \<Rightarrow> store \<Rightarrow> bool" where
  "recs_kept n fs fs' =
     (coll_ids (contents fs' n) = coll_ids (contents fs n) \<and> ids_truthy (contents fs' n) \<and>
      (\<forall>n'. n' \<noteq> n \<longrightarrow> contents fs' n' = contents fs n'))"

lemmas json_rec_defs [model_simps] = rec_update_body_def rec_create_def default_pref_doc_def
  rec_preferences_def not_owned_by_def json_update_recommendations_def detail_try_body_def
  json_item_detail_def ids_truthy_def

subsection \<open>Lemmas\<close>

lemma recs_kept_same: "contents fs' = contents fs \<Longrightarrow> ids_truthy (contents fs n) \<Longrightarrow> recs_kept n fs fs'"
  by (simp add: recs_kept_def)

lemma recs_kept_trans: "recs_kept n fs fs1 \<Longrightarrow> recs_kept n fs1 fs2 \<Longrightarrow> recs_kept n fs fs2"
  by (simp add: recs_kept_def)

lemma catch_does_not_exist_other: "m \<noteq> User \<Longrightarrow> catch_does_not_exist m r \<noteq> Inr ()"
  by (simp add: catch_does_not_exist_def split: sum.split)

lemma qs_eval_store:
  "snd (snd (qs_eval f qs fs)) =
     (case qs_cache qs of Some _ \<Rightarrow> fs | None \<Rightarrow> snd (load_data fs (file_name (qs_model qs))))"
  by (simp add: qs_eval_def fetch_results_def get_all_items_eq split: option.split prod.split sum.split)

lemma contents_qs_eval [simp]: "contents (snd (snd (qs_eval f qs fs))) n = contents fs n"
  by (simp add: qs_eval_store split: option.split)

lemma ma_save_store:
  "snd (ma_save fs e now uuid) =
     (if has_true_id e
      then snd (update_item fs (file_name (ent_model e)) (dget (ent_attrs e) ''id'' PNone) (ent_attrs e) now)
      else snd (create_item fs (file_name (ent_model e)) (ent_attrs e) now uuid))"
  by (simp add: ma_save_def Let_def split: prod.split option.split)

lemma contents_ma_save_frame:
  "n \<noteq> file_name (ent_model e) \<Longrightarrow> contents (snd (ma_save fs e now uuid)) n = contents fs n"
  by (auto simp: ma_save_store update_item_frame create_item_frame intro!: contents_cong)

lemma ma_save_keeps_ids:
  assumes "has_true_id e" and "ids_truthy (contents fs (file_name (ent_model e)))"
  shows "recs_kept (file_name (ent_model e)) fs (snd (ma_save fs e now uuid))"
proof -
  let ?n = "file_name (ent_model e)" and ?iid = "dget (ent_attrs e) ''id'' PNone"
  have fr: "\<forall>n'. n' \<noteq> ?n \<longrightarrow> contents (snd (ma_save fs e now uuid)) n' = contents fs n'"
    by (simp add: contents_ma_save_frame)
  show ?thesis
  proof (cases "find_idx (id_match ?iid) (contents fs ?n)")
    case None
    then show ?thesis using assms fr
      by (simp add: recs_kept_def ma_save_update_absent find_idx_id_match_None [symmetric])
  next
    case (Some i)
    let ?u = "stamp_update (contents fs ?n ! i) (ent_attrs e) ?iid now"
    from find_idx_id_match_SomeD [OF Some]
    have i: "i < length (contents fs ?n)" "py_norm (doc_id ?u) = coll_ids (contents fs ?n) ! i"
      by (simp_all add: coll_ids_def)
    have "ids_truthy ((contents fs ?n)[i := ?u])"
      using assms set_update_subset_insert [of "contents fs ?n" i ?u]
      by (auto simp: ids_truthy_def has_true_id_def list_all_iff)
    then show ?thesis using fr i ma_save_update_found [OF assms(1) Some]
      by (simp add: recs_kept_def Let_def coll_ids_list_update)
  qed
qed

lemma ma_get_found:
  assumes "fst (ma_get fs m kw) = Inr x" and "simple_filters kw" and "kw \<noteq> []" and "m \<noteq> UserPreference"
  shows "ent_attrs x \<in> set (contents fs (file_name m)) \<and> ent_model x = m"
proof -
  obtain d ds where "filter (matches_all kw) (contents fs (file_name m)) = d # ds" and mk: "make_entity m d = Inr x"
    using ma_get_simple [OF assms(2,3), of fs m] assms(1) by (auto split: list.splits)
  then have "d \<in> set (contents fs (file_name m))" by (metis filter_eq_ConsD in_set_conv_decomp)
  then show ?thesis using mk assms(4) by (auto simp: make_entity_def init_attrs_def split: if_splits)
qed

lemma simple_filters_rec [simp]: "simple_filters [(''user_id'', u), (''item_id'', i)]"
  by (simp add: simple_filters_def sublist_code)

lemma rec_update_body_kept:
  assumes "ids_truthy (contents fs (file_name ItemRecommendation))"
  shows "recs_kept (file_name ItemRecommendation) fs (snd (rec_update_body fs user item fo s now uuid))"
proof -
  let ?R = "file_name ItemRecommendation"
  have same: "recs_kept ?R fs fs1" if "contents fs1 = contents fs" for fs1
    using recs_kept_same [OF that assms] .
  show ?thesis
  proof (cases "getattr user ''id''")
    case (Inr uid)
    show ?thesis
    proof (cases "getattr item ''id''")
      case (Inr iid)
      obtain r fs1 where g: "ma_get fs ItemRecommendation [(''user_id'', uid), (''item_id'', iid)] = (r, fs1)"
        by fastforce
      have c1: "contents fs1 = contents fs"
        using contents_ma_get [of fs ItemRecommendation "[(''user_id'', uid), (''item_id'', iid)]"]
        unfolding g by (simp add: fun_eq_iff)
      show ?thesis
      proof (cases r)
        case (Inr rec)
        have f: "ent_attrs rec \<in> set (contents fs ?R) \<and> ent_model rec = ItemRecommendation"
          using ma_get_found [of fs ItemRecommendation "[(''user_id'', uid), (''item_id'', iid)]" rec] g Inr
          by simp
        then have t: "has_true_id (rec\<lparr>ent_attrs := setitem (ent_attrs rec) ''score'' v\<rparr>)" for v
          using assms by (auto simp: ids_truthy_def list_all_iff has_true_id_def hasattr_def doc_id_def)
        have k: "recs_kept ?R fs1 (snd (ma_save fs1 (rec\<lparr>ent_attrs := setitem (ent_attrs rec) ''score'' v\<rparr>) now uuid))" for v
          using ma_save_keeps_ids [OF t] f assms c1 by simp
        have "rec_update_body fs user item fo s now uuid =
          (case getattr rec ''score'' of
             Inl e \<Rightarrow> (Inl e, fs1)
           | Inr old \<Rightarrow>
               (case fo_avg fo old s of
                  Inl e \<Rightarrow> (Inl e, fs1)
                | Inr v \<Rightarrow> (Inr (), snd (ma_save fs1 (rec\<lparr>ent_attrs := setitem (ent_attrs rec) ''score'' v\<rparr>) now uuid))))"
          using g \<open>getattr user ''id'' = Inr uid\<close> \<open>getattr item ''id'' = Inr iid\<close> Inr
          by (simp add: rec_update_body_def)
        then show ?thesis
          using same [OF c1] recs_kept_trans [OF same [OF c1] k] by (simp split: sum.split)
      qed (use g \<open>getattr user ''id'' = Inr uid\<close> \<open>getattr item ''id'' = Inr iid\<close> c1 same in
           \<open>simp add: rec_update_body_def\<close>)
    qed (use same in \<open>simp add: rec_update_body_def Inr\<close>)
  qed (use same in \<open>simp add: rec_update_body_def\<close>)
qed

lemma json_rec_loop_kept:
  "ids_truthy (contents fs (file_name ItemRecommendation)) \<Longrightarrow>
   recs_kept (file_name ItemRecommendation) fs (snd (json_rec_loop fs user prefs viewed fo now uuid rnd items))"
proof (induction items arbitrary: fs rnd)
  case Nil
  then show ?case by (simp add: recs_kept_same)
next
  case (Cons item items)
  let ?R = "file_name ItemRecommendation"
  show ?case
  proof (cases "calculate_recommendation_score item prefs (Some viewed) (rnd 0)")
    case (Inr s)
    obtain r fs1 where b: "rec_update_body fs user item fo s now uuid = (r, fs1)" by fastforce
    have k1: "recs_kept ?R fs fs1" using rec_update_body_kept [OF Cons.prems, of user item fo s now uuid] b by simp
    then have "ids_truthy (contents fs1 ?R)" by (simp add: recs_kept_def)
    from recs_kept_trans [OF k1 Cons.IH [OF this]] have k2:
      "recs_kept ?R fs (snd (json_rec_loop fs1 user prefs viewed fo now uuid rnd' items))" for rnd' .
    have ne: "catch_does_not_exist ItemRecommendation r \<noteq> Inr ()" by (simp add: catch_does_not_exist_other)
    show ?thesis
    proof (cases "catch_does_not_exist ItemRecommendation r")
      case (Inl x)
      then show ?thesis using Inr b k1 k2 by (cases x) simp_all
    next
      case (Inr x)
      then show ?thesis using ne by simp
    qed
  qed (use Cons.prems in \<open>simp add: recs_kept_same\<close>)
qed

lemma rec_preferences_store: "contents (snd (rec_preferences fs user viewed now uuid)) = contents fs"
proof -
  obtain r fs1 where g: "(case getattr user ''id'' of Inl e \<Rightarrow> (Inl e, fs)
                          | Inr uid \<Rightarrow> ma_get fs UserPreference [(''user_id'', uid)]) = (r, fs1)"
    by fastforce
  have "contents fs1 = contents fs"
  proof (cases "getattr user ''id''")
    case (Inr uid)
    with g have g': "ma_get fs UserPreference [(''user_id'', uid)] = (r, fs1)" by simp
    show ?thesis using contents_ma_get [of fs UserPreference "[(''user_id'', uid)]"]
      unfolding g' by (simp add: fun_eq_iff)
  qed (use g in simp)
  moreover have "catch_does_not_exist UserPreference r \<noteq> Inr ()" by (simp add: catch_does_not_exist_other)
  ultimately show ?thesis using g by (auto simp: rec_preferences_def split: sum.split)
qed

lemma json_update_recommendations_kept:
  assumes "ids_truthy (contents fs (file_name ItemRecommendation))"
  shows "recs_kept (file_name ItemRecommendation) fs (snd (json_update_recommendations fs user viewed fo now uuid rnd))"
proof -
  let ?R = "file_name ItemRecommendation"
  obtain rp fs1 where p: "rec_preferences fs user viewed now uuid = (rp, fs1)" by fastforce
  have c1: "contents fs1 = contents fs" using rec_preferences_store [of fs user viewed now uuid] p by simp
  show ?thesis
  proof (cases rp)
    case (Inr prefs)
    obtain ri q fs2 where i: "qs_iter (ma_filter MarketplaceItem [(''status'', PStr ''available'')]) fs1 = (ri, q, fs2)"
      by (metis prod.collapse)
    have "fs2 = snd (snd (qs_iter (ma_filter MarketplaceItem [(''status'', PStr ''available'')]) fs1))"
      using i by simp
    then have c2: "contents fs2 = contents fs" using c1 by (intro ext) (simp add: qs_iter_def)
    have t: "ids_truthy (contents fs2 ?R)" using c2 assms by simp
    show ?thesis
      using p i Inr recs_kept_same [OF c2 assms] recs_kept_trans [OF recs_kept_same [OF c2 assms] json_rec_loop_kept [OF t]]
      by (simp add: json_update_recommendations_def split: sum.split)
  qed (use p c1 assms in \<open>simp add: json_update_recommendations_def recs_kept_same\<close>)
qed

lemma rec_preferences_missing:
  assumes "getattr user ''id'' = Inr jid"
    and "\<forall>p\<in>set (contents fs ''user_preferences''). \<not> (has_key p ''user_id'' \<and> py_eq (dget p ''user_id'' PNone) jid)"
  shows "fst (rec_preferences fs user viewed now uuid) = Inl AttributeError"
proof -
  have "filter (matches_all [(''user_id'', jid)]) (contents fs (file_name UserPreference)) = []"
    using assms(2) by (simp add: filter_empty_conv matches_single)
  then have "fst (ma_get fs UserPreference [(''user_id'', jid)]) = Inl DoesNotExist"
    using ma_get_simple [of "[(''user_id'', jid)]" fs UserPreference] by simp
  then obtain fs1 where "ma_get fs UserPreference [(''user_id'', jid)] = (Inl DoesNotExist, fs1)"
    by (metis prod.collapse)
  then show ?thesis using assms(1) by (simp add: rec_preferences_def catch_does_not_exist_def)
qed

subsection \<open>Example\<close>

text \<open>Item \<open>1\<close> of user 8 is available, user 7 has no preference, and the one
  recommendation is user 7's for item \<open>1\<close>.\<close>

abbreviation ex_jfs :: store where
  "ex_jfs \<equiv> (\<lambda>_. NoFile)(
     ''marketplace_items'' := Json [[(''id'', PStr ''1''), (''title'', PStr ''Lamp''), (''status'', PStr ''available''),
                                     (''owner_id'', PInt 8), (''views_count'', PInt 0)]],
     ''users'' := Json [[(''id'', PInt 7)]],
     ''item_recommendations'' := Json [[(''id'', PStr ''r1''), (''user_id'', PInt 7), (''item_id'', PStr ''1''),
                                        (''score'', PInt 0)]])"

abbreviation ex_fo :: float_ops where
  "ex_fo \<equiv> \<lparr>fo_avg = \<lambda>old s. Inr old, fo_val = \<lambda>s. PNone\<rparr>"

subsection \<open>Properties\<close>

text \<open>C24: update_recommendations of views_json never creates a document when every stored
  recommendation has a truthy id (as create_item gives it): whatever its
  outcome, the recommendation collection has the same ids afterwards (the inner except
  clause raises instead of creating), and every other collection, the preferences
  included, is unchanged. Only stored recommendations are updated, in place.\<close>

theorem json_update_recommendations_never_creates:
  assumes "ids_truthy (contents fs ''item_recommendations'')"
  shows "coll_ids (contents (snd (json_update_recommendations fs user viewed fo now uuid rnd)) ''item_recommendations'') =
           coll_ids (contents fs ''item_recommendations'') \<and>
         (\<forall>n. n \<noteq> ''item_recommendations'' \<longrightarrow>
            contents (snd (json_update_recommendations fs user viewed fo now uuid rnd)) n = contents fs n)"
  using json_update_recommendations_kept [of fs user viewed fo now uuid rnd] assms
  by (simp add: recs_kept_def)

text \<open>C37: a logged-in user who has no stored preference and opens another user's item
  gets AttributeError from item_detail of views_json, after the incremented view count
  was saved: update_recommendations cannot create the default preference, and
  except User.DoesNotExist does not catch AttributeError.\<close>

theorem json_item_detail_new_viewer_crashes:
  assumes "item_detail_view fs item_id now uuid = (Inr (item, sim), fs1)"
    and "hasattr item ''title''"
    and "fst (ma_get fs1 User [(''id'', PInt uid)]) = Inr ju" and "getattr ju ''id'' = Inr jid"
    and "\<not> py_eq jid (dget (ent_attrs item) ''owner_id'' PNone)"
    and "\<forall>p\<in>set (contents fs1 ''user_preferences''). \<not> (has_key p ''user_id'' \<and> py_eq (dget p ''user_id'' PNone) jid)"
  shows "fst (json_item_detail fs (Some uid) item_id fo now uuid rnd) = Inl AttributeError \<and>
         contents (snd (json_item_detail fs (Some uid) item_id fo now uuid rnd)) = contents fs1"
proof -
  obtain fs2 where g: "ma_get fs1 User [(''id'', PInt uid)] = (Inr ju, fs2)" using assms(3) by (metis prod.collapse)
  have c2: "contents fs2 = contents fs1"
    using contents_ma_get [of fs1 User "[(''id'', PInt uid)]"] unfolding g by (simp add: fun_eq_iff)
  obtain fs3 where p: "rec_preferences fs2 ju item now uuid = (Inl AttributeError, fs3)"
    using rec_preferences_missing [OF assms(4), of fs2 item now uuid] assms(6) c2 by (metis prod.collapse)
  have c3: "contents fs3 = contents fs1" using rec_preferences_store [of fs2 ju item now uuid] p c2 by simp
  have "detail_try_body fs1 uid item fo now uuid rnd = (Inl AttributeError, fs3)"
    using g p assms(4,5) by (simp add: detail_try_body_def json_update_recommendations_def)
  moreover obtain t where "getattr item ''title'' = Inr t"
    using assms(2) by (auto simp: hasattr_def getattr_def has_key_def split: option.split)
  ultimately show ?thesis using assms(1) c3
    by (simp add: json_item_detail_def catch_does_not_exist_def)
qed

subsection \<open>Witnesses\<close>

theorem json_update_recommendations_never_creates_witness:
  "coll_ids (contents (snd (json_update_recommendations ex_jfs
      \<lparr>ent_model = User, ent_attrs = [(''id'', PInt 7)]\<rparr> ex_lamp ex_fo ''t'' ''u'' (\<lambda>_. 0))) ''item_recommendations'') =
     [PStr ''r1'']"
  using json_update_recommendations_never_creates [of ex_jfs]
  by (simp add: ids_truthy_def doc_id_def contents_def load_data_def coll_ids_def has_key_def dget_def)

theorem json_item_detail_new_viewer_crashes_witness:
  "fst (json_item_detail ex_jfs (Some 7) 1 ex_fo ''t'' ''u'' (\<lambda>_. 0)) = Inl AttributeError"
proof -
  have "\<exists>item sim fs1. item_detail_view ex_jfs 1 ''t'' ''u'' = (Inr (item, sim), fs1)"
    by (simp add: model_simps int_str_def Let_def)
  then obtain item sim fs1 where d: "item_detail_view ex_jfs 1 ''t'' ''u'' = (Inr (item, sim), fs1)"
    by blast
  let ?ju = "\<lparr>ent_model = User, ent_attrs = [(''id'', PInt 7)]\<rparr>"
  have t: "hasattr item ''title''" using d by (auto simp: model_simps int_str_def Let_def dict_update_def)
  have u: "fst (ma_get fs1 User [(''id'', PInt 7)]) = Inr ?ju" using d by (auto simp: model_simps int_str_def Let_def dict_update_def)
  have i: "getattr ?ju ''id'' = Inr (PInt 7)" by (simp add: getattr_def)
  have o: "\<not> py_eq (PInt 7) (dget (ent_attrs item) ''owner_id'' PNone)"
    using d by (auto simp: model_simps int_str_def Let_def dict_update_def)
  have p: "\<forall>p\<in>set (contents fs1 ''user_preferences''). \<not> (has_key p ''user_id'' \<and> py_eq (dget p ''user_id'' PNone) (PInt 7))"
    using d by (auto simp: model_simps int_str_def Let_def dict_update_def)
  show ?thesis using json_item_detail_new_viewer_crashes [OF d t u i o p] by simp
qed

end
