(* ===== verification/Waste_Models.thy ===== *)
theory Waste_Models
  imports PyValue
begin

text \<open>
  The two Django tables of \<open>src/main_app/models_waste.py\<close>, \<open>WasteGeneration\<close>
  (lines 3--13) and \<open>WastePrediction\<close> (lines 15--28), both ordered by
  \<open>timestamp\<close> and unique on \<open>(timestamp, location)\<close>, with the ORM operations the
  CSV import and the prediction service call on them: \<open>update_or_create\<close>,
  \<open>create\<close>, \<open>filter(...).delete()\<close>. A table is the list of its rows in primary-key
  order. A \<open>DateTimeField\<close> value is a naive \<open>datetime\<close>, represented by the
  number of microseconds since 0001-01-01 00:00, so that the order of timestamps and
  \<open>timedelta\<close> arithmetic are those of integers; the conversion from a calendar
  date is CPython's \<open>_ymd2ord\<close> (\<open>Lib/_pydatetime.py\<close>). The float columns
  have an arbitrary type \<open>'f\<close>: no arithmetic is done on them by the code.
\<close>

subsection \<open>Naive datetimes\<close>

type_synonym datetime = int

definition day_us :: int where
  "day_us = 86400 * 1000000"

definition days_in_month_table :: "nat list" where
  "days_in_month_table = [31, 28, 31, 30, 31, 30, 31, 31, 30, 31, 30, 31]"

definition is_leap :: "nat \<Rightarrow> bool" where
  "is_leap y = (y mod 4 = 0 \<and> (y mod 100 \<noteq> 0 \<or> y mod 400 = 0))"

definition days_in_month :: "nat \<Rightarrow> nat \<Rightarrow> nat" where
  "days_in_month y m = (if m = 2 \<and> is_leap y then 29 else days_in_month_table ! (m - 1))"

definition days_before_month :: "nat \<Rightarrow> nat \<Rightarrow> nat" where
  "days_before_month y m =
     sum_list (take (m - 1) days_in_month_table) + (if 2 < m \<and> is_leap y then 1 else 0)"

definition days_before_year :: "nat \<Rightarrow> nat" where
  "days_before_year y = (let z = y - 1 in z * 365 + z div 4 - z div 100 + z div 400)"

definition ymd2ord :: "nat \<Rightarrow> nat \<Rightarrow> nat \<Rightarrow> nat" where
  "ymd2ord y m d = days_before_year y + days_before_month y m + d"

definition datetime_of :: "nat \<Rightarrow> nat \<Rightarrow> nat \<Rightarrow> datetime" where
  "datetime_of y m d = (int (ymd2ord y m d) - 1) * day_us"

text \<open>The \<open>datetime(year, month, day)\<close> constructor: \<open>_check_date_fields\<close>
  raises \<open>ValueError\<close> outside \<open>MINYEAR..MAXYEAR\<close>, \<open>1..12\<close> and the days of
  the month.\<close>

definition valid_date :: "nat \<Rightarrow> nat \<Rightarrow> nat \<Rightarrow> bool" where
  "valid_date y m d = (1 \<le> y \<and> y \<le> 9999 \<and> 1 \<le> m \<and> m \<le> 12 \<and> 1 \<le> d \<and> d \<le> days_in_month y m)"

definition py_datetime :: "nat \<Rightarrow> nat \<Rightarrow> nat \<Rightarrow> py_error + datetime" where
  "py_datetime y m d = (if valid_date y m d then Inr (datetime_of y m d) else Inl ValueError)"

text \<open>A value of a \<open>DateTimeField\<close> filled from a date: midnight of a day of
  \<open>MINYEAR..MAXYEAR\<close>.\<close>

definition date_valued :: "datetime \<Rightarrow> bool" where
  "date_valued t = (0 \<le> t \<and> t \<le> datetime_of 9999 12 31 \<and> t mod day_us = 0)"

text \<open>\<open>datetime.replace(hour=0, minute=0, second=0, microsecond=0)\<close>.\<close>

definition midnight :: "datetime \<Rightarrow> datetime" where
  "midnight t = t - t mod day_us"

subsection \<open>\<open>WasteGeneration\<close> and \<open>WastePrediction\<close>\<close>

record 'f waste_generation =
  wg_timestamp :: datetime
  wg_location :: string
  wg_tons :: 'f

record 'f waste_prediction =
  wp_timestamp :: datetime
  wp_location :: string
  wp_predicted :: 'f
  wp_lower :: 'f
  wp_upper :: 'f
  wp_created_at :: datetime

type_synonym 'f wg_table = "'f waste_generation list"
type_synonym 'f wp_table = "'f waste_prediction list"

text \<open>The \<open>unique_together = ('timestamp', 'location')\<close> constraints.\<close>

definition wg_unique :: "'f wg_table \<Rightarrow> bool" where
  "wg_unique tbl = distinct (map (\<lambda>r. (wg_timestamp r, wg_location r)) tbl)"

definition wp_unique :: "'f wp_table \<Rightarrow> bool" where
  "wp_unique tbl = distinct (map (\<lambda>p. (wp_timestamp p, wp_location p)) tbl)"

subsection \<open>ORM operations\<close>

definition wg_key :: "datetime \<Rightarrow> string \<Rightarrow> 'f waste_generation \<Rightarrow> bool" where
  "wg_key t l r = (wg_timestamp r = t \<and> wg_location r = l)"

text \<open>
  \<open>WasteGeneration.objects.update_or_create(timestamp=t, location=loc,
  defaults={'waste_generated_tons': x})\<close>: \<open>get\<close> on the two lookup fields; no
  row creates one (\<open>created\<close> is \<open>True\<close>), one row gets the default fields written
  (\<open>False\<close>), several raise \<open>MultipleObjectsReturned\<close>. A \<open>None\<close> location
  (a short CSV row) matches no row of a \<open>NOT NULL\<close> column, and the insert then fails
  with \<open>IntegrityError\<close>; the enclosing transaction leaves the table unchanged.
\<close>

definition wg_update_or_create ::
  "'f wg_table \<Rightarrow> datetime \<Rightarrow> string option \<Rightarrow> 'f \<Rightarrow> py_error + ('f wg_table \<times> bool)" where
  "wg_update_or_create tbl t loc x =
     (case loc of
        None \<Rightarrow> Inl IntegrityError
      | Some l \<Rightarrow>
          (case find_idx (wg_key t l) tbl of
             None \<Rightarrow> Inr (tbl @ [\<lparr>wg_timestamp = t, wg_location = l, wg_tons = x\<rparr>], True)
           | Some i \<Rightarrow>
               if 1 < length (filter (wg_key t l) tbl) then Inl MultipleObjectsReturned
               else Inr (tbl[i := (tbl ! i)\<lparr>wg_tons := x\<rparr>], False)))"

text \<open>\<open>WastePrediction.objects.create(...)\<close>: the insert violates the unique
  constraint when a row with the same timestamp and location exists.\<close>

definition wp_create :: "'f wp_table \<Rightarrow> 'f waste_prediction \<Rightarrow> py_error + 'f wp_table" where
  "wp_create tbl p =
     (if list_ex (\<lambda>q. wp_timestamp q = wp_timestamp p \<and> wp_location q = wp_location p) tbl
      then Inl IntegrityError else Inr (tbl @ [p]))"

text \<open>\<open>WastePrediction.objects.filter(location=loc).delete()\<close>.\<close>

definition wp_delete_location :: "'f wp_table \<Rightarrow> string \<Rightarrow> 'f wp_table" where
  "wp_delete_location tbl l = filter (\<lambda>p. wp_location p \<noteq> l) tbl"

text \<open>What \<open>update_or_create\<close> means on a table that satisfies its unique constraint:
  the row with that key gets the new value, or a new row is appended.\<close>

definition wg_upsert :: "'f wg_table \<Rightarrow> datetime \<Rightarrow> string \<Rightarrow> 'f \<Rightarrow> 'f wg_table" where
  "wg_upsert tbl t l x =
     (if list_ex (wg_key t l) tbl then map (\<lambda>r. if wg_key t l r then r\<lparr>wg_tons := x\<rparr> else r) tbl
      else tbl @ [\<lparr>wg_timestamp = t, wg_location = l, wg_tons = x\<rparr>])"

text \<open>A sequence of \<open>update_or_create\<close> calls on keys and values; the last value
  written for a key wins.\<close>

definition wg_upserts :: "'f wg_table \<Rightarrow> (datetime \<times> string \<times> 'f) list \<Rightarrow> 'f wg_table" where
  "wg_upserts tbl kvs = foldl (\<lambda>tb (t, l, x). wg_upsert tb t l x) tbl kvs"

definition last_value :: "(datetime \<times> string \<times> 'f) list \<Rightarrow> datetime \<times> string \<Rightarrow> 'f option" where
  "last_value kvs = map_of (rev (map (\<lambda>(t, l, x). ((t, l), x)) kvs))"

lemmas waste_model_defs [model_simps] = day_us_def days_in_month_table_def is_leap_def
  days_in_month_def days_before_month_def days_before_year_def ymd2ord_def datetime_of_def
  valid_date_def py_datetime_def date_valued_def midnight_def wg_unique_def wp_unique_def wg_key_def
  wg_update_or_create_def wp_create_def wp_delete_location_def wg_upsert_def wg_upserts_def
  last_value_def

subsection \<open>Lemmas\<close>

lemma days_in_month_le: "1 \<le> m \<Longrightarrow> m \<le> 12 \<Longrightarrow> days_in_month y m \<le> 31"
proof -
  assume "1 \<le> m" "m \<le> 12"
  then have "m = 1 \<or> m = 2 \<or> m = 3 \<or> m = 4 \<or> m = 5 \<or> m = 6 \<or> m = 7 \<or> m = 8 \<or> m = 9 \<or>
      m = 10 \<or> m = 11 \<or> m = 12" by presburger
  then show ?thesis by (elim disjE) (simp_all add: days_in_month_def days_in_month_table_def)
qed

lemma year_length_arith:
  fixes A B C z :: nat
  assumes "B \<le> A" and "P100 \<Longrightarrow> P4" and "P400 \<Longrightarrow> P100"
  shows "Suc z * 365 + (A + (if P4 then 1 else 0)) - (B + (if P100 then 1 else 0)) + (C + (if P400 then 1 else 0)) =
         z * 365 + A - B + C + 365 + (if P4 \<and> (\<not> P100 \<or> P400) then 1 else 0)"
  using assms by (cases P4; cases P100; cases P400) simp_all

lemma days_before_year_Suc:
  assumes "1 \<le> y"
  shows "days_before_year (Suc y) = days_before_year y + 365 + (if is_leap y then 1 else 0)"
proof -
  obtain z where y: "y = Suc z" using assms by (cases y) auto
  have q: "Suc z div q = z div q + (if Suc z mod q = 0 then 1 else 0)" if "0 < q" for q :: nat
    using that by (simp add: div_Suc mod_Suc)
  have h1: "Suc z mod 100 = 0 \<Longrightarrow> Suc z mod 4 = 0" by (auto simp: mod_eq_0_iff_dvd elim: dvd_trans [rotated])
  have h2: "Suc z mod 400 = 0 \<Longrightarrow> Suc z mod 100 = 0" by (auto simp: mod_eq_0_iff_dvd elim: dvd_trans [rotated])
  have "z div 100 \<le> z div 4" by (rule div_le_mono2) simp_all
  then show ?thesis
    unfolding days_before_year_def is_leap_def Let_def y diff_Suc_1 q [of 4, simplified]
      q [of 100, simplified] q [of 400, simplified]
    by (rule year_length_arith) (use h1 h2 in auto)
qed

lemma days_before_year_mono: "y \<le> y' \<Longrightarrow> days_before_year y \<le> days_before_year y'"
proof (induction y' arbitrary: y)
  case 0
  then show ?case by simp
next
  case (Suc y')
  show ?case
  proof (cases "y = Suc y'")
    case False
    with Suc have "days_before_year y \<le> days_before_year y'" by simp
    also have "\<dots> \<le> days_before_year (Suc y')"
    proof (cases "y' = 0")
      case True
      then show ?thesis by (simp add: days_before_year_def)
    next
      case False
      then show ?thesis by (simp add: days_before_year_Suc)
    qed
    finally show ?thesis .
  qed simp
qed

lemma days_before_month_le:
  assumes "1 \<le> m" "m \<le> 12" "d \<le> days_in_month y m"
  shows "days_before_month y m + d \<le> 365 + (if is_leap y then 1 else 0)"
proof -
  from assms(1,2) have "m = 1 \<or> m = 2 \<or> m = 3 \<or> m = 4 \<or> m = 5 \<or> m = 6 \<or> m = 7 \<or> m = 8 \<or> m = 9 \<or>
      m = 10 \<or> m = 11 \<or> m = 12" by presburger
  with assms(3) show ?thesis
    by (elim disjE) (simp_all add: days_before_month_def days_in_month_def days_in_month_table_def split: if_splits)
qed

lemma ymd2ord_max: "valid_date y m d \<Longrightarrow> ymd2ord y m d \<le> ymd2ord 9999 12 31"
proof -
  assume v: "valid_date y m d"
  then have "ymd2ord y m d \<le> days_before_year (Suc y)"
    using days_before_month_le [of m d y] days_before_year_Suc [of y]
    by (simp add: valid_date_def ymd2ord_def)
  also have "\<dots> \<le> days_before_year 10000"
    using v by (intro days_before_year_mono) (simp add: valid_date_def)
  also have "\<dots> = ymd2ord 9999 12 31"
    by (simp add: ymd2ord_def days_before_year_def days_before_month_def days_in_month_table_def is_leap_def)
  finally show ?thesis .
qed
lemma datetime_of_date_valued: "valid_date y m d \<Longrightarrow> date_valued (datetime_of y m d)"
proof -
  assume v: "valid_date y m d"
  then have "1 \<le> ymd2ord y m d" by (simp add: valid_date_def ymd2ord_def)
  moreover have "ymd2ord y m d \<le> ymd2ord 9999 12 31" using v by (rule ymd2ord_max)
  ultimately show ?thesis
    unfolding date_valued_def datetime_of_def
    by (auto simp: day_us_def intro!: mult_right_mono simp del: ymd2ord_def)
qed

lemma wg_key_conv: "wg_key t l r \<longleftrightarrow> (wg_timestamp r, wg_location r) = (t, l)"
  by (simp add: wg_key_def)

lemma wg_unique_key_at_most_one:
  "wg_unique tbl \<Longrightarrow> length (filter (wg_key t l) tbl) \<le> 1"
  unfolding wg_unique_def wg_key_conv by (rule distinct_map_filter_eq_le1)

lemma wg_unique_update_at:
  assumes "wg_unique tbl" and "find_idx (wg_key t l) tbl = Some i"
  shows "tbl[i := (tbl ! i)\<lparr>wg_tons := x\<rparr>] = map (\<lambda>r. if wg_key t l r then r\<lparr>wg_tons := x\<rparr> else r) tbl"
proof (rule nth_equalityI)
  fix j assume j: "j < length (tbl[i := (tbl ! i)\<lparr>wg_tons := x\<rparr>])"
  have i: "i < length tbl" "wg_key t l (tbl ! i)" using find_idx_SomeD [OF assms(2)] by auto
  have "j \<noteq> i \<Longrightarrow> \<not> wg_key t l (tbl ! j)"
    using assms(1) i j unfolding wg_unique_def wg_key_conv by (auto simp: distinct_conv_nth)
  then show "tbl[i := (tbl ! i)\<lparr>wg_tons := x\<rparr>] ! j = map (\<lambda>r. if wg_key t l r then r\<lparr>wg_tons := x\<rparr> else r) tbl ! j"
    using i j by (cases "j = i") auto
qed simp

text \<open>On a table satisfying its unique constraint, \<open>update_or_create\<close> never raises
  \<open>MultipleObjectsReturned\<close> and implements \<^const>\<open>wg_upsert\<close>.\<close>

lemma wg_update_or_create_upsert:
  assumes "wg_unique tbl"
  shows "wg_update_or_create tbl t (Some l) x = Inr (wg_upsert tbl t l x, \<not> list_ex (wg_key t l) tbl)"
proof (cases "find_idx (wg_key t l) tbl")
  case None
  then have "\<not> list_ex (wg_key t l) tbl" by (simp add: find_idx_None_iff list_ex_iff)
  with None show ?thesis by (simp add: wg_update_or_create_def wg_upsert_def)
next
  case (Some i)
  then have "list_ex (wg_key t l) tbl"
    using find_idx_SomeD [OF Some] by (auto simp: list_ex_iff)
  with Some show ?thesis
    using wg_unique_key_at_most_one [OF assms, of t l] wg_unique_update_at [OF assms Some]
    by (simp add: wg_update_or_create_def wg_upsert_def)
qed

lemma map_key_wg_upsert:
  "map (\<lambda>r. (wg_timestamp r, wg_location r)) (wg_upsert tbl t l x) =
     (if list_ex (wg_key t l) tbl then map (\<lambda>r. (wg_timestamp r, wg_location r)) tbl
      else map (\<lambda>r. (wg_timestamp r, wg_location r)) tbl @ [(t, l)])"
  by (simp add: wg_upsert_def)

lemma wg_unique_upsert: "wg_unique tbl \<Longrightarrow> wg_unique (wg_upsert tbl t l x)"
  by (auto simp: wg_unique_def map_key_wg_upsert list_ex_iff wg_key_def)

lemma length_wg_upsert:
  "length (wg_upsert tbl t l x) = (if list_ex (wg_key t l) tbl then length tbl else Suc (length tbl))"
  by (simp add: wg_upsert_def)

lemma wg_upserts_Nil [simp]: "wg_upserts tbl [] = tbl"
  by (simp add: wg_upserts_def)

lemma wg_upserts_snoc [simp]:
  "wg_upserts tbl (kvs @ [(t, l, x)]) = wg_upsert (wg_upserts tbl kvs) t l x"
  by (simp add: wg_upserts_def)

lemma last_value_snoc [simp]:
  "last_value (kvs @ [(t, l, x)]) = (last_value kvs)((t, l) \<mapsto> x)"
  by (simp add: last_value_def)

lemma wg_unique_upserts: "wg_unique tbl \<Longrightarrow> wg_unique (wg_upserts tbl kvs)"
  by (induction kvs rule: rev_induct) (auto simp: wg_unique_upsert)

lemma keys_wg_upserts:
  "set (map (\<lambda>r. (wg_timestamp r, wg_location r)) (wg_upserts tbl kvs)) =
     set (map (\<lambda>r. (wg_timestamp r, wg_location r)) tbl) \<union> set (map (\<lambda>(t, l, x). (t, l)) kvs)"
proof (induction kvs rule: rev_induct)
  case (snoc kv kvs)
  obtain t l x where kv: "kv = (t, l, x)" by (cases kv) auto
  let ?k = "\<lambda>r. (wg_timestamp r, wg_location r)"
  have "list_ex (wg_key t l) (wg_upserts tbl kvs) \<Longrightarrow> (t, l) \<in> set (map ?k (wg_upserts tbl kvs))"
    by (auto simp: list_ex_iff wg_key_def image_iff)
  with snoc.IH show ?case
    by (simp only: kv wg_upserts_snoc map_key_wg_upsert) auto
qed simp

text \<open>When every key is already in the table, the upserts only overwrite values.\<close>

lemma wg_upserts_present:
  assumes "\<forall>(t, l, x) \<in> set kvs. list_ex (wg_key t l) tbl"
  shows "wg_upserts tbl kvs =
           map (\<lambda>r. case last_value kvs (wg_timestamp r, wg_location r) of
                       None \<Rightarrow> r | Some x \<Rightarrow> r\<lparr>wg_tons := x\<rparr>) tbl"
  using assms
proof (induction kvs rule: rev_induct)
  case Nil
  then show ?case by (simp add: wg_upserts_def last_value_def)
next
  case (snoc kv kvs)
  obtain t l x where kv: "kv = (t, l, x)" by (cases kv) auto
  have "list_ex (wg_key t l) tbl" using snoc.prems kv by auto
  then have "list_ex (wg_key t l) (wg_upserts tbl kvs)"
    using snoc.IH snoc.prems by (auto simp: list_ex_iff wg_key_def split: option.split)
  then show ?case
    using snoc.IH snoc.prems kv by (auto simp: wg_upsert_def wg_key_def split: option.split)
qed

lemma wg_upserts_values:
  "r \<in> set (wg_upserts tbl kvs) \<Longrightarrow> last_value kvs (wg_timestamp r, wg_location r) = Some x \<Longrightarrow>
     wg_tons r = x"
proof (induction kvs arbitrary: r rule: rev_induct)
  case Nil
  then show ?case by (simp add: last_value_def)
next
  case (snoc kv kvs)
  obtain t l y where kv: "kv = (t, l, y)" by (cases kv) auto
  let ?T = "wg_upserts tbl kvs"
  have lv: "(if (wg_timestamp r, wg_location r) = (t, l) then Some y
             else last_value kvs (wg_timestamp r, wg_location r)) = Some x"
    using snoc.prems(2) kv by simp
  show ?case
  proof (cases "list_ex (wg_key t l) ?T")
    case True
    with snoc.prems(1) kv obtain r0 where r0: "r0 \<in> set ?T"
      and r: "r = (if wg_key t l r0 then r0\<lparr>wg_tons := y\<rparr> else r0)"
      by (auto simp: wg_upsert_def)
    then show ?thesis
      using lv snoc.IH [OF r0] by (auto simp: wg_key_def split: if_splits)
  next
    case False
    with snoc.prems(1) kv have "r \<in> set ?T \<or> r = \<lparr>wg_timestamp = t, wg_location = l, wg_tons = y\<rparr>"
      by (auto simp: wg_upsert_def)
    then show ?thesis
    proof
      assume r: "r \<in> set ?T"
      with False have "(wg_timestamp r, wg_location r) \<noteq> (t, l)"
        by (auto simp: list_ex_iff wg_key_def)
      with lv snoc.IH [OF r] show ?thesis by (auto split: if_splits)
    qed (use lv in simp)
  qed
qed

text \<open>Replaying the same sequence of upserts changes nothing.\<close>

lemma wg_upserts_idem: "wg_upserts (wg_upserts tbl kvs) kvs = wg_upserts tbl kvs"
proof -
  let ?T = "wg_upserts tbl kvs"
  have "list_ex (wg_key t l) ?T" if "(t, l, x) \<in> set kvs" for t l x
  proof -
    have "(t, l) \<in> set (map (\<lambda>r. (wg_timestamp r, wg_location r)) ?T)"
      using that keys_wg_upserts [of tbl kvs] by force
    then show ?thesis by (auto simp: list_ex_iff wg_key_def)
  qed
  then have "\<forall>(t, l, x) \<in> set kvs. list_ex (wg_key t l) ?T" by blast
  then have "wg_upserts ?T kvs =
      map (\<lambda>r. case last_value kvs (wg_timestamp r, wg_location r) of
                 None \<Rightarrow> r | Some x \<Rightarrow> r\<lparr>wg_tons := x\<rparr>) ?T"
    by (rule wg_upserts_present)
  also have "\<dots> = ?T"
    by (rule map_idI) (auto dest: wg_upserts_values split: option.split)
  finally show ?thesis .
qed

end
