(* ===== verification/Waste_Import.thy ===== *)
theory Waste_Import
  imports Waste_Models "HOL-Library.While_Combinator"
begin

text \<open>
  The management command \<open>src/main_app/management/commands/import_waste_data.py\<close>
  (\<open>Command.handle\<close>, lines 13--46): for each row of a CSV file read by
  \<open>csv.DictReader\<close>, parse the timestamp with \<open>datetime.strptime(s, '%Y-%m-%d')\<close>,
  convert the tonnage with \<open>float()\<close>, and \<open>update_or_create\<close> the
  \<open>WasteGeneration\<close> row of that timestamp and location; any exception of a row is
  reported and the loop goes on; at the end the number of created rows is reported.
  \<open>strptime\<close> is modelled as CPython's \<open>_strptime\<close> does it: the format
  becomes the regular expression
  \<open>(?P<Y>\d\d\d\d)-(?P<m>1[0-2]|0[1-9]|[1-9])-(?P<d>3[0-1]|[1-2]\d|0[1-9]|[1-9]| [1-9])\<close>,
  matched at the start of the string by backtracking, followed by the check that no
  text remains and by the \<open>datetime\<close> constructor's range checks. The regular
  expression is a list-of-successes matcher: the alternatives in the order the
  \<open>re\<close> engine tries them, so that the first element is the engine's match.
  The CSV reader itself (quoting, dialects) is not modelled: the input is the file's
  sequence of row dictionaries, a missing trailing field being \<open>None\<close> as
  \<open>DictReader\<close> fills it. \<open>float()\<close> is a parameter \<open>flt\<close> of the model.
\<close>

subsection \<open>\<open>datetime.strptime(s, '%Y-%m-%d')\<close>\<close>

type_synonym 'a re = "string \<Rightarrow> ('a \<times> string) list"

definition is_digit :: "char \<Rightarrow> bool" where
  "is_digit c = (CHR ''0'' \<le> c \<and> c \<le> CHR ''9'')"

definition digit_val :: "char \<Rightarrow> nat" where
  "digit_val c = of_char c - 48"

definition re_class :: "(char \<Rightarrow> bool) \<Rightarrow> string re" where
  "re_class P s = (case s of c # r \<Rightarrow> if P c then [([c], r)] else [] | [] \<Rightarrow> [])"

definition re_seq :: "string re \<Rightarrow> string re \<Rightarrow> string re" where
  "re_seq p q s = concat (map (\<lambda>(a, r). map (\<lambda>(b, r'). (a @ b, r')) (q r)) (p s))"

definition re_alt :: "'a re \<Rightarrow> 'a re \<Rightarrow> 'a re" where
  "re_alt p q s = p s @ q s"

definition re_lit :: "char \<Rightarrow> string re" where
  "re_lit c = re_class (\<lambda>x. x = c)"

definition re_range :: "char \<Rightarrow> char \<Rightarrow> string re" where
  "re_range lo hi = re_class (\<lambda>c. lo \<le> c \<and> c \<le> hi)"

definition re_digit :: "string re" where
  "re_digit = re_class is_digit"

text \<open>\<open>%Y\<close>, \<open>%m\<close> and \<open>%d\<close> of \<open>_strptime.TimeRE\<close>.\<close>

definition re_Y :: "string re" where
  "re_Y = re_seq re_digit (re_seq re_digit (re_seq re_digit re_digit))"

definition re_m :: "string re" where
  "re_m = re_alt (re_seq (re_lit CHR ''1'') (re_range CHR ''0'' CHR ''2''))
            (re_alt (re_seq (re_lit CHR ''0'') (re_range CHR ''1'' CHR ''9''))
              (re_range CHR ''1'' CHR ''9''))"

definition re_d :: "string re" where
  "re_d = re_alt (re_seq (re_lit CHR ''3'') (re_range CHR ''0'' CHR ''1''))
            (re_alt (re_seq (re_range CHR ''1'' CHR ''2'') re_digit)
              (re_alt (re_seq (re_lit CHR ''0'') (re_range CHR ''1'' CHR ''9''))
                (re_alt (re_range CHR ''1'' CHR ''9'')
                  (re_seq (re_lit CHR '' '') (re_range CHR ''1'' CHR ''9'')))))"

definition re_then :: "('a \<times> string) list \<Rightarrow> ('a \<Rightarrow> string \<Rightarrow> 'b list) \<Rightarrow> 'b list" where
  "re_then xs f = concat (map (\<lambda>(a, r). f a r) xs)"

text \<open>All matches of the format's expression at the start of \<open>s\<close>: the three groups
  and the unmatched rest, in the engine's order.\<close>

definition ymd_match :: "string \<Rightarrow> (string \<times> string \<times> string \<times> string) list" where
  "ymd_match s =
     re_then (re_Y s) (\<lambda>y r1. re_then (re_lit CHR ''-'' r1) (\<lambda>_ r2.
       re_then (re_m r2) (\<lambda>m r3. re_then (re_lit CHR ''-'' r3) (\<lambda>_ r4.
         re_then (re_d r4) (\<lambda>d r5. [(y, m, d, r5)])))))"

text \<open>\<open>int()\<close> of a matched group: its digits (a day may be matched with a leading
  space, which \<open>int\<close> strips).\<close>

definition group_int :: "string \<Rightarrow> nat" where
  "group_int s = foldl (\<lambda>n c. 10 * n + digit_val c) 0 (filter is_digit s)"

text \<open>\<open>_strptime\<close>: no match and unconverted text both raise \<open>ValueError\<close>;
  a non-string argument (\<open>None\<close>) raises \<open>TypeError\<close>.\<close>

definition py_strptime_ymd :: "string \<Rightarrow> py_error + datetime" where
  "py_strptime_ymd s =
     (case ymd_match s of
        [] \<Rightarrow> Inl ValueError
      | (y, m, d, r) # _ \<Rightarrow>
          if r \<noteq> [] then Inl ValueError else py_datetime (group_int y) (group_int m) (group_int d))"

definition strptime_arg :: "string option \<Rightarrow> py_error + datetime" where
  "strptime_arg v = (case v of None \<Rightarrow> Inl TypeError | Some s \<Rightarrow> py_strptime_ymd s)"

text \<open>\<open>timestamp.strftime('%Y-%m-%d')\<close> of the models' \<open>__str__\<close>: glibc prints
  \<open>%Y\<close> without padding, \<open>%m\<close> and \<open>%d\<close> with two digits.\<close>

definition pad2 :: "nat \<Rightarrow> string" where
  "pad2 n = (if n < 10 then CHR ''0'' # nat_str n else nat_str n)"

definition strftime_ymd :: "nat \<Rightarrow> nat \<Rightarrow> nat \<Rightarrow> string" where
  "strftime_ymd y m d = nat_str y @ ''-'' @ pad2 m @ ''-'' @ pad2 d"

subsection \<open>One CSV row\<close>

type_synonym csv_row = "(string \<times> string option) list"

definition row_get :: "csv_row \<Rightarrow> string \<Rightarrow> py_error + string option" where
  "row_get row k = (case map_of row k of None \<Rightarrow> Inl KeyError | Some v \<Rightarrow> Inr v)"

definition py_float :: "(string \<Rightarrow> 'f option) \<Rightarrow> string option \<Rightarrow> py_error + 'f" where
  "py_float flt v =
     (case v of None \<Rightarrow> Inl TypeError
      | Some s \<Rightarrow> (case flt s of None \<Rightarrow> Inl ValueError | Some x \<Rightarrow> Inr x))"

text \<open>Lines 30--39: the timestamp is parsed first, then the arguments of
  \<open>update_or_create\<close> are evaluated left to right.\<close>

definition import_row ::
  "(string \<Rightarrow> 'f option) \<Rightarrow> csv_row \<Rightarrow> 'f wg_table \<Rightarrow> py_error + ('f wg_table \<times> bool)" where
  "import_row flt row tbl =
     (case row_get row ''timestamp'' of Inl e \<Rightarrow> Inl e | Inr ts \<Rightarrow>
      (case strptime_arg ts of Inl e \<Rightarrow> Inl e | Inr t \<Rightarrow>
       (case row_get row ''location'' of Inl e \<Rightarrow> Inl e | Inr loc \<Rightarrow>
        (case row_get row ''waste_generated_tons'' of Inl e \<Rightarrow> Inl e | Inr v \<Rightarrow>
         (case py_float flt v of Inl e \<Rightarrow> Inl e | Inr x \<Rightarrow>
          wg_update_or_create tbl t loc x)))))"

subsection \<open>The command\<close>

datatype import_msg = FileNotFound string | RowError csv_row py_error | Imported nat

record 'f import_state =
  is_table :: "'f wg_table"
  is_count :: nat
  is_out :: "import_msg list"

text \<open>Lines 28--44: one iteration; every exception of the row is caught and
  written out.\<close>

definition import_step :: "(string \<Rightarrow> 'f option) \<Rightarrow> 'f import_state \<Rightarrow> csv_row \<Rightarrow> 'f import_state" where
  "import_step flt st row =
     (case import_row flt row (is_table st) of
        Inl e \<Rightarrow> st\<lparr>is_out := is_out st @ [RowError row e]\<rparr>
      | Inr (tbl', created) \<Rightarrow> st\<lparr>is_table := tbl', is_count := (if created then is_count st + 1 else is_count st)\<rparr>)"

text \<open>Line 27: \<open>for row in reader\<close> calls \<open>next\<close> on the reader until it is
  exhausted; the loop state is the reader's remaining rows and the command's state.\<close>

definition import_rows ::
  "(string \<Rightarrow> 'f option) \<Rightarrow> csv_row list \<Rightarrow> 'f import_state \<Rightarrow> 'f import_state option" where
  "import_rows flt rows st =
     map_option snd
       (while_option (\<lambda>(rs, _). rs \<noteq> []) (\<lambda>(rs, s). (tl rs, import_step flt s (hd rs))) (rows, st))"

text \<open>Lines 13--46. The file system maps a path to the rows of the file, \<open>None\<close>
  when \<open>os.path.exists\<close> is false. The result is the output lines and the table,
  \<open>None\<close> if the loop did not stop.\<close>

definition import_waste_data ::
  "(string \<Rightarrow> 'f option) \<Rightarrow> (string \<Rightarrow> csv_row list option) \<Rightarrow> string \<Rightarrow> 'f wg_table
     \<Rightarrow> (import_msg list \<times> 'f wg_table) option" where
  "import_waste_data flt files path tbl =
     (case files path of
        None \<Rightarrow> Some ([FileNotFound path], tbl)
      | Some rows \<Rightarrow>
          map_option (\<lambda>st. (is_out st @ [Imported (is_count st)], is_table st))
            (import_rows flt rows \<lparr>is_table = tbl, is_count = 0, is_out = []\<rparr>))"

text \<open>The fields a row contributes when none of its steps raises: the inputs of
  \<open>update_or_create\<close> read in the order of lines 30--39.\<close>

definition row_fields :: "(string \<Rightarrow> 'f option) \<Rightarrow> csv_row \<Rightarrow> py_error + (datetime \<times> string \<times> 'f)" where
  "row_fields flt row =
     (case row_get row ''timestamp'' of Inl e \<Rightarrow> Inl e | Inr ts \<Rightarrow>
      (case strptime_arg ts of Inl e \<Rightarrow> Inl e | Inr t \<Rightarrow>
       (case row_get row ''location'' of Inl e \<Rightarrow> Inl e | Inr loc \<Rightarrow>
        (case row_get row ''waste_generated_tons'' of Inl e \<Rightarrow> Inl e | Inr v \<Rightarrow>
         (case py_float flt v of Inl e \<Rightarrow> Inl e | Inr x \<Rightarrow>
          (case loc of None \<Rightarrow> Inl IntegrityError | Some l \<Rightarrow> Inr (t, l, x)))))))"

definition row_oks :: "(string \<Rightarrow> 'f option) \<Rightarrow> csv_row list \<Rightarrow> (datetime \<times> string \<times> 'f) list" where
  "row_oks flt rows = concat (map (\<lambda>row. case row_fields flt row of Inl _ \<Rightarrow> [] | Inr kv \<Rightarrow> [kv]) rows)"

definition row_errors :: "(string \<Rightarrow> 'f option) \<Rightarrow> csv_row list \<Rightarrow> import_msg list" where
  "row_errors flt rows =
     concat (map (\<lambda>row. case row_fields flt row of Inl e \<Rightarrow> [RowError row e] | Inr _ \<Rightarrow> []) rows)"

lemmas import_defs [model_simps] = is_digit_def digit_val_def re_class_def re_seq_def re_alt_def
  re_lit_def re_range_def re_digit_def re_Y_def re_m_def re_d_def re_then_def ymd_match_def
  group_int_def py_strptime_ymd_def strptime_arg_def pad2_def strftime_ymd_def row_get_def
  py_float_def import_row_def import_step_def row_fields_def row_oks_def row_errors_def

subsection \<open>Example\<close>

text \<open>A stand-in for \<open>float()\<close> on whole numbers, and a file with a repeated key, an
  invalid date (2023 is not a leap year) and an unpadded date.\<close>

abbreviation ex_float :: "string \<Rightarrow> nat option" where
  "ex_float s \<equiv> (if s \<noteq> [] \<and> list_all is_digit s then Some (group_int s) else None)"

abbreviation ex_r1 :: csv_row where
  "ex_r1 \<equiv> [(''timestamp'', Some ''2024-01-05''), (''location'', Some ''Dhaka''), (''waste_generated_tons'', Some ''12'')]"

abbreviation ex_r2 :: csv_row where
  "ex_r2 \<equiv> [(''timestamp'', Some ''2023-02-29''), (''location'', Some ''Dhaka''), (''waste_generated_tons'', Some ''3'')]"

abbreviation ex_r3 :: csv_row where
  "ex_r3 \<equiv> [(''timestamp'', Some ''2024-01-05''), (''location'', Some ''Dhaka''), (''waste_generated_tons'', Some ''14'')]"

abbreviation ex_r4 :: csv_row where
  "ex_r4 \<equiv> [(''timestamp'', Some ''2024-1-6''), (''location'', Some ''Khulna''), (''waste_generated_tons'', Some ''7'')]"

abbreviation ex_files :: "string \<Rightarrow> csv_row list option" where
  "ex_files \<equiv> [''waste.csv'' \<mapsto> [ex_r1, ex_r2, ex_r3, ex_r4]]"

abbreviation ex_wg :: "nat wg_table" where
  "ex_wg \<equiv> [\<lparr>wg_timestamp = 63840009600000000, wg_location = ''Dhaka'', wg_tons = 14\<rparr>,
             \<lparr>wg_timestamp = 63840096000000000, wg_location = ''Khulna'', wg_tons = 7\<rparr>]"

subsection \<open>Lemmas on \<open>strptime\<close>\<close>

lemma digit_char_props:
  "k < 10 \<Longrightarrow> is_digit (digit_char k) \<and> digit_val (digit_char k) = k"
  by (auto simp: digit_char_def digit_val_def is_digit_def numeral_eq_Suc less_Suc_eq)

lemma group_int_snoc:
  "is_digit c \<Longrightarrow> group_int (s @ [c]) = 10 * group_int s + digit_val c"
  by (simp add: group_int_def)

lemma group_int_zero_Cons [simp]: "group_int (CHR ''0'' # s) = group_int s"
  by (simp add: group_int_def is_digit_def digit_val_def)

lemma group_int_nat_str [simp]: "group_int (nat_str n) = n"
proof (induction n rule: nat_str.induct)
  case (1 n)
  show ?case
  proof (cases "n < 10")
    case True
    then show ?thesis
      using digit_char_props [of n] by (subst nat_str.simps) (simp add: group_int_def)
  next
    case False
    then have "group_int (nat_str n) = 10 * (n div 10) + n mod 10"
      using "1.IH" digit_char_props [of "n mod 10"]
      by (subst nat_str.simps) (simp add: group_int_snoc del: nat_str.simps)
    then show ?thesis by simp
  qed
qed

lemma group_int_pad2 [simp]: "group_int (pad2 n) = n"
  by (simp add: pad2_def del: nat_str.simps)

lemma length_nat_str_le: "0 < k \<Longrightarrow> n < 10 ^ k \<Longrightarrow> length (nat_str n) \<le> k"
proof (induction n arbitrary: k rule: nat_str.induct)
  case (1 n)
  show ?case
  proof (cases "n < 10")
    case True
    with "1.prems" show ?thesis by (subst nat_str.simps) (simp del: nat_str.simps)
  next
    case False
    have k: "1 < k"
    proof (rule ccontr)
      assume "\<not> 1 < k"
      with "1.prems" have "k = 1" by simp
      with "1.prems" False show False by simp
    qed
    have "10 ^ k = 10 ^ (k - 1) * (10::nat)" using k by (cases k) auto
    with "1.prems" have "n div 10 < 10 ^ (k - 1)"
      by (simp add: less_mult_imp_div_less)
    with k False "1.IH" [of "k - 1"] show ?thesis
      by (subst nat_str.simps) (simp del: nat_str.simps)
  qed
qed

lemma nat_str_four:
  assumes "1000 \<le> y" and "y < 10000"
  shows "nat_str y = [digit_char (y div 1000), digit_char (y div 100 mod 10),
                      digit_char (y div 10 mod 10), digit_char (y mod 10)]"
proof -
  have "nat_str (y div 1000) = [digit_char (y div 1000)]"
    using assms by (subst nat_str.simps) (simp del: nat_str.simps)
  moreover have "nat_str (y div 100) = nat_str (y div 1000) @ [digit_char (y div 100 mod 10)]"
    using assms by (subst nat_str.simps) (simp add: div_mult2_eq [symmetric] del: nat_str.simps)
  moreover have "nat_str (y div 10) = nat_str (y div 100) @ [digit_char (y div 10 mod 10)]"
    using assms by (subst nat_str.simps) (simp add: div_mult2_eq [symmetric] del: nat_str.simps)
  moreover have "nat_str y = nat_str (y div 10) @ [digit_char (y mod 10)]"
    using assms by (subst nat_str.simps) (simp del: nat_str.simps)
  ultimately show ?thesis by (simp del: nat_str.simps)
qed

lemma re_Y_nat_str:
  assumes "1000 \<le> y" and "y < 10000"
  shows "re_Y (nat_str y @ r) = [(nat_str y, r)]"
  unfolding nat_str_four [OF assms]
  using digit_char_props [of "y div 1000"] digit_char_props [of "y div 100 mod 10"]
    digit_char_props [of "y div 10 mod 10"] digit_char_props [of "y mod 10"] assms
  by (simp add: re_Y_def re_seq_def re_digit_def re_class_def del: nat_str.simps)

lemma re_Y_short: "length ds < 4 \<Longrightarrow> re_Y (ds @ CHR ''-'' # r) = []"
  by (auto simp: numeral_eq_Suc less_Suc_eq length_Suc_conv re_Y_def re_seq_def re_digit_def
      re_class_def is_digit_def)

lemma re_m_pad2:
  assumes "1 \<le> m" and "m \<le> 12"
  shows "re_then (re_m (pad2 m @ CHR ''-'' # r)) (\<lambda>mt r3. re_then (re_lit CHR ''-'' r3) (G mt)) =
           G (pad2 m) [CHR ''-''] r"
proof -
  from assms have "m = 1 \<or> m = 2 \<or> m = 3 \<or> m = 4 \<or> m = 5 \<or> m = 6 \<or> m = 7 \<or> m = 8 \<or> m = 9 \<or>
      m = 10 \<or> m = 11 \<or> m = 12"
    by presburger
  then show ?thesis
    by (elim disjE) (simp_all add: pad2_def digit_char_def re_m_def re_alt_def re_seq_def re_lit_def re_range_def
        re_class_def re_then_def)
qed

lemma re_d_pad2:
  assumes "1 \<le> d" and "d \<le> 31"
  shows "\<exists>xs. re_d (pad2 d) = (pad2 d, []) # xs"
proof -
  from assms have "d = 1 \<or> d = 2 \<or> d = 3 \<or> d = 4 \<or> d = 5 \<or> d = 6 \<or> d = 7 \<or> d = 8 \<or> d = 9 \<or>
      d = 10 \<or> d = 11 \<or> d = 12 \<or> d = 13 \<or> d = 14 \<or> d = 15 \<or> d = 16 \<or> d = 17 \<or> d = 18 \<or>
      d = 19 \<or> d = 20 \<or> d = 21 \<or> d = 22 \<or> d = 23 \<or> d = 24 \<or> d = 25 \<or> d = 26 \<or> d = 27 \<or>
      d = 28 \<or> d = 29 \<or> d = 30 \<or> d = 31"
    by presburger
  then show ?thesis
    by (elim disjE) (simp_all add: pad2_def digit_char_def re_d_def re_alt_def re_seq_def re_lit_def re_range_def
        re_digit_def re_class_def is_digit_def)
qed

subsection \<open>Lemmas on the import loop\<close>

lemma import_rows_foldl:
  fixes flt :: "string \<Rightarrow> 'f option"
  shows "import_rows flt rows st = Some (foldl (import_step flt) st rows)"
proof -
  let ?b = "\<lambda>(rs :: csv_row list, s :: 'f import_state). rs \<noteq> []"
  let ?c = "\<lambda>(rs :: csv_row list, s). (tl rs, import_step flt s (hd rs))"
  let ?P = "\<lambda>(rs, s). foldl (import_step flt) s rs = foldl (import_step flt) st rows"
  have step: "?P (?c x) \<and> length (fst (?c x)) < length (fst x)" if "?P x" "?b x" for x
    using that by (cases x) (auto simp: neq_Nil_conv)
  obtain t where t: "while_option ?b ?c (rows, st) = Some t"
    using measure_while_option_Some [where P = ?P and f = "\<lambda>x. length (fst x)", OF step] by fastforce
  have "?P t" by (rule while_option_rule [where P = ?P, OF _ t]) (use step in auto)
  moreover have "\<not> ?b t" using while_option_stop [OF t] .
  ultimately show ?thesis using t by (cases t) (simp add: import_rows_def)
qed

lemma import_waste_data_rows:
  "files path = Some rows \<Longrightarrow> import_waste_data flt files path tbl =
     Some (let st = foldl (import_step flt) \<lparr>is_table = tbl, is_count = 0, is_out = []\<rparr> rows
           in (is_out st @ [Imported (is_count st)], is_table st))"
  by (simp add: import_waste_data_def import_rows_foldl Let_def)

lemma import_row_length:
  "import_row flt row tbl = Inr (tbl', c) \<Longrightarrow> length tbl' = (if c then Suc (length tbl) else length tbl)"
  by (auto simp: import_row_def wg_update_or_create_def split: sum.splits option.splits if_splits)

lemma import_step_Inl:
  "import_row flt row (is_table st) = Inl e \<Longrightarrow>
     import_step flt st row = st\<lparr>is_out := is_out st @ [RowError row e]\<rparr>"
  by (simp add: import_step_def)

lemma import_step_Inr:
  "import_row flt row (is_table st) = Inr (tbl', c) \<Longrightarrow>
     import_step flt st row = st\<lparr>is_table := tbl', is_count := (if c then Suc (is_count st) else is_count st)\<rparr>"
  by (simp add: import_step_def)

lemma import_step_count:
  "length (is_table (import_step flt st row)) + is_count st =
     length (is_table st) + is_count (import_step flt st row) \<and>
   length (is_out (import_step flt st row)) + is_count (import_step flt st row) \<le>
     length (is_out st) + is_count st + 1"
  by (auto simp: import_step_def dest: import_row_length split: sum.split)

lemma import_step_out: "\<exists>zs. is_out (import_step flt st row) = is_out st @ zs"
  by (auto simp: import_step_def split: sum.split)

lemma import_steps_count:
  "length (is_table (foldl (import_step flt) st rows)) + is_count st =
     length (is_table st) + is_count (foldl (import_step flt) st rows) \<and>
   length (is_out (foldl (import_step flt) st rows)) + is_count (foldl (import_step flt) st rows) \<le>
     length (is_out st) + is_count st + length rows"
proof (induction rows arbitrary: st)
  case (Cons row rows)
  let ?s = "import_step flt st row"
  have "length (is_table (foldl (import_step flt) ?s rows)) + is_count ?s =
      length (is_table ?s) + is_count (foldl (import_step flt) ?s rows)"
    and "length (is_out (foldl (import_step flt) ?s rows)) + is_count (foldl (import_step flt) ?s rows) \<le>
      length (is_out ?s) + is_count ?s + length rows"
    using Cons.IH [of ?s] by auto
  moreover have "length (is_table ?s) + is_count st = length (is_table st) + is_count ?s"
    and "length (is_out ?s) + is_count ?s \<le> length (is_out st) + is_count st + 1"
    using import_step_count [of flt st row] by auto
  ultimately show ?case by simp
qed simp

lemma import_steps_out_prefix:
  "\<exists>ys. is_out (foldl (import_step flt) st rows) = is_out st @ ys"
proof (induction rows arbitrary: st)
  case (Cons row rows)
  obtain ys where "is_out (foldl (import_step flt) (import_step flt st row) rows) =
      is_out (import_step flt st row) @ ys" using Cons.IH by blast
  moreover obtain zs where "is_out (import_step flt st row) = is_out st @ zs"
    using import_step_out by blast
  ultimately show ?case by auto
qed simp

text \<open>The loop never reads what it has written out.\<close>

lemma import_steps_out_indep:
  "foldl (import_step flt) (st\<lparr>is_out := pre @ is_out st\<rparr>) rows =
     (foldl (import_step flt) st rows)\<lparr>is_out := pre @ is_out (foldl (import_step flt) st rows)\<rparr>"
proof (induction rows arbitrary: st)
  case (Cons row rows)
  have "import_step flt (st\<lparr>is_out := pre @ is_out st\<rparr>) row =
      (import_step flt st row)\<lparr>is_out := pre @ is_out (import_step flt st row)\<rparr>"
    by (simp add: import_step_def split: sum.split)
  with Cons.IH [of "import_step flt st row"] show ?case by simp
qed simp

lemma import_steps_out_reset:
  "foldl (import_step flt) (st\<lparr>is_out := pre\<rparr>) rows =
     (foldl (import_step flt) (st\<lparr>is_out := []\<rparr>) rows)\<lparr>is_out :=
        pre @ is_out (foldl (import_step flt) (st\<lparr>is_out := []\<rparr>) rows)\<rparr>"
  using import_steps_out_indep [where st = "st\<lparr>is_out := []\<rparr>" and pre = pre] by simp

lemma wg_update_or_create_None [simp]: "wg_update_or_create tbl t None x = Inl IntegrityError"
  by (simp add: wg_update_or_create_def)

lemma import_row_fields:
  "wg_unique tbl \<Longrightarrow> import_row flt row tbl =
     (case row_fields flt row of Inl e \<Rightarrow> Inl e
      | Inr (t, l, x) \<Rightarrow> Inr (wg_upsert tbl t l x, \<not> list_ex (wg_key t l) tbl))"
  by (simp add: import_row_def row_fields_def wg_update_or_create_upsert split: sum.split option.split)

lemma wg_upserts_Cons: "wg_upserts tbl ((t, l, x) # kvs) = wg_upserts (wg_upsert tbl t l x) kvs"
  by (simp add: wg_upserts_def)

lemma row_oks_Cons:
  "row_oks flt (row # rows) = (case row_fields flt row of Inl _ \<Rightarrow> [] | Inr kv \<Rightarrow> [kv]) @ row_oks flt rows"
  by (simp add: row_oks_def)

lemma row_errors_Cons:
  "row_errors flt (row # rows) =
     (case row_fields flt row of Inl e \<Rightarrow> [RowError row e] | Inr _ \<Rightarrow> []) @ row_errors flt rows"
  by (simp add: row_errors_def)

lemma import_steps_unique:
  "wg_unique (is_table st) \<Longrightarrow>
     is_table (foldl (import_step flt) st rows) = wg_upserts (is_table st) (row_oks flt rows) \<and>
     is_out (foldl (import_step flt) st rows) = is_out st @ row_errors flt rows \<and>
     wg_unique (is_table (foldl (import_step flt) st rows))"
proof (induction rows arbitrary: st)
  case (Cons row rows)
  show ?case
  proof (cases "row_fields flt row")
    case (Inl e)
    then have "import_step flt st row = st\<lparr>is_out := is_out st @ [RowError row e]\<rparr>"
      using Cons.prems by (simp add: import_step_Inl import_row_fields)
    then show ?thesis using Cons.IH [of "import_step flt st row"] Cons.prems Inl
      by (simp add: row_oks_Cons row_errors_Cons wg_unique_upserts)
  next
    case (Inr kv)
    obtain t l x where kv: "kv = (t, l, x)" by (cases kv) auto
    let ?c = "\<not> list_ex (wg_key t l) (is_table st)"
    have "import_step flt st row =
        st\<lparr>is_table := wg_upsert (is_table st) t l x,
           is_count := (if ?c then Suc (is_count st) else is_count st)\<rparr>"
      using Cons.prems Inr kv by (simp add: import_step_Inr import_row_fields)
    moreover have "wg_unique (wg_upsert (is_table st) t l x)" using Cons.prems by (rule wg_unique_upsert)
    ultimately show ?thesis using Cons.IH [of "import_step flt st row"] Inr kv
      by (simp add: row_oks_Cons row_errors_Cons wg_upserts_Cons wg_unique_upserts)
  qed
qed (simp add: row_oks_def row_errors_def)

lemma re_then_Cons [simp]: "re_then (x # xs) f = f (fst x) (snd x) @ re_then xs f"
  by (simp add: re_then_def split: prod.split)

lemma re_then_Nil [simp]: "re_then [] f = []"
  by (simp add: re_then_def)

lemma re_lit_Cons [simp]: "re_lit c (c # r) = [([c], r)]"
  by (simp add: re_lit_def re_class_def)

lemma ymd_match_strftime:
  assumes "valid_date y m d" and "1000 \<le> y"
  shows "\<exists>xs. ymd_match (strftime_ymd y m d) = (nat_str y, pad2 m, pad2 d, []) # xs"
proof -
  have y: "y < 10000" and m: "1 \<le> m" "m \<le> 12" and d: "1 \<le> d" "d \<le> 31"
    using assms days_in_month_le [of m y] by (auto simp: valid_date_def)
  obtain xs where xs: "re_d (pad2 d) = (pad2 d, []) # xs" using re_d_pad2 [OF d] by blast
  have "ymd_match (strftime_ymd y m d) = re_then (re_d (pad2 d)) (\<lambda>dt r5. [(nat_str y, pad2 m, dt, r5)])"
    using assms(2) y m
    by (simp add: ymd_match_def strftime_ymd_def re_Y_nat_str re_m_pad2 del: nat_str.simps)
  with xs show ?thesis by simp
qed

lemma ymd_match_short_year:
  assumes "y < 1000"
  shows "ymd_match (strftime_ymd y m d) = []"
proof -
  have "length (nat_str y) < 4" using length_nat_str_le [of 3 y] assms by simp
  then show ?thesis
    by (simp add: ymd_match_def strftime_ymd_def re_Y_short del: nat_str.simps)
qed

lemma py_strptime_ymd_date_valued: "py_strptime_ymd s = Inr t \<Longrightarrow> date_valued t"
  by (auto simp: py_strptime_ymd_def py_datetime_def datetime_of_date_valued
      split: list.splits prod.splits if_splits)

lemma import_row_timestamps:
  assumes "import_row flt row tbl = Inr (tbl', c)"
  shows "\<exists>ts t. strptime_arg ts = Inr t \<and> set (map wg_timestamp tbl') \<subseteq> insert t (set (map wg_timestamp tbl))"
proof -
  have upd: "set (map wg_timestamp (tbl[i := (tbl ! i)\<lparr>wg_tons := x\<rparr>])) \<subseteq> set (map wg_timestamp tbl)"
    if "i < length tbl" for i and x :: 'a
  proof -
    have "(map wg_timestamp tbl)[i := wg_timestamp (tbl ! i)] = map wg_timestamp tbl"
      using that by (metis list_update_id nth_map)
    then show ?thesis by (simp add: map_update)
  qed
  from assms obtain ts t loc x where t: "strptime_arg ts = Inr t"
    and u: "wg_update_or_create tbl t loc x = Inr (tbl', c)"
    by (auto simp: import_row_def split: sum.splits)
  have "set (map wg_timestamp tbl') \<subseteq> insert t (set (map wg_timestamp tbl))"
  proof (cases loc)
    case (Some l)
    show ?thesis
    proof (cases "find_idx (wg_key t l) tbl")
      case None
      with u Some show ?thesis by (auto simp: wg_update_or_create_def)
    next
      case (Some i)
      with u \<open>loc = Some l\<close> upd [of i] find_idx_SomeD [OF Some] show ?thesis
        by (auto simp: wg_update_or_create_def split: if_splits)
    qed
  qed (use u in simp)
  with t show ?thesis by blast
qed

subsection \<open>Properties\<close>

text \<open>C7: The command always finishes (the \<open>for\<close> loop over the reader stops), and
  its last line is the file-not-found message or the count of created rows, which is
  exactly the number of rows the table gained.\<close>

theorem import_waste_data_terminates:
  "\<exists>out tbl'. import_waste_data flt files path tbl = Some (out, tbl') \<and>
     last out = (case files path of None \<Rightarrow> FileNotFound path | Some _ \<Rightarrow> Imported (length tbl' - length tbl))"
proof (cases "files path")
  case None
  then show ?thesis by (simp add: import_waste_data_def)
next
  case (Some rows)
  let ?st = "foldl (import_step flt) \<lparr>is_table = tbl, is_count = 0, is_out = []\<rparr> rows"
  have "length (is_table ?st) = length tbl + is_count ?st"
    using import_steps_count [of flt "\<lparr>is_table = tbl, is_count = 0, is_out = []\<rparr>" rows] by simp
  with Some show ?thesis by (simp add: import_waste_data_rows Let_def)
qed

text \<open>C9: Importing keeps the unique constraint on (timestamp, location) of the
  \<open>WasteGeneration\<close> table: \<open>update_or_create\<close> updates the row of an
  existing key and creates a row only for a new key.\<close>

theorem import_keeps_unique:
  assumes "wg_unique tbl" and "import_waste_data flt files path tbl = Some (out, tbl')"
  shows "wg_unique tbl'"
proof (cases "files path")
  case None
  with assms show ?thesis by (simp add: import_waste_data_def)
next
  case (Some rows)
  let ?st = "foldl (import_step flt) \<lparr>is_table = tbl, is_count = 0, is_out = []\<rparr> rows"
  have "tbl' = is_table ?st" using assms(2) Some by (simp add: import_waste_data_rows Let_def)
  then show ?thesis
    using assms(1) import_steps_unique [of "\<lparr>is_table = tbl, is_count = 0, is_out = []\<rparr>" flt rows]
    by (simp add: wg_unique_upserts)
qed

text \<open>C11: Running the import twice on the same file is harmless: the second run leaves
  the table as the first left it, reports the same row errors, and creates no row.\<close>

theorem import_rerun_idempotent:
  assumes "wg_unique tbl" and "files path = Some rows"
    and "import_waste_data flt files path tbl = Some (out1, tbl1)"
    and "import_waste_data flt files path tbl1 = Some (out2, tbl2)"
  shows "tbl2 = tbl1 \<and> out2 = butlast out1 @ [Imported 0]"
proof -
  let ?st = "\<lambda>tb. foldl (import_step flt) \<lparr>is_table = tb, is_count = 0, is_out = []\<rparr> rows"
  have r1: "tbl1 = wg_upserts tbl (row_oks flt rows)" "out1 = row_errors flt rows @ [Imported (is_count (?st tbl))]"
    "wg_unique tbl1"
    using assms import_steps_unique [of "\<lparr>is_table = tbl, is_count = 0, is_out = []\<rparr>" flt rows]
    by (auto simp: import_waste_data_rows Let_def)
  have r2: "tbl2 = wg_upserts tbl1 (row_oks flt rows)" "out2 = row_errors flt rows @ [Imported (is_count (?st tbl1))]"
    using assms r1(3) import_steps_unique [of "\<lparr>is_table = tbl1, is_count = 0, is_out = []\<rparr>" flt rows]
    by (auto simp: import_waste_data_rows Let_def)
  have "tbl2 = tbl1" using r1(1) r2(1) by (simp add: wg_upserts_idem)
  moreover have "length (is_table (?st tbl1)) = length tbl1 + is_count (?st tbl1)"
    using import_steps_count [of flt "\<lparr>is_table = tbl1, is_count = 0, is_out = []\<rparr>" rows] by simp
  moreover have "is_table (?st tbl1) = tbl2"
    using assms(2,4) by (simp add: import_waste_data_rows Let_def)
  ultimately show ?thesis using r1(2) r2(2) by simp
qed

text \<open>A row whose timestamp \<open>strptime\<close> rejects is reported with its error and
  skipped: the table and the final count are those of importing the file without
  that row.\<close>

theorem import_bad_row_isolated:
  assumes "files path = Some (head_rows @ bad # tail_rows)" and "files' path = Some (head_rows @ tail_rows)"
    and "map_of bad ''timestamp'' = Some ts" and "strptime_arg ts = Inl e"
  shows "\<exists>out out' tbl'. import_waste_data flt files path tbl = Some (out, tbl') \<and>
           import_waste_data flt files' path tbl = Some (out', tbl') \<and>
           last out = last out' \<and> RowError bad e \<in> set out"
proof -
  let ?f = "import_step flt"
  let ?s1 = "foldl ?f \<lparr>is_table = tbl, is_count = 0, is_out = []\<rparr> head_rows"
  have bad: "?f ?s1 bad = ?s1\<lparr>is_out := is_out ?s1 @ [RowError bad e]\<rparr>"
    using assms(3,4) by (simp add: import_step_Inl import_row_def row_get_def)
  let ?r = "foldl ?f (?s1\<lparr>is_out := []\<rparr>) tail_rows"
  have a: "foldl ?f (?s1\<lparr>is_out := is_out ?s1 @ [RowError bad e]\<rparr>) tail_rows =
      ?r\<lparr>is_out := (is_out ?s1 @ [RowError bad e]) @ is_out ?r\<rparr>"
    by (rule import_steps_out_reset)
  have b: "foldl ?f (?s1\<lparr>is_out := is_out ?s1\<rparr>) tail_rows = ?r\<lparr>is_out := is_out ?s1 @ is_out ?r\<rparr>"
    by (rule import_steps_out_reset)
  show ?thesis
    using assms(1,2) a b bad by (simp add: import_waste_data_rows Let_def)
qed

text \<open>C16: \<open>strptime(s, '%Y-%m-%d')\<close> reads tail_rows the date part that the models'
  \<open>__str__\<close> prints with \<open>strftime('%Y-%m-%d')\<close> for every valid date of
  years 1000 to 9999; for earlier years glibc prints fewer than four year digits and
  \<open>strptime\<close> raises \<open>ValueError\<close>.\<close>

theorem strptime_strftime_roundtrip:
  assumes "valid_date y m d"
  shows "py_strptime_ymd (strftime_ymd y m d) = (if 1000 \<le> y then Inr (datetime_of y m d) else Inl ValueError)"
proof (cases "1000 \<le> y")
  case True
  then obtain xs where "ymd_match (strftime_ymd y m d) = (nat_str y, pad2 m, pad2 d, []) # xs"
    using ymd_match_strftime [OF assms] by blast
  with True assms show ?thesis by (simp add: py_strptime_ymd_def py_datetime_def del: nat_str.simps)
next
  case False
  then show ?thesis by (simp add: py_strptime_ymd_def ymd_match_short_year)
qed

text \<open>The number of rows the import reports as created plus the number of rows it
  reports as failed never exceeds the number of rows of the file, and the table never
  shrinks.\<close>

theorem import_count_bounds:
  assumes "files path = Some rows" and "import_waste_data flt files path tbl = Some (out, tbl')"
  shows "length tbl \<le> length tbl' \<and> (length out - 1) + (length tbl' - length tbl) \<le> length rows"
proof -
  let ?st = "foldl (import_step flt) \<lparr>is_table = tbl, is_count = 0, is_out = []\<rparr> rows"
  have "length (is_table ?st) = length tbl + is_count ?st \<and> length (is_out ?st) + is_count ?st \<le> length rows"
    using import_steps_count [of flt "\<lparr>is_table = tbl, is_count = 0, is_out = []\<rparr>" rows] by simp
  with assms show ?thesis by (auto simp: import_waste_data_rows Let_def)
qed

text \<open>C18: Every timestamp the import stores is a date: midnight of a day between
  0001-01-01 and 9999-12-31, as \<open>strptime\<close> with a date-only format returns.\<close>

theorem import_timestamps_are_dates:
  assumes "list_all (\<lambda>r. date_valued (wg_timestamp r)) tbl"
    and "import_waste_data flt files path tbl = Some (out, tbl')"
  shows "list_all (\<lambda>r. date_valued (wg_timestamp r)) tbl'"
proof (cases "files path")
  case None
  with assms show ?thesis by (simp add: import_waste_data_def)
next
  case (Some rows)
  have step: "list_all (\<lambda>r. date_valued (wg_timestamp r)) (is_table (import_step flt st row))"
    if "list_all (\<lambda>r. date_valued (wg_timestamp r)) (is_table st)" for st row
  proof (cases "import_row flt row (is_table st)")
    case (Inr p)
    obtain tb c where p: "p = (tb, c)" by (cases p)
    then obtain ts t where t: "strptime_arg ts = Inr t"
      and sub: "set (map wg_timestamp tb) \<subseteq> insert t (set (map wg_timestamp (is_table st)))"
      using import_row_timestamps Inr by blast
    have "date_valued t" using t by (cases ts) (auto simp: strptime_arg_def py_strptime_ymd_date_valued)
    then show ?thesis using that sub Inr p by (fastforce simp: import_step_Inr list_all_iff)
  qed (use that in \<open>simp add: import_step_Inl\<close>)
  have "list_all (\<lambda>r. date_valued (wg_timestamp r)) (is_table (foldl (import_step flt) st rs))"
    if "list_all (\<lambda>r. date_valued (wg_timestamp r)) (is_table st)" for st rs
    using that by (induction rs arbitrary: st) (simp_all add: step)
  moreover have "tbl' = is_table (foldl (import_step flt) \<lparr>is_table = tbl, is_count = 0, is_out = []\<rparr> rows)"
    using assms(2) Some by (simp add: import_waste_data_rows Let_def)
  ultimately show ?thesis using assms(1) by simp
qed


subsection \<open>Witnesses\<close>

theorem import_keeps_unique_witness: "wg_unique ex_wg"
  by (rule import_keeps_unique [where tbl = "[]" and flt = ex_float and files = ex_files
        and path = "''waste.csv''" and out = "[RowError ex_r2 ValueError, Imported 2]"])
     (simp_all add: import_waste_data_rows model_simps)

theorem import_rerun_idempotent_witness:
  "ex_wg = ex_wg \<and> [RowError ex_r2 ValueError, Imported 0] =
     butlast [RowError ex_r2 ValueError, Imported 2] @ [Imported 0]"
  by (rule import_rerun_idempotent [where tbl = "[]" and flt = ex_float and files = ex_files
        and path = "''waste.csv''" and rows = "[ex_r1, ex_r2, ex_r3, ex_r4]"])
     (simp_all add: import_waste_data_rows model_simps)

theorem import_bad_row_isolated_witness:
  "\<exists>out out' tbl'. import_waste_data ex_float ex_files ''waste.csv'' [] = Some (out, tbl') \<and>
     import_waste_data ex_float [''waste.csv'' \<mapsto> [ex_r1, ex_r3, ex_r4]] ''waste.csv'' [] = Some (out', tbl') \<and>
     last out = last out' \<and> RowError ex_r2 ValueError \<in> set out"
  by (rule import_bad_row_isolated [where head_rows = "[ex_r1]" and tail_rows = "[ex_r3, ex_r4]"
        and ts = "Some ''2023-02-29''"]) (simp_all add: model_simps)

theorem strptime_strftime_roundtrip_witness:
  "py_strptime_ymd (strftime_ymd 2024 2 29) =
     (if 1000 \<le> (2024::nat) then Inr (datetime_of 2024 2 29) else Inl ValueError)"
  by (rule strptime_strftime_roundtrip) (simp add: model_simps)

theorem import_count_bounds_witness:
  "length ([] :: nat wg_table) \<le> length ex_wg \<and>
     (length [RowError ex_r2 ValueError, Imported 2] - 1) + (length ex_wg - length ([] :: nat wg_table))
       \<le> length [ex_r1, ex_r2, ex_r3, ex_r4]"
  by (rule import_count_bounds [where flt = ex_float and files = ex_files and path = "''waste.csv''"])
     (simp_all add: import_waste_data_rows model_simps)

theorem import_timestamps_are_dates_witness: "list_all (\<lambda>r. date_valued (wg_timestamp r)) ex_wg"
  by (rule import_timestamps_are_dates [where tbl = "[]" and flt = ex_float and files = ex_files
        and path = "''waste.csv''" and out = "[RowError ex_r2 ValueError, Imported 2]"])
     (simp_all add: import_waste_data_rows model_simps)

end
