(* ===== verification/Waste_Prediction.thy ===== *)
theory Waste_Prediction
  imports Waste_Import
begin

text \<open>
  The forecasting service \<open>src/main_app/services/waste_prediction_service.py\<close>
  (\<open>WastePredictionService\<close>) and the view that drives it,
  \<open>src/main_app/views_waste.py\<close> (\<open>predictions\<close>). The service reads the
  \<open>WasteGeneration\<close> history, and for each location deletes the stored
  \<open>WastePrediction\<close> rows, fits a Prophet model, predicts the next \<open>days\<close> days and
  stores the forecast. Prophet is an external numerical library: its \<open>fit\<close> and
  \<open>predict\<close> are parameters of the model (a record \<open>prophet\<close>), each
  of which may raise. \<open>datetime.now()\<close> is a parameter \<open>now\<close>, read once per
  request. Time zones are not modelled: \<open>astimezone().replace(tzinfo=None)\<close> is the
  identity on the naive datetimes of the model. Database writes are autocommitted
  one by one, so an exception leaves the writes made before it in place; every
  operation returns its result together with the prediction table it leaves.
\<close>

record ('m, 'f) prophet =
  fit :: "(datetime \<times> 'f) list \<Rightarrow> py_error + 'm"
  predict :: "'m \<Rightarrow> datetime list \<Rightarrow> py_error + (datetime \<times> 'f \<times> 'f \<times> 'f) list"

type_synonym 'f frame = "(datetime \<times> 'f \<times> string) list"

subsection \<open>\<open>WastePredictionService\<close>\<close>

text \<open>Lines 8--20 (\<open>load_historic_data\<close>): the history ordered by timestamp, as
  the columns \<open>ds\<close>, \<open>y\<close>, \<open>location\<close>. Rows with equal timestamps keep their
  primary-key order.\<close>

definition load_historic_data :: "'f wg_table \<Rightarrow> 'f frame" where
  "load_historic_data wg =
     map (\<lambda>r. (wg_timestamp r, wg_tons r, wg_location r)) (sort_key wg_timestamp wg)"

text \<open>Lines 22--30 (\<open>train_model\<close>).\<close>

definition train_model :: "('m, 'f) prophet \<Rightarrow> 'f frame \<Rightarrow> string \<Rightarrow> py_error + 'm" where
  "train_model P df loc = fit P (map (\<lambda>(ds, y, l). (ds, y)) (filter (\<lambda>(ds, y, l). l = loc) df))"

text \<open>Lines 32--42 (\<open>make_predictions\<close>): the dates \<open>now + 1 day + i days\<close> for
  \<open>i in range(days)\<close>.\<close>

definition future_dates :: "int \<Rightarrow> datetime \<Rightarrow> datetime list" where
  "future_dates days now = map (\<lambda>i. now + day_us + int i * day_us) [0..<nat days]"

definition make_predictions ::
  "('m, 'f) prophet \<Rightarrow> 'm \<Rightarrow> int \<Rightarrow> datetime \<Rightarrow> py_error + (datetime \<times> 'f \<times> 'f \<times> 'f) list" where
  "make_predictions P m days now = predict P m (future_dates days now)"

text \<open>Lines 44--54 (\<open>save_predictions\<close>): one \<open>create\<close> per forecast row.\<close>

definition mk_prediction :: "string \<Rightarrow> datetime \<Rightarrow> datetime \<times> 'f \<times> 'f \<times> 'f \<Rightarrow> 'f waste_prediction" where
  "mk_prediction loc now row =
     (case row of (ds, yhat, lo, hi) \<Rightarrow>
        \<lparr>wp_timestamp = ds, wp_location = loc, wp_predicted = yhat, wp_lower = lo, wp_upper = hi,
         wp_created_at = now\<rparr>)"

fun save_predictions ::
  "'f wp_table \<Rightarrow> (datetime \<times> 'f \<times> 'f \<times> 'f) list \<Rightarrow> string \<Rightarrow> datetime \<Rightarrow> (py_error + unit) \<times> 'f wp_table" where
  "save_predictions tbl [] loc now = (Inr (), tbl)"
| "save_predictions tbl (row # rows) loc now =
     (case wp_create tbl (mk_prediction loc now row) of
        Inl e \<Rightarrow> (Inl e, tbl)
      | Inr tbl' \<Rightarrow> save_predictions tbl' rows loc now)"

text \<open>\<open>df['location'].unique()\<close>: the values in order of first appearance.\<close>

fun pd_unique :: "'a list \<Rightarrow> 'a list" where
  "pd_unique [] = []"
| "pd_unique (x # xs) = x # pd_unique (filter (\<lambda>y. y \<noteq> x) xs)"

text \<open>Lines 56--81 (\<open>generate_predictions\<close>): \<open>if location:\<close> is false for
  \<open>None\<close> and for the empty string.\<close>

definition prediction_locations :: "'f frame \<Rightarrow> string option \<Rightarrow> string list" where
  "prediction_locations df location =
     (case location of
        Some l \<Rightarrow> if l \<noteq> [] then [l] else pd_unique (map (\<lambda>(ds, y, l). l) df)
      | None \<Rightarrow> pd_unique (map (\<lambda>(ds, y, l). l) df))"

text \<open>Lines 68--79: the loop body deletes first, then trains, predicts and saves.\<close>

fun generate_loop ::
  "('m, 'f) prophet \<Rightarrow> 'f frame \<Rightarrow> int \<Rightarrow> datetime \<Rightarrow> string list \<Rightarrow> 'f wp_table
     \<Rightarrow> (py_error + unit) \<times> 'f wp_table" where
  "generate_loop P df days now [] tbl = (Inr (), tbl)"
| "generate_loop P df days now (loc # locs) tbl =
     (let tbl1 = wp_delete_location tbl loc in
      case train_model P df loc of
        Inl e \<Rightarrow> (Inl e, tbl1)
      | Inr m \<Rightarrow>
          (case make_predictions P m days now of
             Inl e \<Rightarrow> (Inl e, tbl1)
           | Inr fc \<Rightarrow>
               (case save_predictions tbl1 fc loc now of
                  (Inl e, tbl2) \<Rightarrow> (Inl e, tbl2)
                | (Inr _, tbl2) \<Rightarrow> generate_loop P df days now locs tbl2)))"

definition generate_predictions ::
  "('m, 'f) prophet \<Rightarrow> 'f wg_table \<Rightarrow> int \<Rightarrow> string option \<Rightarrow> datetime \<Rightarrow> 'f wp_table
     \<Rightarrow> (py_error + bool) \<times> 'f wp_table" where
  "generate_predictions P wg days location now tbl =
     (let df = load_historic_data wg;
          (r, tbl') = generate_loop P df days now (prediction_locations df location) tbl
      in (map_sum id (\<lambda>_. True) r, tbl'))"

text \<open>Lines 83--86 (\<open>get_available_locations\<close>): \<open>values_list('location',
  flat=True).distinct()\<close> on a model whose \<open>Meta.ordering\<close> is \<open>['timestamp']\<close>.
  Django adds the ordering column to the \<open>SELECT DISTINCT\<close> (the default ordering
  takes part in \<open>distinct()\<close>, as the documentation of \<open>distinct\<close> warns), so the
  rows made distinct are the pairs (location, timestamp).\<close>

definition get_available_locations :: "'f wg_table \<Rightarrow> string list" where
  "get_available_locations wg =
     map fst (remdups (map (\<lambda>r. (wg_location r, wg_timestamp r)) (sort_key wg_timestamp wg)))"

text \<open>Lines 88--103 (\<open>get_predictions\<close>).\<close>

definition get_predictions :: "'f wp_table \<Rightarrow> string \<Rightarrow> int \<Rightarrow> datetime \<Rightarrow> 'f wp_table" where
  "get_predictions tbl loc days now =
     (let start = midnight now; stop = start + (days + 1) * day_us
      in sort_key wp_timestamp
           (filter (\<lambda>p. wp_location p = loc \<and> start \<le> wp_timestamp p \<and> wp_timestamp p \<le> stop) tbl))"

subsection \<open>The view \<open>predictions\<close>\<close>

text \<open>\<open>int(s)\<close> on a string: surrounding white space, an optional sign, and digits
  with single underscores between them; anything else raises \<open>ValueError\<close>.\<close>

definition int_digits :: "string \<Rightarrow> bool" where
  "int_digits ds =
     (ds \<noteq> [] \<and> is_digit (hd ds) \<and> is_digit (last ds) \<and>
      list_all (\<lambda>c. is_digit c \<or> c = CHR ''_'') ds \<and> \<not> sublist ''__'' ds)"

definition py_int :: "string \<Rightarrow> py_error + int" where
  "py_int s =
     (let t = py_strip s;
          (neg, ds) = (case t of
                         c # r \<Rightarrow> if c = CHR ''-'' then (True, r) else if c = CHR ''+'' then (False, r)
                                 else (False, t)
                       | [] \<Rightarrow> (False, []))
      in if int_digits ds then Inr (if neg then - int (group_int ds) else int (group_int ds))
         else Inl ValueError)"

record pred_request =
  pr_post :: bool
  pr_form :: "(string \<times> string) list"

datatype pred_msg = SelectLocation | DaysRange | Generated string | GenerationError py_error

record 'f pred_context =
  ctx_locations :: "string list"
  ctx_selected :: "string option"
  ctx_days :: int
  ctx_predictions :: "'f wp_table option"
  ctx_messages :: "pred_msg list"

text \<open>Line 18: \<open>int(request.POST.get('days', 7))\<close>.\<close>

definition request_days :: "pred_request \<Rightarrow> py_error + int" where
  "request_days req = (case querydict_get (pr_form req) ''days'' of None \<Rightarrow> Inr 7 | Some s \<Rightarrow> py_int s)"

text \<open>Lines 6--42. The \<open>int()\<close> of line 18 is outside the \<open>try\<close>: its
  \<open>ValueError\<close> escapes the view. The result is the template context and the
  prediction table.\<close>

definition predictions_view ::
  "('m, 'f) prophet \<Rightarrow> 'f wg_table \<Rightarrow> 'f wp_table \<Rightarrow> datetime \<Rightarrow> pred_request
     \<Rightarrow> py_error + ('f pred_context \<times> 'f wp_table)" where
  "predictions_view P wg tbl now req =
     (let locs = get_available_locations wg;
          ctx = (\<lambda>sel days preds msgs. \<lparr>ctx_locations = locs, ctx_selected = sel, ctx_days = days,
                   ctx_predictions = preds, ctx_messages = msgs\<rparr>)
      in if \<not> pr_post req then Inr (ctx None 7 None [], tbl)
         else
           (let sel = querydict_get (pr_form req) ''location''
            in case request_days req of
                 Inl e \<Rightarrow> Inl e
               | Inr days \<Rightarrow>
                   (case sel of
                      None \<Rightarrow> Inr (ctx sel days None [SelectLocation], tbl)
                    | Some l \<Rightarrow>
                        if l = [] then Inr (ctx sel days None [SelectLocation], tbl)
                        else if days < 1 \<or> 7 < days then Inr (ctx sel days None [DaysRange], tbl)
                        else
                          (case generate_predictions P wg days sel now tbl of
                             (Inl e, tbl') \<Rightarrow> Inr (ctx sel days None [GenerationError e], tbl')
                           | (Inr _, tbl') \<Rightarrow>
                               Inr (ctx sel days (Some (get_predictions tbl' l days now)) [Generated l], tbl')))))"

lemmas prediction_defs [model_simps] = load_historic_data_def train_model_def future_dates_def
  make_predictions_def mk_prediction_def prediction_locations_def generate_predictions_def
  get_available_locations_def get_predictions_def int_digits_def py_int_def request_days_def
  predictions_view_def

subsection \<open>Example\<close>

text \<open>A stand-in for Prophet that, like Prophet, refuses fewer than two rows and
  forecasts the last observed value; and a history with two days for Dhaka.\<close>

abbreviation ex_prophet :: "(nat, nat) prophet" where
  "ex_prophet \<equiv> \<lparr>fit = (\<lambda>h. if length h < 2 then Inl ValueError else Inr (snd (last h))),
                   predict = (\<lambda>m ds. Inr (map (\<lambda>d. (d, m, m, m)) ds))\<rparr>"

abbreviation ex_wg2 :: "nat wg_table" where
  "ex_wg2 \<equiv> ex_wg @ [\<lparr>wg_timestamp = 63840096000000000, wg_location = ''Dhaka'', wg_tons = 9\<rparr>]"

abbreviation ex_wg3 :: "nat wg_table" where
  "ex_wg3 \<equiv> ex_wg2 @ [\<lparr>wg_timestamp = 63840009600000000, wg_location = ''Khulna'', wg_tons = 5\<rparr>]"

abbreviation ex_now :: datetime where
  "ex_now \<equiv> 63840132000000000"

abbreviation ex_wp :: "nat wp_table" where
  "ex_wp \<equiv> [\<lparr>wp_timestamp = 63840182400000000, wp_location = ''Dhaka'', wp_predicted = 5, wp_lower = 4,
              wp_upper = 6, wp_created_at = 63840009600000000\<rparr>]"

abbreviation ex_post :: "string \<Rightarrow> string \<Rightarrow> pred_request" where
  "ex_post l d \<equiv> \<lparr>pr_post = True, pr_form = [(''location'', l), (''days'', d)]\<rparr>"

subsection \<open>Lemmas\<close>

lemma mk_prediction_simps [simp]:
  "wp_timestamp (mk_prediction loc now row) = fst row" "wp_location (mk_prediction loc now row) = loc"
  by (simp_all add: mk_prediction_def split: prod.split)

lemma save_predictions_ok:
  assumes "\<forall>q \<in> set tbl. wp_location q = loc \<longrightarrow> wp_timestamp q \<notin> set (map fst fc)"
    and "distinct (map fst fc)"
  shows "save_predictions tbl fc loc now = (Inr (), tbl @ map (mk_prediction loc now) fc)"
  using assms
proof (induction fc arbitrary: tbl)
  case (Cons row fc)
  have "wp_create tbl (mk_prediction loc now row) = Inr (tbl @ [mk_prediction loc now row])"
    using Cons.prems by (auto simp: wp_create_def list_ex_iff)
  moreover have "save_predictions (tbl @ [mk_prediction loc now row]) fc loc now =
      (Inr (), (tbl @ [mk_prediction loc now row]) @ map (mk_prediction loc now) fc)"
    using Cons.prems by (intro Cons.IH) auto
  ultimately show ?case by simp
qed simp

lemma generate_loop_fail:
  "train_model P df loc = Inl e \<Longrightarrow>
     generate_loop P df days now (loc # locs) tbl = (Inl e, wp_delete_location tbl loc)"
  by simp

lemma generate_loop_step:
  assumes "train_model P df loc = Inr m" and "make_predictions P m days now = Inr fc"
    and "distinct (map fst fc)"
  shows "generate_loop P df days now (loc # locs) tbl =
           generate_loop P df days now locs (wp_delete_location tbl loc @ map (mk_prediction loc now) fc)"
proof -
  have "save_predictions (wp_delete_location tbl loc) fc loc now =
      (Inr (), wp_delete_location tbl loc @ map (mk_prediction loc now) fc)"
    using assms(3) by (intro save_predictions_ok) (auto simp: wp_delete_location_def)
  with assms(1,2) show ?thesis by simp
qed

lemma day_us_pos [simp]: "0 < day_us"
  by (simp add: day_us_def)

lemma future_dates_strict: "sorted_wrt (<) (future_dates days now)"
  unfolding future_dates_def sorted_wrt_map
  by (rule sorted_wrt_mono_rel [OF _ sorted_wrt_upt]) simp

lemma length_future_dates [simp]: "length (future_dates days now) = nat days"
  by (simp add: future_dates_def)

lemma future_dates_window:
  assumes "x \<in> set (future_dates days now)" and "now \<le> now'" and "now' < now + day_us"
  shows "midnight now' \<le> x \<and> x \<le> midnight now' + (days + 1) * day_us"
proof -
  obtain i where i: "i < nat days" and x: "x = now + day_us + int i * day_us"
    using assms(1) by (auto simp: future_dates_def)
  have m: "now' - day_us < midnight now'" "midnight now' \<le> now'"
    using pos_mod_bound [of day_us now'] pos_mod_sign [of day_us now'] by (simp_all add: midnight_def)
  have "int i + 1 \<le> days" using i by linarith
  then have "(int i + 1) * day_us \<le> days * day_us" by (simp add: mult_right_mono)
  moreover have "0 \<le> int i * day_us" by (simp add: day_us_def)
  ultimately have "now + day_us \<le> x" "x \<le> now + days * day_us"
    using x by (simp_all add: algebra_simps)
  with m assms(2,3) show ?thesis by (simp add: algebra_simps)
qed

lemma pd_unique_set [simp]: "set (pd_unique xs) = set xs"
  by (induction xs rule: pd_unique.induct) auto

lemma pd_unique_distinct: "distinct (pd_unique xs)"
  by (induction xs rule: pd_unique.induct) auto

lemma set_locations_historic: "set (map (\<lambda>(ds, y, l). l) (load_historic_data wg)) = set (map wg_location wg)"
  by (simp add: load_historic_data_def image_image)

lemma generate_loop_all:
  assumes "distinct locs"
    and "\<forall>loc \<in> set locs. \<exists>m fc. train_model P df loc = Inr m \<and> make_predictions P m days now = Inr fc \<and>
           map fst fc = future_dates days now"
  shows "\<exists>tbl'. generate_loop P df days now locs tbl = (Inr (), tbl') \<and>
           (\<forall>loc \<in> set locs. length (filter (\<lambda>p. wp_location p = loc) tbl') = nat days) \<and>
           filter (\<lambda>p. wp_location p \<notin> set locs) tbl' = filter (\<lambda>p. wp_location p \<notin> set locs) tbl"
  using assms
proof (induction locs arbitrary: tbl)
  case (Cons loc locs)
  obtain m fc where m: "train_model P df loc = Inr m" and fc: "make_predictions P m days now = Inr fc"
    and dates: "map fst fc = future_dates days now"
    using Cons.prems(2) by auto
  have d: "distinct (map fst fc)" using dates future_dates_strict by (simp add: strict_sorted_iff)
  let ?tbl1 = "wp_delete_location tbl loc @ map (mk_prediction loc now) fc"
  obtain tbl' where r: "generate_loop P df days now locs ?tbl1 = (Inr (), tbl')"
    and c: "\<forall>l \<in> set locs. length (filter (\<lambda>p. wp_location p = l) tbl') = nat days"
    and f: "filter (\<lambda>p. wp_location p \<notin> set locs) tbl' = filter (\<lambda>p. wp_location p \<notin> set locs) ?tbl1"
    using Cons.IH [of ?tbl1] Cons.prems by auto
  have nl: "loc \<notin> set locs" using Cons.prems(1) by simp
  have "filter (\<lambda>p. wp_location p = loc) tbl' =
      filter (\<lambda>p. wp_location p = loc) (filter (\<lambda>p. wp_location p \<notin> set locs) tbl')"
    using nl by (simp add: filter_filter) (metis (mono_tags, lifting) filter_cong)
  also have "\<dots> = map (mk_prediction loc now) fc"
  proof -
    have a: "filter (\<lambda>p. wp_location p = loc)
        (filter (\<lambda>p. wp_location p \<notin> set locs) (wp_delete_location tbl loc)) = []"
      by (auto simp: wp_delete_location_def filter_empty_conv)
    have b: "filter (\<lambda>p. wp_location p = loc)
        (filter (\<lambda>p. wp_location p \<notin> set locs) (map (mk_prediction loc now) fc)) = map (mk_prediction loc now) fc"
      using nl by (simp add: filter_True)
    show ?thesis unfolding f by (simp only: filter_append a b) simp
  qed
  finally have "length (filter (\<lambda>p. wp_location p = loc) tbl') = nat days"
    using dates by (metis length_map length_future_dates)
  moreover have "filter (\<lambda>p. wp_location p \<notin> set (loc # locs)) tbl' =
      filter (\<lambda>p. wp_location p \<noteq> loc) (filter (\<lambda>p. wp_location p \<notin> set locs) tbl')"
    by (simp add: filter_filter conj_commute)
  moreover have "filter (\<lambda>p. wp_location p \<noteq> loc) (filter (\<lambda>p. wp_location p \<notin> set locs) ?tbl1) =
      filter (\<lambda>p. wp_location p \<notin> set (loc # locs)) tbl"
    by (simp add: filter_filter wp_delete_location_def comp_def conj_commute)
  ultimately show ?case
    using generate_loop_step [OF m fc d, of locs tbl] r c f by auto
qed simp

subsection \<open>Properties\<close>

text \<open>C23: When the forecast fails for the selected location (Prophet raises, e.g. on
  fewer than two rows of history), the page reports the error, but the location's
  stored predictions are already deleted: the deletion of line 70 runs before the
  model is trained.\<close>

theorem prediction_failure_deletes_old:
  assumes "pr_post req" and "querydict_get (pr_form req) ''location'' = Some loc" and "loc \<noteq> []"
    and "request_days req = Inr days" and "1 \<le> days" and "days \<le> 7"
    and "train_model P (load_historic_data wg) loc = Inl e"
  shows "predictions_view P wg tbl now req =
           Inr (\<lparr>ctx_locations = get_available_locations wg, ctx_selected = Some loc, ctx_days = days,
                 ctx_predictions = None, ctx_messages = [GenerationError e]\<rparr>,
                filter (\<lambda>p. wp_location p \<noteq> loc) tbl)"
  using assms
  by (simp add: predictions_view_def generate_predictions_def prediction_locations_def
      wp_delete_location_def Let_def)

text \<open>After a successful run for one location, the view's read of the predictions
  (within a day of the run) returns exactly the new forecast, one row per requested day
  in date order; the location's older predictions are gone and other locations keep
  theirs.\<close>

theorem generated_predictions_visible:
  assumes "train_model P (load_historic_data wg) loc = Inr m" and "loc \<noteq> []"
    and "make_predictions P m days now = Inr fc" and "map fst fc = future_dates days now"
    and "now \<le> now'" and "now' < now + day_us"
  shows "generate_predictions P wg days (Some loc) now tbl =
           (Inr True, wp_delete_location tbl loc @ map (mk_prediction loc now) fc) \<and>
         get_predictions (wp_delete_location tbl loc @ map (mk_prediction loc now) fc) loc days now' =
           map (mk_prediction loc now) fc"
proof -
  have st: "sorted_wrt (<) (map fst fc)" using assms(4) future_dates_strict by simp
  then have d: "distinct (map fst fc)" and srt: "sorted (map fst fc)" by (simp_all add: strict_sorted_iff)
  have g: "generate_predictions P wg days (Some loc) now tbl =
      (Inr True, wp_delete_location tbl loc @ map (mk_prediction loc now) fc)"
    using assms(2) generate_loop_step [OF assms(1,3) d, of "[]" tbl]
    by (simp add: generate_predictions_def prediction_locations_def Let_def)
  have "midnight now' \<le> fst row \<and> fst row \<le> midnight now' + (days + 1) * day_us" if "row \<in> set fc" for row
    using that assms(4-6) future_dates_window [of "fst row" days now now'] by (metis image_eqI set_map)
  then have "filter (\<lambda>p. wp_location p = loc \<and> midnight now' \<le> wp_timestamp p \<and>
        wp_timestamp p \<le> midnight now' + (days + 1) * day_us)
      (wp_delete_location tbl loc @ map (mk_prediction loc now) fc) = map (mk_prediction loc now) fc"
    by (auto simp: wp_delete_location_def filter_empty_conv comp_def intro!: filter_True)
  moreover have "sorted (map wp_timestamp (map (mk_prediction loc now) fc))"
    using srt by (simp add: comp_def)
  ultimately show ?thesis
    using g by (simp add: get_predictions_def Let_def sort_key_id_if_sorted)
qed

text \<open>C29: The location list of the page has one entry per \<open>WasteGeneration\<close> row of
  that location, not one per location: with the model's default ordering,
  \<open>distinct()\<close> compares (location, timestamp) pairs, which the unique constraint
  already makes distinct.\<close>

theorem available_locations_repeat:
  assumes "wg_unique wg"
  shows "count (mset (get_available_locations wg)) loc = length (filter (\<lambda>r. wg_location r = loc) wg)"
proof -
  let ?k = "\<lambda>r. (wg_location r, wg_timestamp r)"
  have "distinct (map ?k wg)"
    using assms unfolding wg_unique_def
    by (simp add: distinct_map inj_on_def)
  then have "distinct (map ?k (sort_key wg_timestamp wg))"
    using mset_eq_imp_distinct_iff [of "map ?k (sort_key wg_timestamp wg)" "map ?k wg"] by simp
  then have "get_available_locations wg = map wg_location (sort_key wg_timestamp wg)"
    by (simp add: get_available_locations_def distinct_remdups_id comp_def)
  then have "count (mset (get_available_locations wg)) loc = count (mset (map wg_location wg)) loc"
    by simp
  also have "\<dots> = length (filter (\<lambda>r. wg_location r = loc) wg)"
    by (simp only: count_mset) (induction wg; simp)
  finally show ?thesis .
qed

text \<open>A request that does not ask for a valid forecast (a GET, no location, days
  outside 1..7, or days that \<open>int()\<close> rejects) writes nothing; only the unparsable
  days escape, as the \<open>ValueError\<close> of \<open>int()\<close> (an HTTP 500).\<close>

theorem predictions_view_no_write:
  assumes "\<not> (pr_post req \<and> (\<exists>l. querydict_get (pr_form req) ''location'' = Some l \<and> l \<noteq> []) \<and>
              (\<exists>d. request_days req = Inr d \<and> 1 \<le> d \<and> d \<le> 7))"
  shows "(\<exists>e. predictions_view P wg tbl now req = Inl e \<and> request_days req = Inl e) \<or>
         (\<exists>ctx. predictions_view P wg tbl now req = Inr (ctx, tbl) \<and> ctx_predictions ctx = None)"
proof (cases "pr_post req")
  case False
  then show ?thesis by (simp add: predictions_view_def Let_def)
next
  case True
  show ?thesis
  proof (cases "request_days req")
    case (Inl e)
    with True show ?thesis by (simp add: predictions_view_def Let_def)
  next
    case (Inr d)
    show ?thesis
    proof (cases "querydict_get (pr_form req) ''location''")
      case None
      with True Inr show ?thesis by (simp add: predictions_view_def Let_def)
    next
      case (Some l)
      with assms True Inr have "l = [] \<or> d < 1 \<or> 7 < d" by auto
      with True Inr Some show ?thesis by (auto simp: predictions_view_def Let_def)
    qed
  qed
qed

text \<open>C36: A run over all locations (no location given) in which every forecast
  succeeds reaches every location of the history: each then has exactly \<open>days\<close>
  predictions, and the predictions of locations without history are untouched.\<close>

theorem generate_all_locations:
  assumes "\<forall>loc \<in> set (map wg_location wg). \<exists>m fc. train_model P (load_historic_data wg) loc = Inr m \<and>
             make_predictions P m days now = Inr fc \<and> map fst fc = future_dates days now"
  shows "\<exists>tbl'. generate_predictions P wg days None now tbl = (Inr True, tbl') \<and>
           list_all (\<lambda>loc. length (filter (\<lambda>p. wp_location p = loc) tbl') = nat days) (map wg_location wg) \<and>
           filter (\<lambda>p. wp_location p \<notin> set (map wg_location wg)) tbl' =
             filter (\<lambda>p. wp_location p \<notin> set (map wg_location wg)) tbl"
proof -
  let ?df = "load_historic_data wg"
  let ?locs = "pd_unique (map (\<lambda>(ds, y, l). l) ?df)"
  have set: "set ?locs = set (map wg_location wg)" by (simp only: pd_unique_set set_locations_historic)
  have h: "\<forall>loc \<in> set ?locs. \<exists>m fc. train_model P ?df loc = Inr m \<and>
      make_predictions P m days now = Inr fc \<and> map fst fc = future_dates days now"
    unfolding set by (rule assms)
  obtain tbl' where "generate_loop P ?df days now ?locs tbl = (Inr (), tbl')"
    and "\<forall>loc \<in> set ?locs. length (filter (\<lambda>p. wp_location p = loc) tbl') = nat days"
    and "filter (\<lambda>p. wp_location p \<notin> set ?locs) tbl' = filter (\<lambda>p. wp_location p \<notin> set ?locs) tbl"
    using generate_loop_all [OF pd_unique_distinct h, of tbl] by blast
  then show ?thesis
    unfolding set by (simp add: generate_predictions_def prediction_locations_def Let_def list_all_iff)
qed


subsection \<open>Witnesses\<close>

lemma available_locations_example: "get_available_locations ex_wg2 = [''Dhaka'', ''Khulna'', ''Dhaka'']"
  by (simp add: model_simps)

theorem prediction_failure_deletes_old_witness:
  "predictions_view ex_prophet ex_wg ex_wp ex_now (ex_post ''Dhaka'' ''3'') =
     Inr (\<lparr>ctx_locations = get_available_locations ex_wg, ctx_selected = Some ''Dhaka'', ctx_days = 3,
           ctx_predictions = None, ctx_messages = [GenerationError ValueError]\<rparr>,
          filter (\<lambda>p. wp_location p \<noteq> ''Dhaka'') ex_wp)"
  by (rule prediction_failure_deletes_old) (simp_all add: model_simps)

theorem generated_predictions_visible_witness:
  "generate_predictions ex_prophet ex_wg2 2 (Some ''Dhaka'') ex_now ex_wp =
     (Inr True, wp_delete_location ex_wp ''Dhaka'' @
        map (mk_prediction ''Dhaka'' ex_now) (map (\<lambda>d. (d, 9, 9, 9)) (future_dates 2 ex_now))) \<and>
   get_predictions (wp_delete_location ex_wp ''Dhaka'' @
        map (mk_prediction ''Dhaka'' ex_now) (map (\<lambda>d. (d, 9, 9, 9)) (future_dates 2 ex_now)))
     ''Dhaka'' 2 ex_now = map (mk_prediction ''Dhaka'' ex_now) (map (\<lambda>d. (d, 9, 9, 9)) (future_dates 2 ex_now))"
  by (rule generated_predictions_visible [where m = 9]) (simp_all add: model_simps)

theorem available_locations_repeat_witness:
  "count (mset (get_available_locations ex_wg2)) ''Dhaka'' =
     length (filter (\<lambda>r. wg_location r = ''Dhaka'') ex_wg2)"
  by (rule available_locations_repeat) (simp add: model_simps)

theorem predictions_view_no_write_witness:
  "(\<exists>e. predictions_view ex_prophet ex_wg ex_wp ex_now (ex_post ''Dhaka'' ''8'') = Inl e \<and>
        request_days (ex_post ''Dhaka'' ''8'') = Inl e) \<or>
   (\<exists>ctx. predictions_view ex_prophet ex_wg ex_wp ex_now (ex_post ''Dhaka'' ''8'') = Inr (ctx, ex_wp) \<and>
        ctx_predictions ctx = None)"
  by (rule predictions_view_no_write) (simp add: model_simps)

theorem generate_all_locations_witness:
  "\<exists>tbl'. generate_predictions ex_prophet ex_wg3 2 None ex_now ex_wp = (Inr True, tbl') \<and>
     list_all (\<lambda>loc. length (filter (\<lambda>p. wp_location p = loc) tbl') = nat 2) (map wg_location ex_wg3) \<and>
     filter (\<lambda>p. wp_location p \<notin> set (map wg_location ex_wg3)) tbl' =
       filter (\<lambda>p. wp_location p \<notin> set (map wg_location ex_wg3)) ex_wp"
  by (rule generate_all_locations) (simp add: model_simps)

end
