(* ===== verification/Orm_Models.thy ===== *)
theory Orm_Models
  imports Waste_Models Recommendation
begin

text \<open>
  The Django schema of the marketplace, \<open>src/main_app/models.py\<close> (lines 5--85), and
  the ORM calls that \<open>src/main_app/views.py\<close> makes on it. The database is a record
  of tables; a table is the list of its rows in primary-key order, and a query without
  \<open>order_by\<close> returns its rows in that order. Primary keys are Django's
  \<open>AutoField\<close>: a counter per table, advanced by every insertion and never reused
  (SQLite \<open>AUTOINCREMENT\<close>, a PostgreSQL sequence), as \<open>Ref.alloc\<close> advances
  \<open>lim\<close>. A foreign key is the primary key it refers to; a
  \<open>ManyToManyField\<close> is the list of the related keys, in the order they were added.
  \<open>FloatField\<close> and \<open>DecimalField\<close> values are rationals. \<open>CharField\<close> lengths are
  not checked by \<open>save()\<close> nor by SQLite, and are not modelled. The user table is
  Django's \<open>auth_user\<close>, of which the views read the primary key only.
\<close>

subsection \<open>Rows\<close>

record auth_user =
  au_id :: nat
  au_username :: string

text \<open>Lines 5--22.\<close>

record recycling_center =
  rc_id :: nat
  rc_name :: string
  rc_address :: string
  rc_city :: string
  rc_state :: string
  rc_zip_code :: string
  rc_latitude :: rat
  rc_longitude :: rat
  rc_phone :: "string option"
  rc_website :: "string option"
  rc_materials_accepted :: "string option"
  rc_hours_of_operation :: "string option"
  rc_is_active :: bool
  rc_created_at :: datetime
  rc_updated_at :: datetime

text \<open>Lines 25--34.\<close>

record category =
  cat_id :: nat
  cat_name :: string
  cat_description :: "string option"
  cat_created_at :: datetime

text \<open>Lines 37--58. \<open>status\<close> is a \<open>CharField\<close> with \<open>choices\<close>: the choices are
  checked by forms and \<open>full_clean\<close>, not by \<open>save()\<close>, so the column holds any string.
  The \<open>ImageField\<close> column holds the stored file's name, the empty string for none.\<close>

definition status_choices :: "string list" where
  "status_choices = [''available'', ''pending'', ''exchanged'']"

record marketplace_item =
  mi_id :: nat
  mi_title :: string
  mi_description :: string
  mi_category :: nat
  mi_condition :: string
  mi_owner :: nat
  mi_image :: string
  mi_status :: string
  mi_location :: string
  mi_is_featured :: bool
  mi_views_count :: nat
  mi_created_at :: datetime
  mi_updated_at :: datetime

text \<open>Lines 61--70: \<open>user\<close> is one-to-one, \<open>preferred_categories\<close> many-to-many.\<close>

record user_preference =
  up_id :: nat
  up_user :: nat
  up_categories :: "nat list"
  up_conditions :: "string option"
  up_locations :: "string option"
  up_created_at :: datetime
  up_updated_at :: datetime

text \<open>Lines 73--85: unique on \<open>(user, item)\<close>, ordered by \<open>-score\<close>.\<close>

record item_recommendation =
  ir_id :: nat
  ir_user :: nat
  ir_item :: nat
  ir_score :: rat
  ir_is_viewed :: bool
  ir_created_at :: datetime

record orm_db =
  db_users :: "auth_user list"
  db_centers :: "recycling_center list"
  db_categories :: "category list"
  db_items :: "marketplace_item list"
  db_prefs :: "user_preference list"
  db_recs :: "item_recommendation list"
  db_next_item :: nat
  db_next_pref :: nat
  db_next_rec :: nat

subsection \<open>\<open>__str__\<close>\<close>

definition center_str :: "recycling_center \<Rightarrow> string" where
  "center_str c = rc_name c"

definition category_str :: "category \<Rightarrow> string" where
  "category_str c = cat_name c"

definition item_str :: "marketplace_item \<Rightarrow> string" where
  "item_str i = mi_title i"

text \<open>The \<open>__str__\<close> of a preference and of a recommendation follow the foreign
  keys, which raises \<open>DoesNotExist\<close> when the row they refer to is gone.\<close>

definition user_of :: "orm_db \<Rightarrow> nat \<Rightarrow> py_error + auth_user" where
  "user_of db u = (case find (\<lambda>r. au_id r = u) (db_users db) of None \<Rightarrow> Inl DoesNotExist | Some r \<Rightarrow> Inr r)"

definition item_of :: "orm_db \<Rightarrow> nat \<Rightarrow> py_error + marketplace_item" where
  "item_of db i = (case find (\<lambda>r. mi_id r = i) (db_items db) of None \<Rightarrow> Inl DoesNotExist | Some r \<Rightarrow> Inr r)"

definition preference_str :: "orm_db \<Rightarrow> user_preference \<Rightarrow> py_error + string" where
  "preference_str db p = map_sum id (\<lambda>u. au_username u @ CHR 0x27 # ''s preferences'') (user_of db (up_user p))"

definition recommendation_str :: "orm_db \<Rightarrow> item_recommendation \<Rightarrow> py_error + string" where
  "recommendation_str db r =
     (case user_of db (ir_user r) of
        Inl e \<Rightarrow> Inl e
      | Inr u \<Rightarrow> map_sum id (\<lambda>i. ''Recommendation for '' @ au_username u @ '': '' @ mi_title i)
                   (item_of db (ir_item r)))"

subsection \<open>Integrity\<close>

text \<open>What the schema's constraints guarantee of every committed state: unique
  primary keys below the table's counter, foreign keys that refer to existing rows,
  the one-to-one user of a preference, no repeated row of a many-to-many relation,
  and \<open>unique_together = ('user', 'item')\<close>.\<close>

definition items_ok :: "orm_db \<Rightarrow> bool" where
  "items_ok db =
     (distinct (map mi_id (db_items db)) \<and>
      list_all (\<lambda>i. mi_id i < db_next_item db \<and>
                     mi_category i \<in> set (map cat_id (db_categories db)) \<and>
                     mi_owner i \<in> set (map au_id (db_users db))) (db_items db))"

definition prefs_ok :: "orm_db \<Rightarrow> bool" where
  "prefs_ok db =
     (distinct (map up_id (db_prefs db)) \<and>
      distinct (map up_user (db_prefs db)) \<and>
      list_all (\<lambda>p. up_id p < db_next_pref db \<and>
                     up_user p \<in> set (map au_id (db_users db)) \<and>
                     distinct (up_categories p) \<and>
                     set (up_categories p) \<subseteq> set (map cat_id (db_categories db))) (db_prefs db))"

definition recs_ok :: "orm_db \<Rightarrow> bool" where
  "recs_ok db =
     (distinct (map ir_id (db_recs db)) \<and>
      distinct (map (\<lambda>r. (ir_user r, ir_item r)) (db_recs db)) \<and>
      list_all (\<lambda>r. ir_id r < db_next_rec db \<and>
                     ir_user r \<in> set (map au_id (db_users db)) \<and>
                     ir_item r \<in> set (map mi_id (db_items db))) (db_recs db))"

definition orm_wf :: "orm_db \<Rightarrow> bool" where
  "orm_wf db =
     (distinct (map au_id (db_users db)) \<and> distinct (map cat_id (db_categories db)) \<and>
      items_ok db \<and> prefs_ok db \<and> recs_ok db)"

abbreviation rec_pairs :: "orm_db \<Rightarrow> (nat \<times> nat) list" where
  "rec_pairs db \<equiv> map (\<lambda>r. (ir_user r, ir_item r)) (db_recs db)"

subsection \<open>ORM operations on items\<close>

text \<open>\<open>get_object_or_404(MarketplaceItem, id=i)\<close>, with the extra condition of
  \<open>owner=request.user\<close> where the view adds it.\<close>

definition get_item_404 :: "orm_db \<Rightarrow> nat \<Rightarrow> (marketplace_item \<Rightarrow> bool) \<Rightarrow> py_error + marketplace_item" where
  "get_item_404 db i P =
     (case find (\<lambda>r. mi_id r = i \<and> P r) (db_items db) of None \<Rightarrow> Inl Http404 | Some r \<Rightarrow> Inr r)"

definition get_category_404 :: "orm_db \<Rightarrow> int \<Rightarrow> py_error + category" where
  "get_category_404 db c =
     (case find (\<lambda>r. int (cat_id r) = c) (db_categories db) of None \<Rightarrow> Inl Http404 | Some r \<Rightarrow> Inr r)"

text \<open>\<open>MarketplaceItem(...).save()\<close> of a new row: an \<open>INSERT\<close> with the next key;
  \<open>auto_now_add\<close> and \<open>auto_now\<close> both set the time of the call.\<close>

definition insert_item :: "orm_db \<Rightarrow> marketplace_item \<Rightarrow> datetime \<Rightarrow> nat \<times> orm_db" where
  "insert_item db it now =
     (let k = db_next_item db
      in (k, db\<lparr>db_items := db_items db @ [it\<lparr>mi_id := k, mi_created_at := now, mi_updated_at := now\<rparr>],
                db_next_item := Suc k\<rparr>))"

text \<open>\<open>item.save()\<close> of a row read in the same request: an \<open>UPDATE\<close> of every column of
  the row with that key, \<open>updated_at\<close> set to the time of the call.\<close>

definition save_item :: "orm_db \<Rightarrow> marketplace_item \<Rightarrow> datetime \<Rightarrow> orm_db" where
  "save_item db it now =
     db\<lparr>db_items := map (\<lambda>r. if mi_id r = mi_id it then it\<lparr>mi_updated_at := now\<rparr> else r) (db_items db)\<rparr>"

text \<open>\<open>item.delete()\<close>: the \<open>CASCADE\<close> of \<open>ItemRecommendation.item\<close> deletes the
  recommendations of the item, in the same transaction.\<close>

definition delete_item_cascade :: "orm_db \<Rightarrow> nat \<Rightarrow> orm_db" where
  "delete_item_cascade db i =
     db\<lparr>db_items := filter (\<lambda>r. mi_id r \<noteq> i) (db_items db),
        db_recs := filter (\<lambda>r. ir_item r \<noteq> i) (db_recs db)\<rparr>"

subsection \<open>ORM operations on preferences\<close>

text \<open>\<open>objects.get(...)\<close> on the rows a test selects.\<close>

definition orm_get :: "('r \<Rightarrow> bool) \<Rightarrow> 'r list \<Rightarrow> py_error + 'r" where
  "orm_get P rs = (case filter P rs of [] \<Rightarrow> Inl DoesNotExist | [r] \<Rightarrow> Inr r | _ \<Rightarrow> Inl MultipleObjectsReturned)"

text \<open>\<open>UserPreference.objects.create(user=u)\<close>: nullable columns \<open>None\<close>, no
  related category.\<close>

definition create_pref :: "orm_db \<Rightarrow> nat \<Rightarrow> datetime \<Rightarrow> user_preference \<times> orm_db" where
  "create_pref db u now =
     (let k = db_next_pref db;
          p = \<lparr>up_id = k, up_user = u, up_categories = [], up_conditions = None, up_locations = None,
               up_created_at = now, up_updated_at = now\<rparr>
      in (p, db\<lparr>db_prefs := db_prefs db @ [p], db_next_pref := Suc k\<rparr>))"

text \<open>\<open>UserPreference.objects.get_or_create(user=u)\<close>.\<close>

definition get_or_create_pref :: "orm_db \<Rightarrow> nat \<Rightarrow> datetime \<Rightarrow> py_error + (user_preference \<times> orm_db)" where
  "get_or_create_pref db u now =
     (case orm_get (\<lambda>p. up_user p = u) (db_prefs db) of
        Inr p \<Rightarrow> Inr (p, db)
      | Inl DoesNotExist \<Rightarrow> Inr (create_pref db u now)
      | Inl e \<Rightarrow> Inl e)"

text \<open>The related manager of \<open>preferred_categories\<close>: \<open>add\<close> inserts the rows of
  the through table that are missing, \<open>clear\<close> deletes them all. Each call writes the
  through table at once and leaves the Python object \<open>preferences\<close> untouched, so
  the model updates the stored row and the caller's copy alike.\<close>

definition set_pref_row :: "orm_db \<Rightarrow> user_preference \<Rightarrow> orm_db" where
  "set_pref_row db p = db\<lparr>db_prefs := map (\<lambda>r. if up_id r = up_id p then p else r) (db_prefs db)\<rparr>"

definition pref_add :: "orm_db \<Rightarrow> user_preference \<Rightarrow> nat \<Rightarrow> user_preference \<times> orm_db" where
  "pref_add db p c =
     (let p' = if c \<in> set (up_categories p) then p else p\<lparr>up_categories := up_categories p @ [c]\<rparr>
      in (p', set_pref_row db p'))"

definition pref_clear :: "orm_db \<Rightarrow> user_preference \<Rightarrow> user_preference \<times> orm_db" where
  "pref_clear db p = (let p' = p\<lparr>up_categories := []\<rparr> in (p', set_pref_row db p'))"

text \<open>\<open>preferences.save()\<close>: the row's own columns, \<open>updated_at\<close> set to now; the
  many-to-many rows are not written by \<open>save()\<close>.\<close>

definition save_pref :: "orm_db \<Rightarrow> user_preference \<Rightarrow> datetime \<Rightarrow> orm_db" where
  "save_pref db p now =
     db\<lparr>db_prefs := map (\<lambda>r. if up_id r = up_id p
                               then r\<lparr>up_conditions := up_conditions p, up_locations := up_locations p,
                                      up_updated_at := now\<rparr>
                               else r) (db_prefs db)\<rparr>"

subsection \<open>ORM operations on recommendations\<close>

text \<open>\<open>ItemRecommendation.objects.get_or_create(user=u, item=i, defaults={'score': s})\<close>:
  the row found, or a new row with \<open>is_viewed = False\<close>; the flag says whether it was
  created.\<close>

definition get_or_create_rec ::
  "orm_db \<Rightarrow> nat \<Rightarrow> nat \<Rightarrow> rat \<Rightarrow> datetime \<Rightarrow> py_error + (item_recommendation \<times> bool \<times> orm_db)" where
  "get_or_create_rec db u i s now =
     (case orm_get (\<lambda>r. ir_user r = u \<and> ir_item r = i) (db_recs db) of
        Inr r \<Rightarrow> Inr (r, False, db)
      | Inl DoesNotExist \<Rightarrow>
          (let k = db_next_rec db;
               r = \<lparr>ir_id = k, ir_user = u, ir_item = i, ir_score = s, ir_is_viewed = False,
                    ir_created_at = now\<rparr>
           in Inr (r, True, db\<lparr>db_recs := db_recs db @ [r], db_next_rec := Suc k\<rparr>))
      | Inl e \<Rightarrow> Inl e)"

definition save_rec :: "orm_db \<Rightarrow> item_recommendation \<Rightarrow> orm_db" where
  "save_rec db r = db\<lparr>db_recs := map (\<lambda>x. if ir_id x = ir_id r then r else x) (db_recs db)\<rparr>"

lemmas orm_defs [model_simps] = get_item_404_def get_category_404_def insert_item_def save_item_def
  delete_item_cascade_def orm_get_def create_pref_def get_or_create_pref_def set_pref_row_def
  pref_add_def pref_clear_def save_pref_def get_or_create_rec_def save_rec_def

subsection \<open>Integrity of the operations\<close>

text \<open>Each ORM operation keeps \<^const>\<open>orm_wf\<close> under the conditions the database
  would check (foreign keys that exist) or the views establish (the row saved is the
  row read).\<close>

lemma map_key_replace [simp]:
  "k y = k x \<Longrightarrow> map k (map (\<lambda>r. if k r = k x then y else r) xs) = map k xs"
  by (induction xs) auto

lemma in_map_replace:
  "x \<in> set (map (\<lambda>r. if c r then y else r) xs) \<Longrightarrow> x \<in> set xs \<or> (x = y \<and> (\<exists>r\<in>set xs. c r))"
  by auto

lemma filter_map_replace:
  "\<forall>y\<in>set xs. c y \<longrightarrow> \<not> P y \<Longrightarrow> \<not> P y' \<Longrightarrow> filter P (map (\<lambda>y. if c y then y' else y) xs) = filter P xs"
  by (induction xs) auto

lemma items_ok_frame [simp]:
  "items_ok (db\<lparr>db_prefs := ps\<rparr>) = items_ok db" "items_ok (db\<lparr>db_recs := rs\<rparr>) = items_ok db"
  "items_ok (db\<lparr>db_next_pref := n\<rparr>) = items_ok db" "items_ok (db\<lparr>db_next_rec := n\<rparr>) = items_ok db"
  by (simp_all add: items_ok_def)

lemma prefs_ok_frame [simp]:
  "prefs_ok (db\<lparr>db_items := is\<rparr>) = prefs_ok db" "prefs_ok (db\<lparr>db_recs := rs\<rparr>) = prefs_ok db"
  "prefs_ok (db\<lparr>db_next_item := n\<rparr>) = prefs_ok db" "prefs_ok (db\<lparr>db_next_rec := n\<rparr>) = prefs_ok db"
  by (simp_all add: prefs_ok_def)

lemma recs_ok_frame [simp]:
  "recs_ok (db\<lparr>db_prefs := ps\<rparr>) = recs_ok db" "recs_ok (db\<lparr>db_next_pref := n\<rparr>) = recs_ok db"
  "recs_ok (db\<lparr>db_next_item := n\<rparr>) = recs_ok db"
  by (simp_all add: recs_ok_def)

lemma recs_ok_items_mono:
  "recs_ok db \<Longrightarrow> set (map mi_id (db_items db)) \<subseteq> set (map mi_id is) \<Longrightarrow> recs_ok (db\<lparr>db_items := is\<rparr>)"
  by (auto simp: recs_ok_def list_all_iff)

lemma map_id_save_item [simp]: "map mi_id (db_items (save_item db it now)) = map mi_id (db_items db)"
  by (simp add: save_item_def)

lemma save_item_wf:
  assumes "orm_wf db" "mi_category it \<in> set (map cat_id (db_categories db))"
    "mi_owner it \<in> set (map au_id (db_users db))"
  shows "orm_wf (save_item db it now)"
proof -
  have "recs_ok (db\<lparr>db_items := db_items (save_item db it now)\<rparr>)"
    using assms(1) by (intro recs_ok_items_mono) (simp_all add: orm_wf_def)
  then have "recs_ok (save_item db it now)" by (simp add: save_item_def)
  moreover have "items_ok (save_item db it now)"
    unfolding items_ok_def list_all_iff
  proof (rule conjI, use assms(1) in \<open>simp add: orm_wf_def items_ok_def\<close>, intro ballI)
    fix x assume "x \<in> set (db_items (save_item db it now))"
    then have "x \<in> set (db_items db) \<or> (x = it\<lparr>mi_updated_at := now\<rparr> \<and> (\<exists>r\<in>set (db_items db). mi_id r = mi_id it))"
      unfolding save_item_def by (intro in_map_replace) simp
    then show "mi_id x < db_next_item (save_item db it now) \<and>
          mi_category x \<in> set (map cat_id (db_categories (save_item db it now))) \<and>
          mi_owner x \<in> set (map au_id (db_users (save_item db it now)))"
      using assms by (auto simp: orm_wf_def items_ok_def list_all_iff save_item_def)
  qed
  ultimately show ?thesis using assms(1) by (simp add: orm_wf_def save_item_def)
qed

lemma insert_item_wf:
  assumes "orm_wf db" "mi_category it \<in> set (map cat_id (db_categories db))"
    "mi_owner it \<in> set (map au_id (db_users db))"
  shows "orm_wf (snd (insert_item db it now))"
proof -
  have "mi_id i < db_next_item db" if "i \<in> set (db_items db)" for i
    using assms(1) that by (auto simp: orm_wf_def items_ok_def list_all_iff)
  then have "db_next_item db \<notin> set (map mi_id (db_items db))" by fastforce
  then have "items_ok (snd (insert_item db it now))"
    using assms by (auto simp: orm_wf_def items_ok_def insert_item_def list_all_iff Let_def)
  moreover have "recs_ok (snd (insert_item db it now))"
    using assms(1) recs_ok_items_mono [of db "db_items db @ [it\<lparr>mi_id := db_next_item db, mi_created_at := now, mi_updated_at := now\<rparr>]"]
    by (auto simp: orm_wf_def insert_item_def Let_def)
  ultimately show ?thesis using assms(1) by (simp add: orm_wf_def insert_item_def Let_def)
qed

lemma delete_item_cascade_wf: "orm_wf db \<Longrightarrow> orm_wf (delete_item_cascade db i)"
  by (auto simp: orm_wf_def items_ok_def prefs_ok_def recs_ok_def delete_item_cascade_def list_all_iff
        distinct_map_filter)

lemma map_replace_same:
  assumes "distinct (map k xs)" "x \<in> set xs" "f y = f x"
  shows "map f (map (\<lambda>r. if k r = k x then y else r) xs) = map f xs"
proof -
  have "r = x" if "r \<in> set xs" "k r = k x" for r
    using assms(1,2) that inj_on_eq_iff [of k "set xs"] by (simp add: distinct_map)
  then show ?thesis using assms(3) by (auto intro: map_cong)
qed

lemma set_pref_row_wf:
  assumes "orm_wf db" "p \<in> set (db_prefs db)" "up_id p' = up_id p" "up_user p' = up_user p"
    "distinct (up_categories p')" "set (up_categories p') \<subseteq> set (map cat_id (db_categories db))"
  shows "orm_wf (set_pref_row db p') \<and> p' \<in> set (db_prefs (set_pref_row db p'))"
proof -
  have d: "distinct (map up_id (db_prefs db))" using assms(1) by (simp add: orm_wf_def prefs_ok_def)
  have rep: "db_prefs (set_pref_row db p') = map (\<lambda>r. if up_id r = up_id p then p' else r) (db_prefs db)"
    using assms(3) by (simp add: set_pref_row_def)
  have u: "map up_user (db_prefs (set_pref_row db p')) = map up_user (db_prefs db)"
    unfolding rep using map_replace_same [OF d assms(2), where f = up_user and y = p'] assms(4) by simp
  have i: "map up_id (db_prefs (set_pref_row db p')) = map up_id (db_prefs db)"
    unfolding rep using assms(3) by simp
  have mem: "p' \<in> set (db_prefs (set_pref_row db p'))"
    unfolding rep using assms(2) by force
  have "\<forall>x\<in>set (db_prefs (set_pref_row db p')). up_id x < db_next_pref (set_pref_row db p') \<and>
          up_user x \<in> set (map au_id (db_users (set_pref_row db p'))) \<and>
          distinct (up_categories x) \<and>
          set (up_categories x) \<subseteq> set (map cat_id (db_categories (set_pref_row db p')))"
  proof
    fix x assume "x \<in> set (db_prefs (set_pref_row db p'))"
    then have "x \<in> set (db_prefs db) \<or> x = p'" unfolding rep using in_map_replace by fastforce
    then show "up_id x < db_next_pref (set_pref_row db p') \<and>
          up_user x \<in> set (map au_id (db_users (set_pref_row db p'))) \<and>
          distinct (up_categories x) \<and>
          set (up_categories x) \<subseteq> set (map cat_id (db_categories (set_pref_row db p')))"
      using assms by (auto simp: orm_wf_def prefs_ok_def list_all_iff set_pref_row_def)
  qed
  then have "prefs_ok (set_pref_row db p')"
    using u i d assms(1) by (simp add: orm_wf_def prefs_ok_def list_all_iff)
  then show ?thesis using assms(1) mem by (simp add: orm_wf_def set_pref_row_def)
qed

lemma pref_clear_wf:
  assumes "orm_wf db" "p \<in> set (db_prefs db)"
  shows "orm_wf (snd (pref_clear db p)) \<and> fst (pref_clear db p) \<in> set (db_prefs (snd (pref_clear db p))) \<and>
         up_user (fst (pref_clear db p)) = up_user p \<and> up_categories (fst (pref_clear db p)) = []"
  using set_pref_row_wf [OF assms, of "p\<lparr>up_categories := []\<rparr>"] by (simp add: pref_clear_def Let_def)

lemma pref_add_wf:
  assumes "orm_wf db" "p \<in> set (db_prefs db)" "c \<in> set (map cat_id (db_categories db))"
  shows "orm_wf (snd (pref_add db p c)) \<and> fst (pref_add db p c) \<in> set (db_prefs (snd (pref_add db p c))) \<and>
         up_user (fst (pref_add db p c)) = up_user p \<and>
         set (up_categories (fst (pref_add db p c))) = insert c (set (up_categories p))"
proof -
  have "distinct (up_categories p) \<and> set (up_categories p) \<subseteq> set (map cat_id (db_categories db))"
    using assms(1,2) by (auto simp: orm_wf_def prefs_ok_def list_all_iff)
  then show ?thesis
    using set_pref_row_wf [OF assms(1,2), of "fst (pref_add db p c)"] assms(3)
    by (auto simp: pref_add_def Let_def)
qed

lemma save_pref_wf:
  assumes "orm_wf db"
  shows "orm_wf (save_pref db p now)"
proof -
  let ?f = "\<lambda>r. if up_id r = up_id p then r\<lparr>up_conditions := up_conditions p, up_locations := up_locations p,
                                           up_updated_at := now\<rparr> else r"
  have m: "map up_id (map ?f xs) = map up_id xs" "map up_user (map ?f xs) = map up_user xs" for xs
    by (induction xs) auto
  have "\<exists>y\<in>set xs. up_id x = up_id y \<and> up_user x = up_user y \<and> up_categories x = up_categories y"
    if "x \<in> set (map ?f xs)" for x xs
    using that by (induction xs) auto
  note ex = this
  have rows: "db_prefs (save_pref db p now) = map ?f (db_prefs db)" by (simp add: save_pref_def)
  have "prefs_ok (save_pref db p now)"
    unfolding prefs_ok_def list_all_iff rows
  proof (intro conjI)
    show "distinct (map up_id (map ?f (db_prefs db)))"
      unfolding m using assms by (simp add: orm_wf_def prefs_ok_def)
    show "distinct (map up_user (map ?f (db_prefs db)))"
      unfolding m using assms by (simp add: orm_wf_def prefs_ok_def)
    show "\<forall>x\<in>set (map ?f (db_prefs db)). up_id x < db_next_pref (save_pref db p now) \<and>
          up_user x \<in> set (map au_id (db_users (save_pref db p now))) \<and>
          distinct (up_categories x) \<and>
          set (up_categories x) \<subseteq> set (map cat_id (db_categories (save_pref db p now)))"
    proof
      fix x assume "x \<in> set (map ?f (db_prefs db))"
      then obtain y where "y \<in> set (db_prefs db)" "up_id x = up_id y" "up_user x = up_user y"
        "up_categories x = up_categories y" using ex by blast
      then show "up_id x < db_next_pref (save_pref db p now) \<and>
          up_user x \<in> set (map au_id (db_users (save_pref db p now))) \<and>
          distinct (up_categories x) \<and>
          set (up_categories x) \<subseteq> set (map cat_id (db_categories (save_pref db p now)))"
        using assms by (auto simp: orm_wf_def prefs_ok_def list_all_iff save_pref_def)
    qed
  qed
  then show ?thesis using assms by (simp add: orm_wf_def save_pref_def)
qed

lemma orm_get_le1:
  assumes "length (filter P rs) \<le> 1"
  obtains (found) r where "orm_get P rs = Inr r" "r \<in> set rs" "P r"
    | (none) "orm_get P rs = Inl DoesNotExist" "\<forall>r\<in>set rs. \<not> P r"
proof (cases "filter P rs")
  case Nil
  then show ?thesis using none by (simp add: orm_get_def filter_empty_conv)
next
  case (Cons r rs')
  then have "rs' = []" using assms by simp
  moreover have "r \<in> set (filter P rs)" using Cons by simp
  then have "r \<in> set rs" "P r" by auto
  ultimately show ?thesis using found Cons by (simp add: orm_get_def)
qed


lemma rec_le1: "orm_wf db \<Longrightarrow> length (filter (\<lambda>r. ir_user r = u \<and> ir_item r = i) (db_recs db)) \<le> 1"
  using distinct_map_filter_eq_le1 [of "\<lambda>r. (ir_user r, ir_item r)" "db_recs db" "(u, i)"]
  by (simp add: orm_wf_def recs_ok_def)

lemma get_or_create_rec_cases:
  assumes "orm_wf db"
  obtains (found) r where "get_or_create_rec db u i s now = Inr (r, False, db)" "r \<in> set (db_recs db)"
      "ir_user r = u" "ir_item r = i"
    | (created) "get_or_create_rec db u i s now =
        Inr (\<lparr>ir_id = db_next_rec db, ir_user = u, ir_item = i, ir_score = s, ir_is_viewed = False, ir_created_at = now\<rparr>,
             True, db\<lparr>db_recs := db_recs db @ [\<lparr>ir_id = db_next_rec db, ir_user = u, ir_item = i, ir_score = s,
                                                  ir_is_viewed = False, ir_created_at = now\<rparr>],
                       db_next_rec := Suc (db_next_rec db)\<rparr>)"
      "(u, i) \<notin> set (rec_pairs db)"
  using rec_le1 [OF assms, of u i]
proof (cases rule: orm_get_le1)
  case (found r)
  then show ?thesis using that(1) by (simp add: get_or_create_rec_def)
next
  case none
  then show ?thesis using that(2) by (auto simp: get_or_create_rec_def Let_def)
qed

lemma create_rec_wf:
  assumes "orm_wf db" "u \<in> set (map au_id (db_users db))" "i \<in> set (map mi_id (db_items db))"
    "(u, i) \<notin> set (rec_pairs db)"
  shows "orm_wf (db\<lparr>db_recs := db_recs db @ [\<lparr>ir_id = db_next_rec db, ir_user = u, ir_item = i, ir_score = s,
                                                  ir_is_viewed = False, ir_created_at = now\<rparr>],
                       db_next_rec := Suc (db_next_rec db)\<rparr>)"
proof -
  have "ir_id r < db_next_rec db" if "r \<in> set (db_recs db)" for r
    using assms(1) that by (auto simp: orm_wf_def recs_ok_def list_all_iff)
  then have "db_next_rec db \<notin> set (map ir_id (db_recs db))" by fastforce
  then show ?thesis using assms
    by (auto simp: orm_wf_def recs_ok_def items_ok_def prefs_ok_def list_all_iff less_Suc_eq)
qed

lemma save_rec_wf:
  assumes "orm_wf db" "r \<in> set (db_recs db)"
  shows "orm_wf (save_rec db (r\<lparr>ir_score := x\<rparr>))"
    "rec_pairs (save_rec db (r\<lparr>ir_score := x\<rparr>)) = rec_pairs db"
    "ir_user r = u \<Longrightarrow>
       filter (\<lambda>r. ir_user r \<noteq> u) (db_recs (save_rec db (r\<lparr>ir_score := x\<rparr>))) =
       filter (\<lambda>r. ir_user r \<noteq> u) (db_recs db)"
proof -
  have d: "distinct (map ir_id (db_recs db))" using assms(1) by (simp add: orm_wf_def recs_ok_def)
  have rows: "db_recs (save_rec db (r\<lparr>ir_score := x\<rparr>)) =
      map (\<lambda>y. if ir_id y = ir_id r then r\<lparr>ir_score := x\<rparr> else y) (db_recs db)"
    by (simp add: save_rec_def)
  show pairs: "rec_pairs (save_rec db (r\<lparr>ir_score := x\<rparr>)) = rec_pairs db"
    unfolding rows using map_replace_same [OF d assms(2), where f = "\<lambda>r. (ir_user r, ir_item r)"] by simp
  have ids: "map ir_id (db_recs (save_rec db (r\<lparr>ir_score := x\<rparr>))) = map ir_id (db_recs db)"
    unfolding rows by simp
  have mem: "y \<in> set (db_recs db) \<or> y = r\<lparr>ir_score := x\<rparr>"
    if "y \<in> set (db_recs (save_rec db (r\<lparr>ir_score := x\<rparr>)))" for y
    using that unfolding rows by auto
  have fields: "db_next_rec (save_rec db (r\<lparr>ir_score := x\<rparr>)) = db_next_rec db"
    "db_users (save_rec db (r\<lparr>ir_score := x\<rparr>)) = db_users db"
    "db_items (save_rec db (r\<lparr>ir_score := x\<rparr>)) = db_items db"
    by (simp_all add: save_rec_def)
  have "recs_ok (save_rec db (r\<lparr>ir_score := x\<rparr>))"
    unfolding recs_ok_def ids pairs fields list_all_iff
    using assms mem by (fastforce simp: orm_wf_def recs_ok_def list_all_iff)
  then show "orm_wf (save_rec db (r\<lparr>ir_score := x\<rparr>))"
    using assms(1) by (simp add: orm_wf_def save_rec_def)
  have same: "y = r" if "y \<in> set (db_recs db)" "ir_id y = ir_id r" for y
    using d assms(2) that inj_on_eq_iff [of ir_id "set (db_recs db)"] by (simp add: distinct_map)
  show "filter (\<lambda>r. ir_user r \<noteq> u) (db_recs (save_rec db (r\<lparr>ir_score := x\<rparr>))) =
       filter (\<lambda>r. ir_user r \<noteq> u) (db_recs db)" if "ir_user r = u"
    unfolding rows using that same by (intro filter_map_replace) auto
qed

lemma create_pref_wf:
  assumes "orm_wf db" "u \<in> set (map au_id (db_users db))" "u \<notin> set (map up_user (db_prefs db))"
  shows "orm_wf (snd (create_pref db u now)) \<and> fst (create_pref db u now) \<in> set (db_prefs (snd (create_pref db u now))) \<and>
         up_user (fst (create_pref db u now)) = u \<and> up_categories (fst (create_pref db u now)) = [] \<and>
         (\<exists>ps. snd (create_pref db u now) = db\<lparr>db_prefs := ps, db_next_pref := Suc (db_next_pref db)\<rparr>)"
proof -
  have "up_id p < db_next_pref db" if "p \<in> set (db_prefs db)" for p
    using assms(1) that by (auto simp: orm_wf_def prefs_ok_def list_all_iff)
  then have "db_next_pref db \<notin> set (map up_id (db_prefs db))" by fastforce
  then show ?thesis using assms
    by (auto simp: orm_wf_def prefs_ok_def create_pref_def Let_def list_all_iff less_Suc_eq)
qed

lemma get_or_create_pref_wf:
  assumes "orm_wf db" "u \<in> set (map au_id (db_users db))"
  shows "\<exists>p db1. get_or_create_pref db u now = Inr (p, db1) \<and> orm_wf db1 \<and> p \<in> set (db_prefs db1) \<and>
           up_user p = u \<and> (\<exists>ps n. db1 = db\<lparr>db_prefs := ps, db_next_pref := n\<rparr>)"
proof -
  have "length (filter (\<lambda>p. up_user p = u) (db_prefs db)) \<le> 1"
    using assms(1) distinct_map_filter_eq_le1 [of up_user "db_prefs db" u] by (simp add: orm_wf_def prefs_ok_def)
  then show ?thesis
  proof (cases rule: orm_get_le1)
    case (found r)
    then show ?thesis using assms(1) by (auto simp: get_or_create_pref_def intro!: exI [of _ "db_prefs db"] exI [of _ "db_next_pref db"])
  next
    case none
    then have nu: "u \<notin> set (map up_user (db_prefs db))" by auto
    obtain p db1 where c: "create_pref db u now = (p, db1)" by fastforce
    show ?thesis using create_pref_wf [OF assms nu, of now] none(1) c
      by (auto simp: get_or_create_pref_def)
  qed
qed

lemma find_SomeD: "find P xs = Some x \<Longrightarrow> x \<in> set xs \<and> P x"
  by (induction xs) (auto split: if_splits)

lemma get_item_404_Inr:
  "get_item_404 db i P = Inr it \<Longrightarrow> it \<in> set (db_items db) \<and> mi_id it = i \<and> P it"
  by (auto simp: get_item_404_def split: option.splits dest: find_SomeD)

lemma get_item_404_Inl:
  "get_item_404 db i P = Inl e \<longleftrightarrow> e = Http404 \<and> (\<forall>it\<in>set (db_items db). mi_id it = i \<longrightarrow> \<not> P it)"
  by (auto simp: get_item_404_def find_None_iff split: option.split dest: find_SomeD)

lemma item_fk:
  "orm_wf db \<Longrightarrow> it \<in> set (db_items db) \<Longrightarrow>
     mi_category it \<in> set (map cat_id (db_categories db)) \<and> mi_owner it \<in> set (map au_id (db_users db))"
  by (auto simp: orm_wf_def items_ok_def list_all_iff)

lemma get_category_404_Inr: "get_category_404 db c = Inr x \<Longrightarrow> x \<in> set (db_categories db)"
  by (auto simp: get_category_404_def split: option.splits dest: find_SomeD)

end
