(* ===== verification/Orm_Views.thy ===== *)
theory Orm_Views
  imports Orm_Models Web_Views Waste_Prediction
begin

text \<open>
  The Django-ORM marketplace views of \<open>src/main_app/views.py\<close> over the schema of
  \<open>Orm_Models\<close>. A request is the one of \<open>Web_Views\<close>; the authenticated user
  is \<open>Some\<close> primary key, an anonymous one \<open>None\<close>. A handler returns its response
  or the exception that escapes it, with the database it leaves: Django autocommits each
  statement, so the writes made before an exception stay. Templates and flash messages
  are not modelled; a rendered page is named by its template, a redirect by its URL
  name, or by its path for \<open>item_detail\<close>. \<open>np.random.uniform(0, 0.1)\<close> is a
  stream \<open>rnd\<close> of draws, one per scored item. \<open>UserCreationForm\<close> of
  \<open>django.contrib.auth\<close> (its validation and the user row it saves) is a parameter of
  \<open>register\<close>: \<open>None\<close> for an invalid form, otherwise the new user.
\<close>

subsection \<open>\<open>home\<close> and \<open>register\<close>\<close>

text \<open>Lines 11--12.\<close>

definition orm_home :: response where
  "orm_home = Render ''main_app/home.html''"

text \<open>Lines 15--25: a valid POST saves the form's user and redirects to the login page;
  otherwise the form is rendered again.\<close>

definition orm_register :: "orm_db \<Rightarrow> request \<Rightarrow> auth_user option \<Rightarrow> response \<times> orm_db" where
  "orm_register db req form =
     (if req_post req then
        (case form of
           None \<Rightarrow> (Render ''main_app/register.html'', db)
         | Some u \<Rightarrow> (Redirect ''login'', db\<lparr>db_users := db_users db @ [u]\<rparr>))
      else (Render ''main_app/register.html'', db))"

subsection \<open>Shared pieces\<close>

text \<open>\<open>@login_required\<close>: an anonymous request is sent to \<open>settings.LOGIN_URL\<close>
  (Django's default; the \<open>next\<close> parameter is not modelled).\<close>

definition login_url :: string where
  "login_url = ''/accounts/login/''"

definition login_required ::
  "nat option \<Rightarrow> orm_db \<Rightarrow> (nat \<Rightarrow> (py_error + response) \<times> orm_db) \<Rightarrow> (py_error + response) \<times> orm_db" where
  "login_required user db f = (case user of None \<Rightarrow> (Inr (Redirect login_url), db) | Some u \<Rightarrow> f u)"

definition item_url :: "nat \<Rightarrow> response" where
  "item_url i = Redirect (''/marketplace/item/'' @ nat_str i @ ''/'')"

text \<open>\<open>get_object_or_404(Category, id=s)\<close> with a form string: the lookup value goes
  through \<open>AutoField.get_prep_value\<close>, whose \<open>int(s)\<close> raises \<open>ValueError\<close>.\<close>

definition category_lookup :: "orm_db \<Rightarrow> string \<Rightarrow> py_error + category" where
  "category_lookup db s = (case py_int s of Inl e \<Rightarrow> Inl e | Inr c \<Rightarrow> get_category_404 db c)"

definition available :: "marketplace_item \<Rightarrow> bool" where
  "available i = (mi_status i = ''available'')"

text \<open>\<open>order_by('-f')\<close>: descending, rows with equal keys in primary-key order.\<close>

definition order_desc :: "('a \<Rightarrow> 'k::linordered_idom) \<Rightarrow> 'a list \<Rightarrow> 'a list" where
  "order_desc f xs = sort_key (\<lambda>x. - f x) xs"

text \<open>\<open>__icontains\<close> on SQLite: \<open>LIKE\<close>, case-insensitive for ASCII letters.\<close>

definition icontains :: "string \<Rightarrow> string \<Rightarrow> bool" where
  "icontains s q = sublist (py_lower q) (py_lower s)"

subsection \<open>The recommendation score (lines 282--319)\<close>

text \<open>\<open>if prefs:\<close> then \<open>v in [c.strip() for c in prefs.split(',')]\<close>; the column
  is nullable.\<close>

definition pref_listed :: "string option \<Rightarrow> string \<Rightarrow> bool" where
  "pref_listed prefs v =
     (case prefs of None \<Rightarrow> False | Some s \<Rightarrow> s \<noteq> [] \<and> v \<in> set (map py_strip (py_split CHR '','' s)))"

text \<open>A model instance is always true, so \<open>if viewed_item:\<close> always holds; model
  instances compare by primary key.\<close>

definition orm_score :: "marketplace_item \<Rightarrow> user_preference \<Rightarrow> marketplace_item \<Rightarrow> rat \<Rightarrow> rat" where
  "orm_score item prefs viewed rnd =
     min ((if mi_category item \<in> set (up_categories prefs) then 0.4 else 0) +
          (if pref_listed (up_conditions prefs) (mi_condition item) then 0.2 else 0) +
          (if pref_listed (up_locations prefs) (mi_location item) then 0.2 else 0) +
          (if mi_category item = mi_category viewed then 0.1 else 0) +
          (if mi_condition item = mi_condition viewed then 0.05 else 0) +
          (if mi_location item = mi_location viewed then 0.05 else 0) + rnd) 1"

subsection \<open>\<open>update_recommendations\<close> (lines 251--280)\<close>

text \<open>Lines 254--259: the preference of the user, or a new one whose only category
  is the viewed item's.\<close>

definition prefs_for :: "orm_db \<Rightarrow> nat \<Rightarrow> marketplace_item \<Rightarrow> datetime \<Rightarrow> py_error + (user_preference \<times> orm_db)" where
  "prefs_for db u viewed now =
     (case orm_get (\<lambda>p. up_user p = u) (db_prefs db) of
        Inr p \<Rightarrow> Inr (p, db)
      | Inl DoesNotExist \<Rightarrow> (let (p, db1) = create_pref db u now in Inr (pref_add db1 p (mi_category viewed)))
      | Inl e \<Rightarrow> Inl e)"

text \<open>Lines 266--280, one iteration per item of the query set fetched when the loop
  starts; an existing recommendation gets the mean of its score and the new one.\<close>

fun rec_loop ::
  "nat \<Rightarrow> user_preference \<Rightarrow> marketplace_item \<Rightarrow> datetime \<Rightarrow> (nat \<Rightarrow> rat) \<Rightarrow> marketplace_item list \<Rightarrow> orm_db
     \<Rightarrow> (py_error + unit) \<times> orm_db" where
  "rec_loop u p viewed now rnd [] db = (Inr (), db)"
| "rec_loop u p viewed now rnd (it # its) db =
     (let s = orm_score it p viewed (rnd 0) in
      case get_or_create_rec db u (mi_id it) s now of
        Inl e \<Rightarrow> (Inl e, db)
      | Inr (r, created, db1) \<Rightarrow>
          rec_loop u p viewed now (\<lambda>n. rnd (Suc n)) its
            (if created then db1 else save_rec db1 (r\<lparr>ir_score := (ir_score r + s) / 2\<rparr>)))"

definition candidates :: "orm_db \<Rightarrow> nat \<Rightarrow> marketplace_item list" where
  "candidates db u = filter (\<lambda>i. available i \<and> mi_owner i \<noteq> u) (db_items db)"

definition orm_update_recommendations ::
  "orm_db \<Rightarrow> nat \<Rightarrow> marketplace_item \<Rightarrow> datetime \<Rightarrow> (nat \<Rightarrow> rat) \<Rightarrow> (py_error + unit) \<times> orm_db" where
  "orm_update_recommendations db u viewed now rnd =
     (case prefs_for db u viewed now of
        Inl e \<Rightarrow> (Inl e, db)
      | Inr (p, db1) \<Rightarrow> rec_loop u p viewed now rnd (candidates db1 u) db1)"

subsection \<open>Read-only views\<close>

text \<open>Lines 27--29 (\<open>map_view\<close>).\<close>

definition orm_map_view :: "orm_db \<Rightarrow> recycling_center list" where
  "orm_map_view db = filter rc_is_active (db_centers db)"

record orm_market =
  om_categories :: "category list"
  om_featured :: "marketplace_item list"
  om_recent :: "marketplace_item list"
  om_recommended :: "marketplace_item list"

text \<open>Lines 40--44: the user's recommendations whose item is available, best first,
  and \<open>rec.item\<close> of each of the first four.\<close>

definition recommended_items :: "orm_db \<Rightarrow> nat \<Rightarrow> marketplace_item list" where
  "recommended_items db u =
     (let recs = filter (\<lambda>r. ir_user r = u \<and> list_ex (\<lambda>i. mi_id i = ir_item r \<and> available i) (db_items db))
                   (db_recs db)
      in List.map_filter (\<lambda>r. find (\<lambda>i. mi_id i = ir_item r) (db_items db)) (take 4 (order_desc ir_score recs)))"

text \<open>Lines 32--53 (\<open>marketplace\<close>).\<close>

definition orm_marketplace :: "orm_db \<Rightarrow> nat option \<Rightarrow> orm_market" where
  "orm_marketplace db user =
     (let avail = filter available (db_items db)
      in \<lparr>om_categories = db_categories db,
          om_featured = take 4 (filter mi_is_featured avail),
          om_recent = take 8 (order_desc mi_created_at avail),
          om_recommended = (case user of None \<Rightarrow> [] | Some u \<Rightarrow> recommended_items db u)\<rparr>)"

text \<open>Lines 121--127 (\<open>my_items\<close>); \<open>Inl\<close> is the login redirect.\<close>

definition orm_my_items :: "orm_db \<Rightarrow> nat option \<Rightarrow> response + marketplace_item list" where
  "orm_my_items db user =
     (case user of
        None \<Rightarrow> Inl (Redirect login_url)
      | Some u \<Rightarrow> Inr (order_desc mi_created_at (filter (\<lambda>i. mi_owner i = u) (db_items db))))"

text \<open>Lines 188--218 (\<open>search_items\<close>): the filters are added in order, and
  \<open>filter(category_id=s)\<close> prepares its value at once, raising \<open>ValueError\<close> for a
  string \<open>int()\<close> refuses.\<close>

definition orm_search_items :: "orm_db \<Rightarrow> request \<Rightarrow> py_error + marketplace_item list" where
  "orm_search_items db req =
     (let q = form_get_default req ''q''; c = form_get_default req ''category'';
          cond = form_get_default req ''condition''; loc = form_get_default req ''location'';
          items = filter available (db_items db);
          items1 = (if q \<noteq> [] then filter (\<lambda>i. icontains (mi_title i) q \<or> icontains (mi_description i) q) items
                    else items)
      in case (if c \<noteq> [] then map_sum id (\<lambda>n. filter (\<lambda>i. int (mi_category i) = n) items1) (py_int c)
               else Inr items1) of
           Inl e \<Rightarrow> Inl e
         | Inr items2 \<Rightarrow>
             (let items3 = (if cond \<noteq> [] then filter (\<lambda>i. mi_condition i = cond) items2 else items2)
              in Inr (if loc \<noteq> [] then filter (\<lambda>i. icontains (mi_location i) loc) items3 else items3)))"

subsection \<open>\<open>item_detail\<close> (lines 55--78)\<close>

text \<open>The similar items are a lazy query set, read when the page is rendered.\<close>

definition similar_items :: "orm_db \<Rightarrow> marketplace_item \<Rightarrow> marketplace_item list" where
  "similar_items db item =
     take 4 (filter (\<lambda>i. mi_category i = mi_category item \<and> available i \<and> mi_id i \<noteq> mi_id item) (db_items db))"

definition orm_item_detail ::
  "orm_db \<Rightarrow> nat option \<Rightarrow> nat \<Rightarrow> datetime \<Rightarrow> (nat \<Rightarrow> rat)
     \<Rightarrow> (py_error + marketplace_item \<times> marketplace_item list) \<times> orm_db" where
  "orm_item_detail db user item_id now rnd =
     (case get_item_404 db item_id (\<lambda>_. True) of
        Inl e \<Rightarrow> (Inl e, db)
      | Inr item \<Rightarrow>
          (let item1 = item\<lparr>mi_views_count := Suc (mi_views_count item), mi_updated_at := now\<rparr>;
               db1 = save_item db item1 now;
               (r, db2) = (case user of
                             Some u \<Rightarrow> if u \<noteq> mi_owner item1 then orm_update_recommendations db1 u item1 now rnd
                                       else (Inr (), db1)
                           | None \<Rightarrow> (Inr (), db1))
           in (case r of Inl e \<Rightarrow> Inl e | Inr _ \<Rightarrow> Inr (item1, similar_items db2 item1), db2)))"

subsection \<open>Writing views\<close>

text \<open>Lines 100--111: the new row; \<open>status\<close>, \<open>is_featured\<close> and
  \<open>views_count\<close> take their defaults.\<close>

definition upload_name :: "request \<Rightarrow> string \<Rightarrow> string" where
  "upload_name req old = (case image_field req of None \<Rightarrow> old | Some nm \<Rightarrow> ''marketplace_items/'' @ nm)"

definition new_item :: "request \<Rightarrow> nat \<Rightarrow> nat \<Rightarrow> marketplace_item" where
  "new_item req c u =
     \<lparr>mi_id = 0, mi_title = form_get_default req ''title'', mi_description = form_get_default req ''description'',
      mi_category = c, mi_condition = form_get_default req ''condition'', mi_owner = u,
      mi_image = upload_name req [], mi_status = ''available'', mi_location = form_get_default req ''location'',
      mi_is_featured = False, mi_views_count = 0, mi_created_at = 0, mi_updated_at = 0\<rparr>"

text \<open>Lines 80--119 (\<open>add_item\<close>).\<close>

definition orm_add_item :: "orm_db \<Rightarrow> nat option \<Rightarrow> request \<Rightarrow> datetime \<Rightarrow> (py_error + response) \<times> orm_db" where
  "orm_add_item db user req now =
     login_required user db (\<lambda>u.
       if \<not> req_post req then (Inr (Render ''main_app/add_item.html''), db)
       else if \<not> list_all (\<lambda>k. form_truthy (form_get req k)) add_item_fields
       then (Inr (Render ''main_app/add_item.html''), db)
       else (case category_lookup db (form_get_default req ''category'') of
               Inl e \<Rightarrow> (Inl e, db)
             | Inr c \<Rightarrow> (let (k, db1) = insert_item db (new_item req (cat_id c) u) now in (Inr (item_url k), db1))))"

text \<open>Lines 152--161: the edited row.\<close>

definition edit_orm_item :: "marketplace_item \<Rightarrow> request \<Rightarrow> nat \<Rightarrow> marketplace_item" where
  "edit_orm_item item req c =
     item\<lparr>mi_title := form_get_default req ''title'', mi_description := form_get_default req ''description'',
          mi_category := c, mi_condition := form_get_default req ''condition'',
          mi_location := form_get_default req ''location'', mi_status := form_get_default req ''status'',
          mi_image := upload_name req (mi_image item)\<rparr>"

text \<open>Lines 129--172 (\<open>update_item\<close>): a row of another owner is not found.\<close>

definition orm_update_item ::
  "orm_db \<Rightarrow> nat option \<Rightarrow> request \<Rightarrow> nat \<Rightarrow> datetime \<Rightarrow> (py_error + response) \<times> orm_db" where
  "orm_update_item db user req item_id now =
     login_required user db (\<lambda>u.
       case get_item_404 db item_id (\<lambda>r. mi_owner r = u) of
         Inl e \<Rightarrow> (Inl e, db)
       | Inr item \<Rightarrow>
           if \<not> req_post req then (Inr (Render ''main_app/update_item.html''), db)
           else if \<not> list_all (\<lambda>k. form_truthy (form_get req k)) update_item_fields
           then (Inr (Render ''main_app/update_item.html''), db)
           else (case category_lookup db (form_get_default req ''category'') of
                   Inl e \<Rightarrow> (Inl e, db)
                 | Inr c \<Rightarrow> (Inr (item_url (mi_id item)), save_item db (edit_orm_item item req (cat_id c)) now)))"

text \<open>Lines 174--186 (\<open>delete_item\<close>).\<close>

definition orm_delete_item :: "orm_db \<Rightarrow> nat option \<Rightarrow> request \<Rightarrow> nat \<Rightarrow> (py_error + response) \<times> orm_db" where
  "orm_delete_item db user req item_id =
     login_required user db (\<lambda>u.
       case get_item_404 db item_id (\<lambda>r. mi_owner r = u) of
         Inl e \<Rightarrow> (Inl e, db)
       | Inr item \<Rightarrow>
           if req_post req then (Inr (Redirect ''my_items''), delete_item_cascade db (mi_id item))
           else (Inr (Render ''main_app/delete_item.html''), db))"

text \<open>Lines 233--235: one \<open>get_object_or_404\<close> and one \<open>add\<close> per listed id; an
  exception stops the loop with the rows written so far.\<close>

fun add_categories :: "orm_db \<Rightarrow> user_preference \<Rightarrow> string list \<Rightarrow> (py_error + user_preference) \<times> orm_db" where
  "add_categories db p [] = (Inr p, db)"
| "add_categories db p (s # ss) =
     (case category_lookup db s of
        Inl e \<Rightarrow> (Inl e, db)
      | Inr c \<Rightarrow> (let (p', db') = pref_add db p (cat_id c) in add_categories db' p' ss))"

text \<open>Lines 220--248 (\<open>user_preferences\<close>).\<close>

definition orm_user_preferences ::
  "orm_db \<Rightarrow> nat option \<Rightarrow> request \<Rightarrow> datetime \<Rightarrow> (py_error + response) \<times> orm_db" where
  "orm_user_preferences db user req now =
     login_required user db (\<lambda>u.
       case get_or_create_pref db u now of
         Inl e \<Rightarrow> (Inl e, db)
       | Inr (p, db1) \<Rightarrow>
           if \<not> req_post req then (Inr (Render ''main_app/user_preferences.html''), db1)
           else
             (let (p1, db2) = pref_clear db1 p
              in case add_categories db2 p1 (querydict_getlist (req_form req) ''preferred_categories'') of
                   (Inl e, db3) \<Rightarrow> (Inl e, db3)
                 | (Inr p2, db3) \<Rightarrow>
                     (Inr (Redirect ''marketplace''),
                      save_pref db3 (p2\<lparr>up_conditions := form_get req ''preferred_conditions'',
                                         up_locations := form_get req ''preferred_locations''\<rparr>) now)))"

subsection \<open>Conditions of the lemmas\<close>

text \<open>The authentication middleware puts a user of \<open>auth_user\<close>, or the anonymous
  user, in \<open>request.user\<close>.\<close>

definition valid_user :: "orm_db \<Rightarrow> nat option \<Rightarrow> bool" where
  "valid_user db user = (case user of None \<Rightarrow> True | Some u \<Rightarrow> u \<in> set (map au_id (db_users db)))"

definition scores_ok :: "orm_db \<Rightarrow> bool" where
  "scores_ok db = list_all (\<lambda>r. 0 \<le> ir_score r \<and> ir_score r \<le> 1) (db_recs db)"

lemmas orm_view_defs [model_simps] = orm_home_def orm_register_def login_url_def login_required_def item_url_def category_lookup_def
  available_def order_desc_def icontains_def pref_listed_def orm_score_def prefs_for_def candidates_def
  orm_update_recommendations_def orm_map_view_def recommended_items_def orm_marketplace_def orm_my_items_def
  orm_search_items_def similar_items_def orm_item_detail_def upload_name_def new_item_def orm_add_item_def
  edit_orm_item_def orm_update_item_def orm_delete_item_def orm_user_preferences_def
  valid_user_def scores_ok_def

subsection \<open>Example\<close>

text \<open>Two users; a sofa and a lamp of user 2, both available; user 1 prefers the
  category of both and the condition \<open>good\<close>, and has a recommendation for the
  lamp.\<close>

abbreviation ex_osofa :: marketplace_item where
  "ex_osofa \<equiv> \<lparr>mi_id = 1, mi_title = ''Sofa'', mi_description = ''Blue sofa'', mi_category = 1,
     mi_condition = ''good'', mi_owner = 2, mi_image = [], mi_status = ''available'', mi_location = ''Dhaka'',
     mi_is_featured = False, mi_views_count = 0, mi_created_at = 0, mi_updated_at = 0\<rparr>"

abbreviation ex_olamp :: marketplace_item where
  "ex_olamp \<equiv> \<lparr>mi_id = 2, mi_title = ''Lamp'', mi_description = ''Desk lamp'', mi_category = 1,
     mi_condition = ''like new'', mi_owner = 2, mi_image = [], mi_status = ''available'', mi_location = ''Dhaka'',
     mi_is_featured = False, mi_views_count = 3, mi_created_at = 1, mi_updated_at = 1\<rparr>"

abbreviation ex_odb :: orm_db where
  "ex_odb \<equiv> \<lparr>db_users = [\<lparr>au_id = 1, au_username = ''ana''\<rparr>, \<lparr>au_id = 2, au_username = ''bo''\<rparr>],
     db_centers = [],
     db_categories = [\<lparr>cat_id = 1, cat_name = ''Furniture'', cat_description = None, cat_created_at = 0\<rparr>],
     db_items = [ex_osofa, ex_olamp],
     db_prefs = [\<lparr>up_id = 1, up_user = 1, up_categories = [1], up_conditions = Some ''good'', up_locations = None,
                 up_created_at = 0, up_updated_at = 0\<rparr>],
     db_recs = [\<lparr>ir_id = 1, ir_user = 1, ir_item = 2, ir_score = 1 / 2, ir_is_viewed = False, ir_created_at = 1\<rparr>],
     db_next_item = 3, db_next_pref = 2, db_next_rec = 2\<rparr>"

abbreviation ex_prefs_post :: request where
  "ex_prefs_post \<equiv> \<lparr>req_post = True, req_form = [(''preferred_categories'', ''furniture'')], req_image = None\<rparr>"

subsection \<open>Lemmas\<close>

lemma rec_loop_wf:
  assumes "orm_wf db" "u \<in> set (map au_id (db_users db))" "set (map mi_id its) \<subseteq> set (map mi_id (db_items db))"
  shows "fst (rec_loop u p v now rnd its db) = Inr () \<and> orm_wf (snd (rec_loop u p v now rnd its db)) \<and>
         (\<exists>rs n. snd (rec_loop u p v now rnd its db) = db\<lparr>db_recs := rs, db_next_rec := n\<rparr>) \<and>
         set (rec_pairs db) \<union> (\<lambda>it. (u, mi_id it)) ` set its \<subseteq> set (rec_pairs (snd (rec_loop u p v now rnd its db))) \<and>
         filter (\<lambda>r. ir_user r \<noteq> u) (db_recs (snd (rec_loop u p v now rnd its db))) =
           filter (\<lambda>r. ir_user r \<noteq> u) (db_recs db)"
  using assms
proof (induction its arbitrary: db rnd)
  case Nil
  then show ?case by (auto intro!: exI [of _ "db_recs db"] exI [of _ "db_next_rec db"])
next
  case (Cons it its)
  let ?s = "orm_score it p v (rnd 0)"
  let ?rnd = "\<lambda>n. rnd (Suc n)"
  have it_in: "mi_id it \<in> set (map mi_id (db_items db))" using Cons.prems(3) by simp
  consider (found) r where "get_or_create_rec db u (mi_id it) ?s now = Inr (r, False, db)"
      "r \<in> set (db_recs db)" "ir_user r = u" "ir_item r = mi_id it"
    | (created) "get_or_create_rec db u (mi_id it) ?s now =
        Inr (\<lparr>ir_id = db_next_rec db, ir_user = u, ir_item = mi_id it, ir_score = ?s, ir_is_viewed = False,
               ir_created_at = now\<rparr>,
             True, db\<lparr>db_recs := db_recs db @ [\<lparr>ir_id = db_next_rec db, ir_user = u, ir_item = mi_id it, ir_score = ?s,
                                                  ir_is_viewed = False, ir_created_at = now\<rparr>],
                       db_next_rec := Suc (db_next_rec db)\<rparr>)" "(u, mi_id it) \<notin> set (rec_pairs db)"
    by (rule get_or_create_rec_cases [OF Cons.prems(1), of u "mi_id it" ?s now])
  then show ?case
  proof cases
    case (found r)
    let ?db1 = "save_rec db (r\<lparr>ir_score := (ir_score r + ?s) / 2\<rparr>)"
    have wf1: "orm_wf ?db1" and pairs1: "rec_pairs ?db1 = rec_pairs db"
      and oth1: "filter (\<lambda>r. ir_user r \<noteq> u) (db_recs ?db1) = filter (\<lambda>r. ir_user r \<noteq> u) (db_recs db)"
      using save_rec_wf [OF Cons.prems(1) found(2)] found(3) by simp_all
    have fr1: "db_users ?db1 = db_users db" "db_items ?db1 = db_items db" by (simp_all add: save_rec_def)
    have rl: "rec_loop u p v now rnd (it # its) db = rec_loop u p v now ?rnd its ?db1"
      using found(1) by simp
    have "(u, mi_id it) \<in> set (rec_pairs db)" using found(2-4) by force
    then show ?thesis
      using Cons.IH [OF wf1, of ?rnd] Cons.prems(2,3) rl pairs1 oth1 fr1
      by (auto simp: save_rec_def)
  next
    case created
    let ?new = "\<lparr>ir_id = db_next_rec db, ir_user = u, ir_item = mi_id it, ir_score = ?s, ir_is_viewed = False,
                 ir_created_at = now\<rparr>"
    let ?db1 = "db\<lparr>db_recs := db_recs db @ [?new], db_next_rec := Suc (db_next_rec db)\<rparr>"
    have wf1: "orm_wf ?db1" using create_rec_wf [OF Cons.prems(1,2) it_in created(2)] .
    have rl: "rec_loop u p v now rnd (it # its) db = rec_loop u p v now ?rnd its ?db1"
      using created(1) by simp
    show ?thesis
      using Cons.IH [OF wf1, of ?rnd] Cons.prems(2,3) rl
      by auto
  qed
qed

lemma prefs_for_wf:
  assumes "orm_wf db" "u \<in> set (map au_id (db_users db))" "mi_category v \<in> set (map cat_id (db_categories db))"
  shows "\<exists>p db1. prefs_for db u v now = Inr (p, db1) \<and> orm_wf db1 \<and>
           (\<exists>ps n. db1 = db\<lparr>db_prefs := ps, db_next_pref := n\<rparr>)"
proof -
  have "length (filter (\<lambda>p. up_user p = u) (db_prefs db)) \<le> 1"
    using assms(1) distinct_map_filter_eq_le1 [of up_user "db_prefs db" u] by (simp add: orm_wf_def prefs_ok_def)
  then show ?thesis
  proof (cases rule: orm_get_le1)
    case (found r)
    then show ?thesis using assms(1)
      by (auto simp: prefs_for_def intro!: exI [of _ "db_prefs db"] exI [of _ "db_next_pref db"])
  next
    case none
    then have nu: "u \<notin> set (map up_user (db_prefs db))" by auto
    obtain p db1 where c: "create_pref db u now = (p, db1)" by fastforce
    have wf1: "orm_wf db1" and p1: "p \<in> set (db_prefs db1)"
      and fr1: "\<exists>ps. db1 = db\<lparr>db_prefs := ps, db_next_pref := Suc (db_next_pref db)\<rparr>"
      using create_pref_wf [OF assms(1,2) nu, of now] c by auto
    have cat1: "mi_category v \<in> set (map cat_id (db_categories db1))" using fr1 assms(3) by auto
    obtain p2 db2 where a: "pref_add db1 p (mi_category v) = (p2, db2)" by fastforce
    have "orm_wf db2" using pref_add_wf [OF wf1 p1 cat1] a by simp
    moreover have "\<exists>ps n. db2 = db\<lparr>db_prefs := ps, db_next_pref := n\<rparr>"
      using fr1 a by (cases db) (auto simp: pref_add_def set_pref_row_def Let_def)
    ultimately show ?thesis using none(1) c a by (simp add: prefs_for_def)
  qed
qed

lemma orm_update_recommendations_wf:
  assumes "orm_wf db" "u \<in> set (map au_id (db_users db))" "mi_category v \<in> set (map cat_id (db_categories db))"
  shows "fst (orm_update_recommendations db u v now rnd) = Inr () \<and> orm_wf (snd (orm_update_recommendations db u v now rnd)) \<and>
         (\<exists>ps n rs m. snd (orm_update_recommendations db u v now rnd) =
                        db\<lparr>db_prefs := ps, db_next_pref := n, db_recs := rs, db_next_rec := m\<rparr>) \<and>
         (\<lambda>it. (u, mi_id it)) ` set (candidates db u) \<subseteq> set (rec_pairs (snd (orm_update_recommendations db u v now rnd))) \<and>
         filter (\<lambda>r. ir_user r \<noteq> u) (db_recs (snd (orm_update_recommendations db u v now rnd))) =
           filter (\<lambda>r. ir_user r \<noteq> u) (db_recs db)"
proof -
  obtain p db1 ps n where pf: "prefs_for db u v now = Inr (p, db1)" and wf1: "orm_wf db1"
    and db1: "db1 = db\<lparr>db_prefs := ps, db_next_pref := n\<rparr>"
    using prefs_for_wf [OF assms, of now] by blast
  have u1: "u \<in> set (map au_id (db_users db1))" and c1: "candidates db1 u = candidates db u"
    using assms(2) db1 by (simp_all add: candidates_def)
  have sub: "set (map mi_id (candidates db1 u)) \<subseteq> set (map mi_id (db_items db1))"
    by (auto simp: candidates_def)
  show ?thesis
    using rec_loop_wf [OF wf1 u1 sub, of p v now rnd] pf db1 c1
    by (auto simp: orm_update_recommendations_def)
qed

lemma category_lookup_Inr: "category_lookup db s = Inr c \<Longrightarrow> cat_id c \<in> set (map cat_id (db_categories db))"
  by (auto simp: category_lookup_def split: sum.splits dest: get_category_404_Inr)

lemma category_lookup_cong:
  "db_categories db' = db_categories db \<Longrightarrow> category_lookup db' s = category_lookup db s"
  unfolding category_lookup_def get_category_404_def by (simp split: sum.split)

lemma orm_item_detail_wf:
  assumes "orm_wf db" "valid_user db user"
  shows "orm_wf (snd (orm_item_detail db user i now rnd))"
proof (cases "get_item_404 db i (\<lambda>_. True)")
  case (Inl e)
  then show ?thesis using assms(1) by (simp add: orm_item_detail_def)
next
  case (Inr item)
  let ?item1 = "item\<lparr>mi_views_count := Suc (mi_views_count item), mi_updated_at := now\<rparr>"
  let ?db1 = "save_item db ?item1 now"
  have "item \<in> set (db_items db)" using get_item_404_Inr [OF Inr] by simp
  then have fk: "mi_category ?item1 \<in> set (map cat_id (db_categories db))" "mi_owner ?item1 \<in> set (map au_id (db_users db))"
    using item_fk [OF assms(1)] by simp_all
  have wf1: "orm_wf ?db1" using save_item_wf [OF assms(1) fk] .
  have fr: "db_categories ?db1 = db_categories db" "db_users ?db1 = db_users db" by (simp_all add: save_item_def)
  show ?thesis
  proof (cases user)
    case None
    then show ?thesis using Inr wf1 by (simp add: orm_item_detail_def Let_def split: prod.split sum.split)
  next
    case (Some u)
    then have u: "u \<in> set (map au_id (db_users ?db1))" using assms(2) fr by (simp add: valid_user_def)
    have c: "mi_category ?item1 \<in> set (map cat_id (db_categories ?db1))" using fk fr by simp
    obtain r2 db2 where ur: "orm_update_recommendations ?db1 u ?item1 now rnd = (r2, db2)" by fastforce
    have "orm_wf db2" using orm_update_recommendations_wf [OF wf1 u c, of now rnd] ur by simp
    then show ?thesis
      using Some Inr wf1 ur by (simp add: orm_item_detail_def Let_def split: sum.split)
  qed
qed

lemma orm_add_item_wf:
  assumes "orm_wf db" "valid_user db user"
  shows "orm_wf (snd (orm_add_item db user req now))"
proof (cases user)
  case (Some u)
  then have u: "u \<in> set (map au_id (db_users db))" using assms(2) by (simp add: valid_user_def)
  show ?thesis
  proof (cases "category_lookup db (form_get_default req ''category'')")
    case (Inr c)
    then have "mi_category (new_item req (cat_id c) u) \<in> set (map cat_id (db_categories db))"
      using category_lookup_Inr [OF Inr] by (simp add: new_item_def)
    moreover have "mi_owner (new_item req (cat_id c) u) \<in> set (map au_id (db_users db))"
      using u by (simp add: new_item_def)
    ultimately have "orm_wf (snd (insert_item db (new_item req (cat_id c) u) now))"
      using insert_item_wf [OF assms(1)] by blast
    moreover obtain k db1 where "insert_item db (new_item req (cat_id c) u) now = (k, db1)" by fastforce
    ultimately show ?thesis
      using Some Inr assms(1) by (auto simp: orm_add_item_def login_required_def)
  qed (use Some assms(1) in \<open>auto simp: orm_add_item_def login_required_def\<close>)
qed (use assms(1) in \<open>simp add: orm_add_item_def login_required_def\<close>)

lemma edit_orm_item_keys [simp]:
  "mi_id (edit_orm_item item req c) = mi_id item" "mi_owner (edit_orm_item item req c) = mi_owner item"
  "mi_category (edit_orm_item item req c) = c"
  by (simp_all add: edit_orm_item_def)

lemma orm_update_item_wf:
  assumes "orm_wf db"
  shows "orm_wf (snd (orm_update_item db user req i now))"
proof (cases user)
  case (Some u)
  show ?thesis
  proof (cases "get_item_404 db i (\<lambda>r. mi_owner r = u)")
    case (Inr item)
    then have "mi_owner item \<in> set (map au_id (db_users db))"
      using get_item_404_Inr [OF Inr] item_fk [OF assms(1)] by blast
    then have "orm_wf (save_item db (edit_orm_item item req (cat_id c)) now)"
      if "category_lookup db (form_get_default req ''category'') = Inr c" for c
      using save_item_wf [OF assms(1)] category_lookup_Inr [OF that] by simp
    then show ?thesis using Some Inr assms(1)
      by (auto simp: orm_update_item_def login_required_def split: sum.split)
  qed (use Some assms(1) in \<open>simp add: orm_update_item_def login_required_def\<close>)
qed (use assms(1) in \<open>simp add: orm_update_item_def login_required_def\<close>)


lemma add_categories_wf:
  assumes "orm_wf db" "p \<in> set (db_prefs db)"
  shows "orm_wf (snd (add_categories db p ss)) \<and>
         (\<forall>p'. fst (add_categories db p ss) = Inr p' \<longrightarrow> p' \<in> set (db_prefs (snd (add_categories db p ss))))"
  using assms
proof (induction ss arbitrary: db p)
  case (Cons s ss)
  show ?case
  proof (cases "category_lookup db s")
    case (Inr c)
    obtain p' db' where a: "pref_add db p (cat_id c) = (p', db')" by fastforce
    have "orm_wf db' \<and> p' \<in> set (db_prefs db')"
      using pref_add_wf [OF Cons.prems category_lookup_Inr [OF Inr]] a by simp
    then show ?thesis using Cons.IH [of db' p'] Inr a by simp
  qed (use Cons.prems in simp)
qed simp

lemma orm_register_wf:
  assumes "orm_wf db" and "\<forall>u. form = Some u \<longrightarrow> au_id u \<notin> set (map au_id (db_users db))"
  shows "orm_wf (snd (orm_register db req form))"
  using assms
  by (auto simp: orm_register_def orm_wf_def items_ok_def prefs_ok_def recs_ok_def list_all_iff
           split: option.split)

lemma orm_user_preferences_wf:
  assumes "orm_wf db" "valid_user db user"
  shows "orm_wf (snd (orm_user_preferences db user req now))"
proof (cases user)
  case (Some u)
  then have u: "u \<in> set (map au_id (db_users db))" using assms(2) by (simp add: valid_user_def)
  obtain p db1 where g: "get_or_create_pref db u now = Inr (p, db1)" and wf1: "orm_wf db1"
    and p1: "p \<in> set (db_prefs db1)"
    using get_or_create_pref_wf [OF assms(1) u, of now] by blast
  obtain p2 db2 where c: "pref_clear db1 p = (p2, db2)" by fastforce
  have wf2: "orm_wf db2" and p2: "p2 \<in> set (db_prefs db2)" using pref_clear_wf [OF wf1 p1] c by simp_all
  let ?ids = "querydict_getlist (req_form req) ''preferred_categories''"
  obtain r db3 where a: "add_categories db2 p2 ?ids = (r, db3)" by fastforce
  have wf3: "orm_wf db3" using add_categories_wf [OF wf2 p2, of ?ids] a by simp
  show ?thesis
    using Some g c a wf1 wf3 save_pref_wf [OF wf3]
    by (auto simp: orm_user_preferences_def login_required_def split: sum.split)
qed (use assms(1) in \<open>simp add: orm_user_preferences_def login_required_def\<close>)

lemma distinct_map_filter_eq_1:
  "distinct (map f xs) \<Longrightarrow> k \<in> f ` set xs \<Longrightarrow> length (filter (\<lambda>x. f x = k) xs) = 1"
  using distinct_map_filter_eq_le1 [of f xs k] by (cases "filter (\<lambda>x. f x = k) xs") (auto simp: filter_empty_conv)

lemma get_item_404_present:
  "orm_wf db \<Longrightarrow> it \<in> set (db_items db) \<Longrightarrow> get_item_404 db (mi_id it) (\<lambda>_. True) = Inr it"
proof -
  assume wf: "orm_wf db" and it: "it \<in> set (db_items db)"
  then have d: "distinct (map mi_id (db_items db))" by (simp add: orm_wf_def items_ok_def)
  obtain x where f: "find (\<lambda>r. mi_id r = mi_id it \<and> True) (db_items db) = Some x"
    using it by (cases "find (\<lambda>r. mi_id r = mi_id it \<and> True) (db_items db)") (auto simp: find_None_iff)
  then have "x \<in> set (db_items db)" "mi_id x = mi_id it" using find_SomeD by fastforce+
  then have "x = it" using d it inj_on_eq_iff [of mi_id "set (db_items db)"] by (simp add: distinct_map)
  then show ?thesis using f by (simp add: get_item_404_def)
qed

text \<open>C33: update_recommendations, on a consistent database, raises nothing and leaves
  the user exactly one recommendation for each available item the user does not own, the
  recommendations of the other users and the items as they were.\<close>

theorem update_recommendations_one_per_item:
  assumes "orm_wf db" "u \<in> set (map au_id (db_users db))" "mi_category v \<in> set (map cat_id (db_categories db))"
    and run: "orm_update_recommendations db u v now rnd = (r, db')"
  shows "r = Inr () \<and>
         (\<forall>it\<in>set (candidates db u). length (filter (\<lambda>x. ir_user x = u \<and> ir_item x = mi_id it) (db_recs db')) = 1) \<and>
         filter (\<lambda>x. ir_user x \<noteq> u) (db_recs db') = filter (\<lambda>x. ir_user x \<noteq> u) (db_recs db) \<and>
         db_items db' = db_items db"
proof -
  have res: "r = Inr ()" "orm_wf db'"
    "(\<lambda>it. (u, mi_id it)) ` set (candidates db u) \<subseteq> set (rec_pairs db')"
    "filter (\<lambda>x. ir_user x \<noteq> u) (db_recs db') = filter (\<lambda>x. ir_user x \<noteq> u) (db_recs db)"
    and fr: "\<exists>ps n rs m. db' = db\<lparr>db_prefs := ps, db_next_pref := n, db_recs := rs, db_next_rec := m\<rparr>"
    using orm_update_recommendations_wf [OF assms(1-3), of now rnd] run by simp_all
  have d: "distinct (rec_pairs db')" using res(2) by (simp add: orm_wf_def recs_ok_def)
  have "length (filter (\<lambda>x. ir_user x = u \<and> ir_item x = mi_id it) (db_recs db')) = 1"
    if "it \<in> set (candidates db u)" for it
    using distinct_map_filter_eq_1 [OF d, of "(u, mi_id it)"] res(3) that by auto
  moreover have "db_items db' = db_items db" using fr by auto
  ultimately show ?thesis using res by simp
qed

lemma orm_get_Inr: "orm_get P rs = Inr r \<Longrightarrow> r \<in> set rs \<and> P r"
proof -
  assume "orm_get P rs = Inr r"
  then have "filter P rs = [r]" by (auto simp: orm_get_def split: list.splits)
  then have "r \<in> set (filter P rs)" by simp
  then show ?thesis by simp
qed

lemma orm_score_bounds: "0 \<le> rnd \<Longrightarrow> 0 \<le> orm_score it p v rnd \<and> orm_score it p v rnd \<le> 1"
  by (simp add: orm_score_def)

lemma rec_loop_scores:
  "scores_ok db \<Longrightarrow> \<forall>n. 0 \<le> rnd n \<Longrightarrow> scores_ok (snd (rec_loop u p v now rnd its db))"
proof (induction its arbitrary: db rnd)
  case (Cons it its)
  let ?s = "orm_score it p v (rnd 0)"
  have s: "0 \<le> ?s" "?s \<le> 1" using orm_score_bounds [of "rnd 0" it p v] Cons.prems(2) by simp_all
  have rnd': "\<forall>n. 0 \<le> rnd (Suc n)" using Cons.prems(2) by simp
  show ?case
  proof (cases "get_or_create_rec db u (mi_id it) ?s now")
    case (Inr res)
    obtain r c db1 where res: "res = (r, c, db1)" by (cases res) auto
    have ok1: "scores_ok db1" and r: "\<not> c \<longrightarrow> r \<in> set (db_recs db1)"
      using Inr res Cons.prems(1) s
      by (auto simp: get_or_create_rec_def scores_ok_def Let_def
               split: sum.splits py_error.splits dest: orm_get_Inr)
    have "scores_ok (if c then db1 else save_rec db1 (r\<lparr>ir_score := (ir_score r + ?s) / 2\<rparr>))"
    proof (cases c)
      case False
      then have "0 \<le> ir_score r \<and> ir_score r \<le> 1" using ok1 r by (auto simp: scores_ok_def list_all_iff)
      then show ?thesis using False ok1 s by (auto simp: scores_ok_def save_rec_def list_all_iff)
    qed (use ok1 in simp)
    then show ?thesis using Cons.IH [OF _ rnd'] Inr res by simp
  qed (use Cons.prems in simp)
qed simp

lemma prefs_for_recs: "prefs_for db u v now = Inr (p, db1) \<Longrightarrow> db_recs db1 = db_recs db"
  by (auto simp: prefs_for_def create_pref_def pref_add_def set_pref_row_def Let_def
           split: sum.splits py_error.splits prod.splits)

text \<open>C27: item_detail keeps every recommendation score between 0 and 1, whatever the
  user and the item, as long as the random draws are not negative.\<close>

theorem item_detail_scores_bounded:
  assumes "scores_ok db" "\<forall>n. 0 \<le> rnd n"
  shows "scores_ok (snd (orm_item_detail db user i now rnd))"
proof (cases "get_item_404 db i (\<lambda>_. True)")
  case (Inr item)
  let ?item1 = "item\<lparr>mi_views_count := Suc (mi_views_count item), mi_updated_at := now\<rparr>"
  let ?db1 = "save_item db ?item1 now"
  have ok1: "scores_ok ?db1" using assms(1) by (simp add: scores_ok_def save_item_def)
  have "scores_ok (snd (orm_update_recommendations ?db1 u ?item1 now rnd))" for u
  proof (cases "prefs_for ?db1 u ?item1 now")
    case (Inr pd)
    then obtain p db2 where pd: "prefs_for ?db1 u ?item1 now = Inr (p, db2)" by (cases pd) auto
    then have "scores_ok db2" using ok1 prefs_for_recs [OF pd] by (simp add: scores_ok_def)
    then show ?thesis using rec_loop_scores [OF _ assms(2)] pd by (simp add: orm_update_recommendations_def)
  qed (use ok1 in \<open>simp add: orm_update_recommendations_def\<close>)
  then have "orm_update_recommendations ?db1 u ?item1 now rnd = (r2, db2) \<Longrightarrow> scores_ok db2" for u r2 db2
    by (metis snd_conv)
  then show ?thesis using Inr ok1
    by (auto simp: orm_item_detail_def Let_def split: option.split prod.split sum.split)
qed (use assms in \<open>simp add: orm_item_detail_def\<close>)

text \<open>C38: delete_item changes the database only on a POST by the item's owner, and then
  removes exactly that item and, by the cascade, its recommendations.\<close>

theorem orm_delete_item_owner_only:
  assumes "orm_delete_item db user req i = (r, db')" "db' \<noteq> db"
  shows "\<exists>u. user = Some u \<and> req_post req \<and> (\<exists>it\<in>set (db_items db). mi_id it = i \<and> mi_owner it = u) \<and>
           r = Inr (Redirect ''my_items'') \<and>
           db_items db' = filter (\<lambda>x. mi_id x \<noteq> i) (db_items db) \<and>
           db_recs db' = filter (\<lambda>x. ir_item x \<noteq> i) (db_recs db) \<and>
           db_prefs db' = db_prefs db \<and> db_users db' = db_users db"
proof -
  obtain u where u: "user = Some u" using assms by (cases user) (auto simp: orm_delete_item_def login_required_def)
  obtain it where g: "get_item_404 db i (\<lambda>r. mi_owner r = u) = Inr it"
    using assms u by (cases "get_item_404 db i (\<lambda>r. mi_owner r = u)") (auto simp: orm_delete_item_def login_required_def)
  have it: "it \<in> set (db_items db)" "mi_id it = i" "mi_owner it = u" using get_item_404_Inr [OF g] by simp_all
  have "req_post req" using assms u g by (auto simp: orm_delete_item_def login_required_def split: if_splits)
  then show ?thesis using assms u g it by (auto simp: orm_delete_item_def login_required_def delete_item_cascade_def)
qed

text \<open>C10: user_preferences is not atomic: when the first submitted category id is not a
  number or names no category, the exception escapes after the user's preferred categories were
  already cleared, so the user is left with none.\<close>

theorem user_preferences_bad_category_clears:
  assumes "orm_wf db" "u \<in> set (map au_id (db_users db))" "req_post req"
    "querydict_getlist (req_form req) ''preferred_categories'' = s # ss" "category_lookup db s = Inl e"
  shows "fst (orm_user_preferences db (Some u) req now) = Inl e \<and>
         (\<exists>p\<in>set (db_prefs (snd (orm_user_preferences db (Some u) req now))). up_user p = u \<and> up_categories p = [])"
proof -
  obtain p db1 where g: "get_or_create_pref db u now = Inr (p, db1)" and wf1: "orm_wf db1"
    and p1: "p \<in> set (db_prefs db1)" and pu: "up_user p = u"
    and fr: "\<exists>ps n. db1 = db\<lparr>db_prefs := ps, db_next_pref := n\<rparr>"
    using get_or_create_pref_wf [OF assms(1,2), of now] by blast
  obtain p2 db2 where c: "pref_clear db1 p = (p2, db2)" by fastforce
  have p2: "p2 \<in> set (db_prefs db2)" "up_user p2 = u" "up_categories p2 = []"
    using pref_clear_wf [OF wf1 p1] c pu by simp_all
  have "db_categories db2 = db_categories db"
    using fr c by (auto simp: pref_clear_def set_pref_row_def Let_def)
  then have "category_lookup db2 s = Inl e"
    using assms(5) category_lookup_cong by metis
  then have "add_categories db2 p2 (s # ss) = (Inl e, db2)" by simp
  then show ?thesis using g c p2 assms(3,4) by (auto simp: orm_user_preferences_def login_required_def)
qed

text \<open>C15: item_detail of an existing item answers with that item, its view count
  increased by one and its update time set, and changes no other item; the stored row
  is the one answered.\<close>

theorem orm_item_detail_counts_view:
  assumes "orm_wf db" "valid_user db user" "it \<in> set (db_items db)"
  shows "\<exists>sim. orm_item_detail db user (mi_id it) now rnd =
           (Inr (it\<lparr>mi_views_count := Suc (mi_views_count it), mi_updated_at := now\<rparr>, sim),
            snd (orm_item_detail db user (mi_id it) now rnd)) \<and>
         db_items (snd (orm_item_detail db user (mi_id it) now rnd)) =
           map (\<lambda>x. if mi_id x = mi_id it then it\<lparr>mi_views_count := Suc (mi_views_count it), mi_updated_at := now\<rparr>
                     else x) (db_items db)"
proof -
  let ?item1 = "it\<lparr>mi_views_count := Suc (mi_views_count it), mi_updated_at := now\<rparr>"
  let ?db1 = "save_item db ?item1 now"
  have g: "get_item_404 db (mi_id it) (\<lambda>_. True) = Inr it" using get_item_404_present [OF assms(1,3)] .
  have fk: "mi_category ?item1 \<in> set (map cat_id (db_categories db))" "mi_owner ?item1 \<in> set (map au_id (db_users db))"
    using item_fk [OF assms(1,3)] by simp_all
  have wf1: "orm_wf ?db1" using save_item_wf [OF assms(1) fk] .
  have items1: "db_items ?db1 = map (\<lambda>x. if mi_id x = mi_id it then ?item1 else x) (db_items db)"
    by (simp add: save_item_def)
  have fr: "db_categories ?db1 = db_categories db" "db_users ?db1 = db_users db" by (simp_all add: save_item_def)
  show ?thesis
  proof (cases "\<exists>u. user = Some u \<and> u \<noteq> mi_owner it")
    case True
    then obtain u where u: "user = Some u" "u \<noteq> mi_owner it" by blast
    have u1: "u \<in> set (map au_id (db_users ?db1))" using assms(2) u fr by (simp add: valid_user_def)
    have c1: "mi_category ?item1 \<in> set (map cat_id (db_categories ?db1))" using fk fr by simp
    obtain r2 db2 where ur: "orm_update_recommendations ?db1 u ?item1 now rnd = (r2, db2)" by fastforce
    have "r2 = Inr ()" "\<exists>ps n rs m. db2 = ?db1\<lparr>db_prefs := ps, db_next_pref := n, db_recs := rs, db_next_rec := m\<rparr>"
      using orm_update_recommendations_wf [OF wf1 u1 c1, of now rnd] ur by simp_all
    then show ?thesis using g u ur items1 by (auto simp: orm_item_detail_def Let_def)
  next
    case False
    then have "user = None \<or> user = Some (mi_owner it)" by (cases user) auto
    then show ?thesis using g items1 by (auto simp: orm_item_detail_def Let_def)
  qed
qed

text \<open>C35: each view of views.py that writes (item_detail, add_item, update_item,
  delete_item, user_preferences) keeps the integrity of the database: unique keys,
  existing foreign keys, one preference per user and one recommendation per user and
  item.\<close>

theorem orm_views_keep_integrity:
  assumes "orm_wf db" "valid_user db user"
  shows "orm_wf (snd (orm_item_detail db user i now rnd)) \<and> orm_wf (snd (orm_add_item db user req now)) \<and>
         orm_wf (snd (orm_update_item db user req i now)) \<and> orm_wf (snd (orm_delete_item db user req i)) \<and>
         orm_wf (snd (orm_user_preferences db user req now))"
proof -
  have "orm_wf (snd (orm_delete_item db user req i))"
    using assms(1) delete_item_cascade_wf [OF assms(1)]
    by (auto simp: orm_delete_item_def login_required_def split: option.split sum.split)
  then show ?thesis
    using orm_item_detail_wf [OF assms] orm_add_item_wf [OF assms] orm_update_item_wf [OF assms(1)]
      orm_user_preferences_wf [OF assms] by blast
qed

subsection \<open>Witnesses\<close>

lemma ex_odb_wf: "orm_wf ex_odb"
  by (simp add: orm_wf_def items_ok_def prefs_ok_def recs_ok_def)

theorem update_recommendations_one_per_item_witness:
  "length (filter (\<lambda>x. ir_user x = 1 \<and> ir_item x = 1)
     (db_recs (snd (orm_update_recommendations ex_odb 1 ex_osofa 5 (\<lambda>_. 0))))) = 1 \<and>
   length (filter (\<lambda>x. ir_user x = 1 \<and> ir_item x = 2)
     (db_recs (snd (orm_update_recommendations ex_odb 1 ex_osofa 5 (\<lambda>_. 0))))) = 1"
proof -
  have "\<forall>it\<in>set (candidates ex_odb 1).
     length (filter (\<lambda>x. ir_user x = 1 \<and> ir_item x = mi_id it)
       (db_recs (snd (orm_update_recommendations ex_odb 1 ex_osofa 5 (\<lambda>_. 0))))) = 1"
    using update_recommendations_one_per_item [OF ex_odb_wf _ _ prod.collapse [symmetric],
        where u = 1 and v = ex_osofa and now = 5 and rnd = "\<lambda>_. 0"] by simp
  then show ?thesis by (simp add: candidates_def available_def)
qed

theorem item_detail_scores_bounded_witness: "scores_ok (snd (orm_item_detail ex_odb (Some 1) 1 5 (\<lambda>_. 1 / 20)))"
  using item_detail_scores_bounded [of ex_odb "\<lambda>_. 1 / 20"] by (simp add: scores_ok_def)

theorem orm_delete_item_owner_only_witness:
  "db_recs (snd (orm_delete_item ex_odb (Some 2) ex_prefs_post 2)) = [] \<and>
   fst (orm_delete_item ex_odb (Some 2) ex_prefs_post 2) = Inr (Redirect ''my_items'')"
proof -
  have "snd (orm_delete_item ex_odb (Some 2) ex_prefs_post 2) \<noteq> ex_odb"
    by (simp add: orm_delete_item_def login_required_def get_item_404_def delete_item_cascade_def)
  then show ?thesis
    using orm_delete_item_owner_only [OF prod.collapse [symmetric]] by fastforce
qed

theorem user_preferences_bad_category_clears_witness:
  "fst (orm_user_preferences ex_odb (Some 1) ex_prefs_post 5) = Inl ValueError"
proof -
  have "category_lookup ex_odb ''furniture'' = Inl ValueError"
    by (simp add: category_lookup_def py_int_def int_digits_def is_digit_def strip_defs)
  then show ?thesis
    using user_preferences_bad_category_clears [OF ex_odb_wf, of 1 ex_prefs_post "''furniture''" "[]"]
    by (simp add: querydict_getlist_def)
qed

theorem orm_item_detail_counts_view_witness:
  "db_items (snd (orm_item_detail ex_odb (Some 1) 1 5 (\<lambda>_. 0))) =
     [ex_osofa\<lparr>mi_views_count := 1, mi_updated_at := 5\<rparr>, ex_olamp]"
  using orm_item_detail_counts_view [OF ex_odb_wf, of "Some 1" ex_osofa 5 "\<lambda>_. 0"]
  by (simp add: valid_user_def)

theorem orm_views_keep_integrity_witness:
  "orm_wf (snd (orm_item_detail ex_odb (Some 1) 2 5 (\<lambda>_. 0))) \<and>
   orm_wf (snd (orm_user_preferences ex_odb (Some 1) ex_prefs_post 5))"
  using orm_views_keep_integrity [OF ex_odb_wf, of "Some 1"] by (simp add: valid_user_def)

end
