(* ===== verification/Routing.thy ===== *)
theory Routing
  imports Web_Views Waste_Import
begin

text \<open>
  The URL configuration of \<open>src/main_app/urls.py\<close> (lines 7--26) and the two halves
  of Django's URL dispatcher the site relies on: resolving a request path to a view and
  its arguments, and \<open>reverse()\<close> (used by \<open>redirect('item_detail', ...)\<close>).
  A \<open>path()\<close> route is a list of literal parts and \<open><int:...>\<close> converters; Django
  compiles it to the regular expression \<open>^lit[0-9]+lit\Z\<close>, whose \<open>[0-9]+\<close> is
  greedy and backtracks, and converts the digits with \<open>int()\<close>. Patterns are tried in
  order and the first match wins; the root resolver first strips the leading \<open>/\<close>.
  The project's own \<open>ROOT_URLCONF\<close> is not in the repository: these patterns are taken
  as mounted at the site root, as the paths in the views assume. \<open>static()\<close> adds,
  when \<open>settings.DEBUG\<close> is set and \<open>MEDIA_URL\<close> is a local path, the pattern
  \<open>^prefix(?P<path>.*)$\<close>; the settings are a parameter \<open>media\<close>: \<open>Some\<close> of the
  prefix without its leading \<open>/\<close>, or \<open>None\<close>.
\<close>

datatype url_part = Lit string | IntConv

datatype url_route = Route "url_part list" | ReRoute string

datatype url_arg = AInt int | AStr string

datatype view_ref =
    ViewHome | ViewRegister | ViewMap | ViewMarketplace | ViewItemDetail | ViewAddItem | ViewMyItems
  | ViewUpdateItem | ViewDeleteItem | ViewSearchItems | ViewUserPreferences | ViewPredictions | ViewServe

record url_pattern =
  up_route :: url_route
  up_view :: view_ref
  up_name :: "string option"

subsection \<open>The URL table\<close>

definition route :: "url_part list \<Rightarrow> view_ref \<Rightarrow> string \<Rightarrow> url_pattern" where
  "route ps v n = \<lparr>up_route = Route ps, up_view = v, up_name = Some n\<rparr>"

text \<open>Lines 7--22: the named routes.\<close>

definition named_routes :: "url_pattern list" where
  "named_routes =
     [route [] ViewHome ''home'',
      route [Lit ''register/''] ViewRegister ''register'',
      route [Lit ''map/''] ViewMap ''map'',
      route [Lit ''marketplace/''] ViewMarketplace ''marketplace'',
      route [Lit ''marketplace/item/'', IntConv, Lit ''/''] ViewItemDetail ''item_detail'',
      route [Lit ''marketplace/add/''] ViewAddItem ''add_item'',
      route [Lit ''marketplace/my-items/''] ViewMyItems ''my_items'',
      route [Lit ''marketplace/update/'', IntConv, Lit ''/''] ViewUpdateItem ''update_item'',
      route [Lit ''marketplace/delete/'', IntConv, Lit ''/''] ViewDeleteItem ''delete_item'',
      route [Lit ''marketplace/search/''] ViewSearchItems ''search_items'',
      route [Lit ''marketplace/preferences/''] ViewUserPreferences ''user_preferences'',
      route [Lit ''predictions/''] ViewPredictions ''predictions'']"

text \<open>Lines 25--26: \<open>urlpatterns += static(...)\<close>.\<close>

definition urlpatterns :: "string option \<Rightarrow> url_pattern list" where
  "urlpatterns media =
     named_routes @
     (case media of
        None \<Rightarrow> []
      | Some p \<Rightarrow> [\<lparr>up_route = ReRoute p, up_view = ViewServe, up_name = None\<rparr>])"

subsection \<open>Resolving a path\<close>

text \<open>The compiled regular expression of a \<open>path()\<close> route, anchored at both ends: a
  converter tries the longest run of digits first and then shorter ones.\<close>

fun match_parts :: "url_part list \<Rightarrow> string \<Rightarrow> url_arg list option" where
  "match_parts [] s = (if s = [] then Some [] else None)"
| "match_parts (Lit l # ps) s = (if take (length l) s = l then match_parts ps (drop (length l) s) else None)"
| "match_parts (IntConv # ps) s =
     (case find (\<lambda>n. match_parts ps (drop n s) \<noteq> None) (rev [1..<Suc (length (takeWhile is_digit s))]) of
        None \<Rightarrow> None
      | Some n \<Rightarrow> map_option (Cons (AInt (int (group_int (take n s))))) (match_parts ps (drop n s)))"

text \<open>\<open>(?P<path>.*)$\<close>: any text without a line break; \<open>$\<close> also matches before a
  final line break.\<close>

definition dot_star_dollar :: "string \<Rightarrow> url_arg list option" where
  "dot_star_dollar r =
     (if CHR ''\<newline>'' \<notin> set r then Some [AStr r]
      else if r \<noteq> [] \<and> last r = CHR ''\<newline>'' \<and> CHR ''\<newline>'' \<notin> set (butlast r) then Some [AStr (butlast r)]
      else None)"

definition match_route :: "url_route \<Rightarrow> string \<Rightarrow> url_arg list option" where
  "match_route r s =
     (case r of
        Route ps \<Rightarrow> match_parts ps s
      | ReRoute p \<Rightarrow> if take (length p) s = p then dot_star_dollar (drop (length p) s) else None)"

fun resolve_in :: "url_pattern list \<Rightarrow> string \<Rightarrow> (view_ref \<times> string option \<times> url_arg list) option" where
  "resolve_in [] s = None"
| "resolve_in (p # ps) s =
     (case match_route (up_route p) s of
        Some args \<Rightarrow> Some (up_view p, up_name p, args)
      | None \<Rightarrow> resolve_in ps s)"

text \<open>\<open>None\<close> is \<open>Resolver404\<close>, answered with a 404 page.\<close>

definition url_resolve :: "string option \<Rightarrow> string \<Rightarrow> (view_ref \<times> string option \<times> url_arg list) option" where
  "url_resolve media path =
     (case path of CHR ''/'' # s \<Rightarrow> resolve_in (urlpatterns media) s | _ \<Rightarrow> None)"

subsection \<open>\<open>reverse()\<close>\<close>

text \<open>\<open>IntConverter.to_url\<close> is \<open>str(value)\<close>; the arguments fill the converters in
  order, and a count that does not fit is no candidate.\<close>

definition to_url :: "url_arg \<Rightarrow> string" where
  "to_url a = (case a of AInt i \<Rightarrow> int_str i | AStr s \<Rightarrow> s)"

fun subst_parts :: "url_part list \<Rightarrow> url_arg list \<Rightarrow> string option" where
  "subst_parts [] [] = Some []"
| "subst_parts (Lit l # ps) args = map_option ((@) l) (subst_parts ps args)"
| "subst_parts (IntConv # ps) (a # args) = map_option ((@) (to_url a)) (subst_parts ps args)"
| "subst_parts _ _ = None"

definition reverse_candidate :: "url_pattern \<Rightarrow> url_arg list \<Rightarrow> string option" where
  "reverse_candidate p args =
     (case up_route p of
        Route ps \<Rightarrow>
          (case subst_parts ps args of
             Some c \<Rightarrow> if match_parts ps c \<noteq> None then Some c else None
           | None \<Rightarrow> None)
      | ReRoute _ \<Rightarrow> None)"

text \<open>The possibilities of a name are kept last pattern first (\<open>_populate\<close> walks the
  patterns in reverse); the first candidate that the pattern matches is returned with
  the script prefix \<open>/\<close>, otherwise \<open>NoReverseMatch\<close> is raised.\<close>

definition url_reverse :: "string option \<Rightarrow> string \<Rightarrow> url_arg list \<Rightarrow> py_error + string" where
  "url_reverse media name args =
     (case List.map_filter (\<lambda>p. reverse_candidate p args)
             (filter (\<lambda>p. up_name p = Some name) (rev (urlpatterns media))) of
        [] \<Rightarrow> Inl NoReverseMatch
      | c # _ \<Rightarrow> Inr (CHR ''/'' # c))"

lemmas routing_defs [model_simps] = route_def named_routes_def urlpatterns_def dot_star_dollar_def match_route_def
  url_resolve_def to_url_def reverse_candidate_def url_reverse_def

text \<open>The arguments a route's converters produce: a non-negative integer each.\<close>

fun args_fit :: "url_part list \<Rightarrow> url_arg list \<Rightarrow> bool" where
  "args_fit [] [] = True"
| "args_fit (Lit l # ps) args = args_fit ps args"
| "args_fit (IntConv # ps) (AInt i # args) = (0 \<le> i \<and> args_fit ps args)"
| "args_fit _ _ = False"

subsection \<open>Lemmas\<close>

lemma is_digit_iff: "is_digit c \<longleftrightarrow> c \<in> set ''0123456789''"
  by (cases c) (auto simp: is_digit_def less_eq_char_def)

lemma nat_str_digits: "nat_str n \<noteq> [] \<and> list_all is_digit (nat_str n)"
proof (induction n rule: nat_str.induct)
  case (1 n)
  show ?case
  proof (cases "n < 10")
    case True
    then show ?thesis using digit_char_props [of n] by (simp add: nat_str.simps [of n] del: nat_str.simps)
  next
    case False
    then show ?thesis using 1 digit_char_props [of "n mod 10"]
      by (simp add: nat_str.simps [of n] del: nat_str.simps)
  qed
qed

lemma takeWhile_prefix_set:
  assumes "n \<le> length (takeWhile P xs)" shows "\<forall>x\<in>set (take n xs). P x"
proof -
  have "take n xs = take n (takeWhile P xs)"
    using assms takeWhile_dropWhile_id [of P xs] by (metis take_append take_eq_Nil2 diff_is_0_eq append_Nil2)
  then show ?thesis by (metis in_set_takeD set_takeWhileD)
qed

text \<open>A converter followed by a literal that does not start with a digit reads exactly the
  digits before the literal.\<close>

lemma match_int_lit:
  assumes "l \<noteq> []" "\<not> is_digit (hd l)" "ds \<noteq> []" "list_all is_digit ds"
  shows "match_parts (IntConv # Lit l # ps) (ds @ l @ r) =
           map_option (Cons (AInt (int (group_int ds)))) (match_parts ps r)"
proof -
  obtain c cs where l: "l = c # cs" using assms(1) by (cases l) auto
  have tw: "takeWhile is_digit (ds @ l @ r) = ds"
    using assms(2,4) l by (simp add: takeWhile_append2 list_all_iff)
  have k: "rev [1..<Suc (length ds)] = length ds # rev [1..<length ds]"
    using assms(3) by (cases ds) auto
  have short: "match_parts (Lit l # ps) (drop n (ds @ l @ r)) = None" if "n \<in> set [1..<length ds]" for n
  proof -
    from that have "n < length ds" by simp
    then obtain d ds' where "drop n ds = d # ds'" by (metis Cons_nth_drop_Suc)
    moreover have "is_digit d"
      using assms(4) \<open>drop n ds = d # ds'\<close> by (metis list.set_intros(1) in_set_dropD list_all_iff)
    ultimately show ?thesis
      using \<open>n < length ds\<close> assms(2) l by auto
  qed
  show ?thesis
  proof (cases "match_parts ps r")
    case None
    have top: "match_parts (Lit l # ps) (drop (length ds) (ds @ l @ r)) = None" using None by simp
    have fnone: "find (\<lambda>n. match_parts (Lit l # ps) (drop n (ds @ l @ r)) \<noteq> None) (rev [1..<Suc (length ds)]) = None"
      unfolding k find_None_iff using short top by (auto simp del: match_parts.simps)
    have "match_parts (IntConv # Lit l # ps) (ds @ l @ r) = None"
      by (simp only: match_parts.simps(3) tw fnone option.case(1))
    then show ?thesis using None by simp
  next
    case (Some xs)
    then show ?thesis using tw k by simp
  qed
qed

lemma match_int_slash [simp]:
  "match_parts [IntConv, Lit ''/''] (nat_str n @ ''/'') = Some [AInt (int n)]"
  using match_int_lit [of "''/''" "nat_str n" "[]" "[]"] nat_str_digits [of n]
  by (simp add: is_digit_def del: nat_str.simps)

lemma int_str_nat [simp]: "int_str (int n) = nat_str n"
  by (simp add: int_str_def)

lemma match_parts_fit: "match_parts ps s = Some args \<Longrightarrow> args_fit ps args"
proof (induction ps s arbitrary: args rule: match_parts.induct)
  case (3 ps s)
  then show ?case by (fastforce split: option.splits simp: find_Some_iff)
qed (auto split: if_splits)

lemma args_fit_Nil [simp]: "args_fit [] args \<longleftrightarrow> args = []"
  by (cases args) auto

lemma args_fit_IntConv [simp]:
  "args_fit (IntConv # ps) args \<longleftrightarrow> (\<exists>i as. args = AInt i # as \<and> 0 \<le> i \<and> args_fit ps as)"
  by (cases "(IntConv # ps, args)" rule: args_fit.cases) auto

lemma match_int_slash_int [simp]:
  "0 \<le> i \<Longrightarrow> match_parts [IntConv, Lit ''/''] (int_str i @ ''/'') = Some [AInt i]"
  using match_int_slash [of "nat i"] by (simp add: int_str_def del: nat_str.simps)

lemma match_slash_iff: "match_parts [Lit ''/''] x \<noteq> None \<longleftrightarrow> x = ''/''"
  by (cases x) auto

text \<open>The converter of \<open>item_detail\<close> accepts exactly the non-empty digit strings.\<close>

lemma digits_iff: "digits s \<longleftrightarrow> s \<noteq> [] \<and> list_all is_digit s"
  by (simp add: digits_def list_all_iff is_digit_iff)

lemma match_int_slash_digits: "digits s \<Longrightarrow> match_parts [IntConv, Lit ''/''] (s @ ''/'') \<noteq> None"
proof -
  assume "digits s"
  then have "s \<noteq> []" "list_all is_digit s" by (simp_all add: digits_iff)
  then show "match_parts [IntConv, Lit ''/''] (s @ ''/'') \<noteq> None"
    using match_int_lit [of "''/''" s "[]" "[]"] by (simp add: is_digit_def del: match_parts.simps(3))
qed
lemma match_int_slash_digitsD: "match_parts [IntConv, Lit ''/''] (s @ ''/'') \<noteq> None \<Longrightarrow> digits s"
proof -
  assume m: "match_parts [IntConv, Lit ''/''] (s @ ''/'') \<noteq> None"
  define P where "P = (\<lambda>n. match_parts [Lit ''/''] (drop n (s @ ''/'')) \<noteq> None)"
  define L where "L = rev [1..<Suc (length (takeWhile is_digit (s @ ''/'')))]"
  have e: "match_parts [IntConv, Lit ''/''] (s @ ''/'') =
          (case find P L of None \<Rightarrow> None
           | Some n \<Rightarrow> map_option (Cons (AInt (int (group_int (take n (s @ ''/''))))))
                         (match_parts [Lit ''/''] (drop n (s @ ''/''))))"
    by (simp only: match_parts.simps(3) P_def L_def)
  from m obtain n where "find P L = Some n" unfolding e by (cases "find P L") simp_all
  then have "n \<in> set L" "P n" by (auto simp: find_Some_iff nth_mem)
  define k where "k = length (takeWhile is_digit (s @ ''/''))"
  have "n \<in> {1..<Suc k}" using \<open>n \<in> set L\<close> by (simp only: L_def k_def set_rev set_upt)
  then have n12: "1 \<le> n \<and> n \<le> length (takeWhile is_digit (s @ ''/''))"
    by (simp add: k_def [symmetric])
  have n3: "match_parts [Lit ''/''] (drop n (s @ ''/'')) \<noteq> None"
    using \<open>P n\<close> by (simp only: P_def not_False_eq_True)
  note n = n12 [THEN conjunct1] n12 [THEN conjunct2] n3
  have d: "drop n (s @ ''/'') = ''/''" using n(3) match_slash_iff by blast
  then have "length (drop n (s @ ''/'')) = 1" by simp
  then have "n = length s" using n(1) by simp
  then have "take n (s @ ''/'') = s" by simp
  have "\<forall>x\<in>set s. is_digit x" using takeWhile_prefix_set [OF n(2)] by (simp only: \<open>take n (s @ ''/'') = s\<close>)
  moreover have "s \<noteq> []" using n(1) \<open>n = length s\<close> by auto
  ultimately show "digits s" by (simp add: digits_iff list_all_iff)
qed
lemma match_int_slash_iff: "match_parts [IntConv, Lit ''/''] (s @ ''/'') \<noteq> None \<longleftrightarrow> digits s"
  using match_int_slash_digits match_int_slash_digitsD by blast

lemma match_int_slash_forms:
  "(\<exists>y. match_parts [IntConv, Lit ''/''] (s @ ''/'') = Some y) \<longleftrightarrow> digits s"
  "match_parts [IntConv, Lit ''/''] (s @ ''/'') = None \<longleftrightarrow> \<not> digits s"
proof -
  show "(\<exists>y. match_parts [IntConv, Lit ''/''] (s @ ''/'') = Some y) \<longleftrightarrow> digits s"
    using match_int_slash_iff [of s] unfolding not_None_eq .
  show "match_parts [IntConv, Lit ''/''] (s @ ''/'') = None \<longleftrightarrow> \<not> digits s"
    using match_int_slash_iff [of s] by blast
qed

text \<open>The table of routes: each name reverses to its path, which resolves back to it.\<close>

lemma route_table:
  "url_reverse media ''home'' [] = Inr ''/'' \<and> url_resolve media ''/'' = Some (ViewHome, Some ''home'', []) \<and>
   url_reverse media ''register'' [] = Inr ''/register/'' \<and> url_resolve media ''/register/'' = Some (ViewRegister, Some ''register'', []) \<and>
   url_reverse media ''map'' [] = Inr ''/map/'' \<and> url_resolve media ''/map/'' = Some (ViewMap, Some ''map'', []) \<and>
   url_reverse media ''marketplace'' [] = Inr ''/marketplace/'' \<and> url_resolve media ''/marketplace/'' = Some (ViewMarketplace, Some ''marketplace'', []) \<and>
   (\<forall>i. 0 \<le> i \<longrightarrow> url_reverse media ''item_detail'' [AInt i] = Inr (''/marketplace/item/'' @ int_str i @ ''/'') \<and>
       url_resolve media (''/marketplace/item/'' @ int_str i @ ''/'') = Some (ViewItemDetail, Some ''item_detail'', [AInt i])) \<and>
   url_reverse media ''add_item'' [] = Inr ''/marketplace/add/'' \<and> url_resolve media ''/marketplace/add/'' = Some (ViewAddItem, Some ''add_item'', []) \<and>
   url_reverse media ''my_items'' [] = Inr ''/marketplace/my-items/'' \<and> url_resolve media ''/marketplace/my-items/'' = Some (ViewMyItems, Some ''my_items'', []) \<and>
   (\<forall>i. 0 \<le> i \<longrightarrow> url_reverse media ''update_item'' [AInt i] = Inr (''/marketplace/update/'' @ int_str i @ ''/'') \<and>
       url_resolve media (''/marketplace/update/'' @ int_str i @ ''/'') = Some (ViewUpdateItem, Some ''update_item'', [AInt i])) \<and>
   (\<forall>i. 0 \<le> i \<longrightarrow> url_reverse media ''delete_item'' [AInt i] = Inr (''/marketplace/delete/'' @ int_str i @ ''/'') \<and>
       url_resolve media (''/marketplace/delete/'' @ int_str i @ ''/'') = Some (ViewDeleteItem, Some ''delete_item'', [AInt i])) \<and>
   url_reverse media ''search_items'' [] = Inr ''/marketplace/search/'' \<and> url_resolve media ''/marketplace/search/'' = Some (ViewSearchItems, Some ''search_items'', []) \<and>
   url_reverse media ''user_preferences'' [] = Inr ''/marketplace/preferences/'' \<and> url_resolve media ''/marketplace/preferences/'' = Some (ViewUserPreferences, Some ''user_preferences'', []) \<and>
   url_reverse media ''predictions'' [] = Inr ''/predictions/'' \<and> url_resolve media ''/predictions/'' = Some (ViewPredictions, Some ''predictions'', [])"
  by (cases media; simp add: route_def named_routes_def urlpatterns_def url_reverse_def reverse_candidate_def
        to_url_def url_resolve_def match_route_def List.map_filter_simps del: match_parts.simps(3) nat_str.simps)

lemma reverse_resolve_named:
  assumes "p \<in> set named_routes" and "up_route p = Route ps" and "args_fit ps args"
  shows "url_reverse media (the (up_name p)) args = Inr (CHR ''/'' # the (subst_parts ps args)) \<and>
         url_resolve media (CHR ''/'' # the (subst_parts ps args)) = Some (up_view p, up_name p, args)"
  using assms by (auto simp: named_routes_def route_def to_url_def route_table [simplified])

lemma named_pattern:
  "p \<in> set (urlpatterns media) \<Longrightarrow> up_name p = Some name \<Longrightarrow> p \<in> set named_routes"
  by (auto simp: urlpatterns_def split: option.splits)

subsection \<open>Properties\<close>

text \<open>C12: URL reversal and resolution are inverse on the site's routes: reverse() of a
  route name with arguments its converters accept (non-negative integers) gives a path
  that resolves to that route's view with the same arguments.\<close>

theorem url_reverse_resolve_roundtrip:
  assumes "p \<in> set (urlpatterns media)" and "up_name p = Some name" and "up_route p = Route ps"
    and "args_fit ps args"
  shows "url_reverse media name args = Inr (CHR ''/'' # the (subst_parts ps args)) \<and>
         url_resolve media (CHR ''/'' # the (subst_parts ps args)) = Some (up_view p, Some name, args)"
  using reverse_resolve_named [OF named_pattern [OF assms(1,2)] assms(3,4), of media] assms(2) by simp

text \<open>C19: the redirect to an item page that the views build by hand
  (redirect('item_detail', item_id=v)) is Django's reverse() over the URL table: the
  path for a digit string, NoReverseMatch otherwise.\<close>

theorem reverse_item_detail_is_url_reverse:
  "reverse_item_detail v = map_sum id Redirect (url_reverse media ''item_detail'' [AStr (py_str v)])"
  by (cases media; simp add: reverse_item_detail_def url_reverse_def urlpatterns_def named_routes_def route_def
      reverse_candidate_def to_url_def List.map_filter_simps match_int_slash_forms
      del: match_parts.simps(3))

subsection \<open>Witnesses\<close>

theorem url_reverse_resolve_roundtrip_witness:
  "url_reverse None ''update_item'' [AInt 7] = Inr ''/marketplace/update/7/'' \<and>
   url_resolve None ''/marketplace/update/7/'' = Some (ViewUpdateItem, Some ''update_item'', [AInt 7])"
  using url_reverse_resolve_roundtrip [of "route [Lit ''marketplace/update/'', IntConv, Lit ''/''] ViewUpdateItem ''update_item''"
      None "''update_item''" "[Lit ''marketplace/update/'', IntConv, Lit ''/'']" "[AInt 7]"]
  by (simp add: urlpatterns_def named_routes_def route_def to_url_def int_str_def digit_char_def)

end
