(* ===== verification/Spec2Isabelle.thy ===== *)
theory Spec2Isabelle
  imports Relation_Manager Concurrency Json_Recommendations Waste_Prediction Orm_Views Routing
begin

text \<open>
  \<^bold>\<open>GreenCycle: a verification development of \<open>src/main_app\<close>.\<close>

  \<^bold>\<open>The program.\<close> GreenCycle is a Django site for a second-hand marketplace and for
  waste forecasting. Its marketplace keeps its data in JSON files instead of a database:
  \<^item> \<open>data/json_manager.py\<close>, the collection store: one JSON file per collection,
    each operation loads the whole list, changes it and saves it back (create, get by
    id, update, delete, the filtered scan \<open>get_all_items\<close>, \<open>sort_items\<close>,
    \<open>paginate_items\<close>, related-item lookups);
  \<^item> \<open>data/model_adapter.py\<close>, an ORM-like layer over the store: \<open>QuerySetAdapter\<close>
    (lazy, chainable, caching query sets), \<open>ModelAdapter\<close> and its typed subclasses
    (entities with save/delete and foreign-key properties), and the
    \<open>CategoryManager\<close> relation manager of user preferences;
  \<^item> \<open>views_json.py\<close>, the marketplace request handlers routed by \<open>urls.py\<close>, and
    the recommendation score they use.
  The same marketplace also exists in a Django-ORM version, \<open>models.py\<close> (\<open>Category\<close>,
  \<open>Item\<close>, \<open>UserPreference\<close>, \<open>Recommendation\<close>) and \<open>views.py\<close>, which \<open>urls.py\<close>
  does not route but which the specification describes with the same handlers.
  The waste part uses real Django models (\<open>models_waste.py\<close>): the management command
  \<open>import_waste_data.py\<close> fills \<open>WasteGeneration\<close> from a CSV file, and
  \<open>services/waste_prediction_service.py\<close>, driven by the view \<open>views_waste.py\<close>,
  stores Prophet forecasts in \<open>WastePrediction\<close>.

  \<^bold>\<open>The theories.\<close>
  \<^item> \<open>Prelude\<close>: the lemma collections (\<open>model_simps\<close>, evaluated by the witnesses;
    \<open>store_frame\<close>) and list/sum helpers for Python idioms (\<open>enumerate\<close> with an
    early return as \<open>find_idx\<close>, \<open>list.pop\<close>, slicing, comprehensions whose test may
    raise as \<open>filter_err\<close>, \<open>map_err\<close>, \<open>any_err\<close>).
  \<^item> \<open>PyValue\<close>: JSON values as Python sees them (\<open>==\<close> with \<open>True == 1\<close>,
    truthiness, \<open>str()\<close>, \<open>lower()\<close>, \<open>strip()\<close>, \<open>in\<close>, dict operations;
    documents are association lists in insertion order) and the exceptions as the datatype
    \<open>py_error\<close>; every \<open>raise\<close> of the model is an \<open>Inl\<close>.
  \<^item> \<open>Store\<close>: \<open>json_manager.py\<close>. The file system is a map from collection name to
    \<open>NoFile | Corrupt | Json docs\<close>; \<open>load_data\<close> self-heals as the code does; \<open>now\<close>
    and \<open>uuid4\<close> are parameters. Claims C1--C6, C8: the behaviour of create, update
    and delete on every branch, the collection invariant (ids present and pairwise
    distinct), refinement of an abstract map from ids to documents, the duplicate-id hole.
  \<^item> \<open>Filtering\<close>: \<open>get_all_items\<close> with its key grammar \<open>field__op\<close> (C13, C14).
  \<^item> \<open>Sort_Page\<close>: Python's \<open><\<close> on values (\<open>TypeError\<close> across kinds), the stable
    \<open>sorted\<close>, \<open>reverse\<close>, and slicing for pagination (C21, C25, C26).
  \<^item> \<open>QuerySet\<close>: \<open>QuerySetAdapter\<close> as a record (model, filters, ordering, cache);
    evaluating methods return the query set with its cache filled; \<open>filter(k=v)\<close> and
    \<open>exclude(k=v)\<close> on one plain key split the results between them (C28).
  \<^item> \<open>Entity\<close>: entities (class and attribute dict), \<open>ModelAdapter\<close> get/filter/all/
    create/save/delete, foreign-key and reverse-relation properties (C34, C39).
  \<^item> \<open>Relation_Manager\<close>: \<open>CategoryManager\<close> all/add/remove/clear (C40).
  \<^item> \<open>Concurrency\<close>: \<open>update_item\<close> split into its read and write steps, and the
    interleaving of two unlocked updates as an explicit sequence of steps (C20).
  \<^item> \<open>Recommendation\<close>: \<open>calculate_recommendation_score\<close> with exact rationals and
    the random draw as a parameter (C32).
  \<^item> \<open>Web_Views\<close>: request records (the form is a \<open>QueryDict\<close>: a list of pairs whose
    \<open>get\<close> returns the last value), the store effects, responses and escaping exceptions
    of \<open>item_detail\<close>, \<open>add_item\<close>, \<open>my_items\<close>, \<open>update_item\<close>,
    \<open>delete_item\<close> and \<open>search_items\<close> of \<open>views_json.py\<close> (C22, C31). An
    \<open>except X.DoesNotExist\<close> clause is evaluated when an exception arrives: only
    \<open>UserAdapter\<close> has that attribute, so for every other adapter the handler raises
    \<open>AttributeError\<close> (\<open>catch_does_not_exist\<close>).
  \<^item> \<open>Web_Pages\<close>: the remaining handlers of \<open>views_json.py\<close>: \<open>home\<close>,
    \<open>register\<close>, \<open>map_view\<close>, \<open>marketplace\<close> with its recommended-items loop, and
    \<open>user_preferences\<close> with its lookup of the user's preference document (C17, C30).
  \<^item> \<open>Json_Recommendations\<close>: \<open>update_recommendations\<close> of \<open>views_json.py\<close> and
    the whole \<open>item_detail\<close> handler, whose authenticated branch calls it. Python float
    arithmetic on stored scores is a parameter (\<open>float_ops\<close>: the average
    \<open>(old + new) / 2\<close> and the stored value of a new score). Neither \<open>create\<close> branch
    can run, since both \<open>except\<close> clauses name a missing \<open>DoesNotExist\<close> (C24, C37).
  \<^item> \<open>Waste_Models\<close>: the two Django tables as lists of records in primary-key order,
    their unique constraints, the ORM calls the waste code makes (\<open>update_or_create\<close>,
    \<open>create\<close>, \<open>filter().delete()\<close>), and naive datetimes as microseconds since
    0001-01-01 with CPython's calendar (\<open>_ymd2ord\<close>).
  \<^item> \<open>Waste_Import\<close>: \<open>strptime(s, '%Y-%m-%d')\<close> as CPython's regular expression
    (a list-of-successes matcher in the engine's order), the per-row work of \<open>handle\<close>,
    and its \<open>for row in reader\<close> loop as a \<open>while_option\<close> (C7, C9, C11, C16, C18).
  \<^item> \<open>Waste_Prediction\<close>: the service (Prophet's \<open>fit\<close> and \<open>predict\<close> as
    parameters that may raise) and the \<open>predictions\<close> view (C23, C29, C36).
  \<^item> \<open>Orm_Models\<close>: the four tables of \<open>models.py\<close> as lists in primary-key order with
    an AutoField counter each, foreign keys as ids, the many-to-many
    \<open>preferred_categories\<close> as an id list, \<open>on_delete=CASCADE\<close> from items to
    recommendations, and the ORM calls the views make (\<open>get_object_or_404\<close>,
    \<open>objects.get\<close>, \<open>get_or_create\<close>, \<open>save\<close>, \<open>delete\<close>, \<open>add\<close>, \<open>clear\<close>).
    Their integrity invariant \<open>orm_wf\<close> (unique names, foreign keys that resolve, one
    preference row per user) is kept by every operation.
  \<^item> \<open>Orm_Views\<close>: the handlers of \<open>views.py\<close>: \<open>home\<close>, \<open>register\<close>
    (Django's \<open>UserCreationForm\<close> a parameter), \<open>update_recommendations\<close>,
    \<open>map_view\<close>, \<open>marketplace\<close>, \<open>my_items\<close>, \<open>search_items\<close>,
    \<open>item_detail\<close>, \<open>add_item\<close>, \<open>update_item\<close>, \<open>delete_item\<close> and
    \<open>user_preferences\<close>, with \<open>@login_required\<close> as a redirect. Under Django's
    autocommit a write made before an exception stays in the database, so each handler
    returns its result together with the new database (C10, C15, C27, C33, C35, C38).
  \<^item> \<open>Routing\<close>: \<open>urls.py\<close> as a table of patterns, with the part of Django's URL
    dispatcher the site relies on: resolution (anchored literal parts, the
    \<open><int:...>\<close> converter as a greedy, backtracking \<open>[0-9]+\<close> read by \<open>int()\<close>,
    first match wins) and \<open>reverse()\<close> (\<open>str(value)\<close> substituted and checked
    against the pattern). The \<open>static()\<close> media route is there when a parameter says
    \<open>DEBUG\<close> is on. Reversal and resolution are inverse on the named routes (C12),
    and the redirect that \<open>Web_Views\<close> builds by hand is \<open>reverse()\<close> (C19).

  \<^bold>\<open>What the lemmas show.\<close> Functional behaviour of each store and adapter operation
  on every branch, errors included; invariants (unique ids in a collection, the unique
  constraint of \<open>WasteGeneration\<close>, date-valued timestamps, the referential integrity
  of the ORM tables) kept by every operation and every \<open>views.py\<close> handler;
  one recommendation per candidate item with a score in [0, 1];
  refinements of the store into an abstract map; equivalence of the store's sort with the
  library's stable sort; the \<open>strptime\<close>/\<open>strftime\<close> round trip; termination of the
  import loop; that a forecast run reaches every location; and the places where the code
  departs from the specification or from its evident intent (lost updates, \<open>exclude\<close>
  with OR, owner ids stored as int and compared as str, uuid ids on int routes, the
  missing \<open>DoesNotExist\<close> attribute, predictions deleted before a forecast that may fail,
  duplicated locations from \<open>distinct()\<close> with a default ordering, preferences
  cleared by a bad category id, recommendations of deleted items that crash the
  marketplace). Each property with a
  hypothesis has a witness evaluated by \<open>simp\<close> on a concrete store or table.

  \<^bold>\<open>Bounds and fuel.\<close> No definition uses fuel. Every loop of the code is over a finite
  list and is structural recursion (\<open>fun\<close>) or a list combinator, except the CSV reader
  loop, which is a \<open>while_option\<close> over the remaining rows; it is proved to stop
  (\<open>measure_while_option_Some\<close> with the number of remaining rows, C7), so no
  theorem depends on it returning. Integers are unbounded, as in Python; scores are exact
  rationals instead of IEEE doubles; float columns have an abstract type.

  \<^bold>\<open>Not modelled.\<close> \<open>admin.py\<close> (it only registers the models with Django's admin
  site), \<open>models_json.py\<close> (it only binds the model names to the adapter classes,
  which the views model calls directly), the project's \<open>ROOT_URLCONF\<close> and settings
  (not in the repository: the routes are taken as mounted at the site root), templates,
  flash messages, sessions and the authentication backend (a request carries the
  logged-in user or none), Django's \<open>UserCreationForm\<close> (a parameter of both
  \<open>register\<close> views), and Python floats in the JSON store (the value model has none;
  the float operations of \<open>update_recommendations\<close> are parameters).
  External libraries are modelled at their interface
  only: the CSV reader (the input is the row dictionaries), \<open>float()\<close> (a parameter),
  Prophet (parameters), time zones (naive datetimes), uploaded files (their name), and
  file-system failures other than a missing or corrupt file. Characters are 8-bit;
  \<open>lower()\<close> and \<open>isspace()\<close> are their ASCII cases.
\<close>

end
